(* ===== verification/Prelude.thy ===== *)
theory Prelude
  imports Main "HOL-Library.Word" "HOL-Library.Sublist"
begin

text \<open>
  What the component theories share: the named types of the model, the pieces of the Go
  language and its standard library that the sources use (byte strings, \<open>strings.ToLower\<close>,
  \<open>strings.Split\<close>, \<open>strings.Trim\<close>, \<open>strconv.Itoa\<close>, hexadecimal printing, slices), the fact
  collections and the two interface locales every component reuses: a codec and a transition
  system with an invariant.

  A Go string is a sequence of bytes, an Isabelle \<^typ>\<open>string\<close> is a list of 8-bit characters, so
  the two agree on length, indexing and slicing. \<open>strings.ToLower\<close> is modelled on ASCII letters,
  the only letters that occur in the host names, domains and hexadecimal fingerprints it is
  applied to (a DNS name of an X.509 certificate is an IA5String).
\<close>

type_synonym byte = "8 word"
type_synonym bytes = "8 word list"
type_synonym uint16 = "16 word"
type_synonym uint32 = "32 word"
type_synonym uint64 = "64 word"

text \<open>
  Facts that unfold the wire formats, facts that invert a successful operation, and facts that a
  step keeps an invariant.
\<close>

named_theorems wire_simps
named_theorems result_dests
named_theorems inv_intros

text \<open>
  What a call that may raise a run-time panic does: it returns a value, it returns an error, or it
  panics. Calls that cannot panic return a sum, with the error on the left.
\<close>

datatype ('e, 'a) outcome = Returns 'a | Fails 'e | Panics

section \<open>Characters\<close>

abbreviation code_of :: "char \<Rightarrow> nat" where
  "code_of c \<equiv> of_char c"

definition is_lower :: "char \<Rightarrow> bool" where
  "is_lower c \<longleftrightarrow> 97 \<le> code_of c \<and> code_of c \<le> 122"

definition is_upper :: "char \<Rightarrow> bool" where
  "is_upper c \<longleftrightarrow> 65 \<le> code_of c \<and> code_of c \<le> 90"

definition is_digit :: "char \<Rightarrow> bool" where
  "is_digit c \<longleftrightarrow> 48 \<le> code_of c \<and> code_of c \<le> 57"

definition to_lower_char :: "char \<Rightarrow> char" where
  "to_lower_char c = (if is_upper c then char_of (code_of c + 32) else c)"

definition to_lower :: "string \<Rightarrow> string" where
  "to_lower s = map to_lower_char s"

definition byte_of_char :: "char \<Rightarrow> byte" where
  "byte_of_char c = of_nat (code_of c)"

definition char_of_byte :: "byte \<Rightarrow> char" where
  "char_of_byte b = char_of (unat b)"

text \<open>\<open>[]byte(s)\<close> and \<open>string(b)\<close>.\<close>

definition bytes_of_string :: "string \<Rightarrow> bytes" where
  "bytes_of_string s = map byte_of_char s"

definition string_of_bytes :: "bytes \<Rightarrow> string" where
  "string_of_bytes bs = map char_of_byte bs"

section \<open>The string functions of the Go library\<close>

text \<open>\<open>strings.Split(s, sep)\<close> and \<open>strings.SplitN(s, sep, 2)\<close> for a separator of one byte.\<close>

fun split_char :: "char \<Rightarrow> string \<Rightarrow> string list" where
  "split_char c [] = [[]]"
| "split_char c (x # xs) =
     (if x = c then [] # split_char c xs
      else (case split_char c xs of [] \<Rightarrow> [[x]] | y # ys \<Rightarrow> (x # y) # ys))"

definition split_first :: "char \<Rightarrow> string \<Rightarrow> string list" where
  "split_first c s =
     (if c \<in> set s then [takeWhile (\<lambda>x. x \<noteq> c) s, tl (dropWhile (\<lambda>x. x \<noteq> c) s)] else [s])"

text \<open>\<open>strings.Join(parts, sep)\<close>.\<close>

fun join_char :: "char \<Rightarrow> string list \<Rightarrow> string" where
  "join_char c [] = []"
| "join_char c [p] = p"
| "join_char c (p # q # ps) = p @ c # join_char c (q # ps)"

definition trim_left_char :: "char \<Rightarrow> string \<Rightarrow> string" where
  "trim_left_char c s = dropWhile (\<lambda>x. x = c) s"

definition trim_right_char :: "char \<Rightarrow> string \<Rightarrow> string" where
  "trim_right_char c s = rev (dropWhile (\<lambda>x. x = c) (rev s))"

definition trim_char :: "char \<Rightarrow> string \<Rightarrow> string" where
  "trim_char c s = trim_right_char c (trim_left_char c s)"

definition trim_suffix_char :: "char \<Rightarrow> string \<Rightarrow> string" where
  "trim_suffix_char c s = (if s \<noteq> [] \<and> last s = c then butlast s else s)"

text \<open>\<open>fmt.Sprintf("%d", n)\<close> and \<open>strconv.Itoa\<close>.\<close>

definition digit_char :: "nat \<Rightarrow> char" where
  "digit_char d = char_of (48 + d)"

fun nat_str :: "nat \<Rightarrow> string" where
  "nat_str n = (if n < 10 then [digit_char n] else nat_str (n div 10) @ [digit_char (n mod 10)])"

declare nat_str.simps [simp del]

definition int_str :: "int \<Rightarrow> string" where
  "int_str i = (if i < 0 then CHR ''-'' # nat_str (nat (- i)) else nat_str (nat i))"

text \<open>\<open>hex.EncodeToString\<close> and \<open>fmt.Sprintf("%x", b)\<close>: two lower-case digits per byte.\<close>

definition hex_digit :: "nat \<Rightarrow> char" where
  "hex_digit d = (if d < 10 then char_of (48 + d) else char_of (87 + d))"

definition hex_byte :: "byte \<Rightarrow> string" where
  "hex_byte b = [hex_digit (unat b div 16), hex_digit (unat b mod 16)]"

definition hex_bytes :: "bytes \<Rightarrow> string" where
  "hex_bytes bs = concat (map hex_byte bs)"

text \<open>A slice \<open>b[i:j]\<close>; the sources' guards keep \<open>i \<le> j \<le> len(b)\<close> wherever it is used.\<close>

definition slice :: "nat \<Rightarrow> nat \<Rightarrow> 'a list \<Rightarrow> 'a list" where
  "slice i j xs = take (j - i) (drop i xs)"

text \<open>
  \<open>copy(dst[off:], src)\<close>: as many elements as both sides have room for; the length of \<open>dst\<close>
  never changes.
\<close>

definition copy_at :: "nat \<Rightarrow> 'a list \<Rightarrow> 'a list \<Rightarrow> 'a list" where
  "copy_at off src dst =
     (let n = min (length src) (length dst - off)
      in take off dst @ take n src @ drop (off + n) dst)"

section \<open>Facts about them\<close>

lemma code_char_of [simp]: "code_of (char_of n) = n mod 256"
  by (simp add: take_bit_eq_mod)

lemma to_lower_char_upper: "is_upper c \<Longrightarrow> code_of (to_lower_char c) = code_of c + 32"
  by (simp add: to_lower_char_def is_upper_def)

lemma not_upper_to_lower [simp]: "\<not> is_upper (to_lower_char c)"
  using to_lower_char_upper [of c] by (cases "is_upper c") (auto simp: is_upper_def to_lower_char_def)

lemma to_lower_char_idem [simp]: "to_lower_char (to_lower_char c) = to_lower_char c"
  using not_upper_to_lower [of c] by (simp add: to_lower_char_def)

lemma to_lower_idem [simp]: "to_lower (to_lower s) = to_lower s"
  by (simp add: to_lower_def)

lemma length_to_lower [simp]: "length (to_lower s) = length s"
  by (simp add: to_lower_def)

lemma to_lower_Nil_iff [simp]: "to_lower s = [] \<longleftrightarrow> s = []"
  by (simp add: to_lower_def)

lemma char_of_byte_of_char [simp]: "char_of_byte (byte_of_char c) = c"
  by (simp add: char_of_byte_def byte_of_char_def unat_of_nat)

lemma byte_of_char_of_byte [simp]: "byte_of_char (char_of_byte b) = b"
proof -
  have "unat b mod 256 = unat b"
    using unsigned_less [of b, where 'a = nat] by simp
  then show ?thesis
    by (simp add: char_of_byte_def byte_of_char_def)
qed

lemma string_of_bytes_of_string [simp]: "string_of_bytes (bytes_of_string s) = s"
  by (simp add: string_of_bytes_def bytes_of_string_def comp_def)

lemma bytes_of_string_of_bytes [simp]: "bytes_of_string (string_of_bytes bs) = bs"
  by (simp add: string_of_bytes_def bytes_of_string_def comp_def)

lemma length_bytes_of_string [simp]: "length (bytes_of_string s) = length s"
  by (simp add: bytes_of_string_def)

lemma split_char_not_Nil [simp]: "split_char c s \<noteq> []"
  by (induction s) (auto split: list.splits)

lemma join_split_char [simp]: "join_char c (split_char c s) = s"
proof (induction s)
  case Nil
  then show ?case by simp
next
  case (Cons x xs)
  obtain y ys where yys: "split_char c xs = y # ys"
    using split_char_not_Nil by (meson neq_Nil_conv)
  show ?case
    using Cons yys by (cases ys) auto
qed

lemma split_char_parts: "p \<in> set (split_char c s) \<Longrightarrow> c \<notin> set p"
proof (induction s arbitrary: p)
  case Nil
  then show ?case by simp
next
  case (Cons x xs)
  obtain y ys where "split_char c xs = y # ys"
    using split_char_not_Nil by (meson neq_Nil_conv)
  with Cons show ?case by (auto split: if_splits)
qed

lemma join_char_Cons: "ps \<noteq> [] \<Longrightarrow> join_char c (p # ps) = p @ c # join_char c ps"
  by (cases ps) simp_all

lemma set_join_char: "set (join_char c ps) \<subseteq> insert c (\<Union> (set ` set ps))"
  by (induction c ps rule: join_char.induct) auto

lemma takeWhile_split: "c \<in> set s \<Longrightarrow>
  takeWhile (\<lambda>x. x \<noteq> c) s @ c # tl (dropWhile (\<lambda>x. x \<noteq> c) s) = s"
  by (induction s) auto

lemma split_first_pair:
  assumes "split_first c s = [h, d]"
  shows "s = h @ c # d \<and> c \<notin> set h"
proof -
  from assms have c: "c \<in> set s" and h: "h = takeWhile (\<lambda>x. x \<noteq> c) s"
    and d: "d = tl (dropWhile (\<lambda>x. x \<noteq> c) s)"
    by (simp_all add: split_first_def split: if_splits)
  show ?thesis
    using takeWhile_split [OF c] by (auto simp: h d dest: set_takeWhileD)
qed

lemma split_first_append: "c \<notin> set h \<Longrightarrow> split_first c (h @ c # d) = [h, d]"
  by (simp add: split_first_def takeWhile_append dropWhile_append)

lemma hd_dropWhile_neq: "dropWhile (\<lambda>x. x = c) s \<noteq> [] \<Longrightarrow> hd (dropWhile (\<lambda>x. x = c) s) \<noteq> c"
  by (induction s) auto

lemma hd_trim_right_char: "trim_right_char c s \<noteq> [] \<Longrightarrow> hd (trim_right_char c s) = hd s"
proof (induction s rule: rev_induct)
  case (snoc x xs)
  then show ?case
    by (cases "xs = []") (auto simp: trim_right_char_def split: if_splits)
qed (simp add: trim_right_char_def)

lemma last_trim_right_char: "trim_right_char c s \<noteq> [] \<Longrightarrow> last (trim_right_char c s) \<noteq> c"
  using hd_dropWhile_neq [of c "rev s"] by (simp add: trim_right_char_def last_rev)

lemma trim_right_char_Nil [simp]: "trim_right_char c [] = []"
  by (simp add: trim_right_char_def)

lemma trim_char_cases:
  "trim_char c s = [] \<or> (hd (trim_char c s) \<noteq> c \<and> last (trim_char c s) \<noteq> c)"
proof (cases "trim_char c s = []")
  case False
  then have ne: "trim_left_char c s \<noteq> []"
    by (auto simp: trim_char_def)
  from False have "hd (trim_char c s) = hd (trim_left_char c s)"
    by (simp add: trim_char_def hd_trim_right_char)
  moreover from ne have "hd (trim_left_char c s) \<noteq> c"
    by (simp add: trim_left_char_def hd_dropWhile_neq)
  moreover from False have "last (trim_char c s) \<noteq> c"
    by (simp add: trim_char_def last_trim_right_char)
  ultimately show ?thesis by simp
qed simp

lemma set_trim_char: "set (trim_char c s) \<subseteq> set s"
  by (auto simp: trim_char_def trim_right_char_def trim_left_char_def dest!: set_dropWhileD)

lemma set_trim_right_char: "set (trim_right_char c s) \<subseteq> set s"
  by (auto simp: trim_right_char_def dest: set_dropWhileD)

lemma trim_right_char_length: "length (trim_right_char c s) \<le> length s"
  using length_dropWhile_le [of "\<lambda>x. x = c" "rev s"] by (simp add: trim_right_char_def)

lemma trim_right_char_hd:
  assumes "s \<noteq> []" "hd s \<noteq> c"
  shows "trim_right_char c s \<noteq> [] \<and> hd (trim_right_char c s) = hd s"
proof -
  from assms obtain x xs where s: "s = x # xs" "x \<noteq> c"
    by (cases s) auto
  have "dropWhile (\<lambda>x. x = c) (rev xs @ [x]) \<noteq> []"
    using s(2) by (simp add: dropWhile_append)
  moreover have "last (dropWhile (\<lambda>x. x = c) (rev xs @ [x])) = x"
    using s(2) by (simp add: dropWhile_append last_append)
  ultimately show ?thesis
    using s by (simp add: trim_right_char_def hd_rev)
qed

lemma hex_digit_class: "d < 16 \<Longrightarrow> is_lower (hex_digit d) \<or> is_digit (hex_digit d)"
  by (auto simp: hex_digit_def is_lower_def is_digit_def)

lemma length_hex_bytes [simp]: "length (hex_bytes bs) = 2 * length bs"
  by (induction bs) (simp_all add: hex_bytes_def hex_byte_def)

lemma hex_bytes_class: "c \<in> set (hex_bytes bs) \<Longrightarrow> is_lower c \<or> is_digit c"
proof -
  assume "c \<in> set (hex_bytes bs)"
  then obtain b where "c = hex_digit (unat b div 16) \<or> c = hex_digit (unat (b :: byte) mod 16)"
    by (auto simp: hex_bytes_def hex_byte_def)
  moreover have "unat b div 16 < 16"
    using unsigned_less [of b, where 'a = nat] by simp
  moreover have "unat b mod 16 < 16"
    by simp
  ultimately show ?thesis
    using hex_digit_class by blast
qed

lemma to_lower_hex_bytes [simp]: "to_lower (hex_bytes bs) = hex_bytes bs"
  unfolding to_lower_def
proof (rule map_idI)
  fix c assume "c \<in> set (hex_bytes bs)"
  then have "is_lower c \<or> is_digit c"
    by (rule hex_bytes_class)
  then show "to_lower_char c = c"
    by (auto simp: to_lower_char_def is_lower_def is_digit_def is_upper_def)
qed

lemma slice_append_left [simp]: "length xs = i \<Longrightarrow> slice 0 i (xs @ ys) = xs"
  by (simp add: slice_def)

lemma slice_append_mid: "length xs = i \<Longrightarrow> length ys = j - i \<Longrightarrow> slice i j (xs @ ys @ zs) = ys"
  by (simp add: slice_def)

lemma length_slice: "i \<le> j \<Longrightarrow> j \<le> length xs \<Longrightarrow> length (slice i j xs) = j - i"
  by (simp add: slice_def)

lemma take_slice_drop: "i \<le> j \<Longrightarrow> take i xs @ slice i j xs @ drop j xs = xs"
  by (simp add: slice_def flip: append_assoc take_add)

lemma length_copy_at [simp]: "off \<le> length dst \<Longrightarrow> length (copy_at off src dst) = length dst"
  by (auto simp: copy_at_def Let_def)

lemma copy_at_fits:
  "off + length src \<le> length dst \<Longrightarrow>
   copy_at off src dst = take off dst @ src @ drop (off + length src) dst"
  by (simp add: copy_at_def Let_def min_absorb1)

lemma copy_at_append:
  assumes "length pre = off" "length src = length mid"
  shows "copy_at off src (pre @ mid @ post) = pre @ src @ post"
  using assms by (simp add: copy_at_def Let_def)

lemma set_map_filter: "set (List.map_filter f xs) = {y. \<exists>x \<in> set xs. f x = Some y}"
  by (force simp: List.map_filter_def)

section \<open>Interfaces shared by the components\<close>

text \<open>
  A codec: a fallible encoder that accepts every value of its domain, and a fallible decoder that
  reads every encoding back. Such an encoder loses nothing.
\<close>

locale codec =
  fixes encode :: "'a \<Rightarrow> 'e + 'b" and decode :: "'b \<Rightarrow> 'e + 'a" and valid :: "'a \<Rightarrow> bool"
  assumes encode_ok: "valid x \<Longrightarrow> \<exists>b. encode x = Inr b"
    and decode_encode: "valid x \<Longrightarrow> encode x = Inr b \<Longrightarrow> decode b = Inr x"
begin

lemma round_trip: "valid x \<Longrightarrow> \<exists>b. encode x = Inr b \<and> decode b = Inr x"
  using encode_ok decode_encode by blast

lemma encode_inject:
  assumes "valid x" "valid y" "encode x = encode y"
  shows "x = y"
proof -
  from assms(1) obtain b where b: "encode x = Inr b" and x: "decode b = Inr x"
    using round_trip by blast
  from b assms(3) have "encode y = Inr b" by simp
  with assms(2) have "decode b = Inr y" by (rule decode_encode)
  with x show ?thesis by simp
qed

end

text \<open>The states a system reaches from its start states by its steps.\<close>

inductive reachable :: "('s \<Rightarrow> bool) \<Rightarrow> ('s \<Rightarrow> 's \<Rightarrow> bool) \<Rightarrow> 's \<Rightarrow> bool" for start and next_state where
  reach_start: "start s \<Longrightarrow> reachable start next_state s"
| reach_step: "reachable start next_state s \<Longrightarrow> next_state s t \<Longrightarrow> reachable start next_state t"

text \<open>A predicate that holds at the start and that every step keeps holds wherever the system goes.\<close>

locale invariant_system =
  fixes start :: "'s \<Rightarrow> bool" and next_state :: "'s \<Rightarrow> 's \<Rightarrow> bool" and invar :: "'s \<Rightarrow> bool"
  assumes invar_start: "start s \<Longrightarrow> invar s"
    and invar_step: "invar s \<Longrightarrow> next_state s t \<Longrightarrow> invar t"
begin

lemma reachable_invar: "reachable start next_state s \<Longrightarrow> invar s"
proof (induction rule: reachable.induct)
  case (reach_start s)
  then show ?case by (rule invar_start)
next
  case (reach_step s t)
  from reach_step.IH reach_step.hyps(2) show ?case by (rule invar_step)
qed

end

end
