(* ===== verification/MtlsIdentity.thy ===== *)
theory MtlsIdentity
  imports Prelude
begin

text \<open>
  \<open>management/internals/shared/mtls/identity.go\<close>: the identity the server derives from a client
  certificate, its place in the request context, and the issuer check of the machine handlers. The
  package variable \<open>globalValidatorConfig\<close> is an argument, \<open>None\<close> until it is set. A request
  context carries the peer's authentication info (what \<open>peer.FromContext\<close> finds) and the identity
  an interceptor attached.
\<close>

section \<open>Definitions\<close>

record Identity =
  DNSName :: string
  Hostname :: string
  Domain :: string
  MatchedDomain :: string
  AccountID :: string
  IssuerFingerprint :: string
  SerialNumber :: string
  TemplateOID :: string
  TemplateName :: string
  PeerType :: string

text \<open>The parts of \<open>x509.Certificate\<close> that the sources read; an object identifier is a list of arcs.\<close>

record x509_certificate =
  cert_DNSNames :: "string list"
  cert_Extensions :: "(nat list \<times> bytes) list"
  cert_ExtKeyUsage :: "nat list"
  cert_UnknownExtKeyUsage :: "nat list list"
  cert_EmailAddresses :: "string list"
  cert_SerialNumber :: int
  cert_Raw :: bytes

text \<open>\<open>credentials.AuthInfo\<close>: TLS with the verified chains, or anything else.\<close>

datatype auth_info = TLSInfo "x509_certificate list list" | OtherAuthInfo

record request_context =
  ctx_peer :: "auth_info option"
  ctx_identity :: "Identity option"

definition GetIdentity :: "request_context \<Rightarrow> Identity option" where
  "GetIdentity ctx = ctx_identity ctx"

definition WithIdentity :: "request_context \<Rightarrow> Identity \<Rightarrow> request_context" where
  "WithIdentity ctx i = ctx\<lparr>ctx_identity := Some i\<rparr>"

text \<open>\<open>map[string][]string\<close>: an absent key reads as the nil slice.\<close>

type_synonym string_lists = "(string \<times> string list) list"

definition lookup_list :: "string_lists \<Rightarrow> string \<Rightarrow> string list" where
  "lookup_list m k = (case map_of m k of None \<Rightarrow> [] | Some xs \<Rightarrow> xs)"

record ValidatorConfig =
  vc_AccountAllowedIssuers :: string_lists

datatype issuer_error = NoAllowedIssuers string | IssuerNotAllowed string string | IssuerNoConfig

definition truncateFP :: "string \<Rightarrow> string" where
  "truncateFP fp = (if length fp > 16 then take 16 fp @ ''...'' else fp)"

text \<open>The loop over the allowed issuers: the first one equal to the normalised fingerprint.\<close>

fun issuer_listed :: "string list \<Rightarrow> string \<Rightarrow> bool" where
  "issuer_listed [] normalizedFP = False"
| "issuer_listed (allowed # rest) normalizedFP =
     (if to_lower allowed = normalizedFP then True else issuer_listed rest normalizedFP)"

definition mtls_ValidateIssuerCA ::
  "ValidatorConfig option \<Rightarrow> string \<Rightarrow> string \<Rightarrow> issuer_error + unit" where
  "mtls_ValidateIssuerCA globalValidatorConfig accountID issuerFingerprint =
     (case globalValidatorConfig of
        None \<Rightarrow> Inr ()
      | Some cfg \<Rightarrow>
          (let allowedIssuers = lookup_list (vc_AccountAllowedIssuers cfg) accountID
           in if length allowedIssuers = 0 then Inl (NoAllowedIssuers accountID)
              else (let normalizedFP = to_lower issuerFingerprint
                    in if issuer_listed allowedIssuers normalizedFP then Inr ()
                       else Inl (IssuerNotAllowed (truncateFP normalizedFP) accountID))))"

section \<open>Facts\<close>

lemma issuer_listed_iff: "issuer_listed allowed fp \<longleftrightarrow> (\<exists>a \<in> set allowed. to_lower a = fp)"
  by (induction allowed) auto

lemma GetIdentity_WithIdentity [simp]: "GetIdentity (WithIdentity ctx i) = Some i"
  by (simp add: GetIdentity_def WithIdentity_def)

text \<open>The abstract contract of the check: with a configuration, exactly the listed issuers pass.\<close>

definition issuer_authorized :: "string_lists \<Rightarrow> string \<Rightarrow> string \<Rightarrow> bool" where
  "issuer_authorized issuers acc fp \<longleftrightarrow>
     (\<exists>a \<in> set (lookup_list issuers acc). to_lower a = to_lower fp)"

lemma mtls_ValidateIssuerCA_iff:
  "mtls_ValidateIssuerCA (Some cfg) acc fp = Inr () \<longleftrightarrow> issuer_authorized (vc_AccountAllowedIssuers cfg) acc fp"
  by (auto simp: mtls_ValidateIssuerCA_def issuer_authorized_def issuer_listed_iff Let_def)

end
