(* ===== verification/MtlsAuth.thy ===== *)
theory MtlsAuth
  imports MtlsIdentity
begin

text \<open>
  \<open>management/internals/server/mtls_auth.go\<close>: how the management server turns a verified client
  certificate into a machine identity, and the two gRPC interceptors that gate the machine methods.
  The package variable \<open>globalMTLSConfig\<close> is an argument. Parameters stand for code outside the
  repository: \<open>toASCII\<close> for \<open>idna.Lookup.ToASCII\<close> and \<open>sha256\<close> for the digest function.
\<close>

unbundle bit_operations_syntax

section \<open>Configuration\<close>

definition mTLSRequiredMethods :: "string list" where
  "mTLSRequiredMethods =
     [''/management.ManagementService/RegisterMachinePeer'',
      ''/management.ManagementService/SyncMachinePeer'',
      ''/management.ManagementService/GetMachineRoutes'',
      ''/management.ManagementService/ReportMachineStatus'']"

text \<open>
  The maps of the configuration are association lists: \<open>DomainAccountMapping\<close> is also iterated,
  in an order Go leaves open, which is the order of the list here.
\<close>

record MTLSConfig =
  DomainAccountMapping :: "(string \<times> string) list"
  AccountAllowedDomains :: string_lists
  AccountAllowedIssuers :: string_lists

datatype mtls_error =
    ConfigNotInitialized
  | DomainNotMapped string
  | NoAllowedDomains string
  | DomainNotAllowed string string "string list"
  | IssuerError issuer_error
  | SpansAccounts "string list"
  | NoPeerInfo | NoTLSInfo | NoVerifiedChains | EmptyChain | NoSAN
  | InvalidSANFormat mtls_error
  | NoValidSAN mtls_error
  | NoMatchingSAN
  | EmptySAN
  | WildcardSAN string
  | IDNAFailed string
  | NotFQDN string
  | LabelLength string string
  | LabelStart string string
  | LabelEnd string string
  | LabelInterior string string

definition getAccountIDFromDomain :: "MTLSConfig option \<Rightarrow> string \<Rightarrow> mtls_error + string" where
  "getAccountIDFromDomain globalMTLSConfig domain =
     (case globalMTLSConfig of
        None \<Rightarrow> Inl ConfigNotInitialized
      | Some cfg \<Rightarrow>
          (let normalizedDomain = to_lower domain
           in case map_of (DomainAccountMapping cfg) normalizedDomain of
                None \<Rightarrow> Inl (DomainNotMapped domain)
              | Some accountID \<Rightarrow> Inr accountID))"

definition getAllowedDomainsForAccount :: "MTLSConfig option \<Rightarrow> string \<Rightarrow> string list" where
  "getAllowedDomainsForAccount globalMTLSConfig accountID =
     (case globalMTLSConfig of
        None \<Rightarrow> []
      | Some cfg \<Rightarrow>
          (case map_of (AccountAllowedDomains cfg) accountID of
             Some domains \<Rightarrow> domains
           | None \<Rightarrow> map fst (filter (\<lambda>(domain, accID). accID = accountID) (DomainAccountMapping cfg))))"

fun match_domain :: "string list \<Rightarrow> string \<Rightarrow> string option" where
  "match_domain [] normalizedDomain = None"
| "match_domain (allowed # rest) normalizedDomain =
     (if to_lower allowed = normalizedDomain then Some allowed else match_domain rest normalizedDomain)"

definition validateDomainForAccount :: "MTLSConfig option \<Rightarrow> string \<Rightarrow> string \<Rightarrow> mtls_error + string" where
  "validateDomainForAccount globalMTLSConfig domain accountID =
     (let allowedDomains = getAllowedDomainsForAccount globalMTLSConfig accountID
      in if length allowedDomains = 0 then Inl (NoAllowedDomains accountID)
         else (case match_domain allowedDomains (to_lower domain) of
                 Some allowed \<Rightarrow> Inr allowed
               | None \<Rightarrow> Inl (DomainNotAllowed domain accountID allowedDomains)))"

text \<open>
  The issuer check of this package. On a match it prints the first 16 bytes of the fingerprint;
  slicing a shorter string panics.
\<close>

definition ValidateIssuerCA ::
  "MTLSConfig option \<Rightarrow> string \<Rightarrow> string \<Rightarrow> (mtls_error, unit) outcome" where
  "ValidateIssuerCA globalMTLSConfig accountID issuerFingerprint =
     (case globalMTLSConfig of
        None \<Rightarrow> Fails (IssuerError IssuerNoConfig)
      | Some cfg \<Rightarrow>
          (let allowedIssuers = lookup_list (AccountAllowedIssuers cfg) accountID
           in if length allowedIssuers = 0 then Fails (IssuerError (NoAllowedIssuers accountID))
              else (let normalizedFP = to_lower issuerFingerprint
                    in if issuer_listed allowedIssuers normalizedFP
                       then (if length normalizedFP < 16 then Panics else Returns ())
                       else (let fpPreview = (if length normalizedFP > 16
                                              then take 16 normalizedFP @ ''...'' else normalizedFP)
                             in Fails (IssuerError (IssuerNotAllowed fpPreview accountID))))))"

section \<open>Names\<close>

definition isAlphanumeric :: "char \<Rightarrow> bool" where
  "isAlphanumeric b \<longleftrightarrow> is_lower b \<or> is_upper b \<or> is_digit b"

text \<open>The checks of one label; \<open>tl (butlast label)\<close> are the interior characters of the loop.\<close>

definition check_label :: "string \<Rightarrow> string \<Rightarrow> mtls_error option" where
  "check_label dnsName label =
     (if length label = 0 \<or> length label > 63 then Some (LabelLength label dnsName)
      else if \<not> isAlphanumeric (label ! 0) then Some (LabelStart label dnsName)
      else if \<not> isAlphanumeric (label ! (length label - 1)) then Some (LabelEnd label dnsName)
      else if list_ex (\<lambda>c. \<not> isAlphanumeric c \<and> c \<noteq> CHR ''-'') (tl (butlast label))
           then Some (LabelInterior label dnsName)
      else None)"

fun check_labels :: "string \<Rightarrow> string list \<Rightarrow> mtls_error option" where
  "check_labels dnsName [] = None"
| "check_labels dnsName (label # labels) =
     (case check_label dnsName label of Some e \<Rightarrow> Some e | None \<Rightarrow> check_labels dnsName labels)"

definition canonicalizeSAN :: "(string \<Rightarrow> string option) \<Rightarrow> string \<Rightarrow> mtls_error + string" where
  "canonicalizeSAN toASCII dnsName =
     (if dnsName = [] then Inl EmptySAN
      else if CHR ''*'' \<in> set dnsName then Inl (WildcardSAN dnsName)
      else (let name = to_lower dnsName;
                name = trim_suffix_char (CHR ''.'') name
            in case toASCII name of
                 None \<Rightarrow> Inl (IDNAFailed dnsName)
               | Some name \<Rightarrow>
                   (let labels = split_char (CHR ''.'') name
                    in if length labels < 2 then Inl (NotFQDN dnsName)
                       else (case check_labels dnsName labels of
                               Some e \<Rightarrow> Inl e
                             | None \<Rightarrow> Inr name))))"

definition splitDNSName :: "string \<Rightarrow> mtls_error + string \<times> string" where
  "splitDNSName dnsName =
     (case split_first (CHR ''.'') dnsName of
        h # d # _ \<Rightarrow> Inr (h, d)
      | _ \<Rightarrow> Inl (NotFQDN dnsName))"

text \<open>The accounts the names of a certificate map to, in the order they are first seen.\<close>

fun seen_accounts ::
  "(string \<Rightarrow> string option) \<Rightarrow> MTLSConfig option \<Rightarrow> string list \<Rightarrow> string list \<Rightarrow> string list" where
  "seen_accounts toASCII cfg [] seenAccounts = seenAccounts"
| "seen_accounts toASCII cfg (dnsName # rest) seenAccounts =
     (case canonicalizeSAN toASCII dnsName of
        Inl _ \<Rightarrow> seen_accounts toASCII cfg rest seenAccounts
      | Inr canonicalName \<Rightarrow>
          (case splitDNSName canonicalName of
             Inl _ \<Rightarrow> seen_accounts toASCII cfg rest seenAccounts
           | Inr (_, domain) \<Rightarrow>
               (case getAccountIDFromDomain cfg domain of
                  Inl _ \<Rightarrow> seen_accounts toASCII cfg rest seenAccounts
                | Inr accountID \<Rightarrow>
                    seen_accounts toASCII cfg rest
                      (if accountID \<in> set seenAccounts then seenAccounts
                       else seenAccounts @ [accountID]))))"

definition checkMultiAccountSpan ::
  "(string \<Rightarrow> string option) \<Rightarrow> MTLSConfig option \<Rightarrow> string list \<Rightarrow> mtls_error option" where
  "checkMultiAccountSpan toASCII cfg dnsNames =
     (let seenAccounts = seen_accounts toASCII cfg dnsNames []
      in if length seenAccounts > 1 then Some (SpansAccounts seenAccounts) else None)"

section \<open>Templates\<close>

text \<open>\<open>asn1.ObjectIdentifier.String\<close>.\<close>

definition oid_str :: "nat list \<Rightarrow> string" where
  "oid_str oid = join_char (CHR ''.'') (map nat_str oid)"

text \<open>
  The loop of \<open>decodeOID\<close> over the bytes after the first; \<open>val\<close> is a Go \<open>int\<close> of 64 bits, so a long
  sub-identifier wraps.
\<close>

fun decode_arcs :: "bytes \<Rightarrow> 64 word \<Rightarrow> int list \<Rightarrow> int list" where
  "decode_arcs [] val components = components"
| "decode_arcs (b # rest) val components =
     (let val = push_bit 7 val OR ucast (b AND 0x7f)
      in if b AND 0x80 = 0 then decode_arcs rest 0 (components @ [sint val])
         else decode_arcs rest val components)"

definition decodeOID :: "bytes \<Rightarrow> string" where
  "decodeOID data =
     (if length data = 0 then []
      else (let first = int (unat (data ! 0));
                components = (if first < 40 then [0, first]
                              else if first < 80 then [1, first - 40]
                              else [2, first - 80]);
                components = decode_arcs (tl data) 0 components
            in join_char (CHR ''.'') (map int_str components)))"

definition parseTemplateExtension :: "bytes \<Rightarrow> string" where
  "parseTemplateExtension data =
     (if length data < 4 then []
      else if data ! 0 \<noteq> 0x30 then []
      else (let seqLen = unat (data ! 1)
            in if seqLen > length data - 2 then []
               else (let pos = 2
                     in if pos \<ge> length data \<or> data ! pos \<noteq> 0x06 then []
                        else (let pos = pos + 1
                              in if pos \<ge> length data then []
                                 else (let oidLen = unat (data ! pos); pos = pos + 1
                                       in if pos + oidLen > length data then []
                                          else decodeOID (slice pos (pos + oidLen) data))))))"

text \<open>The first extension with the given identifier; its value goes to the parser.\<close>

fun first_extension :: "string \<Rightarrow> (nat list \<times> bytes) list \<Rightarrow> (bytes \<Rightarrow> string) \<Rightarrow> string" where
  "first_extension oid [] parse = []"
| "first_extension oid ((ext_id, ext_value) # exts) parse =
     (if oid_str ext_id = oid then parse ext_value else first_extension oid exts parse)"

definition extractTemplateOID :: "x509_certificate \<Rightarrow> string" where
  "extractTemplateOID cert =
     first_extension ''1.3.6.1.4.1.311.21.7'' (cert_Extensions cert) parseTemplateExtension"

definition tagUTF8String :: nat where "tagUTF8String = 12"
definition tagPrintableString :: nat where "tagPrintableString = 19"
definition tagIA5String :: nat where "tagIA5String = 22"
definition tagBMPString :: nat where "tagBMPString = 30"

lemmas tag_consts = tagUTF8String_def tagPrintableString_def tagIA5String_def tagBMPString_def

text \<open>
  The UTF-8 bytes that \<open>string([]rune)\<close> writes for a rune below 65536; a surrogate becomes the
  replacement character.
\<close>

definition utf8_rune :: "nat \<Rightarrow> string" where
  "utf8_rune r =
     (if r < 128 then [char_of r]
      else if r < 2048 then [char_of (192 + r div 64), char_of (128 + r mod 64)]
      else if 55296 \<le> r \<and> r < 57344 then [char_of (239::nat), char_of (191::nat), char_of (189::nat)]
      else [char_of (224 + r div 4096), char_of (128 + (r div 64) mod 64), char_of (128 + r mod 64)])"

fun bmp_runes :: "bytes \<Rightarrow> nat list" where
  "bmp_runes (hi # lo # rest) =
     (let r = 256 * unat hi + unat lo in if r \<noteq> 0 then r # bmp_runes rest else bmp_runes rest)"
| "bmp_runes _ = []"

definition decodeBMPString :: "bytes \<Rightarrow> string" where
  "decodeBMPString data = (if length data < 2 then [] else concat (map utf8_rune (bmp_runes data)))"

definition decodeASN1String :: "bytes \<Rightarrow> string" where
  "decodeASN1String data =
     (if length data < 2 then []
      else (let tag = unat (data ! 0);
                len = unat (data ! 1);
                (len, valueStart) =
                  (if len = 0x81 \<and> length data > 2 then (unat (data ! 2), 3)
                   else if len = 0x82 \<and> length data > 3
                        then (256 * unat (data ! 2) + unat (data ! 3), 4)
                   else (len, 2))
            in if valueStart + len > length data then string_of_bytes data
               else (let ext_value = slice valueStart (valueStart + len) data
                     in if tag = tagUTF8String \<or> tag = tagPrintableString \<or> tag = tagIA5String
                        then string_of_bytes ext_value
                        else if tag = tagBMPString then decodeBMPString ext_value
                        else string_of_bytes ext_value)))"

definition extractTemplateNameV1 :: "x509_certificate \<Rightarrow> string" where
  "extractTemplateNameV1 cert =
     first_extension ''1.3.6.1.4.1.311.20.2'' (cert_Extensions cert) decodeASN1String"

definition DefaultMachineTemplateNames :: "string list" where
  "DefaultMachineTemplateNames =
     [''Machine'', ''Computer'', ''Workstation'', ''NetBirdMachine'', ''DomainController'',
      ''WebServer'', ''IPSecIntermediateOffline'']"

text \<open>\<open>x509.ExtKeyUsageClientAuth\<close>.\<close>

definition ExtKeyUsageClientAuth :: nat where "ExtKeyUsageClientAuth = 2"

definition determinePeerType :: "string \<Rightarrow> string \<Rightarrow> x509_certificate \<Rightarrow> string" where
  "determinePeerType templateOID templateName cert =
     (let nameLower = to_lower templateName;
          hasClientAuth = list_ex (\<lambda>eku. eku = ExtKeyUsageClientAuth) (cert_ExtKeyUsage cert);
          hasSmartCardLogon = list_ex (\<lambda>oid. oid_str oid = ''1.3.6.1.4.1.311.20.2.2'')
                                (cert_UnknownExtKeyUsage cert)
      in if templateName \<noteq> [] \<and> list_ex (\<lambda>mt. nameLower = to_lower mt) DefaultMachineTemplateNames
         then ''machine''
         else if templateName \<noteq> [] \<and> (nameLower = ''user'' \<or> nameLower = ''smartcardlogon''
                                       \<or> nameLower = ''smartcarduser'')
         then ''user''
         else if hasClientAuth \<and> \<not> hasSmartCardLogon
         then (if length (cert_EmailAddresses cert) > 0 then ''user'' else ''machine'')
         else if hasSmartCardLogon then ''user''
         else if length (cert_EmailAddresses cert) > 0 then ''user''
         else if length (cert_DNSNames cert) > 0 then ''machine''
         else ''unknown'')"

section \<open>The identity of a certificate\<close>

text \<open>The variables the loop over the SANs of \<open>extractMTLSIdentity\<close> assigns.\<close>

record san_choice =
  validDNSName :: string
  validHostname :: string
  validDomain :: string
  accountID :: string
  matchedDomain :: string
  validationErr :: "mtls_error option"

definition no_choice :: san_choice where
  "no_choice = \<lparr>validDNSName = [], validHostname = [], validDomain = [], accountID = [],
     matchedDomain = [], validationErr = None\<rparr>"

fun choose_san ::
  "(string \<Rightarrow> string option) \<Rightarrow> MTLSConfig option \<Rightarrow> string list \<Rightarrow> san_choice \<Rightarrow> san_choice" where
  "choose_san toASCII cfg [] st = st"
| "choose_san toASCII cfg (dnsName # rest) st =
     (case canonicalizeSAN toASCII dnsName of
        Inl _ \<Rightarrow> choose_san toASCII cfg rest st
      | Inr canonicalName \<Rightarrow>
          (case splitDNSName canonicalName of
             Inl _ \<Rightarrow> choose_san toASCII cfg rest st
           | Inr (hostname, domain) \<Rightarrow>
               (case getAccountIDFromDomain cfg domain of
                  Inl e \<Rightarrow> choose_san toASCII cfg rest (st\<lparr>validationErr := Some e\<rparr>)
                | Inr accID \<Rightarrow>
                    (case validateDomainForAccount cfg domain accID of
                       Inl e \<Rightarrow> choose_san toASCII cfg rest (st\<lparr>validationErr := Some e\<rparr>)
                     | Inr matched \<Rightarrow>
                         st\<lparr>validDNSName := canonicalName, validHostname := hostname,
                            validDomain := domain, accountID := accID, matchedDomain := matched\<rparr>))))"

definition fallback_san :: "MTLSConfig option \<Rightarrow> x509_certificate \<Rightarrow> san_choice \<Rightarrow> mtls_error + san_choice" where
  "fallback_san globalMTLSConfig clientCert st =
     (if validDNSName st = [] then
        (if globalMTLSConfig = None then
           (let dnsName = cert_DNSNames clientCert ! 0
            in case splitDNSName dnsName of
                 Inl e \<Rightarrow> Inl (InvalidSANFormat e)
               | Inr (hostname, domain) \<Rightarrow>
                   Inr (st\<lparr>validDNSName := dnsName, validHostname := hostname, validDomain := domain\<rparr>))
         else (case validationErr st of
                 Some e \<Rightarrow> Inl (NoValidSAN e)
               | None \<Rightarrow> Inl NoMatchingSAN))
      else Inr st)"

definition issuer_fingerprint :: "(bytes \<Rightarrow> bytes) \<Rightarrow> x509_certificate list \<Rightarrow> string" where
  "issuer_fingerprint sha256 chain =
     (if length chain > 1 then hex_bytes (sha256 (cert_Raw (chain ! 1))) else [])"

definition identity_of_chain ::
  "(string \<Rightarrow> string option) \<Rightarrow> (bytes \<Rightarrow> bytes) \<Rightarrow> MTLSConfig option \<Rightarrow> x509_certificate list \<Rightarrow>
   mtls_error + Identity" where
  "identity_of_chain toASCII sha256 cfg chain =
     (if length chain = 0 then Inl EmptyChain
      else (let clientCert = chain ! 0
            in if length (cert_DNSNames clientCert) = 0 then Inl NoSAN
               else (case checkMultiAccountSpan toASCII cfg (cert_DNSNames clientCert) of
                  Some e \<Rightarrow> Inl e
                | None \<Rightarrow>
                    (case fallback_san cfg clientCert (choose_san toASCII cfg (cert_DNSNames clientCert) no_choice) of
                       Inl e \<Rightarrow> Inl e
                     | Inr st \<Rightarrow>
                         (let templateOID = extractTemplateOID clientCert;
                              templateName = extractTemplateNameV1 clientCert
                          in Inr \<lparr>DNSName = validDNSName st, Hostname = validHostname st,
                               Domain = validDomain st, MatchedDomain = matchedDomain st,
                               AccountID = accountID st,
                               IssuerFingerprint = issuer_fingerprint sha256 chain,
                               SerialNumber = int_str (cert_SerialNumber clientCert),
                               TemplateOID = templateOID, TemplateName = templateName,
                               PeerType = determinePeerType templateOID templateName clientCert\<rparr>)))))"

definition extractMTLSIdentity ::
  "(string \<Rightarrow> string option) \<Rightarrow> (bytes \<Rightarrow> bytes) \<Rightarrow> MTLSConfig option \<Rightarrow> request_context \<Rightarrow>
   mtls_error + Identity" where
  "extractMTLSIdentity toASCII sha256 cfg ctx =
     (case ctx_peer ctx of
        None \<Rightarrow> Inl NoPeerInfo
      | Some OtherAuthInfo \<Rightarrow> Inl NoTLSInfo
      | Some (TLSInfo verifiedChains) \<Rightarrow>
          (if length verifiedChains = 0 then Inl NoVerifiedChains
           else identity_of_chain toASCII sha256 cfg (verifiedChains ! 0)))"

section \<open>The interceptors\<close>

datatype auth_status = MethodRequiresCertificate string | CertificateRequired | HandlerError string

text \<open>
  A handler is a function of the request context; the interceptor either answers itself or returns
  what the handler returns. The unary interceptor prints \<open>IssuerFingerprint[:16]\<close>, which panics
  when the fingerprint is shorter.
\<close>

definition MTLSUnaryInterceptor ::
  "(string \<Rightarrow> string option) \<Rightarrow> (bytes \<Rightarrow> bytes) \<Rightarrow> MTLSConfig option \<Rightarrow> bool \<Rightarrow> string \<Rightarrow>
   (request_context \<Rightarrow> (auth_status, 'r) outcome) \<Rightarrow> request_context \<Rightarrow> (auth_status, 'r) outcome" where
  "MTLSUnaryInterceptor toASCII sha256 cfg strictMode fullMethod handler ctx =
     (let methodRequiresMTLS = (fullMethod \<in> set mTLSRequiredMethods)
      in case extractMTLSIdentity toASCII sha256 cfg ctx of
           Inl err \<Rightarrow>
             (if methodRequiresMTLS then Fails (MethodRequiresCertificate fullMethod)
              else if strictMode then Fails CertificateRequired
              else handler ctx)
         | Inr identity \<Rightarrow>
             (if length (IssuerFingerprint identity) < 16 then Panics
              else handler (WithIdentity ctx identity)))"

definition MTLSStreamInterceptor ::
  "(string \<Rightarrow> string option) \<Rightarrow> (bytes \<Rightarrow> bytes) \<Rightarrow> MTLSConfig option \<Rightarrow> bool \<Rightarrow> string \<Rightarrow>
   (request_context \<Rightarrow> (auth_status, 'r) outcome) \<Rightarrow> request_context \<Rightarrow> (auth_status, 'r) outcome" where
  "MTLSStreamInterceptor toASCII sha256 cfg strictMode fullMethod handler ctx =
     (let methodRequiresMTLS = (fullMethod \<in> set mTLSRequiredMethods)
      in case extractMTLSIdentity toASCII sha256 cfg ctx of
           Inl err \<Rightarrow>
             (if methodRequiresMTLS then Fails (MethodRequiresCertificate fullMethod)
              else if strictMode then Fails CertificateRequired
              else handler ctx)
         | Inr identity \<Rightarrow> handler (WithIdentity ctx identity))"

section \<open>Names and accounts\<close>

text \<open>What RFC 1123 asks of a label, and what the label checks establish.\<close>

definition rfc1123_label :: "string \<Rightarrow> bool" where
  "rfc1123_label l \<longleftrightarrow> l \<noteq> [] \<and> length l \<le> 63 \<and> isAlphanumeric (hd l) \<and> isAlphanumeric (last l)
     \<and> list_all (\<lambda>c. isAlphanumeric c \<or> c = CHR ''-'') l"

lemma list_all_ends:
  assumes "l \<noteq> []" and "P (hd l)" and "P (last l)"
  shows "list_all P (tl (butlast l)) \<longleftrightarrow> list_all P l"
proof -
  obtain x xs where l: "l = x # xs"
    using assms(1) by (cases l) auto
  show ?thesis
  proof (cases "xs = []")
    case True
    with l assms show ?thesis by simp
  next
    case False
    then have xs: "xs = butlast xs @ [last xs]"
      by simp
    have "list_all P l \<longleftrightarrow> P x \<and> list_all P (butlast xs) \<and> P (last xs)"
      unfolding l by (subst xs) (simp add: conj_commute)
    with l assms False show ?thesis by simp
  qed
qed

lemma check_label_iff: "check_label n l = None \<longleftrightarrow> rfc1123_label l"
proof (cases "l \<noteq> [] \<and> isAlphanumeric (hd l) \<and> isAlphanumeric (last l)")
  case True
  then have "list_all (\<lambda>c. isAlphanumeric c \<or> c = CHR ''-'') (tl (butlast l))
      \<longleftrightarrow> list_all (\<lambda>c. isAlphanumeric c \<or> c = CHR ''-'') l"
    by (intro list_all_ends) auto
  moreover have "list_ex (\<lambda>c. \<not> isAlphanumeric c \<and> c \<noteq> CHR ''-'') (tl (butlast l))
      \<longleftrightarrow> \<not> list_all (\<lambda>c. isAlphanumeric c \<or> c = CHR ''-'') (tl (butlast l))"
    by (simp add: list_ex_iff list_all_iff)
  ultimately show ?thesis
    using True by (auto simp: check_label_def rfc1123_label_def hd_conv_nth last_conv_nth)
next
  case False
  then show ?thesis
    by (auto simp: check_label_def rfc1123_label_def hd_conv_nth last_conv_nth)
qed

lemma check_labels_iff: "check_labels n ls = None \<longleftrightarrow> list_all rfc1123_label ls"
  by (induction ls) (auto simp: check_label_iff split: option.splits
      dest: iffD1 [OF check_label_iff] iffD2 [OF check_label_iff, of _ n])

lemma canonicalizeSAN_Inr:
  "canonicalizeSAN toASCII n = Inr c \<longleftrightarrow>
     n \<noteq> [] \<and> CHR ''*'' \<notin> set n \<and> toASCII (trim_suffix_char (CHR ''.'') (to_lower n)) = Some c
     \<and> 2 \<le> length (split_char (CHR ''.'') c) \<and> list_all rfc1123_label (split_char (CHR ''.'') c)"
  using check_labels_iff [of n "split_char (CHR ''.'') c"]
  by (auto simp: canonicalizeSAN_def Let_def not_less split: option.splits if_splits)

lemma splitDNSName_Inr:
  assumes "splitDNSName n = Inr (h, d)"
  shows "n = h @ CHR ''.'' # d" and "CHR ''.'' \<notin> set h"
proof -
  have "split_first (CHR ''.'') n = [h, d]"
    using assms by (auto simp: splitDNSName_def split_first_def split: if_splits)
  then show "n = h @ CHR ''.'' # d" "CHR ''.'' \<notin> set h"
    using split_first_pair by blast+
qed

text \<open>The account a subject alternative name stands for, if it stands for one.\<close>

definition san_account :: "(string \<Rightarrow> string option) \<Rightarrow> MTLSConfig option \<Rightarrow> string \<Rightarrow> string option" where
  "san_account toASCII cfg san =
     (case canonicalizeSAN toASCII san of Inl _ \<Rightarrow> None | Inr c \<Rightarrow>
       (case splitDNSName c of Inl _ \<Rightarrow> None | Inr (_, d) \<Rightarrow>
         (case getAccountIDFromDomain cfg d of Inl _ \<Rightarrow> None | Inr a \<Rightarrow> Some a)))"

lemma set_seen_accounts:
  "set (seen_accounts toASCII cfg sans acc) = set acc \<union> {a. \<exists>s \<in> set sans. san_account toASCII cfg s = Some a}"
  by (induction sans arbitrary: acc) (auto simp: san_account_def split: sum.splits)

lemma distinct_seen_accounts: "distinct acc \<Longrightarrow> distinct (seen_accounts toASCII cfg sans acc)"
  by (induction sans arbitrary: acc) (auto split: sum.splits)

text \<open>The span check passes exactly the certificates whose names stand for at most one account.\<close>

lemma checkMultiAccountSpan_iff:
  "checkMultiAccountSpan toASCII cfg sans = None \<longleftrightarrow>
     (\<forall>s \<in> set sans. \<forall>t \<in> set sans. \<forall>a b. san_account toASCII cfg s = Some a \<longrightarrow>
        san_account toASCII cfg t = Some b \<longrightarrow> a = b)"
proof -
  let ?l = "seen_accounts toASCII cfg sans []"
  have "length ?l \<le> 1 \<longleftrightarrow> (\<forall>a \<in> set ?l. \<forall>b \<in> set ?l. a = b)"
  proof (cases ?l)
    case (Cons x xs)
    then show ?thesis
      using distinct_seen_accounts [of "[]" toASCII cfg sans] by (cases xs) auto
  qed simp
  moreover have "checkMultiAccountSpan toASCII cfg sans = None \<longleftrightarrow> length ?l \<le> 1"
    by (auto simp: checkMultiAccountSpan_def Let_def)
  ultimately show ?thesis
    by (auto simp: set_seen_accounts)
qed

text \<open>What the loop over the names establishes of its choice.\<close>

definition san_chosen :: "(string \<Rightarrow> string option) \<Rightarrow> MTLSConfig option \<Rightarrow> string list \<Rightarrow> san_choice \<Rightarrow> bool" where
  "san_chosen toASCII cfg sans r \<longleftrightarrow>
     (\<exists>s \<in> set sans. canonicalizeSAN toASCII s = Inr (validDNSName r)
        \<and> splitDNSName (validDNSName r) = Inr (validHostname r, validDomain r)
        \<and> getAccountIDFromDomain cfg (validDomain r) = Inr (accountID r)
        \<and> validateDomainForAccount cfg (validDomain r) (accountID r) = Inr (matchedDomain r))"

lemma choose_san_chosen:
  "validDNSName st = [] \<Longrightarrow>
   validDNSName (choose_san toASCII cfg sans st) = [] \<or> san_chosen toASCII cfg sans (choose_san toASCII cfg sans st)"
proof (induction sans arbitrary: st)
  case Nil
  then show ?case by simp
next
  case (Cons s sans)
  have weaken: "san_chosen toASCII cfg (s # sans) r" if "san_chosen toASCII cfg sans r" for r
    using that by (auto simp: san_chosen_def)
  have IH: "validDNSName (choose_san toASCII cfg sans st') = []
      \<or> san_chosen toASCII cfg (s # sans) (choose_san toASCII cfg sans st')"
    if "validDNSName st' = []" for st'
    using Cons.IH [OF that] weaken by blast
  have found: "san_chosen toASCII cfg (s # sans)
      (st\<lparr>validDNSName := c, validHostname := h, validDomain := d, accountID := a, matchedDomain := m\<rparr>)"
    if "canonicalizeSAN toASCII s = Inr c" "splitDNSName c = Inr (h, d)"
      "getAccountIDFromDomain cfg d = Inr a" "validateDomainForAccount cfg d a = Inr m" for c h d a m
    using that by (auto simp: san_chosen_def)
  show ?case
    by (simp add: Cons.prems IH found split: sum.splits prod.splits)
qed

lemma match_domain_Some:
  "match_domain ds n = Some d \<Longrightarrow> d \<in> set ds \<and> to_lower d = n"
  by (induction ds) (auto split: if_splits)

lemma validateDomainForAccount_Inr:
  "validateDomainForAccount cfg d acc = Inr m \<Longrightarrow>
   m \<in> set (getAllowedDomainsForAccount cfg acc) \<and> to_lower m = to_lower d"
  using match_domain_Some by (auto simp: validateDomainForAccount_def Let_def split: if_splits option.splits)

end
