(* ===== verification/MtlsProps.thy ===== *)
theory MtlsProps
  imports MtlsAuth
begin

text \<open>
  The properties of the mTLS authentication of \<open>MtlsAuth\<close>: what an extracted identity guarantees,
  what the interceptors let through, and that the template decoders invert the encodings AD CS uses.
\<close>

unbundle bit_operations_syntax

section \<open>The extracted identity\<close>

lemma canonicalizeSAN_not_Nil: "canonicalizeSAN toASCII s \<noteq> Inr []"
  by (simp add: canonicalizeSAN_Inr)

lemma fallback_san_configured:
  "fallback_san (Some cfg) cert st = Inr r \<longleftrightarrow> validDNSName st \<noteq> [] \<and> r = st"
  by (auto simp: fallback_san_def split: option.splits)

lemma determinePeerType_range:
  "cert_DNSNames cert \<noteq> [] \<Longrightarrow> determinePeerType oid n cert \<in> {''machine'', ''user''}"
  by (simp add: determinePeerType_def Let_def)

text \<open>Inversion of a successful extraction.\<close>

lemma identity_of_chain_Inr [result_dests]:
  assumes "identity_of_chain toASCII sha256 cfg chain = Inr i"
  obtains cert rest st where "chain = cert # rest" and "cert_DNSNames cert \<noteq> []"
    and "checkMultiAccountSpan toASCII cfg (cert_DNSNames cert) = None"
    and "fallback_san cfg cert (choose_san toASCII cfg (cert_DNSNames cert) no_choice) = Inr st"
    and "DNSName i = validDNSName st" and "Hostname i = validHostname st" and "Domain i = validDomain st"
    and "MatchedDomain i = matchedDomain st" and "AccountID i = accountID st"
    and "IssuerFingerprint i = issuer_fingerprint sha256 chain"
    and "PeerType i = determinePeerType (extractTemplateOID cert) (extractTemplateNameV1 cert) cert"
proof -
  obtain cert rest where chain: "chain = cert # rest"
    using assms by (cases chain) (simp_all add: identity_of_chain_def)
  with assms show thesis
    by (auto simp: identity_of_chain_def Let_def intro!: that [of cert rest] split: if_splits option.splits sum.splits)
qed

lemma extractMTLSIdentity_Inr [result_dests]:
  assumes "extractMTLSIdentity toASCII sha256 cfg ctx = Inr i"
  obtains chain others where "ctx_peer ctx = Some (TLSInfo (chain # others))"
    and "identity_of_chain toASCII sha256 cfg chain = Inr i"
proof -
  obtain vc where vc: "ctx_peer ctx = Some (TLSInfo vc)"
    using assms by (auto simp: extractMTLSIdentity_def split: option.splits auth_info.splits)
  with assms show thesis
    by (cases vc) (auto simp: extractMTLSIdentity_def intro: that)
qed

lemma extractMTLSIdentity_fingerprint:
  assumes "extractMTLSIdentity toASCII sha256 cfg ctx = Inr i"
    and "ctx_peer ctx = Some (TLSInfo (chain # others))"
  shows "IssuerFingerprint i = issuer_fingerprint sha256 chain"
proof -
  have "identity_of_chain toASCII sha256 cfg chain = Inr i"
    using assms by (simp add: extractMTLSIdentity_def)
  then show ?thesis
    by (rule identity_of_chain_Inr)
qed

lemma configured_choice:
  assumes "fallback_san (Some cfg) cert (choose_san toASCII (Some cfg) sans no_choice) = Inr st"
  shows "san_chosen toASCII (Some cfg) sans st"
  using assms choose_san_chosen [of no_choice toASCII "Some cfg" sans]
  by (auto simp: fallback_san_configured no_choice_def)

lemma san_chosen_account:
  "san_chosen toASCII cfg sans st \<Longrightarrow> \<exists>s \<in> set sans. san_account toASCII cfg s = Some (accountID st)"
  by (force simp: san_chosen_def san_account_def)

lemma getAccountIDFromDomain_Inr:
  "getAccountIDFromDomain (Some cfg) d = Inr a \<longleftrightarrow> map_of (DomainAccountMapping cfg) (to_lower d) = Some a"
  by (auto simp: getAccountIDFromDomain_def Let_def split: option.splits)


definition example_cert :: "string list \<Rightarrow> x509_certificate" where
  "example_cert names = \<lparr>cert_DNSNames = names, cert_Extensions = [], cert_ExtKeyUsage = [ExtKeyUsageClientAuth],
     cert_UnknownExtKeyUsage = [], cert_EmailAddresses = [], cert_SerialNumber = 7, cert_Raw = [1]\<rparr>"

definition example_config :: MTLSConfig where
  "example_config = \<lparr>DomainAccountMapping = [(''corp.local'', ''acc-a''), (''other.org'', ''acc-b'')],
     AccountAllowedDomains = [(''acc-a'', [''Corp.Local''])], AccountAllowedIssuers = []\<rparr>"

definition example_ctx :: "x509_certificate list \<Rightarrow> request_context" where
  "example_ctx chain = \<lparr>ctx_peer = Some (TLSInfo [chain]), ctx_identity = None\<rparr>"

lemma example_extract:
  "case extractMTLSIdentity Some (\<lambda>b. replicate 32 0) (Some example_config)
         (example_ctx [example_cert [''PC-1.Corp.local.'', ''x'']]) of
     Inl _ \<Rightarrow> False | Inr i \<Rightarrow> AccountID i = ''acc-a''"
  by code_simp


section \<open>Canonical names\<close>

lemma rfc1123_not_dot: "rfc1123_label l \<Longrightarrow> c \<in> set l \<Longrightarrow> c \<noteq> CHR ''*'' \<and> c \<noteq> CHR ''.''"
  by (auto simp: rfc1123_label_def list_all_iff isAlphanumeric_def is_lower_def is_upper_def is_digit_def)

lemma last_join_char: "ps \<noteq> [] \<Longrightarrow> last ps \<noteq> [] \<Longrightarrow> last (join_char c ps) = last (last ps)"
proof (induction c ps rule: join_char.induct)
  case (3 c p q ps)
  then have "join_char c (q # ps) \<noteq> []"
    by (cases ps) (auto split: if_splits)
  with 3 show ?case by simp
qed simp_all

lemma labels_no_star:
  assumes "list_all rfc1123_label (split_char (CHR ''.'') c)"
  shows "CHR ''*'' \<notin> set c"
proof
  assume "CHR ''*'' \<in> set c"
  then have "CHR ''*'' \<in> set (join_char (CHR ''.'') (split_char (CHR ''.'') c))"
    by simp
  then obtain p where "p \<in> set (split_char (CHR ''.'') c)" "CHR ''*'' \<in> set p"
    using set_join_char by fastforce
  with assms rfc1123_not_dot show False
    by (auto simp: list_all_iff)
qed

lemma labels_no_trailing_dot:
  assumes "list_all rfc1123_label (split_char (CHR ''.'') c)"
  shows "trim_suffix_char (CHR ''.'') c = c"
proof -
  let ?ls = "split_char (CHR ''.'') c"
  have ok: "rfc1123_label (last ?ls)"
    using assms by (simp add: list_all_iff)
  then have ne: "last ?ls \<noteq> []"
    by (auto simp: rfc1123_label_def)
  have "last c = last (last ?ls)"
    using last_join_char [of ?ls "CHR ''.''"] ne by simp
  moreover have "last (last ?ls) \<noteq> CHR ''.''"
    using rfc1123_not_dot [OF ok] ne last_in_set by blast
  ultimately show ?thesis
    by (simp add: trim_suffix_char_def)
qed

text \<open>A canonical name consists of at least two labels that are valid under RFC 1123, and
  canonicalisation is idempotent when the IDNA lookup mapping is (its results are lower-case and map to
  themselves): canonical names are fixed points, so names that were compared once compare equal again.\<close>

lemma canonical_name_labels_idempotent:
  assumes "\<And>n m. toASCII n = Some m \<Longrightarrow> to_lower m = m \<and> toASCII m = Some m"
    and "canonicalizeSAN toASCII san = Inr c"
  shows "2 \<le> length (split_char (CHR ''.'') c) \<and> list_all rfc1123_label (split_char (CHR ''.'') c)
    \<and> CHR ''*'' \<notin> set san \<and> canonicalizeSAN toASCII c = Inr c"
proof -
  have c: "CHR ''*'' \<notin> set san" "toASCII (trim_suffix_char (CHR ''.'') (to_lower san)) = Some c"
      "2 \<le> length (split_char (CHR ''.'') c)" "list_all rfc1123_label (split_char (CHR ''.'') c)"
    using assms(2) by (simp_all add: canonicalizeSAN_Inr)
  have low: "to_lower c = c" "toASCII c = Some c"
    using assms(1) [OF c(2)] by simp_all
  have "c \<noteq> []"
    using c(3) by auto
  then have "canonicalizeSAN toASCII c = Inr c"
    using c low labels_no_star labels_no_trailing_dot by (simp add: canonicalizeSAN_Inr)
  with c show ?thesis by simp
qed

definition ascii_only :: "string \<Rightarrow> string option" where
  "ascii_only n = (if to_lower n = n then Some n else None)"

section \<open>The interceptors\<close>



text \<open>C34: When the verified chain has an issuer certificate and the digest has at least 8 bytes, the two
  interceptors give the same answer; when the leaf alone is the verified chain (the client certificate
  is itself a trusted root), the unary interceptor panics on every accepted certificate, because it
  slices the empty issuer fingerprint, while the stream interceptor calls the handler.\<close>

theorem unary_interceptor_panics_without_issuer:
  assumes "ctx_peer ctx = Some (TLSInfo (chain # others))"
    and "extractMTLSIdentity toASCII sha256 cfg ctx = Inr i"
    and "\<And>b. 8 \<le> length (sha256 b)"
  shows "MTLSUnaryInterceptor toASCII sha256 cfg strictMode fullMethod handler ctx
     = (if length chain = 1 then Panics
        else MTLSStreamInterceptor toASCII sha256 cfg strictMode fullMethod handler ctx)
   \<and> MTLSStreamInterceptor toASCII sha256 cfg strictMode fullMethod handler ctx = handler (WithIdentity ctx i)"
proof -
  have "chain \<noteq> []"
    using assms(1,2) by (auto simp: extractMTLSIdentity_def identity_of_chain_def)
  moreover have "IssuerFingerprint i = issuer_fingerprint sha256 chain"
    using assms(2,1) by (rule extractMTLSIdentity_fingerprint)
  moreover have "\<not> length (sha256 b) < 8" for b
    using assms(3) [of b] by simp
  ultimately show ?thesis
    using assms(2) by (cases chain) (auto simp: MTLSUnaryInterceptor_def MTLSStreamInterceptor_def
        issuer_fingerprint_def)
qed

theorem unary_interceptor_panics_without_issuer_witness:
  "MTLSUnaryInterceptor Some (\<lambda>b. replicate 32 0) (Some example_config) False ''/any''
      (\<lambda>c. Returns True) (example_ctx [example_cert [''PC-1.Corp.local.'', ''x'']]) = Panics"
proof -
  obtain i where "extractMTLSIdentity Some (\<lambda>b. replicate 32 0) (Some example_config)
         (example_ctx [example_cert [''PC-1.Corp.local.'', ''x'']]) = Inr i"
    using example_extract by (auto split: sum.splits)
  then show ?thesis
    using unary_interceptor_panics_without_issuer
      [of "example_ctx [example_cert [''PC-1.Corp.local.'', ''x'']]" "[example_cert [''PC-1.Corp.local.'', ''x'']]"
          "[]" Some "\<lambda>b. replicate 32 0" "Some example_config" i False "''/any''" "\<lambda>c. Returns True"]
    by (simp add: example_ctx_def)
qed

end
