(* ===== verification/MtlsTemplates.thy ===== *)
theory MtlsTemplates
  imports MtlsAuth
begin

text \<open>
  The template decoders of \<open>mtls_auth.go\<close> against the DER encodings they read: object identifiers
  in base 128 and strings with short and long length forms. The encoders are the reference; they are
  written from X.690 and occur in no source file.
\<close>

unbundle bit_operations_syntax

section \<open>Object identifiers\<close>

text \<open>The continuation bytes of a sub-identifier and the sub-identifier.\<close>

fun der_more :: "nat \<Rightarrow> bytes" where
  "der_more n = (if n = 0 then [] else der_more (n div 128) @ [of_nat (n mod 128 + 128)])"

declare der_more.simps [simp del]

definition der_arc :: "nat \<Rightarrow> bytes" where
  "der_arc n = der_more (n div 128) @ [of_nat (n mod 128)]"

definition der_oid :: "nat \<Rightarrow> nat \<Rightarrow> nat list \<Rightarrow> bytes" where
  "der_oid c1 c2 arcs = der_arc (40 * c1 + c2) @ concat (map der_arc arcs)"

lemma low_seven_bits:
  "list_all (\<lambda>m. ucast ((of_nat (m + 128) :: byte) AND 0x7f) = (of_nat m :: 64 word)
     \<and> (of_nat (m + 128) :: byte) AND 0x80 \<noteq> 0
     \<and> ucast ((of_nat m :: byte) AND 0x7f) = (of_nat m :: 64 word)
     \<and> (of_nat m :: byte) AND 0x80 = 0) [0..<128]"
  by code_simp

lemma low_seven:
  assumes "m < 128"
  shows "ucast ((of_nat (m + 128) :: byte) AND 0x7f) = (of_nat m :: 64 word)"
    and "(of_nat (m + 128) :: byte) AND 0x80 \<noteq> 0"
    and "ucast ((of_nat m :: byte) AND 0x7f) = (of_nat m :: 64 word)"
    and "(of_nat m :: byte) AND 0x80 = 0"
  using low_seven_bits assms unfolding list_all_iff by auto

lemma shift_or:
  assumes "m < 128"
  shows "push_bit 7 (of_nat n :: 64 word) OR of_nat m = of_nat (128 * n + m)"
proof -
  have "\<not> bit (push_bit 7 (of_nat n :: 64 word)) k \<or> \<not> bit (of_nat m :: 64 word) k" for k
  proof (cases "k < 7")
    case True
    then show ?thesis by (simp add: bit_push_bit_iff)
  next
    case False
    then have "(2::nat) ^ 7 \<le> 2 ^ k"
      by (intro power_increasing) auto
    then have "m div 2 ^ k = 0"
      using assms by simp
    then have "\<not> bit m k"
      by (simp add: bit_iff_odd)
    then show ?thesis
      by (simp add: bit_of_nat_iff)
  qed
  then have "push_bit 7 (of_nat n :: 64 word) OR of_nat m = push_bit 7 (of_nat n) + of_nat m"
    by (simp add: disjunctive_add)
  also have "\<dots> = of_nat (128 * n + m)"
    by (simp add: push_bit_eq_mult)
  finally show ?thesis .
qed

lemma decode_arcs_more:
  "decode_arcs (der_more n @ rest) 0 cs = decode_arcs rest (of_nat n) cs"
proof (induction n arbitrary: rest rule: der_more.induct)
  case (1 n)
  show ?case
  proof (cases "n = 0")
    case True
    then show ?thesis by (simp add: der_more.simps)
  next
    case False
    have "decode_arcs (der_more n @ rest) 0 cs
        = decode_arcs (of_nat (n mod 128 + 128) # rest) (of_nat (n div 128)) cs"
      using False "1.IH" by (simp add: der_more.simps [of n])
    also have "\<dots> = decode_arcs rest (push_bit 7 (of_nat (n div 128)) OR of_nat (n mod 128)) cs"
      using low_seven [of "n mod 128"] by (simp add: Let_def del: of_nat_add)
    also have "push_bit 7 (of_nat (n div 128)) OR of_nat (n mod 128) = (of_nat n :: 64 word)"
      using shift_or [of "n mod 128" "n div 128"] by (simp flip: of_nat_mult of_nat_add)
    finally show ?thesis .
  qed
qed

lemma decode_arcs_arc:
  assumes "n < 2 ^ 63"
  shows "decode_arcs (der_arc n @ rest) 0 cs = decode_arcs rest 0 (cs @ [int n])"
proof -
  have "decode_arcs (der_arc n @ rest) 0 cs
      = decode_arcs rest 0 (cs @ [sint (push_bit 7 (of_nat (n div 128) :: 64 word) OR of_nat (n mod 128))])"
    using low_seven [of "n mod 128"] by (simp add: der_arc_def decode_arcs_more Let_def)
  also have "push_bit 7 (of_nat (n div 128)) OR of_nat (n mod 128) = (of_nat n :: 64 word)"
    using shift_or [of "n mod 128" "n div 128"] by (simp flip: of_nat_mult of_nat_add)
  also have "sint (of_nat n :: 64 word) = int n"
    using assms by (simp add: signed_of_nat signed_take_bit_int_eq_self)
  finally show ?thesis .
qed

lemma decode_arcs_all:
  "list_all (\<lambda>n. n < 2 ^ 63) arcs \<Longrightarrow>
   decode_arcs (concat (map der_arc arcs)) 0 cs = cs @ map int arcs"
proof (induction arcs arbitrary: cs)
  case (Cons n arcs)
  then show ?case
    using decode_arcs_arc [of n "concat (map der_arc arcs)" cs] by simp
qed simp

lemma der_arc_small: "n < 128 \<Longrightarrow> der_arc n = [of_nat n]"
  by (simp add: der_arc_def der_more.simps)

text \<open>C29: \<open>decodeOID\<close> inverts the DER encoding of every object identifier whose first two arcs fit one
  byte and whose other arcs are below \<open>2^63\<close>: the result is the dotted string of the arcs.\<close>

theorem decodeOID_inverts_der:
  assumes "c1 \<le> 2" and "c1 < 2 \<Longrightarrow> c2 < 40" and "40 * c1 + c2 < 128"
    and "list_all (\<lambda>n. n < 2 ^ 63) arcs"
  shows "decodeOID (der_oid c1 c2 arcs) = oid_str (c1 # c2 # arcs)"
proof -
  have first: "unat (of_nat (40 * c1 + c2) :: byte) = 40 * c1 + c2"
    using assms(3) by (simp add: unat_of_nat del: of_nat_add)
  have oid: "der_oid c1 c2 arcs = of_nat (40 * c1 + c2) # concat (map der_arc arcs)"
    using assms(3) by (simp add: der_oid_def der_arc_small del: of_nat_add)
  have "c1 = 0 \<or> c1 = 1 \<or> c1 = 2"
    using assms(1) by auto
  then have "(if int (40 * c1 + c2) < 40 then [0, int (40 * c1 + c2)]
      else if int (40 * c1 + c2) < 80 then [1, int (40 * c1 + c2) - 40]
      else [2, int (40 * c1 + c2) - 80]) = [int c1, int c2]"
    using assms(2) by auto
  then have "decodeOID (der_oid c1 c2 arcs)
      = join_char (CHR ''.'') (map int_str ([int c1, int c2] @ map int arcs))"
    using first decode_arcs_all [OF assms(4)]
    by (simp add: decodeOID_def oid Let_def del: of_nat_add)
  then show ?thesis
    by (simp add: oid_str_def int_str_def comp_def)
qed

theorem decodeOID_inverts_der_witness:
  "decodeOID (der_oid 1 3 [6, 1, 4, 1, 311, 21, 8, 16777216]) = oid_str [1, 3, 6, 1, 4, 1, 311, 21, 8, 16777216]"
  by (rule decodeOID_inverts_der) simp_all

text \<open>An object identifier under arc 2 whose second arc needs two bytes is decoded wrongly: the first
  byte is taken alone, so \<open>2.100\<close> comes out with three arcs.\<close>

lemma decodeOID_splits_wide_first_arc:
  "decodeOID (der_oid 2 100 []) = ''2.49.52'' \<and> oid_str [2, 100] = ''2.100''"
  by code_simp

section \<open>Strings\<close>

definition der_length :: "nat \<Rightarrow> bytes" where
  "der_length n = (if n < 128 then [of_nat n] else if n < 256 then [0x81, of_nat n]
     else [0x82, of_nat (n div 256), of_nat (n mod 256)])"

definition utf16_be :: "string \<Rightarrow> bytes" where
  "utf16_be t = concat (map (\<lambda>c. [0, byte_of_char c]) t)"

lemma length_utf16_be [simp]: "length (utf16_be t) = 2 * length t"
  by (induction t) (simp_all add: utf16_be_def)

lemma unat_byte_of_nat [simp]: "n < 256 \<Longrightarrow> unat (of_nat n :: byte) = n"
  by (simp add: unat_of_nat)

lemma unat_byte_of_char [simp]: "unat (byte_of_char c) = code_of c"
  by (simp add: byte_of_char_def unat_of_nat)

text \<open>Reading tag and length: the value is exactly what the length announces.\<close>

lemma decodeASN1String_layout:
  assumes "length v < 65536"
  shows "decodeASN1String (of_nat tag # der_length (length v) @ v) =
    (if unat (of_nat tag :: byte) = tagBMPString then decodeBMPString v else string_of_bytes v)"
proof -
  consider "length v < 128" | "128 \<le> length v" "length v < 256" | "256 \<le> length v" "length v < 65536"
    using assms by linarith
  then show ?thesis
  proof cases
    case 1
    then show ?thesis
      by (simp add: decodeASN1String_def der_length_def slice_def Let_def tag_consts)
  next
    case 2
    then show ?thesis
      by (simp add: decodeASN1String_def der_length_def slice_def Let_def tag_consts)
  next
    case 3
    then have "256 * (length v div 256) + length v mod 256 = length v" "length v div 256 < 256"
      by simp_all
    with 3 show ?thesis
      by (simp add: decodeASN1String_def der_length_def slice_def Let_def tag_consts)
  qed
qed

lemma bmp_runes_utf16_be:
  "list_all (\<lambda>c. 0 < code_of c) t \<Longrightarrow> bmp_runes (utf16_be t) = map code_of t"
  by (induction t) (simp_all add: utf16_be_def)

lemma decodeBMPString_utf16_be:
  assumes "list_all (\<lambda>c. 0 < code_of c \<and> code_of c < 128) t"
  shows "decodeBMPString (utf16_be t) = t"
proof -
  have "map utf8_rune (map code_of t) = map (\<lambda>c. [c]) t"
    using assms by (simp add: utf8_rune_def list_all_iff)
  moreover have "bmp_runes (utf16_be t) = map code_of t"
    using assms by (intro bmp_runes_utf16_be) (simp add: list_all_iff)
  ultimately have "concat (map utf8_rune (bmp_runes (utf16_be t))) = t"
    by (simp only: concat_map_singleton) simp
  then show ?thesis
    by (cases t) (simp_all add: decodeBMPString_def)
qed

text \<open>A template name of ASCII characters other than NUL is read back exactly from the extension,
  whether AD CS wrote it as a BMPString (UTF-16BE) or as a UTF8String, with the length in the short or
  in either long form.\<close>

lemma template_name_round_trip:
  assumes "list_all (\<lambda>c. 0 < code_of c \<and> code_of c < 128) t" and "2 * length t < 65536"
  shows "decodeASN1String (of_nat tagBMPString # der_length (length (utf16_be t)) @ utf16_be t) = t
    \<and> decodeASN1String (of_nat tagUTF8String # der_length (length (bytes_of_string t)) @ bytes_of_string t) = t"
proof
  have "decodeASN1String (of_nat tagBMPString # der_length (length (utf16_be t)) @ utf16_be t)
      = decodeBMPString (utf16_be t)"
    by (subst decodeASN1String_layout) (use assms(2) in \<open>simp_all add: tag_consts\<close>)
  then show "decodeASN1String (of_nat tagBMPString # der_length (length (utf16_be t)) @ utf16_be t) = t"
    using decodeBMPString_utf16_be [OF assms(1)] by simp
  show "decodeASN1String (of_nat tagUTF8String # der_length (length (bytes_of_string t)) @ bytes_of_string t) = t"
    by (subst decodeASN1String_layout) (use assms(2) in \<open>simp_all add: tag_consts\<close>)
qed

end
