(* ===== verification/DnsLabel.thy ===== *)
theory DnsLabel
  imports Prelude
begin

text \<open>
  The DNS labels of machine peers, \<open>management/internals/shared/mtls/dnslabel.go\<close>: a label is the
  sanitised host name followed by a fingerprint of the fully qualified name. The keyed hash
  (\<open>crypto/hmac\<close> over SHA-256) is the parameter \<open>hmac_sha256\<close>, a function of the key and the
  message; what is used of it is that a digest has 32 bytes.
\<close>

section \<open>Definitions\<close>

definition MaxDNSLabelLength :: nat where "MaxDNSLabelLength = 63"

definition HashSuffixLength :: nat where "HashSuffixLength = 16"

definition dnsLabelHMACKey :: string where
  "dnsLabelHMACKey = ''netbird-machine-tunnel-dns-label-v1''"

definition hashSuffixBytes :: nat where "hashSuffixBytes = HashSuffixLength div 2"

lemmas dns_consts = MaxDNSLabelLength_def HashSuffixLength_def hashSuffixBytes_def

definition is_alnum_lower :: "char \<Rightarrow> bool" where
  "is_alnum_lower c \<longleftrightarrow> is_lower c \<or> is_digit c"

text \<open>The regular expression \<open>^[a-z0-9]([-a-z0-9]*[a-z0-9])?$\<close>.\<close>

fun dnsLabelRegex :: "string \<Rightarrow> bool" where
  "dnsLabelRegex [] = False"
| "dnsLabelRegex (c # rest) \<longleftrightarrow> is_alnum_lower c \<and>
     (rest = [] \<or> (list_all (\<lambda>x. x = CHR ''-'' \<or> is_alnum_lower x) (butlast rest)
                   \<and> is_alnum_lower (last rest)))"

text \<open>The function \<open>sanitizeForDNS\<close> hands to \<open>strings.Map\<close>; \<open>None\<close> is the rune -1, dropped.\<close>

definition sanitize_rune :: "char \<Rightarrow> char option" where
  "sanitize_rune r =
     (if is_lower r then Some r
      else if is_digit r then Some r
      else if r = CHR ''-'' then Some r
      else if is_upper r then Some (char_of (code_of r + 32))
      else if r = CHR ''_'' \<or> r = CHR ''.'' \<or> r = CHR '' '' then Some CHR ''-''
      else None)"

text \<open>\<open>strings.Contains(s, "--")\<close> and one pass of \<open>strings.ReplaceAll(s, "--", "-")\<close>.\<close>

fun contains_dashes :: "string \<Rightarrow> bool" where
  "contains_dashes (x # y # s) \<longleftrightarrow> (x = CHR ''-'' \<and> y = CHR ''-'') \<or> contains_dashes (y # s)"
| "contains_dashes _ = False"

fun replace_dashes :: "string \<Rightarrow> string" where
  "replace_dashes (x # y # s) =
     (if x = CHR ''-'' \<and> y = CHR ''-'' then CHR ''-'' # replace_dashes s
      else x # replace_dashes (y # s))"
| "replace_dashes s = s"

lemma length_replace_dashes: "length (replace_dashes s) \<le> length s"
  by (induction s rule: replace_dashes.induct) auto

lemma replace_dashes_shrinks: "contains_dashes s \<Longrightarrow> length (replace_dashes s) < length s"
proof (induction s rule: replace_dashes.induct)
  case (1 x y s)
  then show ?case
    using length_replace_dashes [of s] by (cases "x = CHR ''-'' \<and> y = CHR ''-''") auto
qed simp_all

function collapse_dashes :: "string \<Rightarrow> string" where
  "collapse_dashes s = (if contains_dashes s then collapse_dashes (replace_dashes s) else s)"
  by pat_completeness auto
termination
  by (relation "measure length") (auto simp: replace_dashes_shrinks)

declare collapse_dashes.simps [simp del]

definition sanitizeForDNS :: "string \<Rightarrow> string" where
  "sanitizeForDNS hostname =
     (let result = List.map_filter sanitize_rune hostname;
          result = trim_char (CHR ''-'') result;
          result = collapse_dashes result
      in if result = [] then ''peer'' else result)"

definition fqdnFingerprint :: "(bytes \<Rightarrow> bytes \<Rightarrow> bytes) \<Rightarrow> string \<Rightarrow> string \<Rightarrow> string" where
  "fqdnFingerprint hmac_sha256 hostname domain =
     (let sum = hmac_sha256 (bytes_of_string dnsLabelHMACKey)
                  (bytes_of_string (hostname @ ''.'' @ domain))
      in hex_bytes (take hashSuffixBytes sum))"

definition GenerateUniqueDNSLabel :: "(bytes \<Rightarrow> bytes \<Rightarrow> bytes) \<Rightarrow> string \<Rightarrow> string \<Rightarrow> string" where
  "GenerateUniqueDNSLabel hmac_sha256 hostname domain =
     (let hostname = to_lower hostname;
          domain = to_lower domain;
          fqdnHash = fqdnFingerprint hmac_sha256 hostname domain;
          sanitizedHostname = sanitizeForDNS hostname;
          label = sanitizedHostname @ ''-'' @ fqdnHash
      in if length label > MaxDNSLabelLength then
           (let maxHostLen = MaxDNSLabelLength - HashSuffixLength - 1;
                maxHostLen = (if maxHostLen < 1 then 1 else maxHostLen);
                truncatedHostname = (if length sanitizedHostname > maxHostLen
                                     then take maxHostLen sanitizedHostname else sanitizedHostname);
                truncatedHostname = trim_right_char (CHR ''-'') truncatedHostname
            in truncatedHostname @ ''-'' @ fqdnHash)
         else label)"

datatype label_error = LabelEmpty | LabelTooLong nat | LabelNotRFC1123

definition ValidateDNSLabel :: "string \<Rightarrow> label_error + unit" where
  "ValidateDNSLabel label =
     (if length label = 0 then Inl LabelEmpty
      else if length label > MaxDNSLabelLength then Inl (LabelTooLong (length label))
      else if \<not> dnsLabelRegex label then Inl LabelNotRFC1123
      else Inr ())"

definition CheckDNSLabelCollision :: "string \<Rightarrow> string \<Rightarrow> bool" where
  "CheckDNSLabelCollision label existingPeerID = (if existingPeerID \<noteq> [] then True else False)"

section \<open>Sanitising\<close>

definition label_char :: "char \<Rightarrow> bool" where
  "label_char c \<longleftrightarrow> c = CHR ''-'' \<or> is_alnum_lower c"

lemma not_alnum_dash [simp]: "\<not> is_alnum_lower CHR ''-''"
  by (simp add: is_alnum_lower_def is_lower_def is_digit_def)

lemma sanitize_rune_char: "sanitize_rune r = Some c \<Longrightarrow> label_char c"
  by (auto simp: sanitize_rune_def label_char_def is_alnum_lower_def is_lower_def is_upper_def
      split: if_splits)

lemma map_filter_sanitize: "list_all label_char (List.map_filter sanitize_rune s)"
  by (auto simp: list_all_iff List.map_filter_def sanitize_rune_char)

lemma replace_dashes_set: "set (replace_dashes s) \<subseteq> set s"
  by (induction s rule: replace_dashes.induct) auto

lemma replace_dashes_Nil [simp]: "replace_dashes s = [] \<longleftrightarrow> s = []"
  by (cases s rule: replace_dashes.cases) auto

lemma replace_dashes_hd: "hd (replace_dashes s) = hd s"
  by (cases s rule: replace_dashes.cases) auto

lemma replace_dashes_last: "last (replace_dashes s) = last s"
proof (induction s rule: replace_dashes.induct)
  case (1 x y s)
  then show ?case
    by (cases "s = []") (auto simp: last_ConsR)
qed simp_all

text \<open>A well-formed host part: label characters, with letters or digits at both ends.\<close>

definition host_part :: "string \<Rightarrow> bool" where
  "host_part s \<longleftrightarrow> s \<noteq> [] \<and> list_all label_char s \<and> is_alnum_lower (hd s) \<and> is_alnum_lower (last s)"

lemma collapse_dashes_host_part: "host_part s \<Longrightarrow> host_part (collapse_dashes s)"
proof (induction s rule: collapse_dashes.induct)
  case (1 s)
  show ?case
  proof (cases "contains_dashes s")
    case True
    have "host_part (replace_dashes s)"
      using "1.prems" replace_dashes_set [of s]
      by (auto simp: host_part_def replace_dashes_hd replace_dashes_last list_all_iff)
    with True "1.IH" show ?thesis
      by (simp add: collapse_dashes.simps [of s])
  next
    case False
    with "1.prems" show ?thesis
      by (simp add: collapse_dashes.simps [of s])
  qed
qed

lemma collapse_dashes_single: "\<not> contains_dashes (collapse_dashes s)"
proof (induction s rule: collapse_dashes.induct)
  case (1 s)
  then show ?case
    by (cases "contains_dashes s") (simp_all add: collapse_dashes.simps [of s])
qed

lemma trim_char_host_part:
  assumes "list_all label_char s" and "trim_char (CHR ''-'') s \<noteq> []"
  shows "host_part (trim_char (CHR ''-'') s)"
proof -
  let ?t = "trim_char (CHR ''-'') s"
  have lc: "list_all label_char ?t"
    using assms(1) set_trim_char [of "CHR ''-''" s] by (auto simp: list_all_iff)
  then have "label_char (hd ?t)" "label_char (last ?t)"
    using assms(2) by (simp_all add: list_all_iff)
  moreover have "hd ?t \<noteq> CHR ''-''" "last ?t \<noteq> CHR ''-''"
    using assms(2) trim_char_cases [of "CHR ''-''" s] by auto
  ultimately show ?thesis
    using assms(2) lc by (simp add: host_part_def label_char_def)
qed

lemma collapse_dashes_Nil [simp]: "collapse_dashes [] = []"
  by (simp add: collapse_dashes.simps)

lemma sanitizeForDNS_host_part: "host_part (sanitizeForDNS s)"
proof -
  let ?t = "trim_char (CHR ''-'') (List.map_filter sanitize_rune s)"
  have peer: "host_part ''peer''"
    by (simp add: host_part_def label_char_def is_alnum_lower_def is_lower_def)
  show ?thesis
  proof (cases "?t = []")
    case True
    with peer show ?thesis by (simp add: sanitizeForDNS_def)
  next
    case False
    then have "host_part (collapse_dashes ?t)"
      by (intro collapse_dashes_host_part trim_char_host_part map_filter_sanitize)
    with peer show ?thesis by (simp add: sanitizeForDNS_def Let_def)
  qed
qed

section \<open>Labels\<close>

lemma length_fqdnFingerprint:
  assumes "\<And>k m. length (hmac_sha256 k m) = 32"
  shows "length (fqdnFingerprint hmac_sha256 h d) = HashSuffixLength"
  using assms by (simp add: fqdnFingerprint_def dns_consts)

lemma fqdnFingerprint_chars: "list_all is_alnum_lower (fqdnFingerprint hmac_sha256 h d)"
  using hex_bytes_class by (auto simp: fqdnFingerprint_def list_all_iff is_alnum_lower_def)

lemma dnsLabelRegex_intro:
  assumes "s \<noteq> []" and "is_alnum_lower (hd s)" and "is_alnum_lower (last s)" and "list_all label_char s"
  shows "dnsLabelRegex s"
proof -
  obtain c rest where s: "s = c # rest"
    using assms(1) by (cases s) simp_all
  have "list_all label_char (butlast rest)"
    using assms(4) s in_set_butlastD by (force simp: list_all_iff)
  moreover have "rest \<noteq> [] \<Longrightarrow> last s = last rest"
    using s by simp
  ultimately show ?thesis
    using assms(2,3) s by (auto simp: label_char_def [abs_def] split: if_splits)
qed

text \<open>Every label is a host part that starts with a letter or digit, a dash and the fingerprint.\<close>

lemma GenerateUniqueDNSLabel_shape:
  assumes "\<And>k m. length (hmac_sha256 k m) = 32"
  obtains h where "GenerateUniqueDNSLabel hmac_sha256 hostname domain
      = h @ ''-'' @ fqdnFingerprint hmac_sha256 (to_lower hostname) (to_lower domain)"
    and "h \<noteq> []" and "is_alnum_lower (hd h)" and "list_all label_char h" and "length h \<le> 46"
proof -
  let ?s = "sanitizeForDNS (to_lower hostname)"
  let ?f = "fqdnFingerprint hmac_sha256 (to_lower hostname) (to_lower domain)"
  have s: "?s \<noteq> []" "list_all label_char ?s" "is_alnum_lower (hd ?s)"
    using sanitizeForDNS_host_part by (simp_all add: host_part_def)
  have f: "length ?f = 16"
    using assms length_fqdnFingerprint by (simp add: dns_consts)
  show thesis
  proof (cases "length ?s > 46")
    case True
    let ?h = "trim_right_char (CHR ''-'') (take 46 ?s)"
    have "hd (take 46 ?s) = hd ?s" "take 46 ?s \<noteq> []" "hd ?s \<noteq> CHR ''-''"
      using s by (auto simp: hd_take)
    then have "?h \<noteq> [] \<and> hd ?h = hd ?s"
      using trim_right_char_hd [of "take 46 ?s" "CHR ''-''"] by simp
    moreover have "list_all label_char ?h"
      using s(2) set_trim_right_char [of "CHR ''-''" "take 46 ?s"]
      by (auto simp: list_all_iff dest: in_set_takeD)
    moreover have "length ?h \<le> 46"
      using trim_right_char_length [of "CHR ''-''" "take 46 ?s"] by simp
    moreover have "GenerateUniqueDNSLabel hmac_sha256 hostname domain = ?h @ ''-'' @ ?f"
      using True f by (simp add: GenerateUniqueDNSLabel_def Let_def dns_consts)
    ultimately show thesis
      using s(3) by (intro that [of ?h]) auto
  next
    case False
    then have "GenerateUniqueDNSLabel hmac_sha256 hostname domain = ?s @ ''-'' @ ?f"
      using f by (simp add: GenerateUniqueDNSLabel_def Let_def dns_consts)
    with s False show thesis
      by (intro that [of ?s]) auto
  qed
qed

lemma GenerateUniqueDNSLabel_valid:
  assumes "\<And>k m. length (hmac_sha256 k m) = 32"
  shows "ValidateDNSLabel (GenerateUniqueDNSLabel hmac_sha256 hostname domain) = Inr ()"
proof -
  let ?f = "fqdnFingerprint hmac_sha256 (to_lower hostname) (to_lower domain)"
  obtain h where h: "GenerateUniqueDNSLabel hmac_sha256 hostname domain = h @ ''-'' @ ?f"
    "h \<noteq> []" "is_alnum_lower (hd h)" "list_all label_char h" "length h \<le> 46"
    by (rule GenerateUniqueDNSLabel_shape [OF assms])
  have f: "length ?f = 16" "list_all is_alnum_lower ?f"
    using assms length_fqdnFingerprint fqdnFingerprint_chars by (simp_all add: dns_consts)
  then have "?f \<noteq> []" by auto
  then have "is_alnum_lower (last ?f)"
    using f(2) by (simp add: list_all_iff)
  then have "dnsLabelRegex (h @ ''-'' @ ?f)"
    using h f \<open>?f \<noteq> []\<close> by (intro dnsLabelRegex_intro) (auto simp: label_char_def list_all_iff)
  with h f show ?thesis
    by (simp add: ValidateDNSLabel_def dns_consts)
qed

section \<open>Properties\<close>

text \<open>C23: Whatever the host name and the domain are (empty, over-long, full of characters DNS does not
  allow), the label \<open>GenerateUniqueDNSLabel\<close> makes passes \<open>ValidateDNSLabel\<close>: 1 to 63 characters,
  lower-case letters, digits and inner hyphens only.\<close>

theorem generated_label_valid:
  assumes "\<And>k m. length (hmac_sha256 k m) = 32"
  shows "ValidateDNSLabel (GenerateUniqueDNSLabel hmac_sha256 hostname domain) = Inr ()"
  using assms by (rule GenerateUniqueDNSLabel_valid)

theorem generated_label_valid_witness:
  "ValidateDNSLabel (GenerateUniqueDNSLabel (\<lambda>k m. replicate 32 171) ''Win10_PC..'' ''corp.local'') = Inr ()"
  by (rule generated_label_valid) simp

text \<open>Two machines get the same label only when the 64-bit fingerprints of their fully qualified,
  lower-cased names agree: truncating a long host name never merges two labels that the hash keeps
  apart. The label does not depend on the case in which host name and domain are written.\<close>

lemma label_collision_needs_hash_collision:
  assumes "\<And>k m. length (hmac_sha256 k m) = 32"
  shows "(GenerateUniqueDNSLabel hmac_sha256 h1 d1 = GenerateUniqueDNSLabel hmac_sha256 h2 d2 \<longrightarrow>
      fqdnFingerprint hmac_sha256 (to_lower h1) (to_lower d1) = fqdnFingerprint hmac_sha256 (to_lower h2) (to_lower d2))
    \<and> GenerateUniqueDNSLabel hmac_sha256 (to_lower h1) (to_lower d1) = GenerateUniqueDNSLabel hmac_sha256 h1 d1"
proof
  let ?f1 = "fqdnFingerprint hmac_sha256 (to_lower h1) (to_lower d1)"
  let ?f2 = "fqdnFingerprint hmac_sha256 (to_lower h2) (to_lower d2)"
  obtain a where a: "GenerateUniqueDNSLabel hmac_sha256 h1 d1 = a @ ''-'' @ ?f1"
    by (rule GenerateUniqueDNSLabel_shape [OF assms])
  obtain b where b: "GenerateUniqueDNSLabel hmac_sha256 h2 d2 = b @ ''-'' @ ?f2"
    by (rule GenerateUniqueDNSLabel_shape [OF assms])
  have len: "length ?f1 = length ?f2"
    using assms length_fqdnFingerprint by simp
  show "GenerateUniqueDNSLabel hmac_sha256 h1 d1 = GenerateUniqueDNSLabel hmac_sha256 h2 d2 \<longrightarrow> ?f1 = ?f2"
  proof
    assume "GenerateUniqueDNSLabel hmac_sha256 h1 d1 = GenerateUniqueDNSLabel hmac_sha256 h2 d2"
    then have "(a @ ''-'') @ ?f1 = (b @ ''-'') @ ?f2"
      using a b by simp
    with len show "?f1 = ?f2"
      using append_eq_append_conv [of "a @ ''-''" "b @ ''-''" ?f1 ?f2] by blast
  qed
  show "GenerateUniqueDNSLabel hmac_sha256 (to_lower h1) (to_lower d1) = GenerateUniqueDNSLabel hmac_sha256 h1 d1"
    by (simp add: GenerateUniqueDNSLabel_def)
qed

end
