(* ===== verification/RelayMessages.thy ===== *)
theory RelayMessages
  imports Prelude
begin

text \<open>
  The wire format of the relay protocol: \<open>shared/relay/messages\<close> (\<open>message.go\<close>, \<open>id.go\<close>,
  \<open>peer_state.go\<close>). Every message is a version byte, a type byte and a body. The buffers are
  built as the Go code builds them (allocate, assign by index, \<open>copy\<close> into the tail), and the
  decoders slice at the same offsets. A \<open>PeerID\<close> is an array of 36 bytes, \<open>PeerID_ok\<close> its length.
\<close>

section \<open>Constants\<close>

definition MaxHandshakeSize :: nat where "MaxHandshakeSize = 212"

definition MaxHandshakeRespSize :: nat where "MaxHandshakeRespSize = 8192"

definition MaxMessageSize :: nat where "MaxMessageSize = 8820"

definition CurrentProtocolVersion :: byte where "CurrentProtocolVersion = 1"

type_synonym MsgType = byte

abbreviation (input) MsgTypeUnknown :: MsgType where "MsgTypeUnknown \<equiv> 0"

abbreviation (input) MsgTypeHello :: MsgType where "MsgTypeHello \<equiv> 1"

abbreviation (input) MsgTypeHelloResponse :: MsgType where "MsgTypeHelloResponse \<equiv> 2"

abbreviation (input) MsgTypeTransport :: MsgType where "MsgTypeTransport \<equiv> 3"

abbreviation (input) MsgTypeClose :: MsgType where "MsgTypeClose \<equiv> 4"

abbreviation (input) MsgTypeHealthCheck :: MsgType where "MsgTypeHealthCheck \<equiv> 5"

abbreviation (input) MsgTypeAuth :: MsgType where "MsgTypeAuth \<equiv> 6"

abbreviation (input) MsgTypeAuthResponse :: MsgType where "MsgTypeAuthResponse \<equiv> 7"

abbreviation (input) MsgTypeSubscribePeerState :: MsgType where "MsgTypeSubscribePeerState \<equiv> 8"

abbreviation (input) MsgTypeUnsubscribePeerState :: MsgType where "MsgTypeUnsubscribePeerState \<equiv> 9"

abbreviation (input) MsgTypePeersOnline :: MsgType where "MsgTypePeersOnline \<equiv> 10"

abbreviation (input) MsgTypePeersWentOffline :: MsgType where "MsgTypePeersWentOffline \<equiv> 11"

definition prefixLength :: nat where "prefixLength = 4"

definition peerIDSize :: nat where "peerIDSize = prefixLength + 32"

definition sizeOfProtoHeader :: nat where "sizeOfProtoHeader = 1 + 1"

definition sizeOfMagicByte :: nat where "sizeOfMagicByte = 4"

definition offsetMagicByte :: nat where "offsetMagicByte = sizeOfProtoHeader"

definition offsetAuthPeerID :: nat where "offsetAuthPeerID = sizeOfProtoHeader + sizeOfMagicByte"

definition headerTotalSizeAuth :: nat where
  "headerTotalSizeAuth = sizeOfProtoHeader + (sizeOfMagicByte + peerIDSize)"

definition headerSizeHello :: nat where "headerSizeHello = sizeOfMagicByte + peerIDSize"

definition headerSizeHelloResp :: nat where "headerSizeHelloResp = 0"

definition offsetTransportID :: nat where "offsetTransportID = sizeOfProtoHeader"

definition headerTotalSizeTransport :: nat where
  "headerTotalSizeTransport = sizeOfProtoHeader + peerIDSize"

definition maxPeersPerMessage :: nat where
  "maxPeersPerMessage = (MaxMessageSize - sizeOfProtoHeader) div peerIDSize"

definition magicHeader :: bytes where "magicHeader = [0x21, 0x12, 0xA4, 0x42]"

definition healthCheckMsg :: bytes where
  "healthCheckMsg = [CurrentProtocolVersion, MsgTypeHealthCheck]"

lemmas message_consts =
  MaxHandshakeSize_def MaxHandshakeRespSize_def MaxMessageSize_def CurrentProtocolVersion_def
  prefixLength_def peerIDSize_def sizeOfProtoHeader_def sizeOfMagicByte_def offsetMagicByte_def
  offsetAuthPeerID_def headerTotalSizeAuth_def headerSizeHello_def headerSizeHelloResp_def
  offsetTransportID_def headerTotalSizeTransport_def maxPeersPerMessage_def magicHeader_def
  healthCheckMsg_def

declare message_consts [wire_simps]

datatype msg_error =
    ErrInvalidMessageLength
  | ErrUnsupportedVersion byte
  | ErrInvalidMsgType byte
  | ErrInvalidMagicHeader
  | ErrTooLargeAuthPayload
  | ErrResponseTooLong nat
  | ErrNoPeerIDs
  | ErrInvalidMessageFormat
  | ErrInvalidPeerListSize nat

section \<open>Peer identifiers\<close>

type_synonym PeerID = bytes

definition PeerID_ok :: "PeerID \<Rightarrow> bool" where
  "PeerID_ok p \<longleftrightarrow> length p = peerIDSize"

definition peerid_prefix :: bytes where
  "peerid_prefix = bytes_of_string ''sha-''"

text \<open>\<open>sha256\<close> stands for \<open>crypto/sha256.Sum256\<close>.\<close>

definition HashID :: "(bytes \<Rightarrow> bytes) \<Rightarrow> string \<Rightarrow> PeerID" where
  "HashID sha256 peerID =
     (let idHash = sha256 (bytes_of_string peerID);
          prefixedHash = replicate peerIDSize 0;
          prefixedHash = copy_at 0 peerid_prefix prefixedHash
      in copy_at prefixLength idHash prefixedHash)"

section \<open>Reading the header\<close>

definition ValidateVersion :: "bytes \<Rightarrow> msg_error + byte" where
  "ValidateVersion msg =
     (if length msg < sizeOfProtoHeader then Inl ErrInvalidMessageLength
      else if msg ! 0 \<noteq> CurrentProtocolVersion then Inl (ErrUnsupportedVersion (msg ! 0))
      else Inr (msg ! 0))"

definition DetermineClientMessageType :: "bytes \<Rightarrow> msg_error + MsgType" where
  "DetermineClientMessageType msg =
     (if length msg < sizeOfProtoHeader then Inl ErrInvalidMessageLength
      else let msgType = msg ! 1 in
        if msgType \<in> {MsgTypeHello, MsgTypeAuth, MsgTypeTransport, MsgTypeClose, MsgTypeHealthCheck,
                       MsgTypeSubscribePeerState, MsgTypeUnsubscribePeerState}
        then Inr msgType else Inl (ErrInvalidMsgType msgType))"

definition DetermineServerMessageType :: "bytes \<Rightarrow> msg_error + MsgType" where
  "DetermineServerMessageType msg =
     (if length msg < sizeOfProtoHeader then Inl ErrInvalidMessageLength
      else let msgType = msg ! 1 in
        if msgType \<in> {MsgTypeHelloResponse, MsgTypeAuthResponse, MsgTypeTransport, MsgTypeClose,
                       MsgTypeHealthCheck, MsgTypePeersOnline, MsgTypePeersWentOffline}
        then Inr msgType else Inl (ErrInvalidMsgType msgType))"

section \<open>The deprecated hello exchange\<close>

definition MarshalHelloMsg :: "PeerID \<Rightarrow> bytes \<Rightarrow> msg_error + bytes" where
  "MarshalHelloMsg peerID additions =
     (let msg = replicate (sizeOfProtoHeader + sizeOfMagicByte) 0;
          msg = msg[0 := CurrentProtocolVersion];
          msg = msg[1 := MsgTypeHello];
          msg = copy_at sizeOfProtoHeader magicHeader msg
      in Inr (msg @ peerID @ additions))"

definition UnmarshalHelloMsg :: "bytes \<Rightarrow> msg_error + PeerID \<times> bytes" where
  "UnmarshalHelloMsg msg =
     (if length msg < sizeOfProtoHeader + headerSizeHello then Inl ErrInvalidMessageLength
      else if slice sizeOfProtoHeader (sizeOfProtoHeader + sizeOfMagicByte) msg \<noteq> magicHeader
      then Inl ErrInvalidMagicHeader
      else Inr (slice (sizeOfProtoHeader + sizeOfMagicByte) (sizeOfProtoHeader + headerSizeHello) msg,
                drop headerSizeHello msg))"

definition MarshalHelloResponse :: "bytes \<Rightarrow> msg_error + bytes" where
  "MarshalHelloResponse additionalData =
     (let msg = replicate sizeOfProtoHeader 0;
          msg = msg[0 := CurrentProtocolVersion];
          msg = msg[1 := MsgTypeHelloResponse]
      in Inr (msg @ additionalData))"

definition UnmarshalHelloResponse :: "bytes \<Rightarrow> msg_error + bytes" where
  "UnmarshalHelloResponse msg =
     (if length msg < sizeOfProtoHeader + headerSizeHelloResp then Inl ErrInvalidMessageLength
      else Inr msg)"

section \<open>The auth exchange\<close>

definition MarshalAuthMsg :: "PeerID \<Rightarrow> bytes \<Rightarrow> msg_error + bytes" where
  "MarshalAuthMsg peerID authPayload =
     (if headerTotalSizeAuth + length authPayload > MaxHandshakeSize then Inl ErrTooLargeAuthPayload
      else
        let msg = replicate (headerTotalSizeAuth + length authPayload) 0;
            msg = msg[0 := CurrentProtocolVersion];
            msg = msg[1 := MsgTypeAuth];
            msg = copy_at sizeOfProtoHeader magicHeader msg;
            msg = copy_at offsetAuthPeerID peerID msg;
            msg = copy_at headerTotalSizeAuth authPayload msg
        in Inr msg)"

definition UnmarshalAuthMsg :: "bytes \<Rightarrow> msg_error + PeerID \<times> bytes" where
  "UnmarshalAuthMsg msg =
     (if length msg < headerTotalSizeAuth then Inl ErrInvalidMessageLength
      else if slice offsetMagicByte (offsetMagicByte + sizeOfMagicByte) msg \<noteq> magicHeader
      then Inl ErrInvalidMagicHeader
      else Inr (slice offsetAuthPeerID headerTotalSizeAuth msg, drop headerTotalSizeAuth msg))"

definition MarshalAuthResponse :: "string \<Rightarrow> msg_error + bytes" where
  "MarshalAuthResponse address =
     (let ab = bytes_of_string address;
          msg = replicate sizeOfProtoHeader 0;
          msg = msg[0 := CurrentProtocolVersion];
          msg = msg[1 := MsgTypeAuthResponse];
          msg = msg @ ab
      in if length msg > MaxHandshakeRespSize then Inl (ErrResponseTooLong (length msg)) else Inr msg)"

definition UnmarshalAuthResponse :: "bytes \<Rightarrow> msg_error + string" where
  "UnmarshalAuthResponse msg =
     (if length msg < sizeOfProtoHeader + 1 then Inl ErrInvalidMessageLength
      else Inr (string_of_bytes (drop sizeOfProtoHeader msg)))"

section \<open>Close, health check and transport\<close>

definition MarshalCloseMsg :: bytes where
  "MarshalCloseMsg = [CurrentProtocolVersion, MsgTypeClose]"

definition MarshalHealthcheck :: bytes where
  "MarshalHealthcheck = healthCheckMsg"

definition MarshalTransportMsg :: "PeerID \<Rightarrow> bytes \<Rightarrow> msg_error + bytes" where
  "MarshalTransportMsg peerID payload =
     (let msg = replicate (headerTotalSizeTransport + length payload) 0;
          msg = msg[0 := CurrentProtocolVersion];
          msg = msg[1 := MsgTypeTransport];
          msg = copy_at sizeOfProtoHeader peerID msg;
          msg = copy_at (sizeOfProtoHeader + peerIDSize) payload msg
      in Inr msg)"

definition UnmarshalTransportMsg :: "bytes \<Rightarrow> msg_error + PeerID \<times> bytes" where
  "UnmarshalTransportMsg buf =
     (if length buf < headerTotalSizeTransport then Inl ErrInvalidMessageLength
      else Inr (copy_at 0 (slice offsetTransportID (offsetTransportID + peerIDSize) buf)
                  (replicate peerIDSize 0),
                drop headerTotalSizeTransport buf))"

definition UnmarshalTransportID :: "bytes \<Rightarrow> msg_error + PeerID" where
  "UnmarshalTransportID buf =
     (if length buf < headerTotalSizeTransport then Inl ErrInvalidMessageLength
      else Inr (copy_at 0 (slice offsetTransportID (offsetTransportID + peerIDSize) buf)
                  (replicate peerIDSize 0)))"

text \<open>The update is in place: the result is the caller's buffer after the call.\<close>

definition UpdateTransportMsg :: "bytes \<Rightarrow> PeerID \<Rightarrow> msg_error + bytes" where
  "UpdateTransportMsg msg peerID =
     (if length msg < offsetTransportID + peerIDSize then Inl ErrInvalidMessageLength
      else Inr (copy_at offsetTransportID peerID msg))"

section \<open>Lists of peer identifiers\<close>

text \<open>The inner loop of \<open>marshalPeerIDs\<close>: each identifier at the next offset.\<close>

fun copy_ids :: "nat \<Rightarrow> PeerID list \<Rightarrow> bytes \<Rightarrow> bytes" where
  "copy_ids offset [] buf = buf"
| "copy_ids offset (pid # ids) buf = copy_ids (offset + peerIDSize) ids (copy_at offset pid buf)"

definition marshal_chunk :: "PeerID list \<Rightarrow> byte \<Rightarrow> bytes" where
  "marshal_chunk chunk msgType =
     (let totalSize = sizeOfProtoHeader + length chunk * peerIDSize;
          buf = replicate totalSize 0;
          buf = buf[0 := CurrentProtocolVersion];
          buf = buf[1 := msgType]
      in copy_ids sizeOfProtoHeader chunk buf)"

function marshal_from :: "nat \<Rightarrow> PeerID list \<Rightarrow> byte \<Rightarrow> bytes list" where
  "marshal_from i ids msgType =
     (if i < length ids then
        let stop = (if i + maxPeersPerMessage > length ids then length ids else i + maxPeersPerMessage)
        in marshal_chunk (slice i stop ids) msgType # marshal_from (i + maxPeersPerMessage) ids msgType
      else [])"
  by pat_completeness auto
termination
  by (relation "measure (\<lambda>(i, ids, t). length ids - i)") (auto simp: wire_simps)

declare marshal_from.simps [simp del]

definition marshalPeerIDs :: "PeerID list \<Rightarrow> byte \<Rightarrow> msg_error + bytes list" where
  "marshalPeerIDs ids msgType =
     (if length ids = 0 then Inl ErrNoPeerIDs else Inr (marshal_from 0 ids msgType))"

fun read_ids :: "nat \<Rightarrow> nat \<Rightarrow> bytes \<Rightarrow> PeerID list" where
  "read_ids 0 offset buf = []"
| "read_ids (Suc n) offset buf =
     copy_at 0 (slice offset (offset + peerIDSize) buf) (replicate peerIDSize 0)
       # read_ids n (offset + peerIDSize) buf"

definition unmarshalPeerIDs :: "bytes \<Rightarrow> msg_error + PeerID list" where
  "unmarshalPeerIDs buf =
     (if length buf < sizeOfProtoHeader then Inl ErrInvalidMessageFormat
      else if (length buf - sizeOfProtoHeader) mod peerIDSize \<noteq> 0
      then Inl (ErrInvalidPeerListSize (length buf - sizeOfProtoHeader))
      else let numIDs = (length buf - sizeOfProtoHeader) div peerIDSize
           in Inr (read_ids numIDs sizeOfProtoHeader buf))"

definition MarshalSubPeerStateMsg :: "PeerID list \<Rightarrow> msg_error + bytes list" where
  "MarshalSubPeerStateMsg ids = marshalPeerIDs ids MsgTypeSubscribePeerState"

definition UnmarshalSubPeerStateMsg :: "bytes \<Rightarrow> msg_error + PeerID list" where
  "UnmarshalSubPeerStateMsg buf = unmarshalPeerIDs buf"

definition MarshalUnsubPeerStateMsg :: "PeerID list \<Rightarrow> msg_error + bytes list" where
  "MarshalUnsubPeerStateMsg ids = marshalPeerIDs ids MsgTypeUnsubscribePeerState"

definition UnmarshalUnsubPeerStateMsg :: "bytes \<Rightarrow> msg_error + PeerID list" where
  "UnmarshalUnsubPeerStateMsg buf = unmarshalPeerIDs buf"

definition MarshalPeersOnline :: "PeerID list \<Rightarrow> msg_error + bytes list" where
  "MarshalPeersOnline ids = marshalPeerIDs ids MsgTypePeersOnline"

definition UnmarshalPeersOnlineMsg :: "bytes \<Rightarrow> msg_error + PeerID list" where
  "UnmarshalPeersOnlineMsg buf = unmarshalPeerIDs buf"

definition MarshalPeersWentOffline :: "PeerID list \<Rightarrow> msg_error + bytes list" where
  "MarshalPeersWentOffline ids = marshalPeerIDs ids MsgTypePeersWentOffline"

definition UnMarshalPeersWentOffline :: "bytes \<Rightarrow> msg_error + PeerID list" where
  "UnMarshalPeersWentOffline buf = unmarshalPeerIDs buf"

section \<open>Layout of the encoded messages\<close>

lemma sizeOfProtoHeader_eq: "sizeOfProtoHeader = 2"
  by (simp add: sizeOfProtoHeader_def)

lemma replicate_small: "replicate 2 x = [x, x]" "replicate 4 x = [x, x, x, x]"
  by (simp_all add: numeral_eq_Suc)

lemma MarshalAuthMsg_layout:
  assumes "PeerID_ok p" "headerTotalSizeAuth + length pl \<le> MaxHandshakeSize"
  shows "MarshalAuthMsg p pl = Inr ([CurrentProtocolVersion, MsgTypeAuth] @ magicHeader @ p @ pl)"
proof -
  let ?n = "replicate (length pl) (0::byte)" and ?h = "[CurrentProtocolVersion, MsgTypeAuth]"
  let ?z = "replicate 36 0 @ ?n"
  have p: "length p = 36" and m: "length magicHeader = 4"
    using assms(1) by (simp_all add: PeerID_ok_def wire_simps)
  have "replicate (headerTotalSizeAuth + length pl) 0 = replicate 2 0 @ replicate 4 0 @ ?z"
    by (simp add: wire_simps flip: replicate_add)
  then have z: "replicate (headerTotalSizeAuth + length pl) 0 = [0, 0] @ [0, 0, 0, 0] @ ?z"
    by (simp add: replicate_small)
  have 1: "copy_at 2 magicHeader (?h @ [0, 0, 0, 0] @ ?z) = ?h @ magicHeader @ ?z"
    by (rule copy_at_append) (simp_all add: m)
  have 2: "copy_at 6 p ((?h @ magicHeader) @ replicate 36 0 @ ?n) = (?h @ magicHeader) @ p @ ?n"
    by (rule copy_at_append) (simp_all add: m p)
  have 3: "copy_at 42 pl ((?h @ magicHeader @ p) @ ?n @ []) = (?h @ magicHeader @ p) @ pl @ []"
    by (rule copy_at_append) (simp_all add: m p)
  show ?thesis
    using assms(2) 1 2 3 unfolding MarshalAuthMsg_def z
    by (simp add: offsetAuthPeerID_def sizeOfProtoHeader_eq sizeOfMagicByte_def
        headerTotalSizeAuth_def peerIDSize_def prefixLength_def)
qed

lemma MarshalTransportMsg_layout:
  assumes "PeerID_ok p"
  shows "MarshalTransportMsg p pl = Inr ([CurrentProtocolVersion, MsgTypeTransport] @ p @ pl)"
proof -
  let ?n = "replicate (length pl) (0::byte)" and ?h = "[CurrentProtocolVersion, MsgTypeTransport]"
  have p: "length p = 36"
    using assms(1) by (simp add: PeerID_ok_def wire_simps)
  have "replicate (headerTotalSizeTransport + length pl) 0 = replicate 2 0 @ replicate 36 0 @ ?n"
    by (simp add: wire_simps flip: replicate_add)
  then have z: "replicate (headerTotalSizeTransport + length pl) 0 = [0, 0] @ replicate 36 0 @ ?n"
    by (simp add: replicate_small)
  have 1: "copy_at 2 p (?h @ replicate 36 0 @ ?n) = ?h @ p @ ?n"
    by (rule copy_at_append) (simp_all add: p)
  have 2: "copy_at 38 pl ((?h @ p) @ ?n @ []) = (?h @ p) @ pl @ []"
    by (rule copy_at_append) (simp_all add: p)
  show ?thesis
    using 1 2 unfolding MarshalTransportMsg_def z
    by (simp add: sizeOfProtoHeader_eq peerIDSize_def prefixLength_def)
qed

lemma MarshalHelloMsg_layout:
  "MarshalHelloMsg p a = Inr ([CurrentProtocolVersion, MsgTypeHello] @ magicHeader @ p @ a)"
proof -
  let ?h = "[CurrentProtocolVersion, MsgTypeHello]"
  have "replicate (sizeOfProtoHeader + sizeOfMagicByte) (0::byte) = replicate 2 0 @ replicate 4 0"
    by (simp add: sizeOfProtoHeader_eq sizeOfMagicByte_def flip: replicate_add)
  then have z: "replicate (sizeOfProtoHeader + sizeOfMagicByte) (0::byte) = [0, 0] @ [0, 0, 0, 0]"
    by (simp add: replicate_small)
  have 1: "copy_at 2 magicHeader (?h @ [0, 0, 0, 0] @ []) = ?h @ magicHeader @ []"
    by (rule copy_at_append) (simp_all add: magicHeader_def)
  show ?thesis
    using 1 unfolding MarshalHelloMsg_def z by (simp add: sizeOfProtoHeader_eq)
qed

lemma MarshalAuthResponse_layout:
  "length address \<le> 8190 \<Longrightarrow>
   MarshalAuthResponse address = Inr ([CurrentProtocolVersion, MsgTypeAuthResponse] @ bytes_of_string address)"
  by (simp add: MarshalAuthResponse_def sizeOfProtoHeader_eq MaxHandshakeRespSize_def replicate_small)

text \<open>An array filled by \<open>copy\<close> from a slice of its own length is that slice.\<close>

lemma copy_at_whole [simp]: "length src = n \<Longrightarrow> copy_at 0 src (replicate n x) = src"
  by (simp add: copy_at_def)

section \<open>Decoding what was encoded\<close>

lemma UnmarshalAuthMsg_layout:
  assumes "PeerID_ok p"
  shows "UnmarshalAuthMsg ([v, t] @ magicHeader @ p @ pl) = Inr (p, pl)"
proof -
  have p: "length p = 36" and m: "length magicHeader = 4"
    using assms by (simp_all add: PeerID_ok_def wire_simps)
  have 1: "slice 2 6 ([v, t] @ magicHeader @ p @ pl) = magicHeader"
    by (rule slice_append_mid) (simp_all add: m)
  have 2: "slice 6 42 (([v, t] @ magicHeader) @ p @ pl) = p"
    by (rule slice_append_mid) (simp_all add: m p)
  show ?thesis
    using 1 2 by (simp add: UnmarshalAuthMsg_def offsetAuthPeerID_def offsetMagicByte_def
        sizeOfProtoHeader_eq sizeOfMagicByte_def headerTotalSizeAuth_def peerIDSize_def prefixLength_def
        m p)
qed

lemma UnmarshalTransportMsg_layout:
  assumes "PeerID_ok p"
  shows "UnmarshalTransportMsg ([v, t] @ p @ pl) = Inr (p, pl)"
    and "UnmarshalTransportID ([v, t] @ p @ pl) = Inr p"
proof -
  have p: "length p = 36"
    using assms by (simp add: PeerID_ok_def wire_simps)
  have "slice 2 38 ([v, t] @ p @ pl) = p"
    by (rule slice_append_mid) (simp_all add: p)
  then show "UnmarshalTransportMsg ([v, t] @ p @ pl) = Inr (p, pl)"
    and "UnmarshalTransportID ([v, t] @ p @ pl) = Inr p"
    by (simp_all add: UnmarshalTransportMsg_def UnmarshalTransportID_def offsetTransportID_def
        sizeOfProtoHeader_eq headerTotalSizeTransport_def peerIDSize_def prefixLength_def p)
qed

lemma transport_split:
  assumes "length msg \<ge> headerTotalSizeTransport"
  obtains v t p pl where "msg = [v, t] @ p @ pl" "PeerID_ok p"
proof -
  have l: "38 \<le> length msg"
    using assms by (simp add: wire_simps)
  then obtain v t rest where m: "msg = v # t # rest"
    by (cases msg; cases "tl msg") auto
  with l have "PeerID_ok (take 36 rest)"
    by (simp add: PeerID_ok_def wire_simps)
  moreover from m have "msg = [v, t] @ take 36 rest @ drop 36 rest"
    by simp
  ultimately show ?thesis
    using that by blast
qed

lemma UpdateTransportMsg_layout:
  assumes "PeerID_ok p" "PeerID_ok q"
  shows "UpdateTransportMsg ([v, t] @ p @ pl) q = Inr ([v, t] @ q @ pl)"
proof -
  have p: "length p = 36" and q: "length q = 36"
    using assms by (simp_all add: PeerID_ok_def wire_simps)
  have "copy_at 2 q ([v, t] @ p @ pl) = [v, t] @ q @ pl"
    by (rule copy_at_append) (simp_all add: p q)
  then show ?thesis
    by (simp add: UpdateTransportMsg_def offsetTransportID_def sizeOfProtoHeader_eq peerIDSize_def
        prefixLength_def p)
qed

section \<open>Peer lists\<close>

abbreviation PeerIDs_ok :: "PeerID list \<Rightarrow> bool" where
  "PeerIDs_ok ids \<equiv> list_all PeerID_ok ids"

lemma length_concat_ids [simp]: "PeerIDs_ok ids \<Longrightarrow> length (concat ids) = length ids * peerIDSize"
  by (induction ids) (simp_all add: PeerID_ok_def)

lemma copy_ids_layout:
  "PeerIDs_ok ids \<Longrightarrow> length pre = off \<Longrightarrow> length rest = length ids * peerIDSize \<Longrightarrow>
   copy_ids off ids (pre @ rest) = pre @ concat ids"
proof (induction ids arbitrary: pre off rest)
  case Nil
  then show ?case by simp
next
  case (Cons p ids)
  then have p: "length p = peerIDSize"
    by (simp add: PeerID_ok_def)
  have "copy_at off p (pre @ take peerIDSize rest @ drop peerIDSize rest)
      = pre @ p @ drop peerIDSize rest"
    using Cons.prems p by (intro copy_at_append) simp_all
  then have "copy_ids off (p # ids) (pre @ rest)
      = copy_ids (off + peerIDSize) ids ((pre @ p) @ drop peerIDSize rest)"
    by simp
  also have "\<dots> = (pre @ p) @ concat ids"
    using Cons.prems p by (intro Cons.IH) simp_all
  finally show ?case by simp
qed

lemma marshal_chunk_layout:
  assumes "PeerIDs_ok ids"
  shows "marshal_chunk ids t = [CurrentProtocolVersion, t] @ concat ids"
proof -
  have "replicate (sizeOfProtoHeader + length ids * peerIDSize) (0::byte)
      = replicate 2 0 @ replicate (length ids * peerIDSize) 0"
    by (simp add: sizeOfProtoHeader_eq flip: replicate_add)
  then show ?thesis
    using copy_ids_layout [OF assms, of "[CurrentProtocolVersion, t]" 2
        "replicate (length ids * peerIDSize) 0"]
    by (simp add: marshal_chunk_def sizeOfProtoHeader_eq replicate_small)
qed

lemma read_ids_layout:
  "PeerIDs_ok ids \<Longrightarrow> length pre = off \<Longrightarrow> read_ids (length ids) off (pre @ concat ids) = ids"
proof (induction ids arbitrary: pre off)
  case Nil
  then show ?case by simp
next
  case (Cons p ids)
  then have p: "length p = peerIDSize"
    by (simp add: PeerID_ok_def)
  have "slice off (off + peerIDSize) (pre @ p @ concat ids) = p"
    using Cons.prems p by (intro slice_append_mid) simp_all
  moreover have "read_ids (length ids) (off + peerIDSize) ((pre @ p) @ concat ids) = ids"
    using Cons.prems p by (intro Cons.IH) simp_all
  ultimately show ?case
    using p by simp
qed

lemma unmarshalPeerIDs_layout:
  assumes "PeerIDs_ok ids"
  shows "unmarshalPeerIDs ([v, t] @ concat ids) = Inr ids"
proof -
  have "read_ids (length ids) 2 ([v, t] @ concat ids) = ids"
    using assms by (rule read_ids_layout) simp
  moreover have "peerIDSize \<noteq> 0"
    by (simp add: peerIDSize_def prefixLength_def)
  ultimately show ?thesis
    using assms by (simp add: unmarshalPeerIDs_def sizeOfProtoHeader_eq)
qed

lemma read_ids_ok: "PeerIDs_ok (read_ids n offset buf)"
  by (induction n arbitrary: offset) (simp_all add: PeerID_ok_def)

lemma unmarshalPeerIDs_ok: "unmarshalPeerIDs buf = Inr ids \<Longrightarrow> PeerIDs_ok ids"
  by (auto simp: unmarshalPeerIDs_def Let_def read_ids_ok split: if_splits)

text \<open>The loop of \<open>marshalPeerIDs\<close> cuts the list into non-empty chunks that fit one message.\<close>

lemma marshal_from_chunks:
  "\<exists>chunks. marshal_from i ids t = map (\<lambda>c. marshal_chunk c t) chunks \<and> concat chunks = drop i ids
     \<and> list_all (\<lambda>c. c \<noteq> [] \<and> length c \<le> maxPeersPerMessage) chunks"
proof (induction i ids t rule: marshal_from.induct)
  case (1 i ids t)
  have max: "0 < maxPeersPerMessage"
    by (simp add: wire_simps)
  show ?case
  proof (cases "i < length ids")
    case True
    let ?stop = "if i + maxPeersPerMessage > length ids then length ids else i + maxPeersPerMessage"
    obtain chunks where rest: "marshal_from (i + maxPeersPerMessage) ids t = map (\<lambda>c. marshal_chunk c t) chunks"
      "concat chunks = drop (i + maxPeersPerMessage) ids"
      "list_all (\<lambda>c. c \<noteq> [] \<and> length c \<le> maxPeersPerMessage) chunks"
      using "1.IH" True by auto
    let ?c = "slice i ?stop ids"
    have c: "?c = take maxPeersPerMessage (drop i ids)"
      by (auto simp: slice_def)
    have "marshal_from i ids t = map (\<lambda>c. marshal_chunk c t) (?c # chunks)"
      using True rest(1) by (subst marshal_from.simps) (simp add: Let_def)
    moreover have "concat (?c # chunks) = drop i ids"
      using rest(2) unfolding c by (simp add: add.commute flip: drop_drop)
    moreover have "list_all (\<lambda>c. c \<noteq> [] \<and> length c \<le> maxPeersPerMessage) (?c # chunks)"
      using rest(3) True max unfolding c by simp
    ultimately show ?thesis by blast
  next
    case False
    then have "marshal_from i ids t = map (\<lambda>c. marshal_chunk c t) []"
      by (subst marshal_from.simps) simp
    with False show ?thesis
      by (intro exI [of _ "[]"]) simp
  qed
qed

lemma marshal_chunk_size:
  "PeerIDs_ok c \<Longrightarrow> length c \<le> maxPeersPerMessage \<Longrightarrow> length (marshal_chunk c t) \<le> MaxMessageSize"
  by (simp add: marshal_chunk_layout) (simp add: wire_simps)

lemma PeerIDs_ok_concat: "PeerIDs_ok (concat chunks) \<longleftrightarrow> list_all PeerIDs_ok chunks"
  by (induction chunks) auto

lemma marshalPeerIDs_batches:
  assumes "PeerIDs_ok ids" and "ids \<noteq> []"
  shows "\<exists>msgs chunks. marshalPeerIDs ids t = Inr msgs
    \<and> list_all (\<lambda>m. length m \<le> MaxMessageSize \<and> m ! 1 = t) msgs
    \<and> map unmarshalPeerIDs msgs = map Inr chunks \<and> concat chunks = ids"
proof -
  obtain chunks where c: "marshal_from 0 ids t = map (\<lambda>c. marshal_chunk c t) chunks"
    "concat chunks = ids" "list_all (\<lambda>c. c \<noteq> [] \<and> length c \<le> maxPeersPerMessage) chunks"
    using marshal_from_chunks [of 0 ids t] by auto
  then have ok: "list_all PeerIDs_ok chunks"
    using assms PeerIDs_ok_concat by blast
  then have "map unmarshalPeerIDs (map (\<lambda>c. marshal_chunk c t) chunks) = map Inr chunks"
    using unmarshalPeerIDs_layout marshal_chunk_layout by (simp add: list_all_iff)
  moreover have "list_all (\<lambda>m. length m \<le> MaxMessageSize \<and> m ! 1 = t) (map (\<lambda>c. marshal_chunk c t) chunks)"
    using ok c(3) marshal_chunk_size marshal_chunk_layout by (simp add: list_all_iff)
  moreover have "marshalPeerIDs ids t = Inr (map (\<lambda>c. marshal_chunk c t) chunks)"
    using assms(2) c(1) by (simp add: marshalPeerIDs_def)
  ultimately show ?thesis
    using c(2) by blast
qed

section \<open>Codecs\<close>

definition auth_valid :: "PeerID \<times> bytes \<Rightarrow> bool" where
  "auth_valid x \<longleftrightarrow> PeerID_ok (fst x) \<and> headerTotalSizeAuth + length (snd x) \<le> MaxHandshakeSize"

interpretation auth_codec: codec "\<lambda>x. MarshalAuthMsg (fst x) (snd x)" UnmarshalAuthMsg auth_valid
proof
  fix x assume "auth_valid x"
  then show "\<exists>b. MarshalAuthMsg (fst x) (snd x) = Inr b"
    by (simp add: auth_valid_def MarshalAuthMsg_layout)
next
  fix x b assume "auth_valid x" "MarshalAuthMsg (fst x) (snd x) = Inr b"
  then have "b = [CurrentProtocolVersion, MsgTypeAuth] @ magicHeader @ fst x @ snd x" "PeerID_ok (fst x)"
    by (auto simp: auth_valid_def MarshalAuthMsg_layout)
  then show "UnmarshalAuthMsg b = Inr x"
    using UnmarshalAuthMsg_layout by simp
qed

interpretation transport_codec: codec "\<lambda>x. MarshalTransportMsg (fst x) (snd x)" UnmarshalTransportMsg
  "\<lambda>x. PeerID_ok (fst x)"
proof
  fix x :: "PeerID \<times> bytes" assume "PeerID_ok (fst x)"
  then show "\<exists>b. MarshalTransportMsg (fst x) (snd x) = Inr b"
    by (simp add: MarshalTransportMsg_layout)
next
  fix x :: "PeerID \<times> bytes" and b assume "PeerID_ok (fst x)" "MarshalTransportMsg (fst x) (snd x) = Inr b"
  then have "b = [CurrentProtocolVersion, MsgTypeTransport] @ fst x @ snd x" "PeerID_ok (fst x)"
    by (auto simp: MarshalTransportMsg_layout)
  then show "UnmarshalTransportMsg b = Inr x"
    using UnmarshalTransportMsg_layout(1) by simp
qed

interpretation auth_response_codec: codec MarshalAuthResponse UnmarshalAuthResponse
  "\<lambda>a. a \<noteq> [] \<and> length a \<le> 8190"
proof
  fix a :: string assume "a \<noteq> [] \<and> length a \<le> 8190"
  then show "\<exists>b. MarshalAuthResponse a = Inr b"
    by (simp add: MarshalAuthResponse_layout)
next
  fix a :: string and b assume "a \<noteq> [] \<and> length a \<le> 8190" "MarshalAuthResponse a = Inr b"
  then have "b = [CurrentProtocolVersion, MsgTypeAuthResponse] @ bytes_of_string a" "a \<noteq> []"
    by (auto simp: MarshalAuthResponse_layout)
  then show "UnmarshalAuthResponse b = Inr a"
    by (simp add: UnmarshalAuthResponse_def sizeOfProtoHeader_eq Suc_le_eq)
qed

section \<open>Properties\<close>

text \<open>C21: For every peer id of the fixed size and every auth payload that fits the handshake limit,
  \<open>MarshalAuthMsg\<close> succeeds, the message is at most \<open>MaxHandshakeSize\<close> bytes long, a server classifies
  it as an auth message of a supported version, and \<open>UnmarshalAuthMsg\<close> returns exactly the id and the
  payload.\<close>

theorem auth_message_round_trip:
  assumes "PeerID_ok p" and "headerTotalSizeAuth + length payload \<le> MaxHandshakeSize"
  shows "\<exists>m. MarshalAuthMsg p payload = Inr m \<and> length m \<le> MaxHandshakeSize
    \<and> ValidateVersion m = Inr (m ! 0) \<and> DetermineClientMessageType m = Inr MsgTypeAuth
    \<and> UnmarshalAuthMsg m = Inr (p, payload)"
proof -
  obtain m where m: "MarshalAuthMsg p payload = Inr m" "UnmarshalAuthMsg m = Inr (p, payload)"
    using auth_codec.round_trip [of "(p, payload)"] assms by (auto simp: auth_valid_def)
  then have l: "m = [CurrentProtocolVersion, MsgTypeAuth] @ magicHeader @ p @ payload"
    using assms by (simp add: MarshalAuthMsg_layout)
  then have "length m \<le> MaxHandshakeSize" "ValidateVersion m = Inr (m ! 0)"
    "DetermineClientMessageType m = Inr MsgTypeAuth"
    using assms by (simp_all add: PeerID_ok_def ValidateVersion_def DetermineClientMessageType_def)
      (simp_all add: wire_simps)
  with m show ?thesis by blast
qed

theorem auth_message_round_trip_witness:
  "\<exists>m. MarshalAuthMsg (replicate 36 7) [1, 2, 3] = Inr m \<and> length m \<le> MaxHandshakeSize
    \<and> ValidateVersion m = Inr (m ! 0) \<and> DetermineClientMessageType m = Inr MsgTypeAuth
    \<and> UnmarshalAuthMsg m = Inr (replicate 36 7, [1, 2, 3])"
  by (rule auth_message_round_trip) (simp_all add: PeerID_ok_def wire_simps)

text \<open>The relay rewrites the peer id of a transport message in place before it forwards it. On every
  message that carries the sender's view of the destination, the rewrite keeps the length and the
  header, the receiver decodes the new id and the payload that was sent, byte for byte, and the old id
  is the one the server routed by.\<close>

lemma transport_rewrite_keeps_payload:
  assumes "PeerID_ok dst" and "PeerID_ok src_peer" and "MarshalTransportMsg dst payload = Inr m"
  shows "UnmarshalTransportID m = Inr dst
    \<and> (\<exists>m'. UpdateTransportMsg m src_peer = Inr m' \<and> length m' = length m \<and> take 2 m' = take 2 m
          \<and> UnmarshalTransportMsg m' = Inr (src_peer, payload))"
proof -
  have m: "m = [CurrentProtocolVersion, MsgTypeTransport] @ dst @ payload"
    using assms by (simp add: MarshalTransportMsg_layout)
  then have "UpdateTransportMsg m src_peer = Inr ([CurrentProtocolVersion, MsgTypeTransport] @ src_peer @ payload)"
    using UpdateTransportMsg_layout assms by simp
  moreover have "UnmarshalTransportID m = Inr dst"
    using UnmarshalTransportMsg_layout(2) assms m by simp
  ultimately show ?thesis
    using assms UnmarshalTransportMsg_layout(1) m by (simp add: PeerID_ok_def)
qed

text \<open>C22: Whatever the number of peers, \<open>marshalPeerIDs\<close> on a non-empty list of well-sized ids
  succeeds, every message it produces fits \<open>MaxMessageSize\<close>, every message decodes, and the decoded
  chunks, in order, are exactly the ids that were given: the batching loop neither loses, repeats nor
  reorders a peer at a chunk boundary.\<close>

theorem peer_list_batches_round_trip:
  assumes "PeerIDs_ok ids" and "ids \<noteq> []"
  shows "\<exists>msgs chunks. marshalPeerIDs ids t = Inr msgs
    \<and> list_all (\<lambda>m. length m \<le> MaxMessageSize \<and> m ! 1 = t) msgs
    \<and> map unmarshalPeerIDs msgs = map Inr chunks \<and> concat chunks = ids"
  using assms by (rule marshalPeerIDs_batches)

theorem peer_list_batches_round_trip_witness:
  "\<exists>msgs chunks. marshalPeerIDs [replicate 36 1, replicate 36 2] 10 = Inr msgs
    \<and> list_all (\<lambda>m. length m \<le> MaxMessageSize \<and> m ! 1 = 10) msgs
    \<and> map unmarshalPeerIDs msgs = map Inr chunks \<and> concat chunks = [replicate 36 1, replicate 36 2]"
  by (rule peer_list_batches_round_trip) (simp_all add: PeerID_ok_def wire_simps)

text \<open>The deprecated hello message does not round-trip: \<open>UnmarshalHelloMsg\<close> returns the right
  peer id but cuts the additional data at \<open>headerSizeHello\<close> instead of \<open>headerTotalSizeHello\<close>, so the
  last two bytes of the peer id come back in front of the additions, for every id and every payload.\<close>

lemma hello_additions_carry_id_tail:
  assumes "PeerID_ok p" and "MarshalHelloMsg p additions = Inr m"
  shows "UnmarshalHelloMsg m = Inr (p, drop 34 p @ additions)"
proof -
  have p: "length p = 36"
    using assms by (simp add: PeerID_ok_def wire_simps)
  have "m = [CurrentProtocolVersion, MsgTypeHello] @ magicHeader @ p @ additions"
    using assms by (simp add: MarshalHelloMsg_layout)
  then show ?thesis
    using p by (simp add: UnmarshalHelloMsg_def slice_def wire_simps)
qed

end
