(* ===== verification/RelayStore.thy ===== *)
theory RelayStore
  imports RelayMessages
begin

text \<open>
  The peer store, the listeners and the notifier of the relay server (\<open>relay/server/store\<close>), the
  connection handlers (\<open>relay/server/peer.go\<close>) and the handshake (\<open>relay/server/handshake.go\<close>). Every
  operation runs under the lock the source takes for it, so each is one state transformer; how the
  operations of concurrent connections interleave is the subject of \<open>RelaySystem\<close>.

  A \<open>*Peer\<close> is its reference (the address, which \<open>==\<close> compares) and its id. A listener's channel
  is the list of the events in it, oldest first.
\<close>

section \<open>The store\<close>

record Peer =
  peer_ref :: nat
  peer_id :: PeerID

type_synonym Store = "PeerID \<rightharpoonup> Peer"

definition NewStore :: Store where
  "NewStore = Map.empty"

text \<open>\<open>AddPeer\<close> returns the new store, the peer it closed and whether there was one.\<close>

definition AddPeer :: "Store \<Rightarrow> Peer \<Rightarrow> Store \<times> Peer option \<times> bool" where
  "AddPeer s peer =
     (let odlPeer = s (peer_id peer)
      in (s(peer_id peer \<mapsto> peer), odlPeer, odlPeer \<noteq> None))"

definition DeletePeer :: "Store \<Rightarrow> Peer \<Rightarrow> Store \<times> bool" where
  "DeletePeer s peer =
     (case s (peer_id peer) of
        None \<Rightarrow> (s, False)
      | Some dp \<Rightarrow> if peer_ref dp \<noteq> peer_ref peer then (s, False)
                   else (s(peer_id peer := None), True))"

definition store_Peer :: "Store \<Rightarrow> PeerID \<Rightarrow> Peer option" where
  "store_Peer s peerID = s peerID"

section \<open>Listeners\<close>

record event =
  event_peerID :: PeerID
  event_online :: bool

record Listener =
  eventChan :: "event list"
  interestedPeersForOffline :: "PeerID set"
  interestedPeersForOnline :: "PeerID set"

definition eventChan_capacity :: nat where "eventChan_capacity = 244"

definition newListener :: Listener where
  "newListener = \<lparr>eventChan = [], interestedPeersForOffline = {}, interestedPeersForOnline = {}\<rparr>"

fun AddInterestedPeers :: "Listener \<Rightarrow> PeerID list \<Rightarrow> Listener" where
  "AddInterestedPeers l [] = l"
| "AddInterestedPeers l (p # ps) =
     AddInterestedPeers
       (l\<lparr>interestedPeersForOnline := insert p (interestedPeersForOnline l),
          interestedPeersForOffline := insert p (interestedPeersForOffline l)\<rparr>) ps"

fun RemoveInterestedPeer :: "Listener \<Rightarrow> PeerID list \<Rightarrow> Listener" where
  "RemoveInterestedPeer l [] = l"
| "RemoveInterestedPeer l (p # ps) =
     RemoveInterestedPeer
       (l\<lparr>interestedPeersForOffline := interestedPeersForOffline l - {p},
          interestedPeersForOnline := interestedPeersForOnline l - {p}\<rparr>) ps"

text \<open>
  The two notifications. A send on a full channel blocks; \<open>RelaySystem\<close> takes the step only when
  there is room. A cancelled listener is no longer registered, so the \<open>ctx.Done\<close> branch drops
  the event with the listener.
\<close>

definition peerWentOffline :: "PeerID \<Rightarrow> Listener \<Rightarrow> Listener" where
  "peerWentOffline p l =
     (if p \<in> interestedPeersForOffline l
      then l\<lparr>eventChan := eventChan l @ [\<lparr>event_peerID = p, event_online = False\<rparr>]\<rparr> else l)"

definition peerComeOnline :: "PeerID \<Rightarrow> Listener \<Rightarrow> Listener" where
  "peerComeOnline p l =
     (if p \<in> interestedPeersForOnline l
      then l\<lparr>eventChan := eventChan l @ [\<lparr>event_peerID = p, event_online = True\<rparr>],
             interestedPeersForOnline := interestedPeersForOnline l - {p}\<rparr>
      else l)"

text \<open>
  One round of \<open>listenForEvents\<close>: the events taken from the channel are collected into a list of
  peers that came online and one of peers that went offline.
\<close>

fun collect_events :: "event list \<Rightarrow> PeerID list \<Rightarrow> PeerID list \<Rightarrow> PeerID list \<times> PeerID list" where
  "collect_events [] peersOnline peersOffline = (peersOnline, peersOffline)"
| "collect_events (e # es) peersOnline peersOffline =
     (if event_online e then collect_events es (peersOnline @ [event_peerID e]) peersOffline
      else collect_events es peersOnline (peersOffline @ [event_peerID e]))"

text \<open>The callbacks a round makes, in order: first all that came online, then all that went offline.\<close>

datatype callback = OnPeersComeOnline "PeerID list" | OnPeersWentOffline "PeerID list"

definition listenForEvents_round :: "event list \<Rightarrow> callback list" where
  "listenForEvents_round es =
     (let (peersOnline, peersOffline) = collect_events es [] []
      in (if length peersOnline > 0 then [OnPeersComeOnline peersOnline] else []) @
         (if length peersOffline > 0 then [OnPeersWentOffline peersOffline] else []))"

definition GetOnlinePeersAndRegisterInterest ::
  "Store \<Rightarrow> PeerID list \<Rightarrow> Listener \<Rightarrow> PeerID list \<times> Listener" where
  "GetOnlinePeersAndRegisterInterest s peerIDs l =
     (filter (\<lambda>p. s p \<noteq> None) peerIDs, AddInterestedPeers l peerIDs)"

section \<open>The notifier\<close>

type_synonym PeerNotifier = "nat \<rightharpoonup> Listener"

definition NewPeerNotifier :: PeerNotifier where
  "NewPeerNotifier = Map.empty"

text \<open>Listeners are keyed by the connection that owns them.\<close>

definition NewListener :: "PeerNotifier \<Rightarrow> nat \<Rightarrow> PeerNotifier" where
  "NewListener pn c = pn(c \<mapsto> newListener)"

definition RemoveListener :: "PeerNotifier \<Rightarrow> nat \<Rightarrow> PeerNotifier" where
  "RemoveListener pn c = (case pn c of None \<Rightarrow> pn | Some _ \<Rightarrow> pn(c := None))"

definition PeerWentOffline :: "PeerNotifier \<Rightarrow> PeerID \<Rightarrow> PeerNotifier" where
  "PeerWentOffline pn p = (\<lambda>c. map_option (peerWentOffline p) (pn c))"

definition PeerCameOnline :: "PeerNotifier \<Rightarrow> PeerID \<Rightarrow> PeerNotifier" where
  "PeerCameOnline pn p = (\<lambda>c. map_option (peerComeOnline p) (pn c))"

section \<open>Handlers of a connection\<close>

text \<open>What is written to the peer's own connection; a marshalling error is logged and nothing is sent.\<close>

definition sendPeersOnline :: "PeerID list \<Rightarrow> bytes list" where
  "sendPeersOnline peers = (case MarshalPeersOnline peers of Inl _ \<Rightarrow> [] | Inr msgs \<Rightarrow> msgs)"

definition sendPeersWentOffline :: "PeerID list \<Rightarrow> bytes list" where
  "sendPeersWentOffline peers = (case MarshalPeersWentOffline peers of Inl _ \<Rightarrow> [] | Inr msgs \<Rightarrow> msgs)"

text \<open>The peer a transport message is written to, and the message as it is written.\<close>

definition handleTransportMsg :: "Store \<Rightarrow> Peer \<Rightarrow> bytes \<Rightarrow> (Peer \<times> bytes) option" where
  "handleTransportMsg s p msg =
     (case UnmarshalTransportID msg of
        Inl _ \<Rightarrow> None
      | Inr peerID \<Rightarrow>
          (case store_Peer s peerID of
             None \<Rightarrow> None
           | Some dp \<Rightarrow>
               (case UpdateTransportMsg msg (peer_id p) of
                  Inl _ \<Rightarrow> None
                | Inr msg' \<Rightarrow> Some (dp, msg'))))"

definition handleSubscribePeerState :: "Store \<Rightarrow> Listener \<Rightarrow> bytes \<Rightarrow> Listener \<times> bytes list" where
  "handleSubscribePeerState s l msg =
     (case UnmarshalSubPeerStateMsg msg of
        Inl _ \<Rightarrow> (l, [])
      | Inr peerIDs \<Rightarrow>
          (let (onlinePeers, l') = GetOnlinePeersAndRegisterInterest s peerIDs l
           in if length onlinePeers = 0 then (l', []) else (l', sendPeersOnline onlinePeers)))"

definition handleUnsubscribePeerState :: "Listener \<Rightarrow> bytes \<Rightarrow> Listener" where
  "handleUnsubscribePeerState l msg =
     (case UnmarshalUnsubPeerStateMsg msg of
        Inl _ \<Rightarrow> l
      | Inr peerIDs \<Rightarrow> RemoveInterestedPeer l peerIDs)"

text \<open>
  \<open>handleMsgType\<close>: what a message does, as the effects on the rest of the server.
\<close>

datatype msg_effect =
    HealthCheckResponse
  | Forward "(Peer \<times> bytes) option"
  | CloseConn
  | Notify Listener "bytes list"
  | Ignored MsgType

definition handleMsgType :: "Store \<Rightarrow> Peer \<Rightarrow> Listener \<Rightarrow> MsgType \<Rightarrow> bytes \<Rightarrow> msg_effect" where
  "handleMsgType s p l msgType msg =
     (if msgType = MsgTypeHealthCheck then HealthCheckResponse
      else if msgType = MsgTypeTransport then Forward (handleTransportMsg s p msg)
      else if msgType = MsgTypeClose then CloseConn
      else if msgType = MsgTypeSubscribePeerState
           then (let (l', out) = handleSubscribePeerState s l msg in Notify l' out)
      else if msgType = MsgTypeUnsubscribePeerState then Notify (handleUnsubscribePeerState l msg) []
      else Ignored msgType)"

text \<open>One round of the read loop of \<open>Work\<close> on what was read; \<open>None\<close> ends the loop.\<close>

definition Work_read :: "Store \<Rightarrow> Peer \<Rightarrow> Listener \<Rightarrow> bytes \<Rightarrow> msg_effect option" where
  "Work_read s p l msg =
     (if length msg = 0 then None
      else (case ValidateVersion msg of
              Inl _ \<Rightarrow> None
            | Inr _ \<Rightarrow>
                (case DetermineClientMessageType msg of
                   Inl _ \<Rightarrow> None
                 | Inr msgType \<Rightarrow> Some (handleMsgType s p l msgType msg))))"

section \<open>Handshake\<close>

text \<open>
  The validator is an interface of the server; the gob decoding of the deprecated hello payload is
  the standard library's. Both are parameters. A failed handshake may still carry the id the message
  named.
\<close>

datatype handshake_error =
    ReadMessage msg_error
  | InvalidMessageType MsgType
  | UnmarshalAuthPayload
  | ValidationFailed PeerID

record validator =
  Validate :: "bytes \<Rightarrow> bool"
  ValidateHelloMsgType :: "bytes \<Rightarrow> bool"
  gob_decode :: "bytes \<Rightarrow> bytes option"

definition handleHelloMsg :: "validator \<Rightarrow> bytes \<Rightarrow> handshake_error + PeerID" where
  "handleHelloMsg v buf =
     (case UnmarshalHelloMsg buf of
        Inl e \<Rightarrow> Inl (ReadMessage e)
      | Inr (peerID, authData) \<Rightarrow>
          (case gob_decode v authData of
             None \<Rightarrow> Inl UnmarshalAuthPayload
           | Some additionalData \<Rightarrow>
               if ValidateHelloMsgType v additionalData then Inr peerID
               else Inl (ValidationFailed peerID)))"

definition handleAuthMsg :: "validator \<Rightarrow> bytes \<Rightarrow> handshake_error + PeerID" where
  "handleAuthMsg v buf =
     (case UnmarshalAuthMsg buf of
        Inl e \<Rightarrow> Inl (ReadMessage e)
      | Inr (rawPeerID, authPayload) \<Rightarrow>
          if Validate v authPayload then Inr rawPeerID else Inl (ValidationFailed rawPeerID))"

text \<open>The result and whether the auth method was used (the field \<open>handshakeMethodAuth\<close>).\<close>

definition handshakeReceive :: "validator \<Rightarrow> bytes \<Rightarrow> (handshake_error + PeerID) \<times> bool" where
  "handshakeReceive v buf =
     (let buf = take MaxHandshakeSize buf
      in case ValidateVersion buf of
           Inl e \<Rightarrow> (Inl (ReadMessage e), False)
         | Inr _ \<Rightarrow>
             (case DetermineClientMessageType buf of
                Inl e \<Rightarrow> (Inl (ReadMessage e), False)
              | Inr msgType \<Rightarrow>
                  if msgType = MsgTypeHello then (handleHelloMsg v buf, False)
                  else if msgType = MsgTypeAuth then (handleAuthMsg v buf, True)
                  else (Inl (InvalidMessageType msgType), False)))"

record preparedMsg =
  responseHelloMsg :: bytes
  responseAuthMsg :: bytes

definition handshakeResponse :: "preparedMsg \<Rightarrow> bool \<Rightarrow> bytes" where
  "handshakeResponse m handshakeMethodAuth =
     (if handshakeMethodAuth then responseAuthMsg m else responseHelloMsg m)"

end
