(* ===== verification/RelaySystem.thy ===== *)
theory RelaySystem
  imports RelayStore
begin

text \<open>
  The relay server as a transition system (\<open>relay/server/relay.go\<close>, \<open>Accept\<close> and the goroutine it
  starts, and the callers of the store and the notifier in \<open>peer.go\<close>). A connection goes through the
  phases below; steps of different connections interleave at the points where the source holds no
  lock. A notification that finds a full channel waits, so its step needs room in the channels.
\<close>

section \<open>States and steps\<close>

datatype conn_phase =
    Added      \<comment> \<open>in the store, \<open>PeerCameOnline\<close> not called yet\<close>
  | Accepted   \<comment> \<open>announced, the goroutine has not registered its listener yet\<close>
  | Working    \<comment> \<open>in the read loop of \<open>Work\<close>\<close>
  | Stopped    \<comment> \<open>\<open>Work\<close> has returned, \<open>DeletePeer\<close> not called yet\<close>
  | Deleted    \<comment> \<open>\<open>DeletePeer\<close> returned true, \<open>PeerWentOffline\<close> not called yet\<close>
  | Gone

text \<open>
  \<open>told c\<close> is a history variable: the peers the client of connection \<open>c\<close> was told to be online since
  it last subscribed to them, in the response or by an event put into its channel.
\<close>

record relay =
  store :: Store
  notifier :: PeerNotifier
  conns :: "nat \<rightharpoonup> PeerID \<times> conn_phase"
  closed :: "nat set"
  told :: "nat \<Rightarrow> PeerID set"

definition relay_start :: "relay \<Rightarrow> bool" where
  "relay_start s \<longleftrightarrow> s = \<lparr>store = NewStore, notifier = NewPeerNotifier, conns = Map.empty, closed = {},
     told = (\<lambda>c. {})\<rparr>"

definition has_room :: "Listener \<Rightarrow> bool" where
  "has_room l \<longleftrightarrow> length (eventChan l) < eventChan_capacity"

text \<open>The peers announced as online by the events a listener gained.\<close>

definition new_online :: "Listener \<Rightarrow> Listener \<Rightarrow> PeerID set" where
  "new_online l l' = {event_peerID e | e. e \<in> set (drop (length (eventChan l)) (eventChan l')) \<and> event_online e}"

text \<open>The peers a client learns from the messages written to it in answer to a subscription.\<close>

definition announced :: "bytes list \<Rightarrow> PeerID set" where
  "announced out = (\<Union>m \<in> set out. case UnmarshalPeersOnlineMsg m of Inl _ \<Rightarrow> {} | Inr qs \<Rightarrow> set qs)"

inductive relay_step :: "relay \<Rightarrow> relay \<Rightarrow> bool" where
  accept_add:
    "\<lbrakk>conns s c = None; AddPeer (store s) \<lparr>peer_ref = c, peer_id = p\<rparr> = (st', old, replaced)\<rbrakk> \<Longrightarrow>
     relay_step s (s\<lparr>store := st', conns := (conns s)(c \<mapsto> (p, Added)),
       closed := closed s \<union> peer_ref ` set_option old\<rparr>)"
| accept_announce:
    "\<lbrakk>conns s c = Some (p, Added); \<forall>l \<in> ran (notifier s). has_room l\<rbrakk> \<Longrightarrow>
     relay_step s (s\<lparr>notifier := PeerCameOnline (notifier s) p, conns := (conns s)(c \<mapsto> (p, Accepted)),
       told := (\<lambda>d. told s d \<union> (case notifier s d of None \<Rightarrow> {} | Some l \<Rightarrow> new_online l (peerComeOnline p l)))\<rparr>)"
| work_start:
    "conns s c = Some (p, Accepted) \<Longrightarrow>
     relay_step s (s\<lparr>notifier := NewListener (notifier s) c, conns := (conns s)(c \<mapsto> (p, Working)),
       told := (told s)(c := {})\<rparr>)"
| work_subscribe:
    "\<lbrakk>conns s c = Some (p, Working); notifier s c = Some l; UnmarshalSubPeerStateMsg msg = Inr ids;
      handleSubscribePeerState (store s) l msg = (l', out)\<rbrakk> \<Longrightarrow>
     relay_step s (s\<lparr>notifier := (notifier s)(c \<mapsto> l'),
       told := (told s)(c := (told s c - set ids) \<union> announced out)\<rparr>)"
| work_unsubscribe:
    "\<lbrakk>conns s c = Some (p, Working); notifier s c = Some l\<rbrakk> \<Longrightarrow>
     relay_step s (s\<lparr>notifier := (notifier s)(c \<mapsto> handleUnsubscribePeerState l msg)\<rparr>)"
| listener_round:
    "\<lbrakk>notifier s c = Some l; eventChan l = es @ rest; es \<noteq> []\<rbrakk> \<Longrightarrow>
     relay_step s (s\<lparr>notifier := (notifier s)(c \<mapsto> l\<lparr>eventChan := rest\<rparr>)\<rparr>)"
| conn_close:
    "conns s c = Some (p, ph) \<Longrightarrow> relay_step s (s\<lparr>closed := insert c (closed s)\<rparr>)"
| work_stop:
    "conns s c = Some (p, Working) \<Longrightarrow>
     relay_step s (s\<lparr>notifier := RemoveListener (notifier s) c, conns := (conns s)(c \<mapsto> (p, Stopped)),
       closed := insert c (closed s)\<rparr>)"
| delete_peer:
    "\<lbrakk>conns s c = Some (p, Stopped); DeletePeer (store s) \<lparr>peer_ref = c, peer_id = p\<rparr> = (st', deleted)\<rbrakk> \<Longrightarrow>
     relay_step s (s\<lparr>store := st', conns := (conns s)(c \<mapsto> (p, if deleted then Deleted else Gone))\<rparr>)"
| announce_offline:
    "\<lbrakk>conns s c = Some (p, Deleted); \<forall>l \<in> ran (notifier s). has_room l\<rbrakk> \<Longrightarrow>
     relay_step s (s\<lparr>notifier := PeerWentOffline (notifier s) p, conns := (conns s)(c \<mapsto> (p, Gone))\<rparr>)"

section \<open>Invariants\<close>

text \<open>The store and the connections.\<close>

definition store_inv :: "relay \<Rightarrow> bool" where
  "store_inv s \<longleftrightarrow>
     (\<forall>p d. store s p = Some d \<longrightarrow> peer_id d = p \<and>
        (\<exists>ph. conns s (peer_ref d) = Some (p, ph) \<and> ph \<notin> {Deleted, Gone}))
   \<and> (\<forall>c p ph. conns s c = Some (p, ph) \<and> c \<notin> closed s \<longrightarrow> store s p = Some \<lparr>peer_ref = c, peer_id = p\<rparr>)
   \<and> (\<forall>c p ph. conns s c = Some (p, ph) \<and> ph \<in> {Stopped, Deleted, Gone} \<longrightarrow> c \<in> closed s)"

text \<open>The listeners: nobody who asked for a peer is left without having been told that it is online.\<close>

definition listener_inv :: "Store \<Rightarrow> (nat \<rightharpoonup> PeerID \<times> conn_phase) \<Rightarrow> Listener \<Rightarrow> PeerID set \<Rightarrow> bool" where
  "listener_inv st cs l t \<longleftrightarrow>
     (\<forall>q \<in> interestedPeersForOffline l. q \<notin> interestedPeersForOnline l \<longrightarrow> q \<in> t)
   \<and> (\<forall>q \<in> interestedPeersForOffline l. \<forall>d. st q = Some d \<longrightarrow> cs (peer_ref d) \<noteq> Some (q, Added) \<longrightarrow> q \<in> t)"

definition listeners_inv :: "relay \<Rightarrow> bool" where
  "listeners_inv s \<longleftrightarrow> (\<forall>c l. notifier s c = Some l \<longrightarrow> (\<exists>p. conns s c = Some (p, Working)) \<and>
     listener_inv (store s) (conns s) l (told s c))"

definition relay_inv :: "relay \<Rightarrow> bool" where
  "relay_inv s \<longleftrightarrow> store_inv s \<and> listeners_inv s"

lemma store_inv_unique:
  assumes "store_inv s" "conns s c = Some (p, ph)" "conns s d = Some (p, ph')" "c \<notin> closed s" "d \<notin> closed s"
  shows "c = d"
proof -
  have "store s p = Some \<lparr>peer_ref = c, peer_id = p\<rparr>" "store s p = Some \<lparr>peer_ref = d, peer_id = p\<rparr>"
    using assms unfolding store_inv_def by blast+
  then show ?thesis by simp
qed

lemma AddInterestedPeers_fields:
  "interestedPeersForOnline (AddInterestedPeers l ps) = interestedPeersForOnline l \<union> set ps"
  "interestedPeersForOffline (AddInterestedPeers l ps) = interestedPeersForOffline l \<union> set ps"
  "eventChan (AddInterestedPeers l ps) = eventChan l"
  by (induction l ps rule: AddInterestedPeers.induct) auto

lemma RemoveInterestedPeer_fields:
  "interestedPeersForOnline (RemoveInterestedPeer l ps) = interestedPeersForOnline l - set ps"
  "interestedPeersForOffline (RemoveInterestedPeer l ps) = interestedPeersForOffline l - set ps"
  "eventChan (RemoveInterestedPeer l ps) = eventChan l"
  by (induction l ps rule: RemoveInterestedPeer.induct) auto

lemmas interest_fields = AddInterestedPeers_fields RemoveInterestedPeer_fields

lemma new_online_peerComeOnline:
  "new_online l (peerComeOnline p l) = (if p \<in> interestedPeersForOnline l then {p} else {})"
  by (auto simp: new_online_def peerComeOnline_def)

lemma handleSubscribePeerState_listener:
  assumes "UnmarshalSubPeerStateMsg msg = Inr ids" "handleSubscribePeerState st l msg = (l', out)"
  shows "l' = AddInterestedPeers l ids"
  using assms by (auto simp: handleSubscribePeerState_def GetOnlinePeersAndRegisterInterest_def split: if_splits)

lemma announced_sendPeersOnline:
  assumes "PeerIDs_ok qs"
  shows "announced (sendPeersOnline qs) = set qs"
proof (cases "qs = []")
  case True
  then show ?thesis
    by (simp add: announced_def sendPeersOnline_def MarshalPeersOnline_def marshalPeerIDs_def)
next
  case False
  then obtain msgs chunks where m: "marshalPeerIDs qs MsgTypePeersOnline = Inr msgs"
    "map unmarshalPeerIDs msgs = map Inr chunks" "concat chunks = qs"
    using marshalPeerIDs_batches [OF assms] by blast
  have "announced msgs = \<Union> ((\<lambda>r. case r of Inl _ \<Rightarrow> {} | Inr qs \<Rightarrow> set qs) ` set (map unmarshalPeerIDs msgs))"
    by (simp add: announced_def UnmarshalPeersOnlineMsg_def)
  also have "\<dots> = set (concat chunks)"
    unfolding m(2) by simp
  finally show ?thesis
    using m(1,3) by (simp add: sendPeersOnline_def MarshalPeersOnline_def)
qed

lemma handleSubscribePeerState_announced:
  assumes "UnmarshalSubPeerStateMsg msg = Inr ids" "handleSubscribePeerState st l msg = (l', out)"
  shows "announced out = set (filter (\<lambda>q. st q \<noteq> None) ids)"
proof -
  have "PeerIDs_ok (filter (\<lambda>q. st q \<noteq> None) ids)"
    using unmarshalPeerIDs_ok assms(1) by (auto simp: UnmarshalSubPeerStateMsg_def list_all_iff)
  then show ?thesis
    using assms announced_sendPeersOnline [of "filter (\<lambda>q. st q \<noteq> None) ids"]
    by (auto simp: handleSubscribePeerState_def GetOnlinePeersAndRegisterInterest_def announced_def
        filter_empty_conv split: if_splits)
qed

text \<open>Introduction and elimination of the first invariant.\<close>

lemma store_invI:
  assumes "\<And>p d. store s p = Some d \<Longrightarrow> peer_id d = p"
    and "\<And>p d. store s p = Some d \<Longrightarrow> \<exists>ph. conns s (peer_ref d) = Some (p, ph) \<and> ph \<notin> {Deleted, Gone}"
    and "\<And>c p ph. conns s c = Some (p, ph) \<Longrightarrow> c \<notin> closed s \<Longrightarrow> store s p = Some \<lparr>peer_ref = c, peer_id = p\<rparr>"
    and "\<And>c p ph. conns s c = Some (p, ph) \<Longrightarrow> ph \<in> {Stopped, Deleted, Gone} \<Longrightarrow> c \<in> closed s"
  shows "store_inv s"
  using assms unfolding store_inv_def by blast

lemma store_invD:
  assumes "store_inv s"
  shows "store s p = Some d \<Longrightarrow> peer_id d = p"
    and "store s p = Some d \<Longrightarrow> \<exists>ph. conns s (peer_ref d) = Some (p, ph) \<and> ph \<notin> {Deleted, Gone}"
    and "conns s c = Some (p, ph) \<Longrightarrow> c \<notin> closed s \<Longrightarrow> store s p = Some \<lparr>peer_ref = c, peer_id = p\<rparr>"
    and "conns s c = Some (p, ph) \<Longrightarrow> ph \<in> {Stopped, Deleted, Gone} \<Longrightarrow> c \<in> closed s"
  using assms unfolding store_inv_def by blast+

text \<open>Each transition of the store and of the phases keeps it.\<close>

lemma store_inv_add [inv_intros]:
  assumes inv: "store_inv s" and c: "conns s c = None"
    and add: "AddPeer (store s) \<lparr>peer_ref = c, peer_id = p\<rparr> = (st', old, replaced)"
  shows "store_inv (s\<lparr>store := st', conns := (conns s)(c \<mapsto> (p, Added)),
       closed := closed s \<union> peer_ref ` set_option old\<rparr>)" (is "store_inv ?t")
proof (rule store_invI)
  have st': "st' = (store s)(p \<mapsto> \<lparr>peer_ref = c, peer_id = p\<rparr>)" and old: "old = store s p"
    using add by (auto simp: AddPeer_def Let_def)
  have fresh: "peer_ref d \<noteq> c" if "store s q = Some d" for q d
    using store_invD(2) [OF inv that] c by auto
  show "peer_id d = q" if "store ?t q = Some d" for q d
    using that store_invD(1) [OF inv] by (auto simp: st' split: if_splits)
  show "\<exists>ph. conns ?t (peer_ref d) = Some (q, ph) \<and> ph \<notin> {Deleted, Gone}" if "store ?t q = Some d" for q d
    using that fresh store_invD(2) [OF inv, of q d] by (auto simp: st' split: if_splits)
  show "store ?t q = Some \<lparr>peer_ref = d, peer_id = q\<rparr>" if "conns ?t d = Some (q, ph)" "d \<notin> closed ?t" for d q ph
    using that store_invD(3) [OF inv, of d q ph] by (force simp: st' old split: if_splits)
  show "d \<in> closed ?t" if "conns ?t d = Some (q, ph)" "ph \<in> {Stopped, Deleted, Gone}" for d q ph
    using that store_invD(4) [OF inv, of d q ph] by (auto split: if_splits)
qed

lemma store_inv_phase [inv_intros]:
  assumes inv: "store_inv s" and c: "conns s c = Some (p, ph)"
    and ph': "ph' \<notin> {Deleted, Gone} \<or> (\<forall>q d. store s q = Some d \<longrightarrow> peer_ref d \<noteq> c)"
    and cl: "closed s \<subseteq> cl" "ph' \<in> {Stopped, Deleted, Gone} \<Longrightarrow> c \<in> cl"
  shows "store_inv (s\<lparr>conns := (conns s)(c \<mapsto> (p, ph')), closed := cl\<rparr>)" (is "store_inv ?t")
proof (rule store_invI)
  show "peer_id d = q" if "store ?t q = Some d" for q d
    using that store_invD(1) [OF inv] by simp
  show "\<exists>ph. conns ?t (peer_ref d) = Some (q, ph) \<and> ph \<notin> {Deleted, Gone}" if "store ?t q = Some d" for q d
    using that c ph' store_invD(2) [OF inv, of q d] by auto
  show "store ?t q = Some \<lparr>peer_ref = d, peer_id = q\<rparr>" if "conns ?t d = Some (q, x)" "d \<notin> closed ?t" for d q x
  proof -
    have "d \<notin> closed s"
      using that(2) cl(1) by auto
    then show ?thesis
      using that(1) c store_invD(3) [OF inv] by (auto split: if_splits)
  qed
  show "d \<in> closed ?t" if "conns ?t d = Some (q, x)" "x \<in> {Stopped, Deleted, Gone}" for d q x
  proof (cases "d = c")
    case True
    with that cl(2) show ?thesis by simp
  next
    case False
    then have "d \<in> closed s"
      using that store_invD(4) [OF inv, of d q x] by simp
    with cl(1) show ?thesis by auto
  qed
qed

lemma store_inv_shrink:
  assumes inv: "store_inv s" and "c \<in> closed s"
    and sub: "\<And>q d. st' q = Some d \<Longrightarrow> store s q = Some d"
    and keep: "\<And>q d. store s q = Some d \<Longrightarrow> peer_ref d \<noteq> c \<Longrightarrow> st' q = Some d"
  shows "store_inv (s\<lparr>store := st'\<rparr>)" (is "store_inv ?t")
proof (rule store_invI)
  show "peer_id d = q" if "store ?t q = Some d" for q d
    using that sub store_invD(1) [OF inv] by simp
  show "\<exists>ph. conns ?t (peer_ref d) = Some (q, ph) \<and> ph \<notin> {Deleted, Gone}" if "store ?t q = Some d" for q d
    using that sub store_invD(2) [OF inv, of q d] by simp
  show "store ?t q = Some \<lparr>peer_ref = d, peer_id = q\<rparr>" if "conns ?t d = Some (q, x)" "d \<notin> closed ?t" for d q x
  proof -
    have "store s q = Some \<lparr>peer_ref = d, peer_id = q\<rparr>" "d \<noteq> c"
      using that assms(2) store_invD(3) [OF inv, of d q x] by auto
    then show ?thesis
      using keep by simp
  qed
  show "d \<in> closed ?t" if "conns ?t d = Some (q, x)" "x \<in> {Stopped, Deleted, Gone}" for d q x
    using that store_invD(4) [OF inv, of d q x] by simp
qed

lemma store_inv_delete [inv_intros]:
  assumes inv: "store_inv s" and c: "conns s c = Some (p, Stopped)"
    and del: "DeletePeer (store s) \<lparr>peer_ref = c, peer_id = p\<rparr> = (st', deleted)"
  shows "store_inv (s\<lparr>store := st', conns := (conns s)(c \<mapsto> (p, if deleted then Deleted else Gone))\<rparr>)"
proof -
  have cl: "c \<in> closed s"
    using store_invD(4) [OF inv c] by simp
  have owner: "q = p" if "store s q = Some d" "peer_ref d = c" for q d
    using store_invD(2) [OF inv that(1)] that(2) c by auto
  have st': "st' = (if \<exists>d. store s p = Some d \<and> peer_ref d = c then (store s)(p := None) else store s)"
    using del by (auto simp: DeletePeer_def split: option.splits if_splits)
  have sub: "store s q = Some d" if "st' q = Some d" for q d
    using that by (simp add: st' split: if_splits)
  have keep: "st' q = Some d" if "store s q = Some d" "peer_ref d \<noteq> c" for q d
    using that by (cases "q = p") (simp_all add: st')
  have free: "peer_ref d \<noteq> c" if "st' q = Some d" for q d
  proof
    assume "peer_ref d = c"
    with sub [OF that] owner have "q = p" "store s p = Some d" by blast+
    with that \<open>peer_ref d = c\<close> show False by (simp add: st')
  qed
  let ?s = "s\<lparr>store := st'\<rparr>"
  have "store_inv ?s"
    using inv cl sub keep by (rule store_inv_shrink)
  then have "store_inv (?s\<lparr>conns := (conns ?s)(c \<mapsto> (p, if deleted then Deleted else Gone)), closed := closed ?s\<rparr>)"
    using c free cl by (intro store_inv_phase) simp_all
  then show ?thesis by simp
qed

lemma store_inv_closed [inv_intros]: "store_inv s \<Longrightarrow> store_inv (s\<lparr>closed := insert c (closed s)\<rparr>)"
  by (auto simp: store_inv_def)

lemma store_inv_cong:
  assumes "store_inv s" "store t = store s" "conns t = conns s" "closed t = closed s"
  shows "store_inv t"
  using assms by (simp add: store_inv_def)

lemma relay_step_store_inv: "relay_step s t \<Longrightarrow> store_inv s \<Longrightarrow> store_inv t"
proof (induction rule: relay_step.induct)
  case (accept_announce s c p)
  then have "store_inv (s\<lparr>conns := (conns s)(c \<mapsto> (p, Accepted)), closed := closed s\<rparr>)"
    by (intro store_inv_phase [of s c p Added]) auto
  then show ?case by (rule store_inv_cong) simp_all
next
  case (work_start s c p)
  then have "store_inv (s\<lparr>conns := (conns s)(c \<mapsto> (p, Working)), closed := closed s\<rparr>)"
    by (intro store_inv_phase [of s c p Accepted]) auto
  then show ?case by (rule store_inv_cong) simp_all
next
  case (work_stop s c p)
  then have "store_inv (s\<lparr>conns := (conns s)(c \<mapsto> (p, Stopped)), closed := insert c (closed s)\<rparr>)"
    by (intro store_inv_phase [of s c p Working]) auto
  then show ?case by (rule store_inv_cong) simp_all
next
  case (announce_offline s c p)
  have "peer_ref d \<noteq> c" if "store s q = Some d" for q d
    using announce_offline.hyps(1) store_invD(2) [OF announce_offline.prems that] by auto
  moreover have "c \<in> closed s"
    using store_invD(4) [OF announce_offline.prems announce_offline.hyps(1)] by simp
  ultimately have "store_inv (s\<lparr>conns := (conns s)(c \<mapsto> (p, Gone)), closed := closed s\<rparr>)"
    using announce_offline by (intro store_inv_phase [of s c p Deleted]) auto
  then show ?case by (rule store_inv_cong) simp_all
next
  case (work_subscribe s c p l msg ids l' out)
  then show ?case by (elim store_inv_cong) simp_all
next
  case (work_unsubscribe s c p l msg)
  then show ?case by (elim store_inv_cong) simp_all
next
  case (listener_round s c l es rest)
  then show ?case by (elim store_inv_cong) simp_all
next
  case (accept_add s c p st' old replaced)
  then show ?case by (intro store_inv_add)
next
  case (conn_close s c p ph)
  then show ?case by (intro store_inv_closed)
next
  case (delete_peer s c p st' deleted)
  then show ?case by (intro store_inv_delete)
qed

text \<open>The listeners. Most steps only shrink what a listener has to have been told.\<close>

lemma listener_inv_mono:
  assumes "listener_inv st cs l t" and "t \<subseteq> t'"
    and "\<And>q d. st' q = Some d \<Longrightarrow> cs' (peer_ref d) \<noteq> Some (q, Added) \<Longrightarrow>
           st q = Some d \<and> cs (peer_ref d) \<noteq> Some (q, Added)"
    and "interestedPeersForOffline l' \<subseteq> interestedPeersForOffline l"
    and "interestedPeersForOnline l \<inter> interestedPeersForOffline l' \<subseteq> interestedPeersForOnline l'"
  shows "listener_inv st' cs' l' t'"
  unfolding listener_inv_def
proof (intro conjI ballI allI impI)
  fix q assume q: "q \<in> interestedPeersForOffline l'"
  then have old: "q \<in> interestedPeersForOffline l"
    using assms(4) by blast
  show "q \<in> t'" if "q \<notin> interestedPeersForOnline l'"
  proof -
    have "q \<notin> interestedPeersForOnline l"
      using that q assms(5) by blast
    with old assms(1,2) show ?thesis
      unfolding listener_inv_def by blast
  qed
  show "q \<in> t'" if "st' q = Some d" "cs' (peer_ref d) \<noteq> Some (q, Added)" for d
    using assms(3) [OF that] old assms(1,2) unfolding listener_inv_def by blast
qed

lemma listener_inv_announce:
  assumes "listener_inv st cs l t"
    and "\<And>q d. st q = Some d \<Longrightarrow> cs' (peer_ref d) \<noteq> Some (q, Added) \<Longrightarrow>
           q = p \<or> cs (peer_ref d) \<noteq> Some (q, Added)"
  shows "listener_inv st cs' (peerComeOnline p l) (t \<union> new_online l (peerComeOnline p l))"
proof -
  have p: "p \<in> interestedPeersForOffline l \<Longrightarrow> p \<in> t \<union> new_online l (peerComeOnline p l)"
    using assms(1) unfolding new_online_peerComeOnline listener_inv_def by auto
  have off: "interestedPeersForOffline (peerComeOnline p l) = interestedPeersForOffline l"
    and on: "interestedPeersForOnline (peerComeOnline p l) = interestedPeersForOnline l - {p}"
    by (auto simp: peerComeOnline_def)
  show ?thesis
    using assms p unfolding listener_inv_def off on by blast
qed

lemma listener_inv_subscribe:
  assumes "listener_inv st cs l t"
  shows "listener_inv st cs (AddInterestedPeers l ids) ((t - set ids) \<union> set (filter (\<lambda>q. st q \<noteq> None) ids))"
  using assms unfolding listener_inv_def interest_fields by auto

lemma listener_inv_new: "listener_inv st cs newListener t"
  by (simp add: listener_inv_def newListener_def)

lemmas listener_step_defs = PeerCameOnline_def PeerWentOffline_def NewListener_def RemoveListener_def
  handleUnsubscribePeerState_def

lemma listeners_invD:
  assumes "listeners_inv s" "notifier s c = Some l"
  shows "\<exists>p. conns s c = Some (p, Working)" "listener_inv (store s) (conns s) l (told s c)"
  using assms unfolding listeners_inv_def by blast+

lemma listeners_inv_add:
  assumes inv: "store_inv s" "listeners_inv s" and c: "conns s c = None"
    and add: "AddPeer (store s) \<lparr>peer_ref = c, peer_id = p\<rparr> = (st', old, replaced)"
  shows "listeners_inv (s\<lparr>store := st', conns := (conns s)(c \<mapsto> (p, Added)), closed := cl\<rparr>)"
proof -
  have st': "st' = (store s)(p \<mapsto> \<lparr>peer_ref = c, peer_id = p\<rparr>)"
    using add by (auto simp: AddPeer_def Let_def)
  have "listener_inv st' ((conns s)(c \<mapsto> (p, Added))) l (told s d)" if "notifier s d = Some l" for d l
    using listeners_invD(2) [OF inv(2) that]
    by (rule listener_inv_mono) (use c in \<open>auto simp: st' split: if_splits\<close>)
  moreover have "\<exists>q. ((conns s)(c \<mapsto> (p, Added))) d = Some (q, Working)" if "notifier s d = Some l" for d l
    using listeners_invD(1) [OF inv(2) that] c by auto
  ultimately show ?thesis
    unfolding listeners_inv_def by simp
qed

text \<open>A step that moves a connection past the announcement and keeps or drops listeners.\<close>

lemma listeners_inv_phase:
  assumes inv: "listeners_inv s" and c: "conns s c = Some (p, ph)" "ph \<noteq> Added" "ph' \<noteq> Added"
    and n: "\<And>d l'. n d = Some l' \<Longrightarrow> \<exists>l. notifier s d = Some l \<and> d \<noteq> c
        \<and> interestedPeersForOffline l' = interestedPeersForOffline l
        \<and> interestedPeersForOnline l' = interestedPeersForOnline l"
    and st: "\<And>q d. st' q = Some d \<Longrightarrow> store s q = Some d"
  shows "listeners_inv (s\<lparr>store := st', notifier := n, conns := (conns s)(c \<mapsto> (p, ph')), closed := cl\<rparr>)"
proof -
  have "listener_inv st' ((conns s)(c \<mapsto> (p, ph'))) l' (told s d) \<and>
      (\<exists>q. ((conns s)(c \<mapsto> (p, ph'))) d = Some (q, Working))" if nd: "n d = Some l'" for d l'
  proof -
    obtain l where l: "notifier s d = Some l" "d \<noteq> c"
      "interestedPeersForOffline l' = interestedPeersForOffline l"
      "interestedPeersForOnline l' = interestedPeersForOnline l"
      using n [OF nd] by blast
    have "listener_inv st' ((conns s)(c \<mapsto> (p, ph'))) l' (told s d)"
      using listeners_invD(2) [OF inv l(1)]
      by (rule listener_inv_mono) (use st c l in \<open>auto split: if_splits\<close>)
    moreover have "\<exists>q. ((conns s)(c \<mapsto> (p, ph'))) d = Some (q, Working)"
      using listeners_invD(1) [OF inv l(1)] l(2) by simp
    ultimately show ?thesis by blast
  qed
  then show ?thesis
    unfolding listeners_inv_def by simp
qed

text \<open>A step of one working connection on its own listener.\<close>

lemma listeners_inv_update:
  assumes "listeners_inv s" "conns s c = Some (p, Working)" "listener_inv (store s) (conns s) l' t'"
  shows "listeners_inv (s\<lparr>notifier := (notifier s)(c \<mapsto> l'), told := (told s)(c := t')\<rparr>)"
  using assms unfolding listeners_inv_def by simp

lemma listeners_inv_keep_told:
  assumes "listeners_inv s" "conns s c = Some (p, Working)" "listener_inv (store s) (conns s) l' (told s c)"
  shows "listeners_inv (s\<lparr>notifier := (notifier s)(c \<mapsto> l')\<rparr>)"
  using assms unfolding listeners_inv_def by simp

lemma relay_step_listeners_inv: "relay_step s t \<Longrightarrow> relay_inv s \<Longrightarrow> listeners_inv t"
proof (induction rule: relay_step.induct)
  case (accept_add s c p st' old replaced)
  then show ?case
    by (intro listeners_inv_add) (simp_all add: relay_inv_def)
next
  case (accept_announce s c p)
  let ?t = "s\<lparr>notifier := PeerCameOnline (notifier s) p, conns := (conns s)(c \<mapsto> (p, Accepted)),
     told := (\<lambda>d. told s d \<union> (case notifier s d of None \<Rightarrow> {} | Some l \<Rightarrow> new_online l (peerComeOnline p l)))\<rparr>"
  have inv: "listeners_inv s"
    using accept_announce.prems by (simp add: relay_inv_def)
  have "(\<exists>q. conns ?t d = Some (q, Working)) \<and> listener_inv (store ?t) (conns ?t) l' (told ?t d)"
    if nd: "notifier ?t d = Some l'" for d l'
  proof -
    obtain l where l: "notifier s d = Some l" "l' = peerComeOnline p l"
      using nd by (auto simp: PeerCameOnline_def)
    have "listener_inv (store s) ((conns s)(c \<mapsto> (p, Accepted))) l' (told s d \<union> new_online l (peerComeOnline p l))"
      unfolding l(2) using listeners_invD(2) [OF inv l(1)] accept_announce.hyps(1)
      by (intro listener_inv_announce) (auto split: if_splits)
    moreover have "d \<noteq> c" "\<exists>q. conns s d = Some (q, Working)"
      using listeners_invD(1) [OF inv l(1)] accept_announce.hyps(1) by auto
    ultimately show ?thesis
      using l by simp
  qed
  then show ?case
    unfolding listeners_inv_def by blast
next
  case (work_start s c p)
  have inv: "listeners_inv s"
    using work_start.prems by (simp add: relay_inv_def)
  have "listener_inv (store s) ((conns s)(c \<mapsto> (p, Working))) l (told s d) \<and> (\<exists>q. conns s d = Some (q, Working))"
    if nd: "notifier s d = Some l" for d l
  proof
    show "listener_inv (store s) ((conns s)(c \<mapsto> (p, Working))) l (told s d)"
      using listeners_invD(2) [OF inv nd]
      by (rule listener_inv_mono) (use work_start.hyps in \<open>auto split: if_splits\<close>)
  qed (rule listeners_invD(1) [OF inv nd])
  then show ?case
    by (simp add: listeners_inv_def NewListener_def listener_inv_new)
next
  case (work_subscribe s c p l msg ids l' out)
  have inv: "listeners_inv s"
    using work_subscribe.prems by (simp add: relay_inv_def)
  have "l' = AddInterestedPeers l ids"
    using work_subscribe.hyps(3,4) by (rule handleSubscribePeerState_listener)
  moreover have "announced out = set (filter (\<lambda>q. store s q \<noteq> None) ids)"
    using work_subscribe.hyps(3,4) by (rule handleSubscribePeerState_announced)
  ultimately show ?case
    using listener_inv_subscribe [OF listeners_invD(2) [OF inv work_subscribe.hyps(2)]]
    by (intro listeners_inv_update [OF inv work_subscribe.hyps(1)]) simp
next
  case (work_unsubscribe s c p l msg)
  have inv: "listeners_inv s"
    using work_unsubscribe.prems by (simp add: relay_inv_def)
  have "listener_inv (store s) (conns s) (handleUnsubscribePeerState l msg) (told s c)"
    using listeners_invD(2) [OF inv work_unsubscribe.hyps(2)]
    by (rule listener_inv_mono) (auto simp: handleUnsubscribePeerState_def interest_fields split: sum.splits)
  then show ?case
    by (rule listeners_inv_keep_told [OF inv work_unsubscribe.hyps(1)])
next
  case (listener_round s c l es rest)
  have inv: "listeners_inv s"
    using listener_round.prems by (simp add: relay_inv_def)
  obtain p where "conns s c = Some (p, Working)"
    using listeners_invD(1) [OF inv listener_round.hyps(1)] by blast
  moreover have "listener_inv (store s) (conns s) (l\<lparr>eventChan := rest\<rparr>) (told s c)"
    using listeners_invD(2) [OF inv listener_round.hyps(1)] by (simp add: listener_inv_def)
  ultimately show ?case
    by (rule listeners_inv_keep_told [OF inv])
next
  case (conn_close s c p ph)
  then show ?case
    by (simp add: relay_inv_def listeners_inv_def)
next
  case (work_stop s c p)
  have "listeners_inv (s\<lparr>store := store s, notifier := RemoveListener (notifier s) c,
      conns := (conns s)(c \<mapsto> (p, Stopped)), closed := insert c (closed s)\<rparr>)"
    using work_stop by (intro listeners_inv_phase [of s c p Working])
      (auto simp: relay_inv_def RemoveListener_def split: option.splits if_splits)
  then show ?case by simp
next
  case (delete_peer s c p st' deleted)
  have "st' q = Some d \<Longrightarrow> store s q = Some d" for q d
    using delete_peer by (auto simp: DeletePeer_def split: option.splits if_splits)
  moreover have "d \<noteq> c" if "notifier s d = Some l" for d l
    using listeners_invD(1) [OF _ that] delete_peer by (auto simp: relay_inv_def)
  ultimately have "listeners_inv (s\<lparr>store := st', notifier := notifier s,
      conns := (conns s)(c \<mapsto> (p, if deleted then Deleted else Gone)), closed := closed s\<rparr>)"
    using delete_peer by (intro listeners_inv_phase [of s c p Stopped]) (auto simp: relay_inv_def)
  then show ?case by simp
next
  case (announce_offline s c p)
  have "d \<noteq> c" if "notifier s d = Some l" for d l
    using listeners_invD(1) [OF _ that] announce_offline by (auto simp: relay_inv_def)
  then have "listeners_inv (s\<lparr>store := store s, notifier := PeerWentOffline (notifier s) p,
      conns := (conns s)(c \<mapsto> (p, Gone)), closed := closed s\<rparr>)"
    using announce_offline by (intro listeners_inv_phase [of s c p Deleted])
      (auto simp: relay_inv_def PeerWentOffline_def peerWentOffline_def)
  then show ?case by simp
qed

interpretation relay_system: invariant_system relay_start relay_step relay_inv
proof
  fix s assume "relay_start s"
  then show "relay_inv s"
    by (simp add: relay_start_def relay_inv_def store_inv_def listeners_inv_def NewStore_def NewPeerNotifier_def)
next
  fix s t assume "relay_inv s" "relay_step s t"
  then show "relay_inv t"
    using relay_step_store_inv relay_step_listeners_inv by (simp add: relay_inv_def)
qed

end
