(* ===== verification/RelayProps.thy ===== *)
theory RelayProps
  imports RelaySystem
begin

text \<open>
  The properties of the relay server: one open connection per peer, no lost online notification,
  delivery of transport messages to the owner of the destination id, authentication in the
  handshake, and the effect of batching on the order of notifications.
\<close>

section \<open>A run\<close>

text \<open>The steps as functions of the state, to write runs down.\<close>

definition do_add :: "nat \<Rightarrow> PeerID \<Rightarrow> relay \<Rightarrow> relay" where
  "do_add c p s = (let (st', old, _) = AddPeer (store s) \<lparr>peer_ref = c, peer_id = p\<rparr>
     in s\<lparr>store := st', conns := (conns s)(c \<mapsto> (p, Added)), closed := closed s \<union> peer_ref ` set_option old\<rparr>)"

definition do_announce :: "nat \<Rightarrow> PeerID \<Rightarrow> relay \<Rightarrow> relay" where
  "do_announce c p s = s\<lparr>notifier := PeerCameOnline (notifier s) p, conns := (conns s)(c \<mapsto> (p, Accepted)),
     told := (\<lambda>d. told s d \<union> (case notifier s d of None \<Rightarrow> {} | Some l \<Rightarrow> new_online l (peerComeOnline p l)))\<rparr>"

definition do_work :: "nat \<Rightarrow> PeerID \<Rightarrow> relay \<Rightarrow> relay" where
  "do_work c p s = s\<lparr>notifier := NewListener (notifier s) c, conns := (conns s)(c \<mapsto> (p, Working)),
     told := (told s)(c := {})\<rparr>"

definition do_subscribe :: "nat \<Rightarrow> PeerID \<Rightarrow> relay \<Rightarrow> relay" where
  "do_subscribe c q s = s\<lparr>notifier := (notifier s)(c \<mapsto> AddInterestedPeers (the (notifier s c)) [q]),
     told := (told s)(c := (told s c - {q}) \<union> set (filter (\<lambda>q. store s q \<noteq> None) [q]))\<rparr>"

definition do_stop :: "nat \<Rightarrow> PeerID \<Rightarrow> relay \<Rightarrow> relay" where
  "do_stop c p s = s\<lparr>notifier := RemoveListener (notifier s) c, conns := (conns s)(c \<mapsto> (p, Stopped)),
     closed := insert c (closed s)\<rparr>"

definition do_delete :: "nat \<Rightarrow> PeerID \<Rightarrow> relay \<Rightarrow> relay" where
  "do_delete c p s = (let (st', deleted) = DeletePeer (store s) \<lparr>peer_ref = c, peer_id = p\<rparr>
     in s\<lparr>store := st', conns := (conns s)(c \<mapsto> (p, if deleted then Deleted else Gone))\<rparr>)"

definition do_offline :: "nat \<Rightarrow> PeerID \<Rightarrow> relay \<Rightarrow> relay" where
  "do_offline c p s = s\<lparr>notifier := PeerWentOffline (notifier s) p, conns := (conns s)(c \<mapsto> (p, Gone))\<rparr>"

abbreviation relay_reachable :: "relay \<Rightarrow> bool" where
  "relay_reachable \<equiv> reachable relay_start relay_step"

definition relay_empty :: relay where
  "relay_empty = \<lparr>store = NewStore, notifier = NewPeerNotifier, conns = Map.empty, closed = {}, told = (\<lambda>c. {})\<rparr>"

lemma run_empty: "relay_reachable relay_empty"
  by (rule reachable.reach_start) (simp add: relay_start_def relay_empty_def)

lemma run_add: "relay_reachable s \<Longrightarrow> conns s c = None \<Longrightarrow> relay_reachable (do_add c p s)"
  by (erule reachable.reach_step)
    (auto simp: do_add_def split: prod.splits intro: relay_step.accept_add)

lemma run_announce:
  "relay_reachable s \<Longrightarrow> conns s c = Some (p, Added) \<Longrightarrow> \<forall>l \<in> ran (notifier s). has_room l \<Longrightarrow>
   relay_reachable (do_announce c p s)"
  unfolding do_announce_def by (erule reachable.reach_step, rule relay_step.accept_announce)

lemma run_work: "relay_reachable s \<Longrightarrow> conns s c = Some (p, Accepted) \<Longrightarrow> relay_reachable (do_work c p s)"
  unfolding do_work_def by (erule reachable.reach_step, rule relay_step.work_start)

lemma run_subscribe:
  assumes "relay_reachable s" "conns s c = Some (p, Working)" "notifier s c = Some l" "PeerID_ok q"
  shows "relay_reachable (do_subscribe c q s)"
proof -
  let ?msg = "[CurrentProtocolVersion, MsgTypeSubscribePeerState] @ concat [q]"
  have msg: "UnmarshalSubPeerStateMsg ?msg = Inr [q]"
    unfolding UnmarshalSubPeerStateMsg_def by (rule unmarshalPeerIDs_layout) (simp add: assms(4))
  obtain l' out where h: "handleSubscribePeerState (store s) l ?msg = (l', out)"
    by fastforce
  have "l' = AddInterestedPeers l [q]" and "announced out = set (filter (\<lambda>q. store s q \<noteq> None) [q])"
    using handleSubscribePeerState_listener [OF msg h] handleSubscribePeerState_announced [OF msg h] by blast+
  then have "relay_step s (do_subscribe c q s)"
    using relay_step.work_subscribe [OF assms(2,3) msg h] by (simp add: do_subscribe_def assms(3))
  with assms(1) show ?thesis
    by (rule reachable.reach_step)
qed

lemma run_stop: "relay_reachable s \<Longrightarrow> conns s c = Some (p, Working) \<Longrightarrow> relay_reachable (do_stop c p s)"
  unfolding do_stop_def by (erule reachable.reach_step, rule relay_step.work_stop)

lemma run_delete:
  assumes "relay_reachable s" "conns s c = Some (p, Stopped)"
  shows "relay_reachable (do_delete c p s)"
proof -
  obtain st' deleted where d: "DeletePeer (store s) \<lparr>peer_ref = c, peer_id = p\<rparr> = (st', deleted)"
    by fastforce
  show ?thesis
    unfolding do_delete_def d Let_def prod.case
    by (rule reachable.reach_step [OF assms(1)]) (rule relay_step.delete_peer [OF assms(2) d])
qed

lemma run_offline:
  "relay_reachable s \<Longrightarrow> conns s c = Some (p, Deleted) \<Longrightarrow> \<forall>l \<in> ran (notifier s). has_room l \<Longrightarrow>
   relay_reachable (do_offline c p s)"
  unfolding do_offline_def by (erule reachable.reach_step, rule relay_step.announce_offline)

lemmas run_defs = do_add_def do_announce_def do_work_def do_subscribe_def do_stop_def do_delete_def
  do_offline_def relay_empty_def AddPeer_def DeletePeer_def NewStore_def NewPeerNotifier_def NewListener_def
  RemoveListener_def PeerCameOnline_def PeerWentOffline_def newListener_def peerComeOnline_def
  peerWentOffline_def

section \<open>Properties\<close>

text \<open>C13: In every reachable state of the relay, at most one connection per peer id is open (a connection
  that was replaced has been closed), and the store maps an id only to a connection of that id that has
  not been deleted yet: the deferred clean-up of an old connection never removes its replacement.\<close>

theorem relay_one_open_connection:
  assumes "relay_reachable s"
  shows "(\<forall>c d p ph ph'. conns s c = Some (p, ph) \<and> conns s d = Some (p, ph') \<and> c \<notin> closed s \<and> d \<notin> closed s
            \<longrightarrow> c = d)
    \<and> (\<forall>p d. store s p = Some d \<longrightarrow> peer_id d = p \<and> (\<exists>ph. conns s (peer_ref d) = Some (p, ph) \<and> ph \<notin> {Deleted, Gone}))
    \<and> (\<forall>c p ph. conns s c = Some (p, ph) \<and> c \<notin> closed s \<longrightarrow> store s p = Some \<lparr>peer_ref = c, peer_id = p\<rparr>)"
proof -
  have inv: "store_inv s"
    using relay_system.reachable_invar [OF assms] by (simp add: relay_inv_def)
  have "\<forall>c d p ph ph'. conns s c = Some (p, ph) \<and> conns s d = Some (p, ph') \<and> c \<notin> closed s \<and> d \<notin> closed s
      \<longrightarrow> c = d"
    using store_inv_unique [OF inv] by blast
  then show ?thesis
    using inv unfolding store_inv_def by blast
qed

theorem relay_one_open_connection_witness:
  "\<exists>s. relay_reachable s \<and> conns s 0 = Some (replicate 36 1, Added) \<and> conns s 1 = Some (replicate 36 1, Added)
     \<and> 1 \<notin> closed s \<and> 0 \<in> closed s"
proof -
  let ?p = "replicate 36 (1::byte)"
  let ?s = "do_add 1 ?p (do_add 0 ?p relay_empty)"
  have r: "relay_reachable ?s"
    by (intro run_add run_empty) (simp_all add: run_defs Let_def)
  have c: "conns ?s 0 = Some (?p, Added)" "conns ?s 1 = Some (?p, Added)" "1 \<notin> closed ?s"
    by (simp_all add: run_defs Let_def)
  moreover have "0 \<in> closed ?s"
    using conjunct1 [OF relay_one_open_connection [OF r], THEN spec, of 0, THEN spec, of 1] c by auto
  ultimately show ?thesis
    using r by blast
qed

text \<open>C12: No online notification is lost: in every reachable state, a client that is subscribed to a peer
  which is in the store and has been announced was told that the peer is online since it last
  subscribed, in the response or by an event in its channel, however subscriptions, connections and
  reconnections interleave.\<close>

theorem relay_no_lost_online:
  assumes "relay_reachable s" and "notifier s c = Some l" and "q \<in> interestedPeersForOffline l"
    and "store s q = Some d" and "conns s (peer_ref d) \<noteq> Some (q, Added)"
  shows "q \<in> told s c"
proof -
  have "listeners_inv s"
    using relay_system.reachable_invar [OF assms(1)] by (simp add: relay_inv_def)
  then have "listener_inv (store s) (conns s) l (told s c)"
    using assms(2) by (rule listeners_invD(2))
  with assms(3-5) show ?thesis
    unfolding listener_inv_def by blast
qed

theorem relay_no_lost_online_witness:
  "\<exists>s l. relay_reachable s \<and> notifier s 0 = Some l \<and> replicate 36 1 \<in> interestedPeersForOffline l
     \<and> replicate 36 1 \<in> told s 0"
proof -
  let ?p = "replicate 36 (1::byte)"
  let ?s = "do_subscribe 0 ?p (do_work 0 ?p (do_announce 0 ?p (do_add 0 ?p relay_empty)))"
  have r: "relay_reachable (do_work 0 ?p (do_announce 0 ?p (do_add 0 ?p relay_empty)))"
    by (intro run_work run_announce run_add run_empty) (simp_all add: run_defs Let_def)
  have "relay_reachable ?s"
    by (rule run_subscribe [OF r, of _ ?p newListener]) (simp_all add: run_defs Let_def PeerID_ok_def wire_simps)
  moreover have "notifier ?s 0 = Some (AddInterestedPeers newListener [?p])"
    by (simp add: run_defs Let_def)
  moreover have "?p \<in> interestedPeersForOffline (AddInterestedPeers newListener [?p])"
    by simp
  ultimately show ?thesis
    using relay_no_lost_online [of ?s 0 "AddInterestedPeers newListener [?p]" ?p "\<lparr>peer_ref = 0, peer_id = ?p\<rparr>"]
    by (auto simp: run_defs Let_def)
qed



text \<open>C17: The handshake admits an auth message exactly when the validator accepts its payload, and then under
  the id the client put into the message; and whatever bytes arrive, an id is admitted by the auth
  method only if the validator accepted the payload decoded together with it.\<close>

theorem handshake_authenticates:
  assumes "PeerID_ok p" and "headerTotalSizeAuth + length payload \<le> MaxHandshakeSize"
    and "MarshalAuthMsg p payload = Inr m"
  shows "handshakeReceive v m = (if Validate v payload then Inr p else Inl (ValidationFailed p), True)
    \<and> (\<forall>buf q. handshakeReceive v buf = (Inr q, True) \<longrightarrow>
         (\<exists>pl. UnmarshalAuthMsg (take MaxHandshakeSize buf) = Inr (q, pl) \<and> Validate v pl))"
proof
  have m: "m = [CurrentProtocolVersion, MsgTypeAuth] @ magicHeader @ p @ payload"
    using assms by (simp add: MarshalAuthMsg_layout)
  have len: "length m \<le> MaxHandshakeSize"
    using assms(1,2) unfolding m by (simp add: PeerID_ok_def wire_simps)
  have "ValidateVersion m = Inr (m ! 0)" "DetermineClientMessageType m = Inr MsgTypeAuth"
    unfolding m by (simp_all add: ValidateVersion_def DetermineClientMessageType_def wire_simps)
  moreover have "UnmarshalAuthMsg m = Inr (p, payload)"
    unfolding m using assms(1) by (rule UnmarshalAuthMsg_layout)
  ultimately show "handshakeReceive v m = (if Validate v payload then Inr p else Inl (ValidationFailed p), True)"
    using len by (simp add: handshakeReceive_def handleAuthMsg_def)
  show "\<forall>buf q. handshakeReceive v buf = (Inr q, True) \<longrightarrow>
         (\<exists>pl. UnmarshalAuthMsg (take MaxHandshakeSize buf) = Inr (q, pl) \<and> Validate v pl)"
    by (auto simp: handshakeReceive_def handleAuthMsg_def Let_def split: sum.splits if_splits)
qed

theorem handshake_authenticates_witness:
  "\<exists>m. MarshalAuthMsg (replicate 36 1) [7] = Inr m \<and>
     handshakeReceive \<lparr>Validate = (\<lambda>b. b = [7]), ValidateHelloMsgType = (\<lambda>b. False), gob_decode = (\<lambda>b. None)\<rparr> m
       = (Inr (replicate 36 1), True)"
proof -
  have ok: "PeerID_ok (replicate 36 1)" "headerTotalSizeAuth + length [7::byte] \<le> MaxHandshakeSize"
    by (simp_all add: PeerID_ok_def wire_simps)
  then obtain m where m: "MarshalAuthMsg (replicate 36 1) [7] = Inr m"
    by (simp add: MarshalAuthMsg_layout)
  with handshake_authenticates [OF ok m,
      of "\<lparr>Validate = (\<lambda>b. b = [7]), ValidateHelloMsgType = (\<lambda>b. False), gob_decode = (\<lambda>b. None)\<rparr>"]
  show ?thesis by simp
qed

section \<open>Batched notifications\<close>

text \<open>What a client believes to be online after a sequence of events, and after a sequence of callbacks.\<close>

fun event_view :: "event list \<Rightarrow> PeerID set \<Rightarrow> PeerID set" where
  "event_view [] v = v"
| "event_view (e # es) v =
     event_view es (if event_online e then insert (event_peerID e) v else v - {event_peerID e})"

fun callback_view :: "callback list \<Rightarrow> PeerID set \<Rightarrow> PeerID set" where
  "callback_view [] v = v"
| "callback_view (OnPeersComeOnline ps # cs) v = callback_view cs (v \<union> set ps)"
| "callback_view (OnPeersWentOffline ps # cs) v = callback_view cs (v - set ps)"

definition events_for :: "PeerID \<Rightarrow> event list \<Rightarrow> bool list" where
  "events_for q es = map event_online (filter (\<lambda>e. event_peerID e = q) es)"

lemma collect_events_eq:
  "collect_events es on off =
     (on @ map event_peerID (filter event_online es), off @ map event_peerID (filter (\<lambda>e. \<not> event_online e) es))"
  by (induction es arbitrary: on off) auto

lemma callback_view_round:
  "callback_view (listenForEvents_round es) v =
     (v \<union> event_peerID ` {e \<in> set es. event_online e}) - event_peerID ` {e \<in> set es. \<not> event_online e}"
  by (auto simp: listenForEvents_round_def collect_events_eq filter_empty_conv)

lemma event_view_iff:
  "q \<in> event_view es v \<longleftrightarrow> (if events_for q es = [] then q \<in> v else last (events_for q es))"
  by (induction es arbitrary: v) (auto simp: events_for_def)

lemma events_for_mem:
  "q \<in> event_peerID ` {e \<in> set es. event_online e} \<longleftrightarrow> True \<in> set (events_for q es)"
  "q \<in> event_peerID ` {e \<in> set es. \<not> event_online e} \<longleftrightarrow> False \<in> set (events_for q es)"
  by (auto simp: events_for_def)

text \<open>C30: One round of the listener sends all online notifications of a batch before all offline ones.
  The client therefore ends with the view the events describe exactly when no peer in the batch went
  offline before its last event in the batch said online; a peer that dropped and reconnected within
  one batch is left offline in the client's view although its last event said online.\<close>

theorem batching_changes_view:
  "callback_view (listenForEvents_round es) v = event_view es v \<longleftrightarrow>
     (\<forall>q. \<not> (events_for q es \<noteq> [] \<and> last (events_for q es) \<and> False \<in> set (events_for q es)))"
proof -
  have "(q \<in> callback_view (listenForEvents_round es) v \<longleftrightarrow> q \<in> event_view es v) \<longleftrightarrow>
      \<not> (events_for q es \<noteq> [] \<and> last (events_for q es) \<and> False \<in> set (events_for q es))" for q
  proof (cases "events_for q es" rule: rev_cases)
    case Nil
    then show ?thesis
      by (simp add: callback_view_round event_view_iff events_for_mem)
  next
    case (snoc bs b)
    then show ?thesis
      by (cases b) (auto simp: callback_view_round event_view_iff events_for_mem)
  qed
  then show ?thesis
    by blast
qed

text \<open>C31: The reordering happens: there is a run in which a client subscribed to a connected peer, the peer
  drops and reconnects before the listener's next round, and the round leaves the client with the
  peer offline although it is in the store, announced, and no further online event will be sent for it.\<close>

theorem reconnect_can_end_offline:
  "\<exists>s l. relay_reachable s \<and> notifier s 0 = Some l
     \<and> store s (replicate 36 2) = Some \<lparr>peer_ref = 2, peer_id = replicate 36 2\<rparr>
     \<and> conns s 2 = Some (replicate 36 2, Accepted)
     \<and> replicate 36 2 \<in> event_view (eventChan l) {replicate 36 2}
     \<and> replicate 36 2 \<notin> callback_view (listenForEvents_round (eventChan l)) {replicate 36 2}
     \<and> replicate 36 2 \<notin> interestedPeersForOnline l"
proof -
  let ?a = "replicate 36 (1::byte)" and ?b = "replicate 36 (2::byte)"
  have ne: "?a \<noteq> ?b"
    by simp
  define s1 where "s1 = do_work 1 ?b (do_announce 1 ?b (do_add 1 ?b (do_work 0 ?a (do_announce 0 ?a (do_add 0 ?a relay_empty)))))"
  have n1: "notifier s1 = [0 \<mapsto> newListener, 1 \<mapsto> newListener]"
    and c1: "conns s1 = [0 \<mapsto> (?a, Working), 1 \<mapsto> (?b, Working)]"
    and st1: "store s1 = [?a \<mapsto> \<lparr>peer_ref = 0, peer_id = ?a\<rparr>, ?b \<mapsto> \<lparr>peer_ref = 1, peer_id = ?b\<rparr>]"
    by (auto simp: s1_def run_defs Let_def fun_eq_iff)
  have "relay_reachable s1"
    unfolding s1_def by (intro run_work run_announce run_add run_empty)
      (auto simp: run_defs Let_def has_room_def eventChan_capacity_def ran_def split: if_splits)
  then have "relay_reachable (do_subscribe 0 ?b s1)"
    by (rule run_subscribe) (simp_all add: c1 n1 PeerID_ok_def wire_simps)
  then have r2: "relay_reachable (do_delete 1 ?b (do_stop 1 ?b (do_subscribe 0 ?b s1)))"
    by (intro run_delete run_stop) (simp_all add: c1 do_subscribe_def do_stop_def)
  define s2 where "s2 = do_delete 1 ?b (do_stop 1 ?b (do_subscribe 0 ?b s1))"
  have n2: "notifier s2 = [0 \<mapsto> AddInterestedPeers newListener [?b]]"
    and c2: "conns s2 = [0 \<mapsto> (?a, Working), 1 \<mapsto> (?b, Deleted)]"
    and st2: "store s2 = [?a \<mapsto> \<lparr>peer_ref = 0, peer_id = ?a\<rparr>]"
    using ne by (auto simp: s2_def do_delete_def do_stop_def do_subscribe_def DeletePeer_def RemoveListener_def
        n1 c1 st1 fun_eq_iff)
  let ?s = "do_announce 2 ?b (do_add 2 ?b (do_offline 1 ?b s2))"
  let ?l = "peerComeOnline ?b (peerWentOffline ?b (AddInterestedPeers newListener [?b]))"
  have r3: "relay_reachable (do_add 2 ?b (do_offline 1 ?b s2))"
    using r2 unfolding s2_def [symmetric]
    by (intro run_add run_offline) (auto simp: c2 n2 do_offline_def has_room_def eventChan_capacity_def
        interest_fields newListener_def)
  have "relay_reachable ?s"
    using r3 by (rule run_announce)
      (auto simp: c2 n2 do_offline_def do_add_def AddPeer_def Let_def PeerWentOffline_def peerWentOffline_def
        has_room_def eventChan_capacity_def interest_fields newListener_def ran_def split: if_splits)
  moreover have "notifier ?s 0 = Some ?l"
    by (simp add: do_announce_def do_add_def do_offline_def AddPeer_def Let_def PeerCameOnline_def PeerWentOffline_def n2)
  moreover have "store ?s ?b = Some \<lparr>peer_ref = 2, peer_id = ?b\<rparr>" "conns ?s 2 = Some (?b, Accepted)"
    by (simp_all add: do_announce_def do_add_def do_offline_def AddPeer_def Let_def)
  moreover have "eventChan ?l = [\<lparr>event_peerID = ?b, event_online = False\<rparr>, \<lparr>event_peerID = ?b, event_online = True\<rparr>]"
    "?b \<notin> interestedPeersForOnline ?l"
    by (simp_all add: peerComeOnline_def peerWentOffline_def newListener_def)
  ultimately show ?thesis
    by (intro exI [of _ ?s] exI [of _ ?l]) (simp add: listenForEvents_round_def)
qed

end
