(* ===== verification/Conntrack.thy ===== *)
theory Conntrack
  imports Prelude
begin

text \<open>
  Connection tracking of the user-space firewall, \<open>client/firewall/uspfilter/conntrack\<close>: the fields
  every connection has (\<open>common.go\<close>) and the TCP tracker (\<open>tcp.go\<close>). The clock is an argument
  (\<open>now\<close>, nanoseconds, as \<open>time.Now().UnixNano()\<close>), the flow id that \<open>uuid.New\<close> draws is an argument,
  and the flow logger is the list of the events handed to it, oldest first. A packet is processed in one
  piece, so a compare-and-swap on the state that was just read succeeds. An address is the list of its
  bytes; connections are compared by key only.
\<close>

unbundle bit_operations_syntax

section \<open>Flow events\<close>

datatype Direction = DirectionUnknown | Ingress | Egress

datatype event_type = TypeUnknown | TypeStart | TypeEnd | TypeDrop

type_synonym addr = bytes
type_synonym flow_id = nat

record EventFields =
  ef_FlowID :: flow_id
  ef_Type :: event_type
  ef_RuleID :: bytes
  ef_Direction :: Direction
  ef_Protocol :: nat
  ef_SourceIP :: addr
  ef_DestIP :: addr
  ef_SourcePort :: uint16
  ef_DestPort :: uint16
  ef_ICMPType :: byte
  ef_ICMPCode :: byte
  ef_RxPackets :: uint64
  ef_TxPackets :: uint64
  ef_RxBytes :: uint64
  ef_TxBytes :: uint64

definition proto_ICMP :: nat where "proto_ICMP = 1"
definition proto_TCP :: nat where "proto_TCP = 6"
definition proto_UDP :: nat where "proto_UDP = 17"

section \<open>What all connections share\<close>

record BaseConnTrack =
  FlowId :: flow_id
  conn_Direction :: Direction
  SourceIP :: addr
  DestIP :: addr
  lastSeen :: int
  PacketsTx :: uint64
  PacketsRx :: uint64
  BytesTx :: uint64
  BytesRx :: uint64
  DNATOrigPort :: uint32

definition new_base :: "flow_id \<Rightarrow> Direction \<Rightarrow> addr \<Rightarrow> addr \<Rightarrow> BaseConnTrack" where
  "new_base flow direction srcIP dstIP =
     \<lparr>FlowId = flow, conn_Direction = direction, SourceIP = srcIP, DestIP = dstIP, lastSeen = 0,
      PacketsTx = 0, PacketsRx = 0, BytesTx = 0, BytesRx = 0, DNATOrigPort = 0\<rparr>"

definition UpdateLastSeen :: "int \<Rightarrow> BaseConnTrack \<Rightarrow> BaseConnTrack" where
  "UpdateLastSeen now b = b\<lparr>lastSeen := now\<rparr>"

definition UpdateCounters :: "Direction \<Rightarrow> int \<Rightarrow> BaseConnTrack \<Rightarrow> BaseConnTrack" where
  "UpdateCounters direction sz b =
     (if direction = Egress
      then b\<lparr>PacketsTx := PacketsTx b + 1, BytesTx := BytesTx b + of_int sz\<rparr>
      else b\<lparr>PacketsRx := PacketsRx b + 1, BytesRx := BytesRx b + of_int sz\<rparr>)"

definition timeoutExceeded :: "int \<Rightarrow> int \<Rightarrow> BaseConnTrack \<Rightarrow> bool" where
  "timeoutExceeded now timeout b \<longleftrightarrow> now - lastSeen b > timeout"

record ConnKey =
  SrcIP :: addr
  DstIP :: addr
  SrcPort :: uint16
  DstPort :: uint16

section \<open>TCP\<close>

definition second_ns :: int where "second_ns = 1000000000"
definition MSL :: int where "MSL = 2 * 60 * second_ns"
definition TimeWaitTimeout :: int where "TimeWaitTimeout = 2 * MSL"
definition DefaultTCPTimeout :: int where "DefaultTCPTimeout = 3 * 3600 * second_ns"
definition TCPHandshakeTimeout :: int where "TCPHandshakeTimeout = 60 * second_ns"

definition TCPFin :: byte where "TCPFin = 0x01"
definition TCPSyn :: byte where "TCPSyn = 0x02"
definition TCPRst :: byte where "TCPRst = 0x04"
definition TCPPush :: byte where "TCPPush = 0x08"
definition TCPAck :: byte where "TCPAck = 0x10"
definition TCPUrg :: byte where "TCPUrg = 0x20"

lemmas tcp_flags = TCPFin_def TCPSyn_def TCPRst_def TCPPush_def TCPAck_def TCPUrg_def

text \<open>\<open>flags & f != 0\<close>.\<close>

definition has_flag :: "byte \<Rightarrow> byte \<Rightarrow> bool" where
  "has_flag flags f \<longleftrightarrow> flags AND f \<noteq> 0"

datatype TCPState =
    TCPStateNew | TCPStateSynSent | TCPStateSynReceived | TCPStateEstablished | TCPStateFinWait1
  | TCPStateFinWait2 | TCPStateClosing | TCPStateTimeWait | TCPStateCloseWait | TCPStateLastAck
  | TCPStateClosed

record TCPConnTrack =
  tcp_base :: BaseConnTrack
  tcp_SourcePort :: uint16
  tcp_DestPort :: uint16
  tcp_state :: TCPState
  tombstone :: bool

definition IsSupersededBy :: "TCPConnTrack \<Rightarrow> byte \<Rightarrow> bool" where
  "IsSupersededBy c flags =
     (if tombstone c then True
      else has_flag flags TCPSyn \<and> \<not> has_flag flags TCPAck \<and> tcp_state c = TCPStateTimeWait)"

record TCPTracker =
  connections :: "ConnKey \<rightharpoonup> TCPConnTrack"
  tcp_timeout :: int
  waitTimeout :: int
  flow_events :: "EventFields list"

text \<open>Go's \<open>/\<close> truncates; a negative timeout is not rejected by the source.\<close>

definition go_div :: "int \<Rightarrow> int \<Rightarrow> int" where
  "go_div a b = sgn a * sgn b * (\<bar>a\<bar> div \<bar>b\<bar>)"

definition NewTCPTracker :: "int \<Rightarrow> TCPTracker" where
  "NewTCPTracker timeout =
     (let (timeout, wait) = (if timeout = 0 then (DefaultTCPTimeout, TimeWaitTimeout)
                             else (timeout, go_div timeout 45))
      in \<lparr>connections = Map.empty, tcp_timeout = timeout, waitTimeout = wait, flow_events = []\<rparr>)"

definition tcp_event :: "event_type \<Rightarrow> TCPConnTrack \<Rightarrow> bytes \<Rightarrow> EventFields" where
  "tcp_event typ conn ruleID =
     \<lparr>ef_FlowID = FlowId (tcp_base conn), ef_Type = typ, ef_RuleID = ruleID,
      ef_Direction = conn_Direction (tcp_base conn), ef_Protocol = proto_TCP,
      ef_SourceIP = SourceIP (tcp_base conn), ef_DestIP = DestIP (tcp_base conn),
      ef_SourcePort = tcp_SourcePort conn, ef_DestPort = tcp_DestPort conn,
      ef_ICMPType = 0, ef_ICMPCode = 0,
      ef_RxPackets = PacketsRx (tcp_base conn), ef_TxPackets = PacketsTx (tcp_base conn),
      ef_RxBytes = BytesRx (tcp_base conn), ef_TxBytes = BytesTx (tcp_base conn)\<rparr>"

text \<open>
  The state after a packet without RST, \<open>TCPStateNew\<close> standing for no change (the zero value of
  \<open>newState\<close> in the source).
\<close>

definition next_tcp_state :: "TCPState \<Rightarrow> byte \<Rightarrow> Direction \<Rightarrow> Direction \<Rightarrow> TCPState" where
  "next_tcp_state currentState flags direction packetDir =
     (case currentState of
        TCPStateNew \<Rightarrow>
          (if has_flag flags TCPSyn \<and> \<not> has_flag flags TCPAck
           then (if direction = Egress then TCPStateSynSent else TCPStateSynReceived)
           else TCPStateNew)
      | TCPStateSynSent \<Rightarrow>
          (if has_flag flags TCPSyn \<and> has_flag flags TCPAck
           then (if packetDir \<noteq> direction then TCPStateEstablished else TCPStateSynReceived)
           else TCPStateNew)
      | TCPStateSynReceived \<Rightarrow>
          (if has_flag flags TCPAck \<and> \<not> has_flag flags TCPSyn \<and> packetDir = direction
           then TCPStateEstablished else TCPStateNew)
      | TCPStateEstablished \<Rightarrow>
          (if has_flag flags TCPFin
           then (if packetDir = direction then TCPStateFinWait1 else TCPStateCloseWait)
           else TCPStateNew)
      | TCPStateFinWait1 \<Rightarrow>
          (if packetDir \<noteq> direction
           then (if has_flag flags TCPFin \<and> has_flag flags TCPAck then TCPStateClosing
                 else if has_flag flags TCPFin then TCPStateClosing
                 else if has_flag flags TCPAck then TCPStateFinWait2
                 else TCPStateNew)
           else TCPStateNew)
      | TCPStateFinWait2 \<Rightarrow> (if has_flag flags TCPFin then TCPStateTimeWait else TCPStateNew)
      | TCPStateClosing \<Rightarrow> (if has_flag flags TCPAck then TCPStateTimeWait else TCPStateNew)
      | TCPStateCloseWait \<Rightarrow> (if has_flag flags TCPFin then TCPStateLastAck else TCPStateNew)
      | TCPStateLastAck \<Rightarrow> (if has_flag flags TCPAck then TCPStateClosed else TCPStateNew)
      | TCPStateTimeWait \<Rightarrow> TCPStateNew
      | TCPStateClosed \<Rightarrow> TCPStateNew)"

text \<open>\<open>updateState\<close>: the connection after the packet and the events sent.\<close>

definition updateState ::
  "int \<Rightarrow> TCPConnTrack \<Rightarrow> byte \<Rightarrow> Direction \<Rightarrow> int \<Rightarrow> TCPConnTrack \<times> EventFields list" where
  "updateState now conn flags packetDir sz =
     (let conn = conn\<lparr>tcp_base := UpdateCounters packetDir sz (UpdateLastSeen now (tcp_base conn))\<rparr>;
          currentState = tcp_state conn
      in if has_flag flags TCPRst
         then (let conn = conn\<lparr>tcp_state := TCPStateClosed, tombstone := True\<rparr>
               in (conn, [tcp_event TypeEnd conn []]))
         else (let newState = next_tcp_state currentState flags (conn_Direction (tcp_base conn)) packetDir
               in if newState \<noteq> TCPStateNew
                  then (let conn = conn\<lparr>tcp_state := newState\<rparr>
                        in if newState = TCPStateTimeWait then (conn, [tcp_event TypeEnd conn []])
                           else if newState = TCPStateClosed
                           then (let conn = conn\<lparr>tombstone := True\<rparr>
                                 in (conn, [tcp_event TypeEnd conn []]))
                           else (conn, []))
                  else (conn, [])))"

definition updateIfExists ::
  "int \<Rightarrow> TCPTracker \<Rightarrow> ConnKey \<Rightarrow> byte \<Rightarrow> Direction \<Rightarrow> int \<Rightarrow> TCPTracker \<times> uint16 \<times> bool" where
  "updateIfExists now t key flags direction sz =
     (case connections t key of
        None \<Rightarrow> (t, 0, False)
      | Some conn \<Rightarrow>
          if \<not> IsSupersededBy conn flags
          then (let (conn', evs) = updateState now conn flags direction sz
                in (t\<lparr>connections := (connections t)(key \<mapsto> conn'), flow_events := flow_events t @ evs\<rparr>,
                    ucast (DNATOrigPort (tcp_base conn')), True))
          else (t, 0, False))"

definition track ::
  "int \<Rightarrow> flow_id \<Rightarrow> TCPTracker \<Rightarrow> ConnKey \<Rightarrow> byte \<Rightarrow> Direction \<Rightarrow> bytes \<Rightarrow> int \<Rightarrow> uint16 \<Rightarrow> TCPTracker" where
  "track now flow t key flags direction ruleID sz origPort =
     (let (t, _, exists) = updateIfExists now t key flags direction sz
      in if exists \<or> \<not> has_flag flags TCPSyn then t
         else (let conn = \<lparr>tcp_base = (new_base flow direction (SrcIP key) (DstIP key))\<lparr>DNATOrigPort := ucast origPort\<rparr>,
                           tcp_SourcePort = SrcPort key, tcp_DestPort = DstPort key,
                           tcp_state = TCPStateNew, tombstone = False\<rparr>;
                   (conn, evs) = updateState now conn flags direction sz
               in t\<lparr>connections := (connections t)(key \<mapsto> conn),
                    flow_events := flow_events t @ evs @ [tcp_event TypeStart conn ruleID]\<rparr>))"

text \<open>The key of the opposite direction.\<close>

definition inverse_key :: "ConnKey \<Rightarrow> ConnKey" where
  "inverse_key k = \<lparr>SrcIP = DstIP k, DstIP = SrcIP k, SrcPort = DstPort k, DstPort = SrcPort k\<rparr>"

definition TrackOutbound ::
  "int \<Rightarrow> flow_id \<Rightarrow> TCPTracker \<Rightarrow> ConnKey \<Rightarrow> byte \<Rightarrow> int \<Rightarrow> TCPTracker \<times> uint16" where
  "TrackOutbound now flow t key flags sz =
     (let (t, origPort, exists) = updateIfExists now t (inverse_key key) flags Egress sz
      in if exists then (t, origPort) else (track now flow t key flags Egress [] sz 0, 0))"

definition TrackInbound ::
  "int \<Rightarrow> flow_id \<Rightarrow> TCPTracker \<Rightarrow> ConnKey \<Rightarrow> byte \<Rightarrow> bytes \<Rightarrow> int \<Rightarrow> uint16 \<Rightarrow> TCPTracker" where
  "TrackInbound now flow t key flags ruleID sz dnatOrigPort =
     track now flow t key flags Ingress ruleID sz dnatOrigPort"

definition isValidFlagCombination :: "byte \<Rightarrow> bool" where
  "isValidFlagCombination flags =
     (if has_flag flags TCPSyn \<and> has_flag flags TCPFin then False
      else if has_flag flags TCPRst \<and> (has_flag flags TCPSyn \<or> has_flag flags TCPFin) then False
      else True)"

definition isValidStateForFlags :: "TCPState \<Rightarrow> byte \<Rightarrow> bool" where
  "isValidStateForFlags st flags =
     (if \<not> isValidFlagCombination flags then False
      else if has_flag flags TCPRst
      then (if st = TCPStateSynSent then has_flag flags TCPAck else True)
      else (case st of
              TCPStateNew \<Rightarrow> has_flag flags TCPSyn \<and> \<not> has_flag flags TCPAck
            | TCPStateSynSent \<Rightarrow> has_flag flags TCPSyn \<and> has_flag flags TCPAck
            | TCPStateSynReceived \<Rightarrow> has_flag flags TCPAck
            | TCPStateEstablished \<Rightarrow> has_flag flags TCPAck
            | TCPStateFinWait1 \<Rightarrow> has_flag flags TCPFin \<or> has_flag flags TCPAck
            | TCPStateFinWait2 \<Rightarrow> has_flag flags TCPFin \<or> has_flag flags TCPAck
            | TCPStateClosing \<Rightarrow> has_flag flags TCPAck
            | TCPStateTimeWait \<Rightarrow> has_flag flags TCPAck
            | TCPStateCloseWait \<Rightarrow> has_flag flags TCPFin \<or> has_flag flags TCPAck
            | TCPStateLastAck \<Rightarrow> has_flag flags TCPAck
            | TCPStateClosed \<Rightarrow> has_flag flags TCPAck))"

text \<open>\<open>key\<close> is the packet's own key, source to destination; the lookup uses the inverse.\<close>

definition IsValidInbound :: "int \<Rightarrow> TCPTracker \<Rightarrow> ConnKey \<Rightarrow> byte \<Rightarrow> int \<Rightarrow> bool \<times> TCPTracker" where
  "IsValidInbound now t key flags sz =
     (case connections t (inverse_key key) of
        None \<Rightarrow> (False, t)
      | Some conn \<Rightarrow>
          if IsSupersededBy conn flags then (False, t)
          else if \<not> isValidStateForFlags (tcp_state conn) flags
          then (tcp_state conn = TCPStateEstablished, t)
          else (let (conn', evs) = updateState now conn flags Ingress sz
                in (True, t\<lparr>connections := (connections t)(inverse_key key \<mapsto> conn'),
                            flow_events := flow_events t @ evs\<rparr>)))"

text \<open>What \<open>cleanup\<close> does to one connection: whether it is removed, and the events sent.\<close>

definition tcp_expiry :: "int \<Rightarrow> TCPTracker \<Rightarrow> TCPConnTrack \<Rightarrow> bool \<times> EventFields list" where
  "tcp_expiry now t conn =
     (if tombstone conn then (True, [])
      else (let timeout = (if tcp_state conn = TCPStateTimeWait then waitTimeout t
                           else if tcp_state conn = TCPStateEstablished then tcp_timeout t
                           else TCPHandshakeTimeout)
            in if timeoutExceeded now timeout (tcp_base conn)
               then (True, if tcp_state conn \<noteq> TCPStateTimeWait then [tcp_event TypeEnd conn []] else [])
               else (False, [])))"

text \<open>The iteration order over the map is the argument \<open>keys\<close>, any enumeration of its domain.\<close>

fun cleanup_keys :: "int \<Rightarrow> ConnKey list \<Rightarrow> TCPTracker \<Rightarrow> TCPTracker" where
  "cleanup_keys now [] t = t"
| "cleanup_keys now (k # ks) t =
     cleanup_keys now ks
       (case connections t k of
          None \<Rightarrow> t
        | Some conn \<Rightarrow>
            (let (gone, evs) = tcp_expiry now t conn
             in if gone then t\<lparr>connections := (connections t)(k := None), flow_events := flow_events t @ evs\<rparr>
                else t))"

definition GetConnection :: "TCPTracker \<Rightarrow> ConnKey \<Rightarrow> TCPConnTrack option" where
  "GetConnection t key = connections t key"

end
