(* ===== verification/ConntrackTcp.thy ===== *)
theory ConntrackTcp
  imports Conntrack
begin

text \<open>
  The TCP tracker as a transition system: packets in both directions, validity checks and clean-ups in
  any order. The invariant ties the connection table to the log of flow events.
\<close>

section \<open>States and steps\<close>

definition tcp_final :: "TCPConnTrack \<Rightarrow> bool" where
  "tcp_final c \<longleftrightarrow> tcp_state c \<in> {TCPStateTimeWait, TCPStateClosed}"

abbreviation conn_flow :: "TCPConnTrack \<Rightarrow> flow_id" where
  "conn_flow c \<equiv> FlowId (tcp_base c)"

definition started :: "EventFields list \<Rightarrow> flow_id \<Rightarrow> bool" where
  "started evs f \<longleftrightarrow> (\<exists>e \<in> set evs. ef_Type e = TypeStart \<and> ef_FlowID e = f)"

definition ended :: "EventFields list \<Rightarrow> flow_id \<Rightarrow> bool" where
  "ended evs f \<longleftrightarrow> (\<exists>e \<in> set evs. ef_Type e = TypeEnd \<and> ef_FlowID e = f)"

definition tcp_start :: "TCPTracker \<Rightarrow> bool" where
  "tcp_start t \<longleftrightarrow> (\<exists>timeout. t = NewTCPTracker timeout)"

text \<open>A flow id drawn by \<open>uuid.New\<close> has not been used before.\<close>

definition fresh_flow :: "TCPTracker \<Rightarrow> flow_id \<Rightarrow> bool" where
  "fresh_flow t f \<longleftrightarrow> f \<notin> ef_FlowID ` set (flow_events t)"

inductive tcp_step :: "TCPTracker \<Rightarrow> TCPTracker \<Rightarrow> bool" where
  outbound: "fresh_flow t f \<Longrightarrow> tcp_step t (fst (TrackOutbound now f t key flags sz))"
| inbound: "fresh_flow t f \<Longrightarrow> tcp_step t (TrackInbound now f t key flags ruleID sz dnat)"
| validate: "tcp_step t (snd (IsValidInbound now t key flags sz))"
| cleanup: "set keys = dom (connections t) \<Longrightarrow> tcp_step t (cleanup_keys now keys t)"

inductive_cases tcp_stepE: "tcp_step t t'"

section \<open>One packet\<close>

text \<open>What \<open>updateState\<close> keeps and when it sends an event.\<close>

definition conn_ok :: "ConnKey \<Rightarrow> TCPConnTrack \<Rightarrow> bool" where
  "conn_ok k c \<longleftrightarrow> (tombstone c \<longleftrightarrow> tcp_state c = TCPStateClosed)
     \<and> SourceIP (tcp_base c) = SrcIP k \<and> DestIP (tcp_base c) = DstIP k
     \<and> tcp_SourcePort c = SrcPort k \<and> tcp_DestPort c = DstPort k"

lemma UpdateCounters_fields [simp]:
  "FlowId (UpdateCounters d n b) = FlowId b" "conn_Direction (UpdateCounters d n b) = conn_Direction b"
  "SourceIP (UpdateCounters d n b) = SourceIP b" "DestIP (UpdateCounters d n b) = DestIP b"
  "lastSeen (UpdateCounters d n b) = lastSeen b" "DNATOrigPort (UpdateCounters d n b) = DNATOrigPort b"
  by (simp_all add: UpdateCounters_def)

lemma UpdateLastSeen_fields [simp]:
  "FlowId (UpdateLastSeen now b) = FlowId b" "conn_Direction (UpdateLastSeen now b) = conn_Direction b"
  "SourceIP (UpdateLastSeen now b) = SourceIP b" "DestIP (UpdateLastSeen now b) = DestIP b"
  "lastSeen (UpdateLastSeen now b) = now" "DNATOrigPort (UpdateLastSeen now b) = DNATOrigPort b"
  by (simp_all add: UpdateLastSeen_def)

lemma tcp_event_fields [simp]:
  "ef_FlowID (tcp_event ty c r) = conn_flow c" "ef_Type (tcp_event ty c r) = ty"
  "ef_SourceIP (tcp_event ty c r) = SourceIP (tcp_base c)" "ef_DestIP (tcp_event ty c r) = DestIP (tcp_base c)"
  "ef_SourcePort (tcp_event ty c r) = tcp_SourcePort c" "ef_DestPort (tcp_event ty c r) = tcp_DestPort c"
  by (simp_all add: tcp_event_def)

lemma next_tcp_state_not_final:
  "next_tcp_state TCPStateTimeWait flags d p = TCPStateNew" "next_tcp_state TCPStateClosed flags d p = TCPStateNew"
  by (simp_all add: next_tcp_state_def)

lemma updateState_fields:
  assumes "updateState now c flags d n = (c', evs)"
  shows "conn_flow c' = conn_flow c" "SourceIP (tcp_base c') = SourceIP (tcp_base c)"
    "DestIP (tcp_base c') = DestIP (tcp_base c)" "tcp_SourcePort c' = tcp_SourcePort c"
    "tcp_DestPort c' = tcp_DestPort c" "conn_Direction (tcp_base c') = conn_Direction (tcp_base c)"
    "lastSeen (tcp_base c') = now" "DNATOrigPort (tcp_base c') = DNATOrigPort (tcp_base c)"
  using assms by (auto simp: updateState_def Let_def split: if_splits)

lemma updateState_ok:
  assumes "updateState now c flags d n = (c', evs)" "conn_ok k c"
  shows "conn_ok k c'"
proof -
  have "tombstone c' \<longleftrightarrow> tcp_state c' = TCPStateClosed"
    using assms next_tcp_state_not_final(2) by (auto simp: updateState_def conn_ok_def Let_def split: if_splits)
  then show ?thesis
    using assms(2) updateState_fields [OF assms(1)] by (simp add: conn_ok_def)
qed

lemma updateState_events:
  assumes "updateState now c flags d n = (c', evs)"
  shows "evs = [] \<and> (tcp_final c' \<longleftrightarrow> tcp_final c) \<or> evs = [tcp_event TypeEnd c' []] \<and> tcp_final c'"
  using assms next_tcp_state_not_final by (auto simp: updateState_def tcp_final_def Let_def split: if_splits)

text \<open>A rank that every transition raises: a connection changes state at most seven times.\<close>

fun tcp_rank :: "TCPState \<Rightarrow> nat" where
  "tcp_rank TCPStateNew = 0"
| "tcp_rank TCPStateSynSent = 1"
| "tcp_rank TCPStateSynReceived = 2"
| "tcp_rank TCPStateEstablished = 3"
| "tcp_rank TCPStateFinWait1 = 4"
| "tcp_rank TCPStateCloseWait = 4"
| "tcp_rank TCPStateFinWait2 = 5"
| "tcp_rank TCPStateClosing = 5"
| "tcp_rank TCPStateLastAck = 5"
| "tcp_rank TCPStateTimeWait = 6"
| "tcp_rank TCPStateClosed = 7"

lemma next_tcp_state_rank:
  "next_tcp_state s flags d p \<noteq> TCPStateNew \<Longrightarrow> tcp_rank s < tcp_rank (next_tcp_state s flags d p)"
  by (cases s) (auto simp: next_tcp_state_def split: if_splits)

lemma tcp_rank_le: "tcp_rank s \<le> 7" "tcp_rank s = 7 \<longleftrightarrow> s = TCPStateClosed"
  by (cases s; simp)+

lemma updateState_rank:
  assumes "updateState now c flags d n = (c', evs)"
  shows "tcp_state c' = tcp_state c \<or> tcp_rank (tcp_state c) < tcp_rank (tcp_state c')"
  using assms next_tcp_state_rank [of "tcp_state c" flags "conn_Direction (tcp_base c)" d] tcp_rank_le [of "tcp_state c"]
  by (auto simp: updateState_def Let_def le_less split: if_splits)

section \<open>The invariant\<close>

definition tcp_inv :: "TCPTracker \<Rightarrow> bool" where
  "tcp_inv t \<longleftrightarrow>
     (\<forall>k c. connections t k = Some c \<longrightarrow> conn_ok k c \<and> started (flow_events t) (conn_flow c)
        \<and> (ended (flow_events t) (conn_flow c) \<longleftrightarrow> tcp_final c))
   \<and> (\<forall>k k' c c'. connections t k = Some c \<and> connections t k' = Some c' \<and> conn_flow c = conn_flow c' \<longrightarrow> k = k')
   \<and> (\<forall>f. ended (flow_events t) f \<longrightarrow> started (flow_events t) f)
   \<and> (\<forall>f. started (flow_events t) f \<longrightarrow> ended (flow_events t) f \<or> (\<exists>k c. connections t k = Some c \<and> conn_flow c = f))"

lemma started_simps [simp]:
  "started [] f = False" "started (xs @ ys) f \<longleftrightarrow> started xs f \<or> started ys f"
  "started (e # xs) f \<longleftrightarrow> (ef_Type e = TypeStart \<and> ef_FlowID e = f) \<or> started xs f"
  by (auto simp: started_def)

lemma ended_simps [simp]:
  "ended [] f = False" "ended (xs @ ys) f \<longleftrightarrow> ended xs f \<or> ended ys f"
  "ended (e # xs) f \<longleftrightarrow> (ef_Type e = TypeEnd \<and> ef_FlowID e = f) \<or> ended xs f"
  by (auto simp: ended_def)

lemma tcp_invD:
  assumes "tcp_inv t"
  shows "connections t k = Some c \<Longrightarrow> conn_ok k c"
    and "connections t k = Some c \<Longrightarrow> started (flow_events t) (conn_flow c)"
    and "connections t k = Some c \<Longrightarrow> ended (flow_events t) (conn_flow c) \<longleftrightarrow> tcp_final c"
    and "connections t k = Some c \<Longrightarrow> connections t k' = Some c' \<Longrightarrow> conn_flow c = conn_flow c' \<Longrightarrow> k = k'"
    and "ended (flow_events t) f \<Longrightarrow> started (flow_events t) f"
    and "started (flow_events t) f \<Longrightarrow> ended (flow_events t) f \<or> (\<exists>k c. connections t k = Some c \<and> conn_flow c = f)"
  using assms unfolding tcp_inv_def by blast+

lemma tcp_invI:
  assumes "\<And>k c. connections t k = Some c \<Longrightarrow> conn_ok k c"
    and "\<And>k c. connections t k = Some c \<Longrightarrow> started (flow_events t) (conn_flow c)"
    and "\<And>k c. connections t k = Some c \<Longrightarrow> ended (flow_events t) (conn_flow c) \<longleftrightarrow> tcp_final c"
    and "\<And>k k' c c'. connections t k = Some c \<Longrightarrow> connections t k' = Some c' \<Longrightarrow> conn_flow c = conn_flow c' \<Longrightarrow> k = k'"
    and "\<And>f. ended (flow_events t) f \<Longrightarrow> started (flow_events t) f"
    and "\<And>f. started (flow_events t) f \<Longrightarrow> ended (flow_events t) f \<or> (\<exists>k c. connections t k = Some c \<and> conn_flow c = f)"
  shows "tcp_inv t"
  using assms unfolding tcp_inv_def by blast

lemma tracked_or_ended:
  assumes inv: "tcp_inv t" "started (flow_events t) g"
    and k: "\<And>c. connections t k = Some c \<Longrightarrow> conn_flow c = g \<Longrightarrow> ended evs' g"
    and other: "\<And>k2. k2 \<noteq> k \<Longrightarrow> conns' k2 = connections t k2"
    and evs': "ended (flow_events t) g \<Longrightarrow> ended evs' g"
  shows "ended evs' g \<or> (\<exists>k c. conns' k = Some c \<and> conn_flow c = g)"
proof -
  consider "ended (flow_events t) g" | k2 c2 where "connections t k2 = Some c2" "conn_flow c2 = g"
    using tcp_invD(6) [OF inv] by blast
  then show ?thesis
  proof cases
    case 1
    with evs' show ?thesis by blast
  next
    case 2
    show ?thesis
    proof (cases "k2 = k")
      case True
      with 2 k show ?thesis by blast
    next
      case False
      then have "conns' k2 = Some c2"
        using other 2(1) by simp
      with 2(2) show ?thesis by blast
    qed
  qed
qed

text \<open>A packet of a tracked connection.\<close>

lemma tcp_inv_update [inv_intros]:
  assumes inv: "tcp_inv t" and k: "connections t k = Some c"
    and up: "updateState now c flags d n = (c', evs)"
  shows "tcp_inv (t\<lparr>connections := (connections t)(k \<mapsto> c'), flow_events := flow_events t @ evs\<rparr>)" (is "tcp_inv ?t")
proof -
  have flow: "conn_flow c' = conn_flow c"
    using up by (rule updateState_fields)
  have st: "started evs f = False" for f
    using updateState_events [OF up] by auto
  have en: "ended evs f \<longleftrightarrow> evs \<noteq> [] \<and> f = conn_flow c" for f
    using updateState_events [OF up] flow by auto
  have fin: "(tcp_final c \<or> evs \<noteq> []) \<longleftrightarrow> tcp_final c'"
    using updateState_events [OF up] by auto
  have other: "conn_flow c2 \<noteq> conn_flow c" if "connections t k2 = Some c2" "k2 \<noteq> k" for k2 c2
    using tcp_invD(4) [OF inv that(1) k] that(2) by blast
  show ?thesis
  proof (rule tcp_invI)
    fix k2 c2 assume c2: "connections ?t k2 = Some c2"
    show "conn_ok k2 c2"
      using c2 tcp_invD(1) [OF inv] updateState_ok [OF up] k by (auto split: if_splits)
    show "started (flow_events ?t) (conn_flow c2)"
      using c2 tcp_invD(2) [OF inv] flow k by (auto simp: st split: if_splits)
    show "ended (flow_events ?t) (conn_flow c2) \<longleftrightarrow> tcp_final c2"
      using c2 tcp_invD(3) [OF inv] flow k other fin by (auto simp: en split: if_splits)
  next
    fix k2 k3 c2 c3
    assume "connections ?t k2 = Some c2" "connections ?t k3 = Some c3" "conn_flow c2 = conn_flow c3"
    then show "k2 = k3"
      using tcp_invD(4) [OF inv] flow k other by (auto split: if_splits)
  next
    fix f
    show "started (flow_events ?t) f" if "ended (flow_events ?t) f"
      using that tcp_invD(5) [OF inv] tcp_invD(2) [OF inv k] by (auto simp: en)
    show "ended (flow_events ?t) f \<or> (\<exists>k c. connections ?t k = Some c \<and> conn_flow c = f)"
      if "started (flow_events ?t) f"
    proof (cases "f = conn_flow c")
      case True
      then show ?thesis using flow by auto
    next
      case False
      have "started (flow_events t) f"
        using that st by simp
      then show ?thesis
        using False k by (intro tracked_or_ended [OF inv, of f k]) simp_all
    qed
  qed
qed

text \<open>A connection that is superseded, or that a clean-up removes, has had its end event.\<close>

lemma superseded_ended:
  assumes "tcp_inv t" "connections t k = Some c" "IsSupersededBy c flags"
  shows "ended (flow_events t) (conn_flow c)"
proof -
  have "tcp_final c"
    using assms(3) tcp_invD(1) [OF assms(1,2)] by (auto simp: IsSupersededBy_def tcp_final_def conn_ok_def split: if_splits)
  then show ?thesis
    using tcp_invD(3) [OF assms(1,2)] by simp
qed

lemma tcp_inv_insert [inv_intros]:
  assumes inv: "tcp_inv t" and fresh: "fresh_flow t f"
    and old: "\<And>c. connections t k = Some c \<Longrightarrow> ended (flow_events t) (conn_flow c)"
    and c: "conn_ok k c" "conn_flow c = f" and evs: "\<And>g. started evs g \<longleftrightarrow> g = f" "\<And>g. ended evs g \<longleftrightarrow> g = f \<and> tcp_final c"
  shows "tcp_inv (t\<lparr>connections := (connections t)(k \<mapsto> c), flow_events := flow_events t @ evs\<rparr>)" (is "tcp_inv ?t")
proof -
  have nf: "\<not> started (flow_events t) f" "\<not> ended (flow_events t) f"
    using fresh by (auto simp: fresh_flow_def started_def ended_def)
  have other: "conn_flow c2 \<noteq> f" if "connections t k2 = Some c2" for k2 c2
    using tcp_invD(2) [OF inv that] nf by blast
  show ?thesis
  proof (rule tcp_invI)
    fix k2 c2 assume c2: "connections ?t k2 = Some c2"
    show "conn_ok k2 c2"
      using c2 tcp_invD(1) [OF inv] c by (auto split: if_splits)
    show "started (flow_events ?t) (conn_flow c2)"
      using c2 tcp_invD(2) [OF inv] c evs by (auto split: if_splits)
    show "ended (flow_events ?t) (conn_flow c2) \<longleftrightarrow> tcp_final c2"
      using c2 tcp_invD(3) [OF inv] c evs nf other by (auto split: if_splits)
  next
    fix k2 k3 c2 c3
    assume "connections ?t k2 = Some c2" "connections ?t k3 = Some c3" "conn_flow c2 = conn_flow c3"
    then show "k2 = k3"
      using tcp_invD(4) [OF inv] c other by (auto split: if_splits)
  next
    fix g
    show "started (flow_events ?t) g" if "ended (flow_events ?t) g"
      using that tcp_invD(5) [OF inv] evs by auto
    show "ended (flow_events ?t) g \<or> (\<exists>k c. connections ?t k = Some c \<and> conn_flow c = g)"
      if g: "started (flow_events ?t) g"
    proof (cases "g = f")
      case True
      then show ?thesis using c by auto
    next
      case False
      then have "started (flow_events t) g"
        using g evs by simp
      then show ?thesis
        using old by (intro tracked_or_ended [OF inv, of g k]) auto
    qed
  qed
qed

lemma tcp_inv_remove [inv_intros]:
  assumes inv: "tcp_inv t" and k: "connections t k = Some c"
    and evs: "\<And>g. started evs g = False" "\<And>g. ended evs g \<Longrightarrow> g = conn_flow c"
    and e: "ended (flow_events t @ evs) (conn_flow c)"
  shows "tcp_inv (t\<lparr>connections := (connections t)(k := None), flow_events := flow_events t @ evs\<rparr>)" (is "tcp_inv ?t")
proof -
  have other: "conn_flow c2 \<noteq> conn_flow c" if "connections t k2 = Some c2" "k2 \<noteq> k" for k2 c2
    using tcp_invD(4) [OF inv that(1) k] that(2) by blast
  show ?thesis
  proof (rule tcp_invI)
    fix k2 c2 assume c2: "connections ?t k2 = Some c2"
    then have t: "connections t k2 = Some c2" "k2 \<noteq> k"
      by (auto split: if_splits)
    show "conn_ok k2 c2" "started (flow_events ?t) (conn_flow c2)"
      using tcp_invD(1,2) [OF inv t(1)] by simp_all
    show "ended (flow_events ?t) (conn_flow c2) \<longleftrightarrow> tcp_final c2"
      using tcp_invD(3) [OF inv t(1)] evs(2) [of "conn_flow c2"] other [OF t] by auto
  next
    fix k2 k3 c2 c3
    assume "connections ?t k2 = Some c2" "connections ?t k3 = Some c3" "conn_flow c2 = conn_flow c3"
    then show "k2 = k3"
      using tcp_invD(4) [OF inv] by (auto split: if_splits)
  next
    fix g
    show "started (flow_events ?t) g" if "ended (flow_events ?t) g"
      using that tcp_invD(5) [OF inv] tcp_invD(2) [OF inv k] evs(2) by auto
    show "ended (flow_events ?t) g \<or> (\<exists>k c. connections ?t k = Some c \<and> conn_flow c = g)"
      if g: "started (flow_events ?t) g"
    proof -
      have "started (flow_events t) g"
        using g evs(1) by simp
      then show ?thesis
        using e k by (intro tracked_or_ended [OF inv, of g k]) auto
    qed
  qed
qed

section \<open>The operations\<close>

lemma updateIfExists_inv:
  assumes "tcp_inv t" "updateIfExists now t k flags d n = (t', port, ex)"
  shows "tcp_inv t'" and "\<not> ex \<Longrightarrow> t' = t"
    and "\<not> ex \<Longrightarrow> connections t k = Some c \<Longrightarrow> ended (flow_events t) (conn_flow c)"
proof -
  show "\<not> ex \<Longrightarrow> t' = t"
    using assms(2) by (auto simp: updateIfExists_def Let_def split: option.splits if_splits prod.splits)
  show "tcp_inv t'"
  proof (cases "connections t k")
    case None
    then show ?thesis
      using assms by (simp add: updateIfExists_def)
  next
    case (Some c)
    obtain c' evs where "updateState now c flags d n = (c', evs)"
      by fastforce
    then show ?thesis
      using assms Some tcp_inv_update [OF assms(1) Some] by (auto simp: updateIfExists_def split: if_splits)
  qed
  show "\<not> ex \<Longrightarrow> connections t k = Some c \<Longrightarrow> ended (flow_events t) (conn_flow c)"
    using assms superseded_ended [OF assms(1)] by (auto simp: updateIfExists_def Let_def split: if_splits prod.splits)
qed

lemma track_inv:
  assumes inv: "tcp_inv t" and fresh: "fresh_flow t f"
  shows "tcp_inv (track now f t k flags d ruleID n port)"
proof -
  obtain t1 p ex where u: "updateIfExists now t k flags d n = (t1, p, ex)"
    by (metis prod_cases3)
  show ?thesis
  proof (cases "ex \<or> \<not> has_flag flags TCPSyn")
    case True
    then show ?thesis
      using updateIfExists_inv(1) [OF inv u] by (simp add: track_def u)
  next
    case False
    then have t1: "t1 = t"
      using updateIfExists_inv(2) [OF inv u] by simp
    let ?c0 = "\<lparr>tcp_base = (new_base f d (SrcIP k) (DstIP k))\<lparr>DNATOrigPort := ucast port\<rparr>,
       tcp_SourcePort = SrcPort k, tcp_DestPort = DstPort k, tcp_state = TCPStateNew, tombstone = False\<rparr>"
    obtain c evs where c: "updateState now ?c0 flags d n = (c, evs)"
      by fastforce
    have flow: "conn_flow c = f"
      using updateState_fields(1) [OF c] by (simp add: new_base_def)
    have "conn_ok k c"
      using c by (rule updateState_ok) (simp add: conn_ok_def new_base_def)
    moreover have "started (evs @ [tcp_event TypeStart c ruleID]) g \<longleftrightarrow> g = f"
      and "ended (evs @ [tcp_event TypeStart c ruleID]) g \<longleftrightarrow> g = f \<and> tcp_final c" for g
      using updateState_events [OF c] flow by (auto simp: tcp_final_def)
    ultimately have "tcp_inv (t\<lparr>connections := (connections t)(k \<mapsto> c),
        flow_events := flow_events t @ (evs @ [tcp_event TypeStart c ruleID])\<rparr>)"
      using inv fresh flow updateIfExists_inv(3) [OF inv u] False by (intro tcp_inv_insert) auto
    then show ?thesis
      using False by (simp add: track_def u t1 c)
  qed
qed

lemma TrackOutbound_inv:
  assumes inv: "tcp_inv t" and fresh: "fresh_flow t f"
  shows "tcp_inv (fst (TrackOutbound now f t k flags n))"
proof -
  obtain t1 p ex where u: "updateIfExists now t (inverse_key k) flags Egress n = (t1, p, ex)"
    by (metis prod_cases3)
  then show ?thesis
    using updateIfExists_inv(1,2) [OF inv u] track_inv [OF inv fresh] by (cases ex) (simp_all add: TrackOutbound_def)
qed

lemma IsValidInbound_inv:
  assumes inv: "tcp_inv t"
  shows "tcp_inv (snd (IsValidInbound now t k flags n))"
proof (cases "connections t (inverse_key k)")
  case None
  then show ?thesis using inv by (simp add: IsValidInbound_def)
next
  case (Some c)
  obtain c' evs where "updateState now c flags Ingress n = (c', evs)"
    by fastforce
  then show ?thesis
    using inv tcp_inv_update [OF inv Some] by (simp add: IsValidInbound_def Some)
qed

lemma tcp_expiry_events:
  assumes "tcp_inv t" "connections t k = Some c" "tcp_expiry now t c = (True, evs)"
  shows "started evs g = False" "ended evs g \<Longrightarrow> g = conn_flow c" "ended (flow_events t @ evs) (conn_flow c)"
proof -
  have ok: "tombstone c \<longleftrightarrow> tcp_state c = TCPStateClosed"
    using tcp_invD(1) [OF assms(1,2)] by (simp add: conn_ok_def)
  show "started evs g = False" "ended evs g \<Longrightarrow> g = conn_flow c"
    using assms(3) by (auto simp: tcp_expiry_def Let_def split: if_splits)
  show "ended (flow_events t @ evs) (conn_flow c)"
    using assms(3) ok tcp_invD(3) [OF assms(1,2)]
    by (auto simp: tcp_expiry_def tcp_final_def Let_def split: if_splits)
qed

lemma cleanup_keys_inv: "tcp_inv t \<Longrightarrow> tcp_inv (cleanup_keys now ks t)"
proof (induction now ks t rule: cleanup_keys.induct)
  case (2 now k ks t)
  show ?case
  proof (cases "connections t k")
    case None
    with 2 show ?thesis by simp
  next
    case (Some c)
    obtain gone evs where e: "tcp_expiry now t c = (gone, evs)"
      by fastforce
    have "tcp_inv (t\<lparr>connections := (connections t)(k := None), flow_events := flow_events t @ evs\<rparr>)" if gone
    proof -
      have e': "tcp_expiry now t c = (True, evs)"
        using e that by simp
      show ?thesis
        by (rule tcp_inv_remove [OF 2(2) Some]) (use tcp_expiry_events [OF 2(2) Some e'] in blast)+
    qed
    with 2 Some e show ?thesis
      by (cases gone) simp_all
  qed
qed simp

lemma NewTCPTracker_fields:
  "connections (NewTCPTracker timeout) = Map.empty" "flow_events (NewTCPTracker timeout) = []"
  by (simp_all add: NewTCPTracker_def)

interpretation tcp_system: invariant_system tcp_start tcp_step tcp_inv
proof
  fix t assume "tcp_start t"
  then show "tcp_inv t"
    by (auto simp: tcp_start_def tcp_inv_def NewTCPTracker_fields)
next
  fix t t' assume "tcp_inv t" "tcp_step t t'"
  then show "tcp_inv t'"
    by (auto elim!: tcp_stepE simp: TrackInbound_def intro: TrackOutbound_inv track_inv IsValidInbound_inv cleanup_keys_inv)
qed

end
