(* ===== verification/ConntrackTcpProps.thy ===== *)
theory ConntrackTcpProps
  imports ConntrackTcp
begin

unbundle bit_operations_syntax

text \<open>
  The properties of the TCP tracker: the connection table, the flow events, what an inbound packet
  needs to pass, and the state machine of one connection.
\<close>

abbreviation tcp_reachable :: "TCPTracker \<Rightarrow> bool" where
  "tcp_reachable \<equiv> reachable tcp_start tcp_step"

definition example_key :: ConnKey where
  "example_key = \<lparr>SrcIP = [100, 64, 0, 1], DstIP = [10, 0, 0, 7], SrcPort = 40000, DstPort = 443\<rparr>"

text \<open>A tracker after one outbound SYN.\<close>

definition example_tracker :: TCPTracker where
  "example_tracker = fst (TrackOutbound 5 1 (NewTCPTracker 0) example_key TCPSyn 60)"

lemma example_reachable: "tcp_reachable example_tracker"
proof -
  have "tcp_reachable (NewTCPTracker 0)"
    by (rule reachable.reach_start) (auto simp: tcp_start_def)
  moreover have "fresh_flow (NewTCPTracker 0) 1"
    by (simp add: fresh_flow_def NewTCPTracker_fields)
  ultimately show ?thesis
    unfolding example_tracker_def by (blast intro: reachable.reach_step tcp_step.outbound)
qed

lemma example_key_ne: "inverse_key example_key \<noteq> example_key"
  by (simp add: inverse_key_def example_key_def)

definition example_conn :: TCPConnTrack where
  "example_conn = \<lparr>tcp_base = \<lparr>FlowId = 1, conn_Direction = Egress, SourceIP = [100, 64, 0, 1],
      DestIP = [10, 0, 0, 7], lastSeen = 5, PacketsTx = 1, PacketsRx = 0, BytesTx = 60, BytesRx = 0,
      DNATOrigPort = 0\<rparr>, tcp_SourcePort = 40000, tcp_DestPort = 443, tcp_state = TCPStateSynSent,
      tombstone = False\<rparr>"

lemma example_connection: "connections example_tracker example_key = Some example_conn"
proof -
  have f: "has_flag TCPSyn TCPSyn" "\<not> has_flag TCPSyn TCPAck" "\<not> has_flag TCPSyn TCPRst"
    by (simp_all add: has_flag_def tcp_flags)
  show ?thesis
    unfolding example_tracker_def TrackOutbound_def track_def updateIfExists_def
    by (simp add: NewTCPTracker_fields updateState_def next_tcp_state_def f Let_def new_base_def
        example_key_def example_conn_def UpdateLastSeen_def UpdateCounters_def)
qed

section \<open>The table and the flow events\<close>

text \<open>C18: In every reachable state of the TCP tracker, every connection in the table carries the addresses
  and ports of its key, is marked for deletion exactly when its state is Closed, has had its start
  event, and has had an end event exactly when its state is TIME-WAIT or Closed; two entries of the
  table never share a flow.\<close>

theorem tcp_table_wellformed:
  assumes "tcp_reachable t" and "connections t k = Some c"
  shows "(tombstone c \<longleftrightarrow> tcp_state c = TCPStateClosed)
    \<and> SourceIP (tcp_base c) = SrcIP k \<and> DestIP (tcp_base c) = DstIP k
    \<and> tcp_SourcePort c = SrcPort k \<and> tcp_DestPort c = DstPort k
    \<and> started (flow_events t) (conn_flow c)
    \<and> (ended (flow_events t) (conn_flow c) \<longleftrightarrow> tcp_state c \<in> {TCPStateTimeWait, TCPStateClosed})
    \<and> (\<forall>k' c'. connections t k' = Some c' \<and> conn_flow c' = conn_flow c \<longrightarrow> k' = k)"
proof -
  have inv: "tcp_inv t"
    by (rule tcp_system.reachable_invar [OF assms(1)])
  have "\<forall>k' c'. connections t k' = Some c' \<and> conn_flow c' = conn_flow c \<longrightarrow> k' = k"
    using tcp_invD(4) [OF inv _ assms(2)] by blast
  then show ?thesis
    using tcp_invD(1-3) [OF inv assms(2)] by (simp add: conn_ok_def tcp_final_def)
qed

theorem tcp_table_wellformed_witness:
  "\<exists>t c. tcp_reachable t \<and> connections t example_key = Some c \<and> \<not> ended (flow_events t) (conn_flow c)"
  using tcp_table_wellformed [OF example_reachable example_connection] example_reachable example_connection
  by (fastforce simp: example_conn_def)



text \<open>C19: An inbound packet passes \<open>IsValidInbound\<close> only if the table has a connection in the opposite
  direction with exactly its addresses and ports that is neither closed nor about to be replaced, and
  that was reported as started; and if its flags are not valid in the connection's state, only if that
  state is Established, and then nothing is changed.\<close>

theorem tcp_inbound_needs_connection:
  assumes "tcp_reachable t" and "IsValidInbound now t key flags sz = (True, t')"
  shows "\<exists>c. connections t (inverse_key key) = Some c \<and> tcp_state c \<noteq> TCPStateClosed
    \<and> SourceIP (tcp_base c) = DstIP key \<and> DestIP (tcp_base c) = SrcIP key
    \<and> tcp_SourcePort c = DstPort key \<and> tcp_DestPort c = SrcPort key
    \<and> started (flow_events t) (conn_flow c)
    \<and> (isValidStateForFlags (tcp_state c) flags \<or> tcp_state c = TCPStateEstablished \<and> t' = t)"
proof -
  have inv: "tcp_inv t"
    by (rule tcp_system.reachable_invar [OF assms(1)])
  obtain c where c: "connections t (inverse_key key) = Some c"
    using assms(2) by (cases "connections t (inverse_key key)") (simp_all add: IsValidInbound_def)
  then have v: "\<not> IsSupersededBy c flags"
    "isValidStateForFlags (tcp_state c) flags \<or> tcp_state c = TCPStateEstablished \<and> t' = t"
    using assms(2) by (auto simp: IsValidInbound_def split: if_splits)
  have ok: "conn_ok (inverse_key key) c" "started (flow_events t) (conn_flow c)"
    using tcp_invD(1,2) [OF inv c] .
  then have "tcp_state c \<noteq> TCPStateClosed"
    using v(1) by (auto simp: IsSupersededBy_def conn_ok_def)
  with c ok v(2) show ?thesis
    by (simp add: conn_ok_def inverse_key_def)
qed

theorem tcp_inbound_needs_connection_witness:
  "\<exists>t t' c. tcp_reachable t \<and> IsValidInbound 9 t (inverse_key example_key) (TCPSyn OR TCPAck) 60 = (True, t')
     \<and> connections t (inverse_key (inverse_key example_key)) = Some c"
proof -
  have inv2: "inverse_key (inverse_key example_key) = example_key"
    by (simp add: inverse_key_def)
  have f: "has_flag (TCPSyn OR TCPAck) TCPSyn" "has_flag (TCPSyn OR TCPAck) TCPAck"
    "\<not> has_flag (TCPSyn OR TCPAck) TCPRst" "\<not> has_flag (TCPSyn OR TCPAck) TCPFin"
    by (simp_all add: has_flag_def tcp_flags)
  have "fst (IsValidInbound 9 example_tracker (inverse_key example_key) (TCPSyn OR TCPAck) 60)"
    by (simp add: IsValidInbound_def inv2 example_connection example_conn_def IsSupersededBy_def
        isValidStateForFlags_def isValidFlagCombination_def f split: prod.splits)
  then obtain t' where "IsValidInbound 9 example_tracker (inverse_key example_key) (TCPSyn OR TCPAck) 60 = (True, t')"
    by (cases "IsValidInbound 9 example_tracker (inverse_key example_key) (TCPSyn OR TCPAck) 60") simp
  then show ?thesis
    using tcp_inbound_needs_connection [OF example_reachable] example_reachable by blast
qed

section \<open>One connection\<close>

text \<open>The states a connection goes through under a sequence of packets (time, flags, direction, size).\<close>

fun tcp_states :: "TCPConnTrack \<Rightarrow> (int \<times> byte \<times> Direction \<times> int) list \<Rightarrow> TCPState list" where
  "tcp_states c [] = [tcp_state c]"
| "tcp_states c ((now, flags, d, n) # ps) = tcp_state c # tcp_states (fst (updateState now c flags d n)) ps"

lemma tcp_states_Cons: "\<exists>rest. tcp_states c ps = tcp_state c # rest"
  by (cases ps rule: list.exhaust) (auto simp: split_paired_all)

lemma tcp_states_bound: "length (remdups_adj (tcp_states c ps)) + tcp_rank (tcp_state c) \<le> 8"
proof (induction c ps rule: tcp_states.induct)
  case (1 c)
  then show ?case
    using tcp_rank_le(1) [of "tcp_state c"] by simp
next
  case (2 c now flags d n ps)
  let ?c' = "fst (updateState now c flags d n)"
  obtain rest where rest: "tcp_states ?c' ps = tcp_state ?c' # rest"
    using tcp_states_Cons by blast
  have "tcp_state ?c' = tcp_state c \<or> tcp_rank (tcp_state c) < tcp_rank (tcp_state ?c')"
    using updateState_rank [of now c flags d n ?c' "snd (updateState now c flags d n)"] by simp
  then show ?case
    using "2.IH" unfolding tcp_states.simps rest by auto
qed

text \<open>C25: The state of a connection only moves forward: under any sequence of packets it changes at most
  seven times, and a connection that is closed stays closed.\<close>

theorem tcp_states_move_forward:
  "length (remdups_adj (tcp_states c ps)) \<le> 8
   \<and> tcp_state (fst (updateState now (c\<lparr>tcp_state := TCPStateClosed\<rparr>) flags d n)) = TCPStateClosed"
proof
  show "length (remdups_adj (tcp_states c ps)) \<le> 8"
    using tcp_states_bound [of c ps] by simp
  show "tcp_state (fst (updateState now (c\<lparr>tcp_state := TCPStateClosed\<rparr>) flags d n)) = TCPStateClosed"
    by (simp add: updateState_def next_tcp_state_not_final Let_def)
qed

text \<open>The three-way handshake of an outbound connection is followed: an outbound SYN opens the
  connection, the SYN-ACK from the remote side is let in, and after the outbound ACK the connection is
  established; exactly one event, the start of the flow, has been sent.\<close>

lemma tcp_handshake_establishes:
  "let t1 = fst (TrackOutbound n1 f1 (NewTCPTracker timeout) key TCPSyn s1);
       (ok, t2) = IsValidInbound n2 t1 (inverse_key key) (TCPSyn OR TCPAck) s2;
       t3 = fst (TrackOutbound n3 f3 t2 key TCPAck s3)
   in ok \<and> map_option tcp_state (connections t3 key) = Some TCPStateEstablished
      \<and> map ef_Type (flow_events t3) = [TypeStart]"
proof -
  have inv2: "inverse_key (inverse_key key) = key"
    by (simp add: inverse_key_def)
  have f: "has_flag TCPSyn TCPSyn" "\<not> has_flag TCPSyn TCPAck" "\<not> has_flag TCPSyn TCPRst"
    "has_flag (TCPSyn OR TCPAck) TCPSyn" "has_flag (TCPSyn OR TCPAck) TCPAck"
    "\<not> has_flag (TCPSyn OR TCPAck) TCPRst" "\<not> has_flag (TCPSyn OR TCPAck) TCPFin"
    "has_flag TCPAck TCPAck" "\<not> has_flag TCPAck TCPRst" "\<not> has_flag TCPAck TCPSyn" "\<not> has_flag TCPAck TCPFin"
    by (simp_all add: has_flag_def tcp_flags)
  show ?thesis
    by (cases "inverse_key key = key")
      (simp_all add: TrackOutbound_def track_def updateIfExists_def IsValidInbound_def updateState_def
        next_tcp_state_def IsSupersededBy_def isValidStateForFlags_def isValidFlagCombination_def
        NewTCPTracker_fields inv2 f new_base_def Let_def UpdateLastSeen_def UpdateCounters_def)
qed

text \<open>C32: A reset for a connection in TIME-WAIT is reported as a second end of the same flow: the end
  event was sent on entering TIME-WAIT, and the reset sends another one.\<close>

theorem tcp_reset_in_time_wait_ends_twice:
  assumes "tcp_reachable t" and "connections t (inverse_key key) = Some c" and "tcp_state c = TCPStateTimeWait"
  shows "ended (flow_events t) (conn_flow c)
    \<and> (\<exists>t' e. IsValidInbound now t key TCPRst sz = (True, t') \<and> flow_events t' = flow_events t @ [e]
          \<and> ef_Type e = TypeEnd \<and> ef_FlowID e = conn_flow c)"
proof
  have inv: "tcp_inv t"
    by (rule tcp_system.reachable_invar [OF assms(1)])
  show "ended (flow_events t) (conn_flow c)"
    using tcp_invD(3) [OF inv assms(2)] assms(3) by (simp add: tcp_final_def)
  have "\<not> tombstone c"
    using tcp_invD(1) [OF inv assms(2)] assms(3) by (simp add: conn_ok_def)
  moreover have "has_flag TCPRst TCPRst" "\<not> has_flag TCPRst TCPSyn" "\<not> has_flag TCPRst TCPFin"
    by (simp_all add: has_flag_def tcp_flags)
  ultimately show "\<exists>t' e. IsValidInbound now t key TCPRst sz = (True, t') \<and> flow_events t' = flow_events t @ [e]
      \<and> ef_Type e = TypeEnd \<and> ef_FlowID e = conn_flow c"
    using assms(2,3) by (simp add: IsValidInbound_def IsSupersededBy_def isValidStateForFlags_def
        isValidFlagCombination_def updateState_def Let_def)
qed

text \<open>A connection opened and closed by the local side, up to TIME-WAIT.\<close>

definition example_established :: TCPTracker where
  "example_established = fst (TrackOutbound 7 2
     (snd (IsValidInbound 6 example_tracker (inverse_key example_key) (TCPSyn OR TCPAck) 60)) example_key TCPAck 52)"

definition example_time_wait :: TCPTracker where
  "example_time_wait = snd (IsValidInbound 10 (snd (IsValidInbound 9
     (fst (TrackOutbound 8 3 example_established example_key (TCPFin OR TCPAck) 52))
     (inverse_key example_key) TCPAck 52)) (inverse_key example_key) (TCPFin OR TCPAck) 52)"

lemma example_time_wait_state:
  "map_option tcp_state (connections example_time_wait example_key) = Some TCPStateTimeWait"
  by code_simp

lemma example_time_wait_reachable: "tcp_reachable example_time_wait"
proof -
  let ?t1 = "snd (IsValidInbound 6 example_tracker (inverse_key example_key) (TCPSyn OR TCPAck) 60)"
  let ?t3 = "fst (TrackOutbound 8 3 example_established example_key (TCPFin OR TCPAck) 52)"
  have "tcp_reachable ?t1"
    using example_reachable by (blast intro: reachable.reach_step tcp_step.validate)
  moreover have "fresh_flow ?t1 2" "fresh_flow example_established 3"
    by code_simp+
  ultimately have "tcp_reachable ?t3"
    unfolding example_established_def by (blast intro: reachable.reach_step tcp_step.outbound)
  then show ?thesis
    unfolding example_time_wait_def by (blast intro: reachable.reach_step tcp_step.validate)
qed

theorem tcp_reset_in_time_wait_ends_twice_witness:
  "\<exists>t c. tcp_reachable t \<and> connections t example_key = Some c \<and> ended (flow_events t) (conn_flow c)
     \<and> (\<exists>t' e. IsValidInbound 11 t (inverse_key example_key) TCPRst 40 = (True, t')
          \<and> flow_events t' = flow_events t @ [e] \<and> ef_Type e = TypeEnd \<and> ef_FlowID e = conn_flow c)"
proof -
  obtain c where c: "connections example_time_wait example_key = Some c" "tcp_state c = TCPStateTimeWait"
    using example_time_wait_state by auto
  have "inverse_key (inverse_key example_key) = example_key"
    by (simp add: inverse_key_def)
  then show ?thesis
    using tcp_reset_in_time_wait_ends_twice [OF example_time_wait_reachable, of "inverse_key example_key" c 11 40]
      example_time_wait_reachable c by auto
qed

end
