(* ===== verification/ConntrackDatagram.thy ===== *)
theory ConntrackDatagram
  imports ConntrackTcp
begin

text \<open>
  The UDP tracker (\<open>conntrack/udp.go\<close>) and the ICMP tracker (\<open>conntrack/icmp.go\<close>). Both keep a
  connection alive for a fixed time after its last packet; the locale \<open>expiring_tracker\<close> states that
  contract and both trackers are interpretations of it. The textual form of ICMP packets in log lines
  is left out.
\<close>

section \<open>UDP\<close>

definition DefaultUDPTimeout :: int where "DefaultUDPTimeout = 30 * second_ns"

record UDPConnTrack =
  udp_base :: BaseConnTrack
  udp_SourcePort :: uint16
  udp_DestPort :: uint16

record UDPTracker =
  udp_connections :: "ConnKey \<rightharpoonup> UDPConnTrack"
  udp_timeout :: int
  udp_events :: "EventFields list"

definition NewUDPTracker :: "int \<Rightarrow> UDPTracker" where
  "NewUDPTracker timeout =
     \<lparr>udp_connections = Map.empty, udp_timeout = (if timeout = 0 then DefaultUDPTimeout else timeout),
      udp_events = []\<rparr>"

definition udp_event :: "event_type \<Rightarrow> UDPConnTrack \<Rightarrow> bytes \<Rightarrow> EventFields" where
  "udp_event typ conn ruleID =
     \<lparr>ef_FlowID = FlowId (udp_base conn), ef_Type = typ, ef_RuleID = ruleID,
      ef_Direction = conn_Direction (udp_base conn), ef_Protocol = proto_UDP,
      ef_SourceIP = SourceIP (udp_base conn), ef_DestIP = DestIP (udp_base conn),
      ef_SourcePort = udp_SourcePort conn, ef_DestPort = udp_DestPort conn,
      ef_ICMPType = 0, ef_ICMPCode = 0,
      ef_RxPackets = PacketsRx (udp_base conn), ef_TxPackets = PacketsTx (udp_base conn),
      ef_RxBytes = BytesRx (udp_base conn), ef_TxBytes = BytesTx (udp_base conn)\<rparr>"

definition udp_touch :: "int \<Rightarrow> Direction \<Rightarrow> int \<Rightarrow> UDPConnTrack \<Rightarrow> UDPConnTrack" where
  "udp_touch now direction sz conn =
     conn\<lparr>udp_base := UpdateCounters direction sz (UpdateLastSeen now (udp_base conn))\<rparr>"

definition udp_updateIfExists ::
  "int \<Rightarrow> UDPTracker \<Rightarrow> ConnKey \<Rightarrow> Direction \<Rightarrow> int \<Rightarrow> UDPTracker \<times> uint16 \<times> bool" where
  "udp_updateIfExists now t key direction sz =
     (case udp_connections t key of
        Some conn \<Rightarrow>
          (let conn = udp_touch now direction sz conn
           in (t\<lparr>udp_connections := (udp_connections t)(key \<mapsto> conn)\<rparr>, ucast (DNATOrigPort (udp_base conn)), True))
      | None \<Rightarrow> (t, 0, False))"

definition udp_track ::
  "int \<Rightarrow> flow_id \<Rightarrow> UDPTracker \<Rightarrow> ConnKey \<Rightarrow> Direction \<Rightarrow> bytes \<Rightarrow> int \<Rightarrow> uint16 \<Rightarrow> UDPTracker" where
  "udp_track now flow t key direction ruleID sz origPort =
     (let (t, _, exists) = udp_updateIfExists now t key direction sz
      in if exists then t
         else (let conn = \<lparr>udp_base = (new_base flow direction (SrcIP key) (DstIP key))\<lparr>DNATOrigPort := ucast origPort\<rparr>,
                           udp_SourcePort = SrcPort key, udp_DestPort = DstPort key\<rparr>;
                   conn = udp_touch now direction sz conn
               in t\<lparr>udp_connections := (udp_connections t)(key \<mapsto> conn),
                    udp_events := udp_events t @ [udp_event TypeStart conn ruleID]\<rparr>))"

definition udp_TrackOutbound :: "int \<Rightarrow> flow_id \<Rightarrow> UDPTracker \<Rightarrow> ConnKey \<Rightarrow> int \<Rightarrow> UDPTracker \<times> uint16" where
  "udp_TrackOutbound now flow t key sz =
     (let (t, origPort, exists) = udp_updateIfExists now t (inverse_key key) Egress sz
      in if exists then (t, origPort) else (udp_track now flow t key Egress [] sz 0, 0))"

definition udp_TrackInbound ::
  "int \<Rightarrow> flow_id \<Rightarrow> UDPTracker \<Rightarrow> ConnKey \<Rightarrow> bytes \<Rightarrow> int \<Rightarrow> uint16 \<Rightarrow> UDPTracker" where
  "udp_TrackInbound now flow t key ruleID sz dnatOrigPort =
     udp_track now flow t key Ingress ruleID sz dnatOrigPort"

text \<open>The body of \<open>IsValidInbound\<close> after the key of the opposite direction is built.\<close>

definition udp_reply :: "int \<Rightarrow> UDPTracker \<Rightarrow> ConnKey \<Rightarrow> int \<Rightarrow> bool \<times> UDPTracker" where
  "udp_reply now t key sz =
     (case udp_connections t key of
        None \<Rightarrow> (False, t)
      | Some conn \<Rightarrow>
          if timeoutExceeded now (udp_timeout t) (udp_base conn) then (False, t)
          else (True, t\<lparr>udp_connections := (udp_connections t)(key \<mapsto> udp_touch now Ingress sz conn)\<rparr>))"

definition udp_IsValidInbound :: "int \<Rightarrow> UDPTracker \<Rightarrow> ConnKey \<Rightarrow> int \<Rightarrow> bool \<times> UDPTracker" where
  "udp_IsValidInbound now t key sz = udp_reply now t (inverse_key key) sz"

fun udp_cleanup :: "int \<Rightarrow> ConnKey list \<Rightarrow> UDPTracker \<Rightarrow> UDPTracker" where
  "udp_cleanup now [] t = t"
| "udp_cleanup now (k # ks) t =
     udp_cleanup now ks
       (case udp_connections t k of
          None \<Rightarrow> t
        | Some conn \<Rightarrow>
            if timeoutExceeded now (udp_timeout t) (udp_base conn)
            then t\<lparr>udp_connections := (udp_connections t)(k := None),
                   udp_events := udp_events t @ [udp_event TypeEnd conn []]\<rparr>
            else t)"

section \<open>ICMP\<close>

definition DefaultICMPTimeout :: int where "DefaultICMPTimeout = 30 * second_ns"

text \<open>\<open>layers.ICMPv4TypeEchoRequest\<close> and \<open>layers.ICMPv4TypeEchoReply\<close>.\<close>

definition ICMPv4TypeEchoRequest :: byte where "ICMPv4TypeEchoRequest = 8"
definition ICMPv4TypeEchoReply :: byte where "ICMPv4TypeEchoReply = 0"

record ICMPConnKey =
  icmp_SrcIP :: addr
  icmp_DstIP :: addr
  icmp_ID :: uint16

record ICMPConnTrack =
  icmp_base :: BaseConnTrack
  ICMPType :: byte
  ICMPCode :: byte

record ICMPTracker =
  icmp_connections :: "ICMPConnKey \<rightharpoonup> ICMPConnTrack"
  icmp_timeout :: int
  icmp_events :: "EventFields list"

definition NewICMPTracker :: "int \<Rightarrow> ICMPTracker" where
  "NewICMPTracker timeout =
     \<lparr>icmp_connections = Map.empty, icmp_timeout = (if timeout = 0 then DefaultICMPTimeout else timeout),
      icmp_events = []\<rparr>"

definition icmp_event :: "event_type \<Rightarrow> ICMPConnTrack \<Rightarrow> bytes \<Rightarrow> EventFields" where
  "icmp_event typ conn ruleID =
     \<lparr>ef_FlowID = FlowId (icmp_base conn), ef_Type = typ, ef_RuleID = ruleID,
      ef_Direction = conn_Direction (icmp_base conn), ef_Protocol = proto_ICMP,
      ef_SourceIP = SourceIP (icmp_base conn), ef_DestIP = DestIP (icmp_base conn),
      ef_SourcePort = 0, ef_DestPort = 0, ef_ICMPType = ICMPType conn, ef_ICMPCode = ICMPCode conn,
      ef_RxPackets = PacketsRx (icmp_base conn), ef_TxPackets = PacketsTx (icmp_base conn),
      ef_RxBytes = BytesRx (icmp_base conn), ef_TxBytes = BytesTx (icmp_base conn)\<rparr>"

definition icmp_start_event ::
  "flow_id \<Rightarrow> Direction \<Rightarrow> addr \<Rightarrow> addr \<Rightarrow> byte \<Rightarrow> byte \<Rightarrow> bytes \<Rightarrow> int \<Rightarrow> EventFields" where
  "icmp_start_event flow direction srcIP dstIP typ code ruleID sz =
     \<lparr>ef_FlowID = flow, ef_Type = TypeStart, ef_RuleID = ruleID, ef_Direction = direction,
      ef_Protocol = proto_ICMP, ef_SourceIP = srcIP, ef_DestIP = dstIP, ef_SourcePort = 0, ef_DestPort = 0,
      ef_ICMPType = typ, ef_ICMPCode = code,
      ef_RxPackets = (if direction = Ingress then 1 else 0), ef_TxPackets = (if direction = Ingress then 0 else 1),
      ef_RxBytes = (if direction = Ingress then of_int sz else 0),
      ef_TxBytes = (if direction = Ingress then 0 else of_int sz)\<rparr>"

definition icmp_touch :: "int \<Rightarrow> Direction \<Rightarrow> int \<Rightarrow> ICMPConnTrack \<Rightarrow> ICMPConnTrack" where
  "icmp_touch now direction sz conn =
     conn\<lparr>icmp_base := UpdateCounters direction sz (UpdateLastSeen now (icmp_base conn))\<rparr>"

definition icmp_updateIfExists ::
  "int \<Rightarrow> ICMPTracker \<Rightarrow> ICMPConnKey \<Rightarrow> Direction \<Rightarrow> int \<Rightarrow> ICMPTracker \<times> bool" where
  "icmp_updateIfExists now t key direction sz =
     (case icmp_connections t key of
        Some conn \<Rightarrow>
          (t\<lparr>icmp_connections := (icmp_connections t)(key \<mapsto> icmp_touch now direction sz conn)\<rparr>, True)
      | None \<Rightarrow> (t, False))"

definition icmp_track ::
  "int \<Rightarrow> flow_id \<Rightarrow> ICMPTracker \<Rightarrow> ICMPConnKey \<Rightarrow> byte \<Rightarrow> byte \<Rightarrow> Direction \<Rightarrow> bytes \<Rightarrow> int \<Rightarrow> ICMPTracker" where
  "icmp_track now flow t key typ code direction ruleId sz =
     (let (t, exists) = icmp_updateIfExists now t key direction sz
      in if exists then t
         else if typ \<noteq> ICMPv4TypeEchoRequest
         then t\<lparr>icmp_events := icmp_events t @
                  [icmp_start_event flow direction (icmp_SrcIP key) (icmp_DstIP key) typ code ruleId sz]\<rparr>
         else (let conn = \<lparr>icmp_base = new_base flow direction (icmp_SrcIP key) (icmp_DstIP key),
                           ICMPType = typ, ICMPCode = code\<rparr>;
                   conn = icmp_touch now direction sz conn
               in t\<lparr>icmp_connections := (icmp_connections t)(key \<mapsto> conn),
                    icmp_events := icmp_events t @ [icmp_event TypeStart conn ruleId]\<rparr>))"

definition icmp_inverse_key :: "ICMPConnKey \<Rightarrow> ICMPConnKey" where
  "icmp_inverse_key k = \<lparr>icmp_SrcIP = icmp_DstIP k, icmp_DstIP = icmp_SrcIP k, icmp_ID = icmp_ID k\<rparr>"

definition icmp_TrackOutbound ::
  "int \<Rightarrow> flow_id \<Rightarrow> ICMPTracker \<Rightarrow> ICMPConnKey \<Rightarrow> byte \<Rightarrow> byte \<Rightarrow> int \<Rightarrow> ICMPTracker" where
  "icmp_TrackOutbound now flow t key typ code sz =
     (let (t, exists) = icmp_updateIfExists now t (icmp_inverse_key key) Egress sz
      in if \<not> exists then icmp_track now flow t key typ code Egress [] sz else t)"

definition icmp_TrackInbound ::
  "int \<Rightarrow> flow_id \<Rightarrow> ICMPTracker \<Rightarrow> ICMPConnKey \<Rightarrow> byte \<Rightarrow> byte \<Rightarrow> bytes \<Rightarrow> int \<Rightarrow> ICMPTracker" where
  "icmp_TrackInbound now flow t key typ code ruleId sz = icmp_track now flow t key typ code Ingress ruleId sz"

definition icmp_reply :: "int \<Rightarrow> ICMPTracker \<Rightarrow> ICMPConnKey \<Rightarrow> int \<Rightarrow> bool \<times> ICMPTracker" where
  "icmp_reply now t key sz =
     (case icmp_connections t key of
        None \<Rightarrow> (False, t)
      | Some conn \<Rightarrow>
          if timeoutExceeded now (icmp_timeout t) (icmp_base conn) then (False, t)
          else (True, t\<lparr>icmp_connections := (icmp_connections t)(key \<mapsto> icmp_touch now Ingress sz conn)\<rparr>))"

definition icmp_IsValidInbound :: "int \<Rightarrow> ICMPTracker \<Rightarrow> ICMPConnKey \<Rightarrow> byte \<Rightarrow> int \<Rightarrow> bool \<times> ICMPTracker" where
  "icmp_IsValidInbound now t key icmpType sz =
     (if icmpType \<noteq> ICMPv4TypeEchoReply then (False, t) else icmp_reply now t (icmp_inverse_key key) sz)"

fun icmp_cleanup :: "int \<Rightarrow> ICMPConnKey list \<Rightarrow> ICMPTracker \<Rightarrow> ICMPTracker" where
  "icmp_cleanup now [] t = t"
| "icmp_cleanup now (k # ks) t =
     icmp_cleanup now ks
       (case icmp_connections t k of
          None \<Rightarrow> t
        | Some conn \<Rightarrow>
            if timeoutExceeded now (icmp_timeout t) (icmp_base conn)
            then t\<lparr>icmp_connections := (icmp_connections t)(k := None),
                   icmp_events := icmp_events t @ [icmp_event TypeEnd conn []]\<rparr>
            else t)"

section \<open>Trackers whose connections expire\<close>

text \<open>
  The contract: a reply passes exactly when its connection is tracked and was seen within the limit; it
  renews that connection and touches no other; a sweep removes exactly what has expired.
\<close>

locale expiring_tracker =
  fixes base_of :: "'t \<Rightarrow> 'k \<Rightarrow> BaseConnTrack option"
    and limit :: "'t \<Rightarrow> int"
    and reply :: "int \<Rightarrow> 't \<Rightarrow> 'k \<Rightarrow> int \<Rightarrow> bool \<times> 't"
    and sweep :: "int \<Rightarrow> 'k list \<Rightarrow> 't \<Rightarrow> 't"
  assumes reply_iff: "fst (reply now t k n) \<longleftrightarrow> (\<exists>b. base_of t k = Some b \<and> \<not> timeoutExceeded now (limit t) b)"
    and reply_renews: "fst (reply now t k n) \<Longrightarrow> \<exists>b. base_of (snd (reply now t k n)) k = Some b \<and> lastSeen b = now"
    and reply_limit: "limit (snd (reply now t k n)) = limit t"
    and reply_other: "k' \<noteq> k \<Longrightarrow> base_of (snd (reply now t k n)) k' = base_of t k'"
    and sweep_limit: "limit (sweep now ks t) = limit t"
    and sweep_base: "dom (base_of t) \<subseteq> set ks \<Longrightarrow> base_of (sweep now ks t) k =
      (case base_of t k of None \<Rightarrow> None | Some b \<Rightarrow> if timeoutExceeded now (limit t) b then None else Some b)"
begin

lemma reply_extends:
  assumes "fst (reply now t k n)"
  shows "fst (reply now' (snd (reply now t k n)) k m) \<longleftrightarrow> now' - now \<le> limit t"
  using reply_renews [OF assms] by (auto simp: reply_iff reply_limit timeoutExceeded_def)

lemma sweep_transparent:
  assumes "dom (base_of t) \<subseteq> set ks" and "now \<le> now'"
  shows "fst (reply now' (sweep now ks t) k n) \<longleftrightarrow> fst (reply now' t k n)"
  using assms(2)
  by (auto simp: reply_iff sweep_limit sweep_base [OF assms(1)] timeoutExceeded_def split: option.splits)

end

text \<open>Sweeping key by key.\<close>

lemma udp_cleanup_fields:
  "udp_timeout (udp_cleanup now ks t) = udp_timeout t"
  "udp_connections (udp_cleanup now ks t) k =
     (case udp_connections t k of None \<Rightarrow> None | Some c \<Rightarrow>
        if k \<in> set ks \<and> timeoutExceeded now (udp_timeout t) (udp_base c) then None else Some c)"
  by (induction now ks t rule: udp_cleanup.induct) (auto split: option.splits)

lemma icmp_cleanup_fields:
  "icmp_timeout (icmp_cleanup now ks t) = icmp_timeout t"
  "icmp_connections (icmp_cleanup now ks t) k =
     (case icmp_connections t k of None \<Rightarrow> None | Some c \<Rightarrow>
        if k \<in> set ks \<and> timeoutExceeded now (icmp_timeout t) (icmp_base c) then None else Some c)"
  by (induction now ks t rule: icmp_cleanup.induct) (auto split: option.splits)

interpretation udp_ct: expiring_tracker "\<lambda>t k. map_option udp_base (udp_connections t k)" udp_timeout udp_reply udp_cleanup
proof
  fix now n and t :: UDPTracker and k
  show "fst (udp_reply now t k n) \<longleftrightarrow>
      (\<exists>b. map_option udp_base (udp_connections t k) = Some b \<and> \<not> timeoutExceeded now (udp_timeout t) b)"
    by (auto simp: udp_reply_def split: option.splits)
  show "fst (udp_reply now t k n) \<Longrightarrow>
      \<exists>b. map_option udp_base (udp_connections (snd (udp_reply now t k n)) k) = Some b \<and> lastSeen b = now"
    by (auto simp: udp_reply_def udp_touch_def split: option.splits if_splits)
  show "udp_timeout (snd (udp_reply now t k n)) = udp_timeout t"
    by (auto simp: udp_reply_def split: option.splits)
  show "map_option udp_base (udp_connections (snd (udp_reply now t k n)) k') = map_option udp_base (udp_connections t k')"
    if "k' \<noteq> k" for k'
    using that by (auto simp: udp_reply_def split: option.splits)
  show "udp_timeout (udp_cleanup now ks t) = udp_timeout t" for ks
    by (rule udp_cleanup_fields)
  show "map_option udp_base (udp_connections (udp_cleanup now ks t) k) =
      (case map_option udp_base (udp_connections t k) of None \<Rightarrow> None
       | Some b \<Rightarrow> if timeoutExceeded now (udp_timeout t) b then None else Some b)"
    if "dom (\<lambda>k. map_option udp_base (udp_connections t k)) \<subseteq> set ks" for ks
    using that by (auto simp: udp_cleanup_fields dom_def split: option.splits)
qed

interpretation icmp_ct: expiring_tracker "\<lambda>t k. map_option icmp_base (icmp_connections t k)" icmp_timeout icmp_reply icmp_cleanup
proof
  fix now n and t :: ICMPTracker and k
  show "fst (icmp_reply now t k n) \<longleftrightarrow>
      (\<exists>b. map_option icmp_base (icmp_connections t k) = Some b \<and> \<not> timeoutExceeded now (icmp_timeout t) b)"
    by (auto simp: icmp_reply_def split: option.splits)
  show "fst (icmp_reply now t k n) \<Longrightarrow>
      \<exists>b. map_option icmp_base (icmp_connections (snd (icmp_reply now t k n)) k) = Some b \<and> lastSeen b = now"
    by (auto simp: icmp_reply_def icmp_touch_def split: option.splits if_splits)
  show "icmp_timeout (snd (icmp_reply now t k n)) = icmp_timeout t"
    by (auto simp: icmp_reply_def split: option.splits)
  show "map_option icmp_base (icmp_connections (snd (icmp_reply now t k n)) k') = map_option icmp_base (icmp_connections t k')"
    if "k' \<noteq> k" for k'
    using that by (auto simp: icmp_reply_def split: option.splits)
  show "icmp_timeout (icmp_cleanup now ks t) = icmp_timeout t" for ks
    by (rule icmp_cleanup_fields)
  show "map_option icmp_base (icmp_connections (icmp_cleanup now ks t) k) =
      (case map_option icmp_base (icmp_connections t k) of None \<Rightarrow> None
       | Some b \<Rightarrow> if timeoutExceeded now (icmp_timeout t) b then None else Some b)"
    if "dom (\<lambda>k. map_option icmp_base (icmp_connections t k)) \<subseteq> set ks" for ks
    using that by (auto simp: icmp_cleanup_fields dom_def split: option.splits)
qed

section \<open>Properties\<close>

lemma udp_TrackOutbound_reply:
  assumes "udp_connections t (inverse_key key) = None"
  shows "\<exists>c. udp_connections (fst (udp_TrackOutbound now f t key n)) key = Some c \<and> lastSeen (udp_base c) = now"
    and "udp_timeout (fst (udp_TrackOutbound now f t key n)) = udp_timeout t"
  using assms by (auto simp: udp_TrackOutbound_def udp_track_def udp_updateIfExists_def udp_touch_def Let_def
      split: option.splits)

text \<open>C24: A UDP reply is let in exactly during the timeout after the last packet of its connection: after
  an outbound datagram at time \<open>now\<close> (to a destination that has no inbound connection of its own), an
  inbound datagram with the mirrored addresses and ports at \<open>now'\<close> passes if and only if at most the
  timeout has elapsed; if it passes, the window starts again at \<open>now'\<close>; and clean-ups in between, in
  any iteration order, make no difference.\<close>

theorem udp_reply_window:
  assumes "udp_connections t (inverse_key key) = None"
  shows "let t1 = fst (udp_TrackOutbound now f t key n);
             (ok, t2) = udp_IsValidInbound now' t1 (inverse_key key) m
         in (ok \<longleftrightarrow> now' - now \<le> udp_timeout t)
          \<and> (ok \<longrightarrow> (fst (udp_IsValidInbound now'' t2 (inverse_key key) m') \<longleftrightarrow> now'' - now' \<le> udp_timeout t))
          \<and> (dom (udp_connections t1) \<subseteq> set ks \<and> sweep \<le> now' \<longrightarrow>
               fst (udp_IsValidInbound now' (udp_cleanup sweep ks t1) (inverse_key key) m) = ok)"
proof -
  let ?t1 = "fst (udp_TrackOutbound now f t key n)"
  obtain ok t2 where r: "udp_reply now' ?t1 key m = (ok, t2)"
    by fastforce
  have inv2: "inverse_key (inverse_key key) = key"
    by (simp add: inverse_key_def)
  obtain c where c: "udp_connections ?t1 key = Some c" "lastSeen (udp_base c) = now" "udp_timeout ?t1 = udp_timeout t"
    using udp_TrackOutbound_reply [OF assms] by blast
  have ok: "ok \<longleftrightarrow> now' - now \<le> udp_timeout t"
    using udp_ct.reply_iff [of now' ?t1 key m] c by (auto simp: r timeoutExceeded_def)
  have ext: "ok \<longrightarrow> (fst (udp_reply now'' t2 key m') \<longleftrightarrow> now'' - now' \<le> udp_timeout t)"
    using udp_ct.reply_extends [of now' ?t1 key m now'' m'] c(3) by (simp add: r)
  have "dom (udp_connections ?t1) \<subseteq> set ks \<and> sweep \<le> now' \<longrightarrow> fst (udp_reply now' (udp_cleanup sweep ks ?t1) key m) = ok"
    using udp_ct.sweep_transparent [of ?t1 ks sweep now' key m] by (simp add: r dom_def)
  with ok ext show ?thesis
    by (simp add: udp_IsValidInbound_def inv2 r Let_def)
qed

definition example_udp_key :: ConnKey where
  "example_udp_key = \<lparr>SrcIP = [100, 64, 0, 1], DstIP = [1, 1, 1, 1], SrcPort = 5000, DstPort = 53\<rparr>"

theorem udp_reply_window_witness:
  "let t1 = fst (udp_TrackOutbound 100 1 (NewUDPTracker 50) example_udp_key 60);
       (ok, t2) = udp_IsValidInbound 150 t1 (inverse_key example_udp_key) 80
   in (ok \<longleftrightarrow> 150 - 100 \<le> udp_timeout (NewUDPTracker 50))
    \<and> (ok \<longrightarrow> (fst (udp_IsValidInbound 201 t2 (inverse_key example_udp_key) 80) \<longleftrightarrow> 201 - 150 \<le> udp_timeout (NewUDPTracker 50)))
    \<and> (dom (udp_connections t1) \<subseteq> set [] \<and> 0 \<le> (150::int) \<longrightarrow>
         fst (udp_IsValidInbound 150 (udp_cleanup 0 [] t1) (inverse_key example_udp_key) 80) = ok)"
  by (rule udp_reply_window) (simp add: NewUDPTracker_def)

lemma icmp_TrackOutbound_reply:
  assumes "icmp_connections t (icmp_inverse_key key) = None"
  shows "\<exists>c. icmp_connections (icmp_TrackOutbound now f t key ICMPv4TypeEchoRequest code n) key = Some c
      \<and> lastSeen (icmp_base c) = now"
    and "icmp_timeout (icmp_TrackOutbound now f t key ICMPv4TypeEchoRequest code n) = icmp_timeout t"
  using assms by (auto simp: icmp_TrackOutbound_def icmp_track_def icmp_updateIfExists_def icmp_touch_def Let_def
      split: option.splits)

text \<open>An echo reply is let in exactly during the timeout after the matching echo request, renewing the
  window, whatever clean-ups run in between; an ICMP packet of any other type never passes, even
  from the same address with the same id.\<close>

lemma icmp_reply_window:
  assumes "icmp_connections t (icmp_inverse_key key) = None"
  shows "let t1 = icmp_TrackOutbound now f t key ICMPv4TypeEchoRequest code n;
             (ok, t2) = icmp_IsValidInbound now' t1 (icmp_inverse_key key) typ m
         in (ok \<longleftrightarrow> typ = ICMPv4TypeEchoReply \<and> now' - now \<le> icmp_timeout t)
          \<and> (ok \<longrightarrow> (fst (icmp_IsValidInbound now'' t2 (icmp_inverse_key key) typ m') \<longleftrightarrow> now'' - now' \<le> icmp_timeout t))
          \<and> (dom (icmp_connections t1) \<subseteq> set ks \<and> sweep \<le> now' \<longrightarrow>
               fst (icmp_IsValidInbound now' (icmp_cleanup sweep ks t1) (icmp_inverse_key key) typ m) = ok)"
proof -
  let ?t1 = "icmp_TrackOutbound now f t key ICMPv4TypeEchoRequest code n"
  obtain ok t2 where r: "icmp_reply now' ?t1 key m = (ok, t2)"
    by fastforce
  have inv2: "icmp_inverse_key (icmp_inverse_key key) = key"
    by (simp add: icmp_inverse_key_def)
  obtain c where c: "icmp_connections ?t1 key = Some c" "lastSeen (icmp_base c) = now" "icmp_timeout ?t1 = icmp_timeout t"
    using icmp_TrackOutbound_reply [OF assms] by blast
  have ok: "ok \<longleftrightarrow> now' - now \<le> icmp_timeout t"
    using icmp_ct.reply_iff [of now' ?t1 key m] c by (auto simp: r timeoutExceeded_def)
  have ext: "ok \<longrightarrow> (fst (icmp_reply now'' t2 key m') \<longleftrightarrow> now'' - now' \<le> icmp_timeout t)"
    using icmp_ct.reply_extends [of now' ?t1 key m now'' m'] c(3) by (simp add: r)
  have "dom (icmp_connections ?t1) \<subseteq> set ks \<and> sweep \<le> now' \<longrightarrow> fst (icmp_reply now' (icmp_cleanup sweep ks ?t1) key m) = ok"
    using icmp_ct.sweep_transparent [of ?t1 ks sweep now' key m] by (simp add: r dom_def)
  with ok ext show ?thesis
    by (cases "typ = ICMPv4TypeEchoReply") (simp_all add: icmp_IsValidInbound_def inv2 r Let_def)
qed

end
