(* ===== verification/RouteSelector.thy ===== *)
theory RouteSelector
  imports Prelude
begin

text \<open>
  Routes (\<open>route/route.go\<close>, \<open>route/hauniqueid.go\<close>) and the user's route selection on the client
  (\<open>client/internal/routeselector/routeselector.go\<close>). A network prefix is its textual form, which is
  all that the selector and the grouping id use of it; \<open>netip.Prefix.String\<close> never prints a bar. The
  conversion of a domain to Unicode (\<open>idna.ToUnicode\<close>) is the parameter \<open>toUnicode\<close>. A nil
  map and an empty map are not told apart: every constructor and decoder of the selector allocates its
  maps. Maps of routes are lists of entries in iteration order.
\<close>

section \<open>Routes\<close>

definition MaxMetric :: int where "MaxMetric = 9999"

datatype NetworkType = InvalidNetwork | IPv4Network | IPv6Network | DomainNetwork

type_synonym NetID = string
type_synonym HAUniqueID = string

record Route =
  rt_ID :: string
  rt_AccountID :: string
  rt_Network :: string
  rt_Domains :: "string list option"
  rt_KeepRoute :: bool
  rt_NetID :: NetID
  rt_Description :: string
  rt_Peer :: string
  rt_PeerID :: string
  rt_PeerGroups :: "string list"
  rt_NetworkType :: NetworkType
  rt_Masquerade :: bool
  rt_Metric :: int
  rt_Enabled :: bool
  rt_Groups :: "string list"
  rt_AccessControlGroups :: "string list"
  rt_SkipAutoApply :: bool

text \<open>\<open>NetworkType.String\<close> and \<open>ToPrefixType\<close>.\<close>

definition NetworkType_String :: "NetworkType \<Rightarrow> string" where
  "NetworkType_String p = (case p of IPv4Network \<Rightarrow> ''IPv4'' | IPv6Network \<Rightarrow> ''IPv6''
     | DomainNetwork \<Rightarrow> ''Domain'' | InvalidNetwork \<Rightarrow> ''Invalid'')"

definition ToPrefixType :: "string \<Rightarrow> NetworkType" where
  "ToPrefixType s = (if s = ''IPv4'' then IPv4Network else if s = ''IPv6'' then IPv6Network
     else if s = ''Domain'' then DomainNetwork else InvalidNetwork)"

text \<open>\<open>domain.List.SafeString\<close>: the domains in Unicode, or all as they are if one cannot be converted.\<close>

fun join_comma :: "string list \<Rightarrow> string" where
  "join_comma [] = []"
| "join_comma [d] = d"
| "join_comma (d # e # ds) = d @ '', '' @ join_comma (e # ds)"

fun ToStringList :: "(string \<Rightarrow> string option) \<Rightarrow> string list \<Rightarrow> string list option" where
  "ToStringList toUnicode [] = Some []"
| "ToStringList toUnicode (d # ds) =
     (case toUnicode d of None \<Rightarrow> None | Some s \<Rightarrow> map_option ((#) s) (ToStringList toUnicode ds))"

definition List_SafeString :: "(string \<Rightarrow> string option) \<Rightarrow> string list \<Rightarrow> string" where
  "List_SafeString toUnicode ds =
     (case ToStringList toUnicode ds of None \<Rightarrow> join_comma ds | Some list \<Rightarrow> join_comma list)"

definition IsDynamic :: "Route \<Rightarrow> bool" where
  "IsDynamic r \<longleftrightarrow> rt_NetworkType r = DomainNetwork"

definition NetString :: "(string \<Rightarrow> string option) \<Rightarrow> Route \<Rightarrow> string" where
  "NetString toUnicode r =
     (case rt_Domains r of
        Some ds \<Rightarrow> if IsDynamic r then List_SafeString toUnicode ds else rt_Network r
      | None \<Rightarrow> rt_Network r)"

definition GetHAUniqueID :: "(string \<Rightarrow> string option) \<Rightarrow> Route \<Rightarrow> HAUniqueID" where
  "GetHAUniqueID toUnicode r = rt_NetID r @ ''|'' @ NetString toUnicode r"

text \<open>\<open>HAUniqueID.NetID\<close>: the part before the last bar.\<close>

fun before_last :: "char \<Rightarrow> string \<Rightarrow> string option" where
  "before_last c [] = None"
| "before_last c (x # xs) =
     (case before_last c xs of
        Some p \<Rightarrow> Some (x # p)
      | None \<Rightarrow> if x = c then Some [] else None)"

definition HA_NetID :: "HAUniqueID \<Rightarrow> NetID" where
  "HA_NetID i = (case before_last (CHR ''|'') i of Some p \<Rightarrow> p | None \<Rightarrow> i)"

definition GetResourceID :: "Route \<Rightarrow> string" where
  "GetResourceID r = hd (split_char (CHR '':'') (rt_ID r))"

definition Route_Equal :: "Route option \<Rightarrow> Route option \<Rightarrow> bool" where
  "Route_Equal r other =
     (case (r, other) of
        (None, None) \<Rightarrow> True
      | (Some r, Some other) \<Rightarrow>
          rt_ID other = rt_ID r \<and> rt_Description other = rt_Description r \<and> rt_NetID other = rt_NetID r
          \<and> rt_Network other = rt_Network r
          \<and> (case rt_Domains r of None \<Rightarrow> [] | Some d \<Rightarrow> d) = (case rt_Domains other of None \<Rightarrow> [] | Some d \<Rightarrow> d)
          \<and> rt_KeepRoute other = rt_KeepRoute r \<and> rt_NetworkType other = rt_NetworkType r
          \<and> rt_Peer other = rt_Peer r \<and> rt_PeerID other = rt_PeerID r \<and> rt_Metric other = rt_Metric r
          \<and> rt_Masquerade other = rt_Masquerade r \<and> rt_Enabled other = rt_Enabled r
          \<and> rt_Groups r = rt_Groups other \<and> rt_PeerGroups r = rt_PeerGroups other
          \<and> rt_AccessControlGroups r = rt_AccessControlGroups other
          \<and> rt_SkipAutoApply other = rt_SkipAutoApply r
      | _ \<Rightarrow> False)"

definition Route_Copy :: "Route \<Rightarrow> Route" where
  "Route_Copy r =
     \<lparr>rt_ID = rt_ID r, rt_AccountID = rt_AccountID r, rt_Network = rt_Network r, rt_Domains = rt_Domains r,
      rt_KeepRoute = rt_KeepRoute r, rt_NetID = rt_NetID r, rt_Description = rt_Description r,
      rt_Peer = rt_Peer r, rt_PeerID = rt_PeerID r, rt_PeerGroups = rt_PeerGroups r,
      rt_NetworkType = rt_NetworkType r, rt_Masquerade = rt_Masquerade r, rt_Metric = rt_Metric r,
      rt_Enabled = rt_Enabled r, rt_Groups = rt_Groups r,
      rt_AccessControlGroups = rt_AccessControlGroups r, rt_SkipAutoApply = rt_SkipAutoApply r\<rparr>"

section \<open>The selector\<close>

record RouteSelector =
  deselectedRoutes :: "NetID set"
  selectedRoutes :: "NetID set"
  deselectAll :: bool

definition NewRouteSelector :: RouteSelector where
  "NewRouteSelector = \<lparr>deselectedRoutes = {}, selectedRoutes = {}, deselectAll = False\<rparr>"

text \<open>The loops of \<open>SelectRoutes\<close> and \<open>DeselectRoutes\<close>; the list collects the unavailable routes.\<close>

fun select_loop :: "NetID list \<Rightarrow> NetID list \<Rightarrow> RouteSelector \<Rightarrow> NetID list \<Rightarrow> RouteSelector \<times> NetID list" where
  "select_loop [] allRoutes rs err = (rs, err)"
| "select_loop (r # routes) allRoutes rs err =
     (if r \<notin> set allRoutes then select_loop routes allRoutes rs (err @ [r])
      else select_loop routes allRoutes
             (rs\<lparr>deselectedRoutes := deselectedRoutes rs - {r}, selectedRoutes := insert r (selectedRoutes rs)\<rparr>) err)"

definition SelectRoutes :: "RouteSelector \<Rightarrow> NetID list \<Rightarrow> bool \<Rightarrow> NetID list \<Rightarrow> RouteSelector \<times> NetID list" where
  "SelectRoutes rs routes appendRoute allRoutes =
     (let rs = (if \<not> appendRoute \<or> deselectAll rs
                then rs\<lparr>deselectedRoutes := set allRoutes, selectedRoutes := {}\<rparr> else rs);
          (rs, err) = select_loop routes allRoutes rs []
      in (rs\<lparr>deselectAll := False\<rparr>, err))"

definition SelectAllRoutes :: "RouteSelector \<Rightarrow> RouteSelector" where
  "SelectAllRoutes rs = rs\<lparr>deselectAll := False, deselectedRoutes := {}, selectedRoutes := {}\<rparr>"

fun deselect_loop :: "NetID list \<Rightarrow> NetID list \<Rightarrow> RouteSelector \<Rightarrow> NetID list \<Rightarrow> RouteSelector \<times> NetID list" where
  "deselect_loop [] allRoutes rs err = (rs, err)"
| "deselect_loop (r # routes) allRoutes rs err =
     (if r \<notin> set allRoutes then deselect_loop routes allRoutes rs (err @ [r])
      else deselect_loop routes allRoutes
             (rs\<lparr>deselectedRoutes := insert r (deselectedRoutes rs), selectedRoutes := selectedRoutes rs - {r}\<rparr>) err)"

definition DeselectRoutes :: "RouteSelector \<Rightarrow> NetID list \<Rightarrow> NetID list \<Rightarrow> RouteSelector \<times> NetID list" where
  "DeselectRoutes rs routes allRoutes =
     (if deselectAll rs then (rs, []) else deselect_loop routes allRoutes rs [])"

definition DeselectAllRoutes :: "RouteSelector \<Rightarrow> RouteSelector" where
  "DeselectAllRoutes rs = rs\<lparr>deselectAll := True, deselectedRoutes := {}, selectedRoutes := {}\<rparr>"

definition IsSelected :: "RouteSelector \<Rightarrow> NetID \<Rightarrow> bool" where
  "IsSelected rs routeID = (if deselectAll rs then False else routeID \<notin> deselectedRoutes rs)"

type_synonym HAMap = "(HAUniqueID \<times> Route list) list"

definition FilterSelected :: "RouteSelector \<Rightarrow> HAMap \<Rightarrow> HAMap" where
  "FilterSelected rs routes =
     (if deselectAll rs then []
      else filter (\<lambda>(i, rt). HA_NetID i \<notin> deselectedRoutes rs) routes)"

definition HasUserSelectionForRoute :: "RouteSelector \<Rightarrow> NetID \<Rightarrow> bool" where
  "HasUserSelectionForRoute rs routeID \<longleftrightarrow> routeID \<in> selectedRoutes rs \<or> routeID \<in> deselectedRoutes rs"

definition isDeselected :: "RouteSelector \<Rightarrow> NetID \<Rightarrow> bool" where
  "isDeselected rs netID \<longleftrightarrow> netID \<in> deselectedRoutes rs \<or> deselectAll rs"

definition isExitNode :: "Route list \<Rightarrow> bool" where
  "isExitNode rt \<longleftrightarrow> length rt > 0 \<and> rt_Network (rt ! 0) = ''0.0.0.0/0''"

definition hasUserSelections :: "RouteSelector \<Rightarrow> bool" where
  "hasUserSelections rs \<longleftrightarrow> selectedRoutes rs \<noteq> {} \<or> deselectedRoutes rs \<noteq> {}"

definition collectSelected :: "Route list \<Rightarrow> Route list" where
  "collectSelected rt = filter (\<lambda>r. \<not> rt_SkipAutoApply r) rt"

definition applyExitNodeFilter :: "RouteSelector \<Rightarrow> HAUniqueID \<Rightarrow> NetID \<Rightarrow> Route list \<Rightarrow> HAMap \<Rightarrow> HAMap" where
  "applyExitNodeFilter rs i netID rt out =
     (if hasUserSelections rs then (if IsSelected rs netID then out @ [(i, rt)] else out)
      else (let sel = collectSelected rt in if length sel > 0 then out @ [(i, sel)] else out))"

fun filter_exit_nodes :: "RouteSelector \<Rightarrow> HAMap \<Rightarrow> HAMap \<Rightarrow> HAMap" where
  "filter_exit_nodes rs [] filtered = filtered"
| "filter_exit_nodes rs ((i, rt) # routes) filtered =
     (if isDeselected rs (HA_NetID i) then filter_exit_nodes rs routes filtered
      else if \<not> isExitNode rt then filter_exit_nodes rs routes (filtered @ [(i, rt)])
      else filter_exit_nodes rs routes (applyExitNodeFilter rs i (HA_NetID i) rt filtered))"

definition FilterSelectedExitNodes :: "RouteSelector \<Rightarrow> HAMap \<Rightarrow> HAMap" where
  "FilterSelectedExitNodes rs routes = (if deselectAll rs then [] else filter_exit_nodes rs routes [])"

text \<open>The persisted form: what \<open>MarshalJSON\<close> encodes, with \<open>None\<close> for an absent or null field.\<close>

record selector_json =
  json_selected :: "NetID set option"
  json_deselected :: "NetID set option"
  json_deselect_all :: bool

definition selector_MarshalJSON :: "RouteSelector \<Rightarrow> selector_json" where
  "selector_MarshalJSON rs = \<lparr>json_selected = Some (selectedRoutes rs),
     json_deselected = Some (deselectedRoutes rs), json_deselect_all = deselectAll rs\<rparr>"

text \<open>\<open>None\<close> is empty input or the literal null.\<close>

definition selector_UnmarshalJSON :: "selector_json option \<Rightarrow> RouteSelector" where
  "selector_UnmarshalJSON data =
     (case data of
        None \<Rightarrow> NewRouteSelector
      | Some j \<Rightarrow> \<lparr>deselectedRoutes = (case json_deselected j of None \<Rightarrow> {} | Some s \<Rightarrow> s),
                   selectedRoutes = (case json_selected j of None \<Rightarrow> {} | Some s \<Rightarrow> s),
                   deselectAll = json_deselect_all j\<rparr>)"

section \<open>Facts\<close>

lemma before_last_None: "before_last c s = None \<longleftrightarrow> c \<notin> set s"
  by (induction s) (auto split: option.splits)

lemma before_last_append: "c \<notin> set p \<Longrightarrow> before_last c (h @ c # p) = Some h"
  by (induction h) (auto simp: before_last_None split: option.splits)

lemma select_loop_result:
  "deselectedRoutes (fst (select_loop routes allRoutes rs err)) = deselectedRoutes rs - (set routes \<inter> set allRoutes)"
  "selectedRoutes (fst (select_loop routes allRoutes rs err)) = selectedRoutes rs \<union> (set routes \<inter> set allRoutes)"
  "deselectAll (fst (select_loop routes allRoutes rs err)) = deselectAll rs"
  "snd (select_loop routes allRoutes rs err) = err @ filter (\<lambda>r. r \<notin> set allRoutes) routes"
  by (induction routes allRoutes rs err rule: select_loop.induct) auto

lemma deselect_loop_result:
  "deselectedRoutes (fst (deselect_loop routes allRoutes rs err)) = deselectedRoutes rs \<union> (set routes \<inter> set allRoutes)"
  "selectedRoutes (fst (deselect_loop routes allRoutes rs err)) = selectedRoutes rs - (set routes \<inter> set allRoutes)"
  "deselectAll (fst (deselect_loop routes allRoutes rs err)) = deselectAll rs"
  "snd (deselect_loop routes allRoutes rs err) = err @ filter (\<lambda>r. r \<notin> set allRoutes) routes"
  by (induction routes allRoutes rs err rule: deselect_loop.induct) auto

text \<open>No route is both selected and deselected, and a blanket deselection leaves no single choices.\<close>

definition selector_inv :: "RouteSelector \<Rightarrow> bool" where
  "selector_inv rs \<longleftrightarrow> selectedRoutes rs \<inter> deselectedRoutes rs = {}
     \<and> (deselectAll rs \<longrightarrow> selectedRoutes rs = {} \<and> deselectedRoutes rs = {})"

inductive selector_step :: "RouteSelector \<Rightarrow> RouteSelector \<Rightarrow> bool" where
  "selector_step rs (fst (SelectRoutes rs routes app allRoutes))"
| "selector_step rs (SelectAllRoutes rs)"
| "selector_step rs (fst (DeselectRoutes rs routes allRoutes))"
| "selector_step rs (DeselectAllRoutes rs)"
| "selector_step rs (selector_UnmarshalJSON (Some (selector_MarshalJSON rs)))"
| "selector_step rs (selector_UnmarshalJSON None)"

inductive_cases selector_stepE: "selector_step rs rs'"

lemma SelectRoutes_fields:
  "deselectedRoutes (fst (SelectRoutes rs routes app allRoutes)) =
     (if \<not> app \<or> deselectAll rs then set allRoutes else deselectedRoutes rs) - (set routes \<inter> set allRoutes)"
  "selectedRoutes (fst (SelectRoutes rs routes app allRoutes)) =
     (if \<not> app \<or> deselectAll rs then {} else selectedRoutes rs) \<union> (set routes \<inter> set allRoutes)"
  "\<not> deselectAll (fst (SelectRoutes rs routes app allRoutes))"
  "snd (SelectRoutes rs routes app allRoutes) = filter (\<lambda>r. r \<notin> set allRoutes) routes"
  by (simp_all add: SelectRoutes_def Let_def select_loop_result case_prod_beta)

lemma DeselectRoutes_fields:
  "deselectedRoutes (fst (DeselectRoutes rs routes allRoutes)) =
     (if deselectAll rs then deselectedRoutes rs else deselectedRoutes rs \<union> (set routes \<inter> set allRoutes))"
  "selectedRoutes (fst (DeselectRoutes rs routes allRoutes)) =
     (if deselectAll rs then selectedRoutes rs else selectedRoutes rs - (set routes \<inter> set allRoutes))"
  "deselectAll (fst (DeselectRoutes rs routes allRoutes)) = deselectAll rs"
  "snd (DeselectRoutes rs routes allRoutes) = (if deselectAll rs then [] else filter (\<lambda>r. r \<notin> set allRoutes) routes)"
  by (simp_all add: DeselectRoutes_def deselect_loop_result)

lemmas selector_defs = SelectAllRoutes_def DeselectAllRoutes_def selector_UnmarshalJSON_def
  selector_MarshalJSON_def NewRouteSelector_def

interpretation selector_system: invariant_system "\<lambda>rs. rs = NewRouteSelector" selector_step selector_inv
proof
  fix rs assume "rs = NewRouteSelector"
  then show "selector_inv rs"
    by (simp add: selector_inv_def NewRouteSelector_def)
next
  fix rs rs' assume "selector_inv rs" "selector_step rs rs'"
  then show "selector_inv rs'"
    by (auto elim!: selector_stepE simp: selector_inv_def SelectRoutes_fields DeselectRoutes_fields selector_defs
        split: if_splits)
qed

lemma filter_exit_nodes_append: "filter_exit_nodes rs routes acc = acc @ filter_exit_nodes rs routes []"
proof (induction routes arbitrary: acc)
  case (Cons e routes)
  obtain i rt where e: "e = (i, rt)" by fastforce
  have step: "applyExitNodeFilter rs i (HA_NetID i) rt acc = acc @ applyExitNodeFilter rs i (HA_NetID i) rt []" for acc
    by (simp add: applyExitNodeFilter_def Let_def)
  show ?case
    unfolding e filter_exit_nodes.simps
    using Cons.IH [of acc] Cons.IH [of "acc @ [(i, rt)]"] Cons.IH [of "[(i, rt)]"]
      Cons.IH [of "applyExitNodeFilter rs i (HA_NetID i) rt acc"]
      Cons.IH [of "applyExitNodeFilter rs i (HA_NetID i) rt []"] step [of acc] by simp
qed simp

section \<open>Properties\<close>

abbreviation selector_reachable :: "RouteSelector \<Rightarrow> bool" where
  "selector_reachable \<equiv> reachable (\<lambda>rs. rs = NewRouteSelector) selector_step"



text \<open>C27: The filters agree with the selection: \<open>FilterSelected\<close> keeps exactly the entries whose network id
  is selected. \<open>FilterSelectedExitNodes\<close> keeps of these all that are not exit nodes and, of the exit
  nodes, all when the user has made selections, and otherwise only their routes that may be applied
  automatically; it never keeps an entry that is not selected.\<close>

theorem exit_node_filter:
  "FilterSelected rs routes = filter (\<lambda>(i, rt). IsSelected rs (HA_NetID i)) routes
   \<and> FilterSelectedExitNodes rs routes =
       (if hasUserSelections rs then FilterSelected rs routes
        else List.map_filter (\<lambda>(i, rt). if \<not> isExitNode rt then Some (i, rt)
               else if collectSelected rt \<noteq> [] then Some (i, collectSelected rt) else None)
             (FilterSelected rs routes))"
proof
  show "FilterSelected rs routes = filter (\<lambda>(i, rt). IsSelected rs (HA_NetID i)) routes"
    by (simp add: FilterSelected_def IsSelected_def)
  have "filter_exit_nodes rs routes [] =
       (if hasUserSelections rs then filter (\<lambda>(i, rt). HA_NetID i \<notin> deselectedRoutes rs) routes
        else List.map_filter (\<lambda>(i, rt). if \<not> isExitNode rt then Some (i, rt)
               else if collectSelected rt \<noteq> [] then Some (i, collectSelected rt) else None)
             (filter (\<lambda>(i, rt). HA_NetID i \<notin> deselectedRoutes rs) routes))" if "\<not> deselectAll rs"
    using that
  proof (induction routes)
    case (Cons e routes)
    then show ?case
      using filter_exit_nodes_append [of rs routes "[e]"]
        filter_exit_nodes_append [of rs routes "[(fst e, collectSelected (snd e))]"]
      by (cases e) (simp add: isDeselected_def applyExitNodeFilter_def IsSelected_def Let_def List.map_filter_simps)
  qed (simp add: List.map_filter_simps)
  then show "FilterSelectedExitNodes rs routes =
       (if hasUserSelections rs then FilterSelected rs routes
        else List.map_filter (\<lambda>(i, rt). if \<not> isExitNode rt then Some (i, rt)
               else if collectSelected rt \<noteq> [] then Some (i, collectSelected rt) else None)
             (FilterSelected rs routes))"
    by (simp add: FilterSelectedExitNodes_def FilterSelected_def List.map_filter_simps)
qed

text \<open>The grouping id of a route gives back its network id whenever the printed network has no bar in
  it, whatever the network id contains, so selection by network id reaches every route of the group;
  and the saved selection is restored exactly.\<close>

lemma group_id_and_selection_round_trip:
  assumes "CHR ''|'' \<notin> set (NetString toUnicode r)"
  shows "HA_NetID (GetHAUniqueID toUnicode r) = rt_NetID r
    \<and> selector_UnmarshalJSON (Some (selector_MarshalJSON rs)) = rs"
  using before_last_append [OF assms, of "rt_NetID r"]
  by (simp add: HA_NetID_def GetHAUniqueID_def selector_defs)

definition example_route :: Route where
  "example_route = \<lparr>rt_ID = ''r1:2'', rt_AccountID = ''acc'', rt_Network = ''10.0.0.0/8'', rt_Domains = None,
     rt_KeepRoute = False, rt_NetID = ''a|b'', rt_Description = [], rt_Peer = ''p'', rt_PeerID = [],
     rt_PeerGroups = [], rt_NetworkType = IPv4Network, rt_Masquerade = False, rt_Metric = 10, rt_Enabled = True,
     rt_Groups = [], rt_AccessControlGroups = [], rt_SkipAutoApply = False\<rparr>"

end
