(* ===== verification/RefCounter.thy ===== *)
theory RefCounter
  imports Prelude
begin

text \<open>
  The reference counter of the route manager, \<open>client/internal/routemanager/refcounter/refcounter.go\<close>.
  The functions a counter is created with (\<open>AddFunc\<close>, \<open>RemoveFunc\<close>) act on the system; what such a
  call answers is an argument of the operation, and every operation returns the calls it made. A Go map
  that is nil is \<open>None\<close>: it reads as empty and a write to it panics. Iteration over a map is
  iteration over a list of its keys, an argument.
\<close>

section \<open>Definitions\<close>

record 'o Ref =
  Count :: int
  Out :: 'o

record ('k, 'o) Counter =
  refCountMap :: "('k \<rightharpoonup> 'o Ref) option"
  idMap :: "(string \<rightharpoonup> 'k list) option"

text \<open>What \<open>AddFunc\<close> answers: an output, \<open>ErrIgnore\<close> or an error.\<close>

datatype 'o add_answer = AddOk 'o | AddIgnore | AddError

datatype ('k, 'o) call = CallAdd 'k "'o add_answer" | CallRemove 'k 'o bool

text \<open>An operation on one key returns the reference beside the error; \<open>None\<close> is the zero \<open>Ref\<close> of an absent key.\<close>

datatype 'o counter_error = FailedToAdd "'o Ref option" | FailedToRemove "'o Ref option"

definition New :: "('k, 'o) Counter" where
  "New = \<lparr>refCountMap = Some Map.empty, idMap = Some Map.empty\<rparr>"

definition LoadData :: "('k, 'o) Counter \<Rightarrow> ('k, 'o) Counter \<Rightarrow> ('k, 'o) Counter" where
  "LoadData rm existing = rm\<lparr>refCountMap := refCountMap existing, idMap := idMap existing\<rparr>"

text \<open>A lookup in a map that may be nil, and the zero value for an absent reference.\<close>

definition map_get :: "('a \<rightharpoonup> 'b) option \<Rightarrow> 'a \<Rightarrow> 'b option" where
  "map_get m k = (case m of None \<Rightarrow> None | Some m \<Rightarrow> m k)"

definition Get :: "('k, 'o) Counter \<Rightarrow> 'k \<Rightarrow> 'o Ref option" where
  "Get rm key = map_get (refCountMap rm) key"

type_synonym ('k, 'o) counter_result =
  "('o counter_error, 'o Ref option) outcome \<times> ('k, 'o) Counter \<times> ('k, 'o) call list"

type_synonym ('k, 'o) counter_bulk_result =
  "(unit, unit) outcome \<times> ('k, 'o) Counter \<times> ('k, 'o) call list"

text \<open>
  \<open>increment\<close>: the add function is called when the count is zero. Storing the reference in a nil map
  panics.
\<close>

definition increment :: "('k, 'o) Counter \<Rightarrow> 'k \<Rightarrow> 'o add_answer \<Rightarrow> ('k, 'o) counter_result" where
  "increment rm key answer =
     (let store = (\<lambda>ref calls. case refCountMap rm of
                      None \<Rightarrow> (Panics, rm, calls)
                    | Some m \<Rightarrow> (Returns (Some ref), rm\<lparr>refCountMap := Some (m(key \<mapsto> ref))\<rparr>, calls))
      in case Get rm key of
           Some ref \<Rightarrow>
             (if Count ref = 0
              then (case answer of
                      AddIgnore \<Rightarrow> (Returns (Some ref), rm, [CallAdd key answer])
                    | AddError \<Rightarrow> (Fails (FailedToAdd (Some ref)), rm, [CallAdd key answer])
                    | AddOk out \<Rightarrow> store (ref\<lparr>Out := out, Count := Count ref + 1\<rparr>) [CallAdd key answer])
              else store (ref\<lparr>Count := Count ref + 1\<rparr>) [])
         | None \<Rightarrow>
             (case answer of
                AddIgnore \<Rightarrow> (Returns None, rm, [CallAdd key answer])
              | AddError \<Rightarrow> (Fails (FailedToAdd None), rm, [CallAdd key answer])
              | AddOk out \<Rightarrow> store \<lparr>Count = 1, Out = out\<rparr> [CallAdd key answer]))"

definition IncrementWithID :: "('k, 'o) Counter \<Rightarrow> string \<Rightarrow> 'k \<Rightarrow> 'o add_answer \<Rightarrow> ('k, 'o) counter_result" where
  "IncrementWithID rm i key answer =
     (case increment rm key answer of
        (Returns ref, rm, calls) \<Rightarrow>
          (case idMap rm of
             None \<Rightarrow> (Panics, rm, calls)
           | Some m \<Rightarrow>
               (Returns ref,
                rm\<lparr>idMap := Some (m(i \<mapsto> (case m i of None \<Rightarrow> [] | Some ks \<Rightarrow> ks) @ [key]))\<rparr>, calls))
      | r \<Rightarrow> r)"

text \<open>\<open>ok\<close> is whether the remove function succeeds.\<close>

definition decrement :: "('k, 'o) Counter \<Rightarrow> 'k \<Rightarrow> bool \<Rightarrow> ('k, 'o) counter_result" where
  "decrement rm key ok =
     (case refCountMap rm of
        None \<Rightarrow> (Returns None, rm, [])
      | Some m \<Rightarrow>
          (case m key of
             None \<Rightarrow> (Returns None, rm, [])
           | Some ref \<Rightarrow>
               (if Count ref = 1
                then (if \<not> ok then (Fails (FailedToRemove (Some ref)), rm, [CallRemove key (Out ref) ok])
                      else (Returns (Some ref), rm\<lparr>refCountMap := Some (m(key := None))\<rparr>, [CallRemove key (Out ref) ok]))
                else (let ref = ref\<lparr>Count := Count ref - 1\<rparr>
                      in (Returns (Some ref), rm\<lparr>refCountMap := Some (m(key \<mapsto> ref))\<rparr>, [])))))"

text \<open>The loop of \<open>DecrementWithID\<close>; \<open>answers\<close> says for each key whether removing it would succeed.\<close>

fun decrement_keys :: "('k, 'o) Counter \<Rightarrow> 'k list \<Rightarrow> ('k \<Rightarrow> bool) \<Rightarrow> bool \<times> ('k, 'o) Counter \<times> ('k, 'o) call list" where
  "decrement_keys rm [] answers = (True, rm, [])"
| "decrement_keys rm (k # ks) answers =
     (let (r, rm1, calls) = decrement rm k (answers k);
          (fine, rm2, calls2) = decrement_keys rm1 ks answers
      in ((case r of Fails e \<Rightarrow> False | _ \<Rightarrow> True) \<and> fine, rm2, calls @ calls2))"

definition DecrementWithID :: "('k, 'o) Counter \<Rightarrow> string \<Rightarrow> ('k \<Rightarrow> bool) \<Rightarrow> ('k, 'o) counter_bulk_result" where
  "DecrementWithID rm i answers =
     (let keys = (case map_get (idMap rm) i of None \<Rightarrow> [] | Some ks \<Rightarrow> ks);
          (fine, rm, calls) = decrement_keys rm keys answers
      in (if fine then Returns () else Fails (),
          rm\<lparr>idMap := map_option (\<lambda>m. m(i := None)) (idMap rm)\<rparr>, calls))"

text \<open>\<open>keys\<close> enumerates the map.\<close>

definition Flush :: "('k, 'o) Counter \<Rightarrow> 'k list \<Rightarrow> ('k \<Rightarrow> bool) \<Rightarrow> ('k, 'o) counter_bulk_result" where
  "Flush rm keys answers =
     (let calls = List.map_filter (\<lambda>k. map_option (\<lambda>ref. CallRemove k (Out ref) (answers k)) (Get rm k)) keys
      in (if list_all answers keys then Returns () else Fails (),
          rm\<lparr>refCountMap := map_option (\<lambda>m. Map.empty) (refCountMap rm),
             idMap := map_option (\<lambda>m. Map.empty) (idMap rm)\<rparr>, calls))"

definition Clear :: "('k, 'o) Counter \<Rightarrow> ('k, 'o) Counter" where
  "Clear rm = rm\<lparr>refCountMap := map_option (\<lambda>m. Map.empty) (refCountMap rm),
     idMap := map_option (\<lambda>m. Map.empty) (idMap rm)\<rparr>"

text \<open>
  The persisted form, with \<open>None\<close> for a field that is absent or null. \<open>UnmarshalJSON\<close> copies the fields
  before it replaces nil by an empty map, so the counter keeps the nil.
\<close>

record ('k, 'o) counter_json =
  json_refCountMap :: "('k \<rightharpoonup> 'o Ref) option"
  json_idMap :: "(string \<rightharpoonup> 'k list) option"

definition counter_MarshalJSON :: "('k, 'o) Counter \<Rightarrow> ('k, 'o) counter_json" where
  "counter_MarshalJSON rm = \<lparr>json_refCountMap = refCountMap rm, json_idMap = idMap rm\<rparr>"

definition counter_UnmarshalJSON :: "('k, 'o) Counter \<Rightarrow> ('k, 'o) counter_json \<Rightarrow> ('k, 'o) Counter" where
  "counter_UnmarshalJSON rm temp =
     (let rm = rm\<lparr>refCountMap := json_refCountMap temp, idMap := json_idMap temp\<rparr>;
          temp = (if json_refCountMap temp = None then temp\<lparr>json_refCountMap := Some Map.empty\<rparr> else temp);
          temp = (if json_idMap temp = None then temp\<lparr>json_idMap := Some Map.empty\<rparr> else temp)
      in rm)"

section \<open>The system behind the counter\<close>

text \<open>
  What is installed in the system after a sequence of calls: a successful add installs the key with
  its output, a successful remove takes it out.
\<close>

fun installed :: "('k, 'o) call list \<Rightarrow> ('k \<rightharpoonup> 'o) \<Rightarrow> ('k \<rightharpoonup> 'o)" where
  "installed [] s = s"
| "installed (CallAdd k (AddOk out) # cs) s = installed cs (s(k \<mapsto> out))"
| "installed (CallAdd k AddIgnore # cs) s = installed cs s"
| "installed (CallAdd k AddError # cs) s = installed cs s"
| "installed (CallRemove k out ok # cs) s = installed cs (if ok then s(k := None) else s)"

text \<open>A call sequence is proper if it adds only what is not installed and removes only what is.\<close>

fun proper_calls :: "('k, 'o) call list \<Rightarrow> ('k \<rightharpoonup> 'o) \<Rightarrow> bool" where
  "proper_calls [] s = True"
| "proper_calls (CallAdd k a # cs) s \<longleftrightarrow> s k = None \<and> proper_calls cs (installed [CallAdd k a] s)"
| "proper_calls (CallRemove k out ok # cs) s \<longleftrightarrow> s k = Some out \<and> proper_calls cs (installed [CallRemove k out ok] s)"

lemma installed_append: "installed (xs @ ys) s = installed ys (installed xs s)"
  by (induction xs s rule: installed.induct) (auto simp: fun_upd_def)

lemma proper_calls_append: "proper_calls (xs @ ys) s \<longleftrightarrow> proper_calls xs s \<and> proper_calls ys (installed xs s)"
proof (induction xs s rule: proper_calls.induct)
  case (2 k a cs s)
  then show ?case by (cases a) (auto simp: fun_upd_def)
qed (auto simp: fun_upd_def)

definition outputs :: "('k, 'o) Counter \<Rightarrow> ('k \<rightharpoonup> 'o)" where
  "outputs rm = (\<lambda>k. map_option Out (Get rm k))"

definition counter_inv :: "('k, 'o) Counter \<Rightarrow> bool" where
  "counter_inv rm \<longleftrightarrow> refCountMap rm \<noteq> None \<and> idMap rm \<noteq> None \<and> (\<forall>k ref. Get rm k = Some ref \<longrightarrow> 1 \<le> Count ref)"

text \<open>
  The contract of one operation: it keeps the invariant, its calls are proper for what the counter
  believes to be installed, and afterwards the counter believes what the calls made true.
\<close>

definition faithful_step :: "('k, 'o) Counter \<Rightarrow> ('k, 'o) Counter \<times> ('k, 'o) call list \<Rightarrow> bool" where
  "faithful_step rm r \<longleftrightarrow> counter_inv (fst r) \<and> proper_calls (snd r) (outputs rm)
     \<and> installed (snd r) (outputs rm) = outputs (fst r)"

lemma Get_simps:
  "refCountMap rm = Some m \<Longrightarrow> Get rm k = m k"
  by (simp add: Get_def map_get_def)

lemma counter_inv_store:
  "counter_inv rm \<Longrightarrow> (\<And>k ref. m k = Some ref \<Longrightarrow> 1 \<le> Count ref) \<Longrightarrow> counter_inv (rm\<lparr>refCountMap := Some m\<rparr>)"
  by (simp add: counter_inv_def Get_def map_get_def)

lemma outputs_store:
  "outputs (rm\<lparr>refCountMap := Some m\<rparr>) = (\<lambda>k. map_option Out (m k))"
  "refCountMap rm = Some m \<Longrightarrow> outputs rm = (\<lambda>k. map_option Out (m k))"
  by (simp_all add: outputs_def Get_def map_get_def)

lemma increment_faithful:
  assumes inv: "counter_inv rm"
  shows "faithful_step rm (snd (increment rm k a))" and "fst (increment rm k a) \<noteq> Panics"
    and "idMap (fst (snd (increment rm k a))) = idMap rm"
proof -
  obtain m where m: "refCountMap rm = Some m"
    using inv by (auto simp: counter_inv_def)
  have pos: "m k' = Some ref \<Longrightarrow> 1 \<le> Count ref" for k' ref
    using inv by (simp add: counter_inv_def Get_simps [OF m])
  show "faithful_step rm (snd (increment rm k a))"
  proof (cases "m k")
    case None
    then show ?thesis
      using inv pos m
      by (cases a) (auto simp: increment_def faithful_step_def counter_inv_def outputs_def Get_simps Get_def
          map_get_def fun_eq_iff Let_def)
  next
    case (Some ref)
    then have "Count ref \<noteq> 0" "0 \<le> Count ref"
      using pos [OF Some] by simp_all
    then show ?thesis
      using inv pos m Some
      by (auto simp: increment_def faithful_step_def counter_inv_def outputs_def Get_def map_get_def fun_eq_iff
          Let_def split: if_splits)
  qed
  show "fst (increment rm k a) \<noteq> Panics" "idMap (fst (snd (increment rm k a))) = idMap rm"
    using m by (auto simp: increment_def Let_def split: option.splits add_answer.splits)
qed

lemma decrement_faithful:
  assumes inv: "counter_inv rm"
  shows "faithful_step rm (snd (decrement rm k ok))" and "fst (decrement rm k ok) \<noteq> Panics"
    and "idMap (fst (snd (decrement rm k ok))) = idMap rm"
proof -
  obtain m where m: "refCountMap rm = Some m"
    using inv by (auto simp: counter_inv_def)
  have pos: "m k' = Some ref \<Longrightarrow> 1 \<le> Count ref" for k' ref
    using inv by (simp add: counter_inv_def Get_simps [OF m])
  show "faithful_step rm (snd (decrement rm k ok))"
  proof (cases "m k")
    case None
    then show ?thesis
      using inv m by (simp add: decrement_def faithful_step_def)
  next
    case (Some ref)
    have lower: "counter_inv (rm\<lparr>refCountMap := Some (m(k \<mapsto> ref\<lparr>Count := Count ref - 1\<rparr>))\<rparr>)" if "Count ref \<noteq> 1"
      using inv by (rule counter_inv_store) (use pos [OF Some] pos that in \<open>auto split: if_splits\<close>)
    have gone: "counter_inv (rm\<lparr>refCountMap := Some (m(k := None))\<rparr>)"
      using inv by (rule counter_inv_store) (use pos in \<open>auto split: if_splits\<close>)
    show ?thesis
      using inv lower gone Some
      by (simp add: decrement_def faithful_step_def m outputs_store(1) outputs_store(2) [OF m] fun_eq_iff Let_def)
  qed
  show "fst (decrement rm k ok) \<noteq> Panics" "idMap (fst (snd (decrement rm k ok))) = idMap rm"
    using m by (auto simp: decrement_def Let_def split: option.splits)
qed

lemma faithful_refl: "counter_inv rm \<Longrightarrow> faithful_step rm (rm, [])"
  by (simp add: faithful_step_def)

lemma faithful_trans:
  assumes "faithful_step rm (rm1, xs)" "faithful_step rm1 (rm2, ys)"
  shows "faithful_step rm (rm2, xs @ ys)"
  using assms by (simp add: faithful_step_def installed_append proper_calls_append)

lemma faithful_idMap:
  "faithful_step rm (rm1, cs) \<Longrightarrow> m \<noteq> None \<Longrightarrow> faithful_step rm (rm1\<lparr>idMap := m\<rparr>, cs)"
  by (auto simp: faithful_step_def counter_inv_def outputs_def Get_def)

lemma decrement_keys_faithful:
  "counter_inv rm \<Longrightarrow> faithful_step rm (snd (decrement_keys rm ks answers)) \<and> idMap (fst (snd (decrement_keys rm ks answers))) = idMap rm"
proof (induction rm ks answers rule: decrement_keys.induct)
  case (1 rm answers)
  then show ?case by (simp add: faithful_refl)
next
  case (2 rm k ks answers)
  obtain r rm1 calls where d: "decrement rm k (answers k) = (r, rm1, calls)"
    by (metis prod_cases3)
  obtain fine rm2 calls2 where e: "decrement_keys rm1 ks answers = (fine, rm2, calls2)"
    by (metis prod_cases3)
  have f: "faithful_step rm (rm1, calls)" "idMap rm1 = idMap rm"
    using decrement_faithful(1,3) [OF 2(2), of k "answers k"] d by simp_all
  then have "counter_inv rm1"
    by (simp add: faithful_step_def)
  then have "faithful_step rm1 (rm2, calls2)" "idMap rm2 = idMap rm1"
    using 2(1) [OF d [symmetric] refl] e by (simp_all add: d)
  then show ?case
    using faithful_trans [OF f(1)] f(2) by (simp add: d e)
qed

lemma DecrementWithID_faithful:
  assumes "counter_inv rm"
  shows "faithful_step rm (snd (DecrementWithID rm i answers))"
proof -
  let ?keys = "case map_get (idMap rm) i of None \<Rightarrow> [] | Some ks \<Rightarrow> ks"
  obtain fine rm1 calls where e: "decrement_keys rm ?keys answers = (fine, rm1, calls)"
    by (metis prod_cases3)
  have "faithful_step rm (rm1, calls)" "idMap rm1 = idMap rm"
    using decrement_keys_faithful [OF assms, of ?keys answers] e by simp_all
  moreover have "map_option (\<lambda>m. m(i := None)) (idMap rm1) \<noteq> None"
    using assms \<open>idMap rm1 = idMap rm\<close> by (auto simp: counter_inv_def)
  ultimately have "faithful_step rm (rm1\<lparr>idMap := map_option (\<lambda>m. m(i := None)) (idMap rm1)\<rparr>, calls)"
    by (intro faithful_idMap)
  then show ?thesis
    by (simp add: DecrementWithID_def e)
qed

lemma IncrementWithID_faithful:
  assumes "counter_inv rm"
  shows "faithful_step rm (snd (IncrementWithID rm i k a))" and "fst (IncrementWithID rm i k a) \<noteq> Panics"
proof -
  obtain r rm1 calls where e: "increment rm k a = (r, rm1, calls)"
    by (metis prod_cases3)
  have f: "faithful_step rm (rm1, calls)" "r \<noteq> Panics" "idMap rm1 = idMap rm"
    using increment_faithful [OF assms, of k a] e by simp_all
  obtain m where m: "idMap rm1 = Some m"
    using assms f(3) by (auto simp: counter_inv_def)
  have "faithful_step rm (rm1\<lparr>idMap := Some (m(i \<mapsto> (case m i of None \<Rightarrow> [] | Some ks \<Rightarrow> ks) @ [k]))\<rparr>, calls)"
    by (rule faithful_idMap [OF f(1)]) simp
  then show "faithful_step rm (snd (IncrementWithID rm i k a))" "fst (IncrementWithID rm i k a) \<noteq> Panics"
    using f(1,2) by (cases r; simp add: IncrementWithID_def e m)+
qed

section \<open>Runs\<close>

text \<open>The operations with the answers the system gives.\<close>

datatype ('k, 'o) counter_call =
    OpIncrement 'k "'o add_answer"
  | OpIncrementID string 'k "'o add_answer"
  | OpDecrement 'k bool
  | OpDecrementID string "'k \<Rightarrow> bool"

text \<open>One operation: whether it panics, the counter after it and its calls.\<close>

fun counter_op :: "('k, 'o) Counter \<Rightarrow> ('k, 'o) counter_call \<Rightarrow> bool \<times> ('k, 'o) Counter \<times> ('k, 'o) call list" where
  "counter_op rm (OpIncrement k a) = (let r = increment rm k a in (fst r = Panics, snd r))"
| "counter_op rm (OpIncrementID i k a) = (let r = IncrementWithID rm i k a in (fst r = Panics, snd r))"
| "counter_op rm (OpDecrement k ok) = (let r = decrement rm k ok in (fst r = Panics, snd r))"
| "counter_op rm (OpDecrementID i answers) = (let r = DecrementWithID rm i answers in (fst r = Panics, snd r))"

fun counter_run :: "('k, 'o) Counter \<Rightarrow> ('k, 'o) counter_call list \<Rightarrow> ('k, 'o) Counter \<times> ('k, 'o) call list" where
  "counter_run rm [] = (rm, [])"
| "counter_run rm (x # xs) =
     (let (_, rm1, calls) = counter_op rm x; (rm2, calls2) = counter_run rm1 xs in (rm2, calls @ calls2))"

lemma counter_op_faithful:
  assumes "counter_inv rm"
  shows "faithful_step rm (snd (counter_op rm x))"
  using assms increment_faithful(1) decrement_faithful(1) IncrementWithID_faithful(1) DecrementWithID_faithful
  by (cases x) (simp_all add: Let_def)

lemma counter_op_no_panic:
  assumes "counter_inv rm"
  shows "\<not> fst (counter_op rm x)"
  using assms increment_faithful(2) decrement_faithful(2) IncrementWithID_faithful(2)
  by (cases x) (simp_all add: DecrementWithID_def Let_def split: prod.splits)

lemma counter_run_faithful: "counter_inv rm \<Longrightarrow> faithful_step rm (counter_run rm xs)"
proof (induction xs arbitrary: rm)
  case Nil
  then show ?case by (simp add: faithful_refl)
next
  case (Cons x xs)
  obtain r rm1 calls where x: "counter_op rm x = (r, rm1, calls)"
    by (metis prod_cases3)
  obtain rm2 calls2 where xs: "counter_run rm1 xs = (rm2, calls2)"
    by fastforce
  have f: "faithful_step rm (rm1, calls)"
    using counter_op_faithful [OF Cons.prems, of x] x by simp
  moreover have "faithful_step rm1 (rm2, calls2)"
    using Cons.IH [of rm1] f xs by (simp add: faithful_step_def)
  ultimately show ?case
    using faithful_trans by (simp add: x xs)
qed

text \<open>
  \<open>Flush\<close> on a state that is in step with the system: its calls are removals of the listed keys.
\<close>

definition flush_calls :: "('k, 'o) Counter \<Rightarrow> 'k list \<Rightarrow> ('k \<Rightarrow> bool) \<Rightarrow> ('k, 'o) call list" where
  "flush_calls rm keys answers = snd (snd (Flush rm keys answers))"

lemma flush_calls_simps:
  "flush_calls rm [] answers = []"
  "flush_calls rm (k # ks) answers =
     (case Get rm k of None \<Rightarrow> [] | Some ref \<Rightarrow> [CallRemove k (Out ref) (answers k)]) @ flush_calls rm ks answers"
  by (simp_all add: flush_calls_def Flush_def Let_def map_filter_simps split: option.splits)

lemma flush_proper:
  assumes "distinct keys" "\<And>k. k \<in> set keys \<Longrightarrow> s k = map_option Out (Get rm k)"
  shows "proper_calls (flush_calls rm keys answers) s
    \<and> installed (flush_calls rm keys answers) s = (\<lambda>k. if k \<in> set keys \<and> answers k then None else s k)"
  using assms
proof (induction keys arbitrary: s)
  case Nil
  then show ?case by (simp add: flush_calls_simps)
next
  case (Cons k ks)
  let ?s = "if Get rm k \<noteq> None \<and> answers k then s(k := None) else s"
  have "proper_calls (flush_calls rm ks answers) ?s
      \<and> installed (flush_calls rm ks answers) ?s = (\<lambda>k. if k \<in> set ks \<and> answers k then None else ?s k)"
    using Cons.prems by (intro Cons.IH) auto
  moreover have "s k = map_option Out (Get rm k)"
    using Cons.prems(2) by simp
  ultimately show ?case
    using Cons.prems(1) by (cases "Get rm k") (auto simp: flush_calls_simps fun_eq_iff)
qed

lemma counter_inv_New: "counter_inv New"
  by (simp add: counter_inv_def New_def Get_def map_get_def)

section \<open>Properties\<close>


text \<open>C28: Flushing after any run removes every installed key exactly once, with the output its add returned;
  the keys whose removal fails are all that stays installed, and the counter is empty whether or not
  something failed.\<close>

theorem flush_removes_everything:
  assumes "distinct keys" and "set keys = {k. Get (fst (counter_run New ops)) k \<noteq> None}"
  shows "proper_calls (snd (counter_run New ops) @ snd (snd (Flush (fst (counter_run New ops)) keys answers))) Map.empty
    \<and> (\<forall>k. (installed (snd (counter_run New ops) @ snd (snd (Flush (fst (counter_run New ops)) keys answers))) Map.empty k \<noteq> None)
          \<longleftrightarrow> (k \<in> set keys \<and> \<not> answers k))
    \<and> fst (snd (Flush (fst (counter_run New ops)) keys answers)) = New"
proof -
  let ?rm = "fst (counter_run New ops)" and ?calls = "snd (counter_run New ops)"
  have f: "faithful_step New (counter_run New ops)"
    by (rule counter_run_faithful [OF counter_inv_New])
  have out: "outputs New = Map.empty"
    by (simp add: outputs_def New_def Get_def map_get_def)
  have p: "proper_calls ?calls Map.empty" and i: "installed ?calls Map.empty = outputs ?rm" and inv: "counter_inv ?rm"
    using f by (simp_all add: faithful_step_def out)
  have k: "proper_calls (flush_calls ?rm keys answers) (outputs ?rm)
    \<and> installed (flush_calls ?rm keys answers) (outputs ?rm) = (\<lambda>k. if k \<in> set keys \<and> answers k then None else outputs ?rm k)"
    by (rule flush_proper) (simp_all add: assms(1) outputs_def)
  have "outputs ?rm k \<noteq> None \<longleftrightarrow> k \<in> set keys" for k
    by (simp add: assms(2) outputs_def)
  moreover have "fst (snd (Flush ?rm keys answers)) = New"
    using inv by (auto simp: Flush_def Let_def New_def counter_inv_def)
  ultimately show ?thesis
    using p k by (auto simp add: proper_calls_append installed_append i simp flip: flush_calls_def)
qed

theorem flush_removes_everything_witness:
  "installed (snd (counter_run New [OpIncrement (5 :: nat) (AddOk (9 :: nat))] )
     @ snd (snd (Flush (fst (counter_run New [OpIncrement 5 (AddOk 9)])) [5] (\<lambda>k. True)))) Map.empty 5 = None"
  using flush_removes_everything [of "[5 :: nat]" "[OpIncrement 5 (AddOk (9 :: nat))]" "\<lambda>k. True"]
  by (simp add: increment_def New_def Get_def map_get_def Let_def Collect_conv_if split: if_splits)


text \<open>A counter restored from a document without its fields keeps nil maps: \<open>UnmarshalJSON\<close> assigns the
  replacement maps to its temporary after the nil ones were copied, and the first increment whose add
  succeeds panics.\<close>

lemma restored_counter_panics:
  "fst (increment (counter_UnmarshalJSON rm \<lparr>json_refCountMap = None, json_idMap = j\<rparr>) k (AddOk out)) = Panics"
  by (simp add: counter_UnmarshalJSON_def increment_def Get_def map_get_def Let_def)

end
