(* ===== verification/Policy.thy ===== *)
theory Policy
  imports Prelude "HOL-Library.List_Lexorder" "HOL-Library.Char_ord" "HOL-Library.Multiset"
begin

text \<open>
  Access policies, \<open>management/server/types/{policy,policyrule,resource}.go\<close>: copying, comparing and
  upgrading policies, and the rule syntax of the command line. A pointer that may be nil is an
  option, a Go map whose order does not matter an association list with distinct keys. Strings are
  compared byte by byte. \<open>strings.TrimSpace\<close> and \<open>strings.ToLower\<close> are those of ASCII.
\<close>

section \<open>Definitions\<close>

record Resource =
  res_ID :: string
  res_Type :: string

definition ResourceTypePeer :: string where "ResourceTypePeer = ''peer''"

definition PolicyTrafficActionAccept :: string where "PolicyTrafficActionAccept = ''accept''"
definition PolicyTrafficActionDrop :: string where "PolicyTrafficActionDrop = ''drop''"
definition PolicyRuleProtocolALL :: string where "PolicyRuleProtocolALL = ''all''"
definition PolicyRuleProtocolTCP :: string where "PolicyRuleProtocolTCP = ''tcp''"
definition PolicyRuleProtocolUDP :: string where "PolicyRuleProtocolUDP = ''udp''"
definition PolicyRuleProtocolICMP :: string where "PolicyRuleProtocolICMP = ''icmp''"
definition PolicyRuleProtocolNetbirdSSH :: string where "PolicyRuleProtocolNetbirdSSH = ''netbird-ssh''"

lemmas protocol_defs = PolicyRuleProtocolALL_def PolicyRuleProtocolTCP_def PolicyRuleProtocolUDP_def
  PolicyRuleProtocolICMP_def PolicyRuleProtocolNetbirdSSH_def

definition nativeSSHPortNumber :: nat where "nativeSSHPortNumber = 22022"
definition nativeSSHPortString :: string where "nativeSSHPortString = ''22022''"
definition defaultSSHPortNumber :: nat where "defaultSSHPortNumber = 22"
definition defaultSSHPortString :: string where "defaultSSHPortString = ''22''"

datatype RulePortRange = RulePortRange (Start: uint16) (End: uint16)

text \<open>The order of the comparison function of \<open>portRangeSlicesEqualUnordered\<close>.\<close>

instantiation RulePortRange :: linorder
begin

definition less_eq_RulePortRange :: "RulePortRange \<Rightarrow> RulePortRange \<Rightarrow> bool" where
  "less_eq_RulePortRange x y \<longleftrightarrow> (if Start x \<noteq> Start y then Start x < Start y else End x \<le> End y)"

definition less_RulePortRange :: "RulePortRange \<Rightarrow> RulePortRange \<Rightarrow> bool" where
  "less_RulePortRange x y \<longleftrightarrow> (if Start x \<noteq> Start y then Start x < Start y else End x < End y)"

instance
proof
  fix x y z :: RulePortRange
  show "(x < y) = (x \<le> y \<and> \<not> y \<le> x)" "x \<le> x" "x \<le> y \<or> y \<le> x"
    by (auto simp: less_eq_RulePortRange_def less_RulePortRange_def)
  show "x \<le> y \<Longrightarrow> y \<le> z \<Longrightarrow> x \<le> z"
    by (auto simp: less_eq_RulePortRange_def split: if_splits)
  show "x \<le> y \<Longrightarrow> y \<le> x \<Longrightarrow> x = y"
    by (cases x; cases y) (auto simp: less_eq_RulePortRange_def split: if_splits)
qed

end

record PolicyRule =
  pr_ID :: string
  pr_PolicyID :: string
  pr_Name :: string
  pr_Description :: string
  pr_Enabled :: bool
  pr_Action :: string
  pr_Destinations :: "string list"
  pr_DestinationResource :: Resource
  pr_Sources :: "string list"
  pr_SourceResource :: Resource
  pr_Bidirectional :: bool
  pr_Protocol :: string
  pr_Ports :: "string list"
  pr_PortRanges :: "RulePortRange list"
  pr_AuthorizedGroups :: "(string \<times> string list) list"
  pr_AuthorizedUser :: string

record Policy =
  pol_ID :: string
  pol_AccountID :: string
  pol_Name :: string
  pol_Description :: string
  pol_Enabled :: bool
  pol_Rules :: "PolicyRule list"
  pol_SourcePostureChecks :: "string list"

definition PolicyRule_Copy :: "PolicyRule \<Rightarrow> PolicyRule" where
  "PolicyRule_Copy pm =
     \<lparr>pr_ID = pr_ID pm, pr_PolicyID = pr_PolicyID pm, pr_Name = pr_Name pm, pr_Description = pr_Description pm,
      pr_Enabled = pr_Enabled pm, pr_Action = pr_Action pm, pr_Destinations = pr_Destinations pm,
      pr_DestinationResource = pr_DestinationResource pm, pr_Sources = pr_Sources pm,
      pr_SourceResource = pr_SourceResource pm, pr_Bidirectional = pr_Bidirectional pm,
      pr_Protocol = pr_Protocol pm, pr_Ports = pr_Ports pm, pr_PortRanges = pr_PortRanges pm,
      pr_AuthorizedGroups = map (\<lambda>(k, v). (k, v)) (pr_AuthorizedGroups pm),
      pr_AuthorizedUser = pr_AuthorizedUser pm\<rparr>"

definition stringSlicesEqualUnordered :: "string list \<Rightarrow> string list \<Rightarrow> bool" where
  "stringSlicesEqualUnordered a b =
     (if length a \<noteq> length b then False
      else if length a = 0 then True
      else sort a = sort b)"

definition portRangeSlicesEqualUnordered :: "RulePortRange list \<Rightarrow> RulePortRange list \<Rightarrow> bool" where
  "portRangeSlicesEqualUnordered a b =
     (if length a \<noteq> length b then False
      else if length a = 0 then True
      else list_all2 (\<lambda>x y. Start x = Start y \<and> End x = End y) (sort a) (sort b))"

fun groups_covered :: "(string \<times> string list) list \<Rightarrow> (string \<times> string list) list \<Rightarrow> bool" where
  "groups_covered [] b = True"
| "groups_covered ((k, va) # a) b =
     (case map_of b k of
        None \<Rightarrow> False
      | Some vb \<Rightarrow> if \<not> stringSlicesEqualUnordered va vb then False else groups_covered a b)"

definition authorizedGroupsEqual :: "(string \<times> string list) list \<Rightarrow> (string \<times> string list) list \<Rightarrow> bool" where
  "authorizedGroupsEqual a b = (if length a \<noteq> length b then False else groups_covered a b)"

definition PolicyRule_Equal :: "PolicyRule option \<Rightarrow> PolicyRule option \<Rightarrow> bool" where
  "PolicyRule_Equal pm other =
     (case (pm, other) of
        (None, None) \<Rightarrow> True
      | (Some pm, Some other) \<Rightarrow>
          (if pr_ID pm \<noteq> pr_ID other \<or> pr_PolicyID pm \<noteq> pr_PolicyID other \<or> pr_Name pm \<noteq> pr_Name other
              \<or> pr_Description pm \<noteq> pr_Description other \<or> pr_Enabled pm \<noteq> pr_Enabled other
              \<or> pr_Action pm \<noteq> pr_Action other \<or> pr_Bidirectional pm \<noteq> pr_Bidirectional other
              \<or> pr_Protocol pm \<noteq> pr_Protocol other \<or> pr_SourceResource pm \<noteq> pr_SourceResource other
              \<or> pr_DestinationResource pm \<noteq> pr_DestinationResource other
              \<or> pr_AuthorizedUser pm \<noteq> pr_AuthorizedUser other
           then False
           else stringSlicesEqualUnordered (pr_Sources pm) (pr_Sources other)
                \<and> stringSlicesEqualUnordered (pr_Destinations pm) (pr_Destinations other)
                \<and> stringSlicesEqualUnordered (pr_Ports pm) (pr_Ports other)
                \<and> portRangeSlicesEqualUnordered (pr_PortRanges pm) (pr_PortRanges other)
                \<and> authorizedGroupsEqual (pr_AuthorizedGroups pm) (pr_AuthorizedGroups other))
      | _ \<Rightarrow> False)"

definition Policy_Copy :: "Policy \<Rightarrow> Policy" where
  "Policy_Copy p =
     \<lparr>pol_ID = pol_ID p, pol_AccountID = pol_AccountID p, pol_Name = pol_Name p,
      pol_Description = pol_Description p, pol_Enabled = pol_Enabled p,
      pol_Rules = map PolicyRule_Copy (pol_Rules p), pol_SourcePostureChecks = pol_SourcePostureChecks p\<rparr>"

fun rules_matched :: "PolicyRule list \<Rightarrow> (string \<rightharpoonup> PolicyRule) \<Rightarrow> bool" where
  "rules_matched [] otherRules = True"
| "rules_matched (r # rs) otherRules =
     (case otherRules (pr_ID r) of
        None \<Rightarrow> False
      | Some other \<Rightarrow> if \<not> PolicyRule_Equal (Some r) (Some other) then False else rules_matched rs otherRules)"

text \<open>A later rule of \<open>other\<close> with the same id overwrites an earlier one in \<open>otherRules\<close>.\<close>

definition Policy_Equal :: "Policy option \<Rightarrow> Policy option \<Rightarrow> bool" where
  "Policy_Equal p other =
     (case (p, other) of
        (None, None) \<Rightarrow> True
      | (Some p, Some other) \<Rightarrow>
          (if pol_ID p \<noteq> pol_ID other \<or> pol_AccountID p \<noteq> pol_AccountID other \<or> pol_Name p \<noteq> pol_Name other
              \<or> pol_Description p \<noteq> pol_Description other \<or> pol_Enabled p \<noteq> pol_Enabled other
           then False
           else if \<not> stringSlicesEqualUnordered (pol_SourcePostureChecks p) (pol_SourcePostureChecks other) then False
           else if length (pol_Rules p) \<noteq> length (pol_Rules other) then False
           else rules_matched (pol_Rules p) (map_of (rev (map (\<lambda>r. (pr_ID r, r)) (pol_Rules other)))))
      | _ \<Rightarrow> False)"

definition upgrade_rule :: "PolicyRule \<Rightarrow> PolicyRule" where
  "upgrade_rule r =
     (let r = (if pr_Protocol r = '''' then r\<lparr>pr_Protocol := PolicyRuleProtocolALL\<rparr> else r)
      in if pr_Protocol r = PolicyRuleProtocolALL \<and> \<not> pr_Bidirectional r then r\<lparr>pr_Bidirectional := True\<rparr> else r)"

definition UpgradeAndFix :: "Policy \<Rightarrow> Policy" where
  "UpgradeAndFix p = p\<lparr>pol_Rules := map upgrade_rule (pol_Rules p)\<rparr>"

definition RuleGroups :: "Policy \<Rightarrow> string list" where
  "RuleGroups p = concat (map (\<lambda>rule. pr_Sources rule @ pr_Destinations rule) (pol_Rules p))"

text \<open>\<open>order\<close> is the iteration order of the Go map built from the groups.\<close>

definition SourceGroups :: "(string list \<Rightarrow> string list) \<Rightarrow> Policy \<Rightarrow> string list" where
  "SourceGroups order p =
     (if length (pol_Rules p) = 1 then pr_Sources (pol_Rules p ! 0)
      else order (remdups (concat (map pr_Sources (pol_Rules p)))))"

section \<open>Rule strings\<close>

definition is_space :: "char \<Rightarrow> bool" where
  "is_space c \<longleftrightarrow> code_of c \<in> {9, 10, 11, 12, 13, 32}"

definition TrimSpace :: "string \<Rightarrow> string" where
  "TrimSpace s = rev (dropWhile is_space (rev (dropWhile is_space s)))"

text \<open>\<open>strconv.Atoi\<close>: an optional sign and at least one digit; \<open>None\<close> for a syntax or range error.\<close>

definition parse_digits :: "string \<Rightarrow> nat option" where
  "parse_digits s =
     (if s = [] \<or> \<not> list_all is_digit s then None else Some (foldl (\<lambda>n c. 10 * n + (code_of c - 48)) 0 s))"

definition Atoi :: "string \<Rightarrow> int option" where
  "Atoi s =
     (let v = (case s of
                 [] \<Rightarrow> None
               | c # r \<Rightarrow> if c = CHR ''-'' then map_option (\<lambda>n. - int n) (parse_digits r)
                          else if c = CHR ''+'' then map_option int (parse_digits r)
                          else map_option int (parse_digits s))
      in case v of None \<Rightarrow> None | Some i \<Rightarrow> if - (2 ^ 63) \<le> i \<and> i < 2 ^ 63 then Some i else None)"

datatype rule_error =
    InvalidFormat | IcmpWithPorts | InvalidProtocol | InvalidPortRange | EmptyPort | InvalidPort | PortOutOfRange
  | StartAfterEnd

definition parsePort :: "string \<Rightarrow> rule_error + int" where
  "parsePort portStr =
     (if portStr = '''' then Inl EmptyPort
      else case Atoi portStr of
             None \<Rightarrow> Inl InvalidPort
           | Some p \<Rightarrow> if p < 1 \<or> p > 65535 then Inl PortOutOfRange else Inr p)"

definition parsePortRange :: "string \<Rightarrow> rule_error + RulePortRange" where
  "parsePortRange portStr =
     (if CHR ''-'' \<in> set portStr
      then (let rangeParts = split_char (CHR ''-'') portStr
            in if length rangeParts \<noteq> 2 then Inl InvalidPortRange
               else case parsePort (TrimSpace (rangeParts ! 0)) of
                      Inl e \<Rightarrow> Inl e
                    | Inr start \<Rightarrow>
                        (case parsePort (TrimSpace (rangeParts ! 1)) of
                           Inl e \<Rightarrow> Inl e
                         | Inr end_ \<Rightarrow>
                             if start > end_ then Inl StartAfterEnd
                             else Inr (RulePortRange (of_int start) (of_int end_))))
      else case parsePort portStr of
             Inl e \<Rightarrow> Inl e
           | Inr p \<Rightarrow> Inr (RulePortRange (of_int p) (of_int p)))"

definition ParseRuleString :: "string \<Rightarrow> rule_error + (string \<times> RulePortRange)" where
  "ParseRuleString rule =
     (let rule = TrimSpace (to_lower rule)
      in if rule = ''all'' then Inr (PolicyRuleProtocolALL, RulePortRange 0 0)
         else if rule = ''icmp'' then Inr (PolicyRuleProtocolICMP, RulePortRange 0 0)
         else
           (let parts = split_char (CHR ''/'') rule
            in if length parts \<noteq> 2 then Inl InvalidFormat
               else
                 (let protoStr = TrimSpace (parts ! 0); portStr = TrimSpace (parts ! 1);
                      with_ports = (\<lambda>protocol. case parsePortRange portStr of
                                       Inl e \<Rightarrow> Inl e | Inr portRange \<Rightarrow> Inr (protocol, portRange))
                  in if protoStr = ''tcp'' then with_ports PolicyRuleProtocolTCP
                     else if protoStr = ''udp'' then with_ports PolicyRuleProtocolUDP
                     else if protoStr = ''icmp'' then Inl IcmpWithPorts
                     else if protoStr = ''netbird-ssh''
                          then Inr (PolicyRuleProtocolNetbirdSSH,
                                    RulePortRange (of_nat nativeSSHPortNumber) (of_nat nativeSSHPortNumber))
                     else Inl InvalidProtocol)))"

section \<open>Comparison\<close>

lemma sort_eq_iff_mset: "sort a = sort b \<longleftrightarrow> mset a = mset (b :: 'a :: linorder list)"
  by (metis mset_sort properties_for_sort sorted_sort)

lemma stringSlices_mset: "stringSlicesEqualUnordered a b \<longleftrightarrow> mset a = mset b"
proof (cases "length a = length b")
  case True
  then show ?thesis by (auto simp: stringSlicesEqualUnordered_def sort_eq_iff_mset)
next
  case False
  then have "mset a \<noteq> mset b" by (metis size_mset)
  with False show ?thesis by (simp add: stringSlicesEqualUnordered_def)
qed

lemma portRangeSlices_mset: "portRangeSlicesEqualUnordered a b \<longleftrightarrow> mset a = mset b"
proof (cases "length a = length b")
  case True
  have "(\<lambda>x y. Start x = Start y \<and> End x = End y) = (=)"
    by (auto simp: fun_eq_iff intro: RulePortRange.expand)
  with True show ?thesis by (auto simp: portRangeSlicesEqualUnordered_def sort_eq_iff_mset list.rel_eq)
next
  case False
  then have "mset a \<noteq> mset b" by (metis size_mset)
  with False show ?thesis by (simp add: portRangeSlicesEqualUnordered_def)
qed

text \<open>What a map of groups says, up to the order of the users of a group.\<close>

definition groups_canon :: "(string \<times> string list) list \<Rightarrow> (string \<rightharpoonup> string multiset)" where
  "groups_canon a = (\<lambda>k. map_option mset (map_of a k))"

lemma groups_covered_iff:
  "distinct (map fst a) \<Longrightarrow>
   groups_covered a b \<longleftrightarrow> (\<forall>k v. (k, v) \<in> set a \<longrightarrow> groups_canon b k = Some (mset v))"
  by (induction a b rule: groups_covered.induct)
    (auto simp: stringSlices_mset groups_canon_def split: option.splits if_splits)

lemma authorizedGroups_canon:
  assumes a: "distinct (map fst a)" and b: "distinct (map fst b)"
  shows "authorizedGroupsEqual a b \<longleftrightarrow> groups_canon a = groups_canon b"
proof
  assume eq: "authorizedGroupsEqual a b"
  then have len: "length a = length b" and cov: "\<forall>k v. (k, v) \<in> set a \<longrightarrow> groups_canon b k = Some (mset v)"
    using a by (auto simp: authorizedGroupsEqual_def groups_covered_iff split: if_splits)
  have "fst ` set a \<subseteq> fst ` set b"
  proof
    fix k assume "k \<in> fst ` set a"
    then obtain v where "(k, v) \<in> set a" by auto
    then have "groups_canon b k \<noteq> None" using cov by auto
    then show "k \<in> fst ` set b" by (simp add: groups_canon_def map_of_eq_None_iff)
  qed
  moreover have "card (fst ` set a) = length a" "card (fst ` set b) = length b"
    using a b by (metis distinct_card length_map set_map)+
  ultimately have "fst ` set a = fst ` set b"
    using len by (metis List.finite_set card_subset_eq finite_imageI)
  then have none: "map_of a k = None \<longleftrightarrow> map_of b k = None" for k
    by (simp add: map_of_eq_None_iff)
  have "groups_canon a k = groups_canon b k" for k
  proof (cases "map_of a k")
    case None
    then show ?thesis using none [of k] by (simp add: groups_canon_def)
  next
    case (Some v)
    then have "groups_canon b k = Some (mset v)" using cov map_of_SomeD by fast
    with Some show ?thesis by (auto simp: groups_canon_def)
  qed
  then show "groups_canon a = groups_canon b" ..
next
  assume eq: "groups_canon a = groups_canon b"
  have dom: "dom (groups_canon c) = fst ` set c" for c
    by (auto simp: groups_canon_def dom_map_of_conv_image_fst [symmetric])
  have "card (fst ` set a) = length a" "card (fst ` set b) = length b"
    using a b by (metis distinct_card length_map set_map)+
  then have "length a = length b"
    using dom [of a] dom [of b] eq by simp
  moreover have "groups_canon b k = Some (mset v)" if "(k, v) \<in> set a" for k v
  proof -
    have "groups_canon a k = Some (mset v)" using a that by (simp add: groups_canon_def)
    with eq show ?thesis by simp
  qed
  ultimately show "authorizedGroupsEqual a b"
    using a by (simp add: authorizedGroupsEqual_def groups_covered_iff)
qed

text \<open>
  What a rule and a policy say, without the order in which they list their parts: the reference for
  \<open>Equal\<close>. A policy is well formed if its rules have different ids and its maps different keys.
\<close>

definition rule_canon where
  "rule_canon r =
     ((pr_ID r, pr_PolicyID r, pr_Name r, pr_Description r, pr_Enabled r, pr_Action r, pr_Bidirectional r),
      (pr_Protocol r, pr_SourceResource r, pr_DestinationResource r, pr_AuthorizedUser r),
      mset (pr_Sources r), mset (pr_Destinations r), mset (pr_Ports r), mset (pr_PortRanges r),
      groups_canon (pr_AuthorizedGroups r))"

definition policy_canon where
  "policy_canon p =
     (pol_ID p, pol_AccountID p, pol_Name p, pol_Description p, pol_Enabled p,
      mset (pol_SourcePostureChecks p), mset (map rule_canon (pol_Rules p)))"

definition policy_wf :: "Policy \<Rightarrow> bool" where
  "policy_wf p \<longleftrightarrow> distinct (map pr_ID (pol_Rules p))
     \<and> (\<forall>r \<in> set (pol_Rules p). distinct (map fst (pr_AuthorizedGroups r)))"

lemma rule_Equal_canon:
  assumes "distinct (map fst (pr_AuthorizedGroups r))" "distinct (map fst (pr_AuthorizedGroups s))"
  shows "PolicyRule_Equal (Some r) (Some s) \<longleftrightarrow> rule_canon r = rule_canon s"
  using authorizedGroups_canon [OF assms]
  by (auto simp: PolicyRule_Equal_def rule_canon_def stringSlices_mset portRangeSlices_mset)

lemma rule_canon_ID: "rule_canon r = rule_canon s \<Longrightarrow> pr_ID r = pr_ID s"
  by (simp add: rule_canon_def)

lemma rules_matched_iff:
  "rules_matched rs m \<longleftrightarrow>
     (\<forall>r \<in> set rs. \<exists>other. m (pr_ID r) = Some other \<and> PolicyRule_Equal (Some r) (Some other))"
  by (induction rs m rule: rules_matched.induct) (auto split: option.splits)

lemma rules_by_ID:
  assumes "distinct (map pr_ID rs)"
  shows "map_of (rev (map (\<lambda>r. (pr_ID r, r)) rs)) k = Some r \<longleftrightarrow> r \<in> set rs \<and> pr_ID r = k"
proof -
  let ?m = "rev (map (\<lambda>r. (pr_ID r, r)) rs)"
  have "map fst ?m = rev (map pr_ID rs)"
    by (simp add: rev_map comp_def)
  then have "distinct (map fst ?m)"
    using assms by simp
  then have "map_of ?m k = Some r \<longleftrightarrow> (k, r) \<in> set ?m"
    by (rule map_of_eq_Some_iff)
  then show ?thesis by auto
qed

lemma distinct_rule_canon: "distinct (map pr_ID rs) \<Longrightarrow> distinct (map rule_canon rs)"
  by (induction rs) (auto simp: rule_canon_def)

lemma canon_subset_mset:
  assumes "distinct (map pr_ID rs)" "distinct (map pr_ID ss)" "length rs = length ss"
    "rule_canon ` set rs \<subseteq> rule_canon ` set ss"
  shows "mset (map rule_canon rs) = mset (map rule_canon ss)"
proof -
  have d: "distinct (map rule_canon rs)" "distinct (map rule_canon ss)"
    using assms(1,2) by (simp_all only: distinct_rule_canon)
  then have "card (rule_canon ` set rs) = length rs" "card (rule_canon ` set ss) = length ss"
    by (metis distinct_card length_map set_map)+
  then have "rule_canon ` set rs = rule_canon ` set ss"
    using assms(3,4) by (metis List.finite_set card_subset_eq finite_imageI)
  then have "set (map rule_canon rs) = set (map rule_canon ss)" by simp
  then show ?thesis
    using d set_eq_iff_mset_eq_distinct by blast
qed

lemma rules_matched_canon:
  assumes p: "policy_wf p" and q: "policy_wf q" and len: "length (pol_Rules p) = length (pol_Rules q)"
  shows "rules_matched (pol_Rules p) (map_of (rev (map (\<lambda>r. (pr_ID r, r)) (pol_Rules q))))
    \<longleftrightarrow> mset (map rule_canon (pol_Rules p)) = mset (map rule_canon (pol_Rules q))"
proof -
  have eq: "PolicyRule_Equal (Some r) (Some s) \<longleftrightarrow> rule_canon r = rule_canon s"
    if "r \<in> set (pol_Rules p)" "s \<in> set (pol_Rules q)" for r s
    using p q that by (intro rule_Equal_canon) (auto simp: policy_wf_def)
  have "rules_matched (pol_Rules p) (map_of (rev (map (\<lambda>r. (pr_ID r, r)) (pol_Rules q))))
      \<longleftrightarrow> (\<forall>r \<in> set (pol_Rules p). \<exists>s. s \<in> set (pol_Rules q) \<and> pr_ID s = pr_ID r \<and> PolicyRule_Equal (Some r) (Some s))"
    using q by (simp add: rules_matched_iff rules_by_ID policy_wf_def conj_assoc)
  also have "\<dots> \<longleftrightarrow> (\<forall>r \<in> set (pol_Rules p). \<exists>s \<in> set (pol_Rules q). rule_canon r = rule_canon s)"
  proof (rule ball_cong [OF refl])
    fix r assume "r \<in> set (pol_Rules p)"
    note eq = eq [OF this]
    show "(\<exists>s. s \<in> set (pol_Rules q) \<and> pr_ID s = pr_ID r \<and> PolicyRule_Equal (Some r) (Some s))
        \<longleftrightarrow> (\<exists>s \<in> set (pol_Rules q). rule_canon r = rule_canon s)"
      using eq rule_canon_ID [of r] by auto
  qed
  also have "\<dots> \<longleftrightarrow> rule_canon ` set (pol_Rules p) \<subseteq> rule_canon ` set (pol_Rules q)"
    by blast
  also have "\<dots> \<longleftrightarrow> mset (map rule_canon (pol_Rules p)) = mset (map rule_canon (pol_Rules q))"
  proof
    assume "rule_canon ` set (pol_Rules p) \<subseteq> rule_canon ` set (pol_Rules q)"
    then show "mset (map rule_canon (pol_Rules p)) = mset (map rule_canon (pol_Rules q))"
      using p q len by (intro canon_subset_mset) (simp_all add: policy_wf_def)
  next
    assume "mset (map rule_canon (pol_Rules p)) = mset (map rule_canon (pol_Rules q))"
    from mset_eq_setD [OF this] show "rule_canon ` set (pol_Rules p) \<subseteq> rule_canon ` set (pol_Rules q)"
      by simp
  qed
  finally show ?thesis .
qed

section \<open>Parsing\<close>

lemma digit_char_digit: "d < 10 \<Longrightarrow> is_digit (digit_char d)"
  by (simp add: digit_char_def is_digit_def)

lemma code_digit_char: "d < 10 \<Longrightarrow> code_of (digit_char d) = 48 + d"
  by (simp add: digit_char_def)

lemma nat_str_digits: "list_all is_digit (nat_str n) \<and> nat_str n \<noteq> []"
proof (induction n rule: nat_str.induct)
  case (1 n)
  then show ?case
    by (simp add: nat_str.simps [of n] digit_char_digit)
qed

lemma nat_str_value: "foldl (\<lambda>n c. 10 * n + (code_of c - 48)) 0 (nat_str n) = n"
proof (induction n rule: nat_str.induct)
  case (1 n)
  then show ?case
    by (simp add: nat_str.simps [of n] code_digit_char)
qed

lemma parse_digits_nat_str: "parse_digits (nat_str n) = Some n"
  using nat_str_digits [of n] by (simp add: parse_digits_def nat_str_value)

lemma is_digit_not: "is_digit c \<Longrightarrow> c \<noteq> CHR ''-'' \<and> c \<noteq> CHR ''+'' \<and> c \<noteq> CHR ''/'' \<and> \<not> is_space c \<and> to_lower_char c = c"
  by (auto simp: is_digit_def is_space_def to_lower_char_def is_upper_def)

lemma Atoi_nat_str: "n < 2 ^ 63 \<Longrightarrow> Atoi (nat_str n) = Some (int n)"
proof -
  assume n: "n < 2 ^ 63"
  obtain c r where s: "nat_str n = c # r" and c: "is_digit c"
    using nat_str_digits [of n] by (cases "nat_str n") auto
  have "int n < 2 ^ 63"
    using n by (metis of_nat_less_iff of_nat_numeral of_nat_power)
  then show ?thesis
    using is_digit_not [OF c] parse_digits_nat_str [of n] by (simp add: Atoi_def s Let_def)
qed

lemma TrimSpace_id: "\<forall>c \<in> set s. \<not> is_space c \<Longrightarrow> TrimSpace s = s"
proof -
  assume s: "\<forall>c \<in> set s. \<not> is_space c"
  then have "dropWhile is_space s = s"
    by (cases s) simp_all
  moreover have "dropWhile is_space (rev s) = rev s"
    using s by (cases s rule: rev_cases) simp_all
  ultimately show ?thesis by (simp add: TrimSpace_def)
qed

lemma to_lower_id: "\<forall>c \<in> set s. to_lower_char c = c \<Longrightarrow> to_lower s = s"
  by (simp add: to_lower_def map_idI)

lemma split_char_none: "c \<notin> set s \<Longrightarrow> split_char c s = [s]"
  by (induction c s rule: split_char.induct) auto

lemma split_char_first: "c \<notin> set p \<Longrightarrow> split_char c (p @ c # q) = p # split_char c q"
  by (induction p) auto

lemma nat_str_chars:
  "c \<in> set (nat_str n) \<Longrightarrow> c \<noteq> CHR ''-'' \<and> c \<noteq> CHR ''+'' \<and> c \<noteq> CHR ''/'' \<and> \<not> is_space c \<and> to_lower_char c = c"
  using nat_str_digits [of n] is_digit_not by (simp add: list_all_iff)

lemma dash_char: "CHR ''-'' \<noteq> CHR ''/'' \<and> \<not> is_space (CHR ''-'') \<and> to_lower_char (CHR ''-'') = CHR ''-''"
  by (simp add: is_space_def to_lower_char_def is_upper_def)

lemma TrimSpace_nat_str: "TrimSpace (nat_str n) = nat_str n"
  by (rule TrimSpace_id) (use nat_str_chars in blast)

lemma parsePort_nat_str: "1 \<le> n \<Longrightarrow> n \<le> 65535 \<Longrightarrow> parsePort (nat_str n) = Inr (int n)"
  using nat_str_digits [of n] by (simp add: parsePort_def Atoi_nat_str)

lemma parsePortRange_print:
  assumes "1 \<le> a" "a \<le> b" "b \<le> 65535"
  shows "parsePortRange (nat_str a @ CHR ''-'' # nat_str b) = Inr (RulePortRange (of_nat a) (of_nat b))"
    and "parsePortRange (nat_str a) = Inr (RulePortRange (of_nat a) (of_nat a))"
proof -
  have no: "CHR ''-'' \<notin> set (nat_str n)" for n
    using nat_str_chars by blast
  have "split_char (CHR ''-'') (nat_str a @ CHR ''-'' # nat_str b) = [nat_str a, nat_str b]"
    by (simp add: split_char_first [OF no] split_char_none [OF no])
  then show "parsePortRange (nat_str a @ CHR ''-'' # nat_str b) = Inr (RulePortRange (of_nat a) (of_nat b))"
    using assms by (simp add: parsePortRange_def Let_def TrimSpace_nat_str parsePort_nat_str)
  show "parsePortRange (nat_str a) = Inr (RulePortRange (of_nat a) (of_nat a))"
    using assms no by (simp add: parsePortRange_def parsePort_nat_str)
qed

lemma ParseRuleString_ports:
  assumes proto: "proto \<in> {''tcp'', ''udp''}"
    and ports: "\<forall>c \<in> set ports. c \<noteq> CHR ''/'' \<and> \<not> is_space c \<and> to_lower_char c = c"
    and r: "parsePortRange ports = Inr r"
  shows "ParseRuleString (proto @ CHR ''/'' # ports) = Inr (proto, r)"
proof -
  have p: "CHR ''/'' \<notin> set proto" "\<forall>c \<in> set proto. \<not> is_space c \<and> to_lower_char c = c"
    using proto by (auto simp: is_space_def to_lower_char_def is_upper_def)
  have s: "CHR ''/'' \<notin> set ports" using ports by blast
  let ?s = "proto @ CHR ''/'' # ports"
  have all: "\<not> is_space c \<and> to_lower_char c = c" if "c \<in> set ?s" for c
  proof -
    have "\<not> is_space (CHR ''/'') \<and> to_lower_char (CHR ''/'') = CHR ''/''"
      by (simp add: is_space_def to_lower_char_def is_upper_def)
    then show ?thesis using that p(2) ports by (metis UnE set_ConsD set_append)
  qed
  have lower: "to_lower ?s = ?s"
    by (rule to_lower_id) (use all in blast)
  have trim: "TrimSpace ?s = ?s" "TrimSpace proto = proto" "TrimSpace ports = ports"
    by (rule TrimSpace_id; use all p(2) ports in blast)+
  have parts: "split_char (CHR ''/'') ?s = [proto, ports]"
    by (simp add: split_char_first [OF p(1)] split_char_none [OF s])
  have other: "?s \<noteq> ''all''" "?s \<noteq> ''icmp''"
    using proto by auto
  have "ParseRuleString ?s = (if proto = ''tcp'' then Inr (PolicyRuleProtocolTCP, r) else Inr (PolicyRuleProtocolUDP, r))"
    unfolding ParseRuleString_def lower trim Let_def parts using other proto r by (simp add: trim) auto
  then show ?thesis
    using proto by (auto simp: protocol_defs)
qed

lemma parsePort_bounds [result_dests]: "parsePort s = Inr p \<Longrightarrow> 1 \<le> p \<and> p \<le> 65535"
  by (auto simp: parsePort_def split: if_splits option.splits)

lemma port_word_le:
  assumes "1 \<le> a" "a \<le> b" "b \<le> (65535 :: int)"
  shows "1 \<le> (of_int a :: uint16) \<and> (of_int a :: uint16) \<le> of_int b"
proof -
  have "uint (of_int a :: uint16) = a" "uint (of_int b :: uint16) = b"
    using assms by (simp_all add: uint_word_of_int)
  then show ?thesis
    using assms by (simp add: word_le_def)
qed

lemma parsePortRange_bounds [result_dests]:
  assumes "parsePortRange s = Inr r"
  shows "1 \<le> Start r \<and> Start r \<le> End r"
proof -
  obtain a b where "r = RulePortRange (of_int a) (of_int b)" "1 \<le> a" "a \<le> b" "b \<le> 65535"
    using assms by (fastforce simp: parsePortRange_def Let_def dest!: parsePort_bounds split: if_splits sum.splits)
  then show ?thesis
    using port_word_le [of a b] by simp
qed

lemma ParseRuleString_bounds:
  assumes "ParseRuleString s = Inr (p, r)"
  shows "if p \<in> {PolicyRuleProtocolALL, PolicyRuleProtocolICMP} then r = RulePortRange 0 0
      else 1 \<le> Start r \<and> Start r \<le> End r"
proof -
  consider "p \<in> {''all'', ''icmp''}" "r = RulePortRange 0 0"
    | "p \<in> {''tcp'', ''udp''}" "\<exists>ports. parsePortRange ports = Inr r"
    | "p = ''netbird-ssh''" "r = RulePortRange (of_nat nativeSSHPortNumber) (of_nat nativeSSHPortNumber)"
    using assms unfolding ParseRuleString_def Let_def protocol_defs
    by (simp split: if_splits sum.splits) blast+
  then show ?thesis
    by cases (auto simp: protocol_defs nativeSSHPortNumber_def dest: parsePortRange_bounds)
qed

section \<open>Properties\<close>

definition example_rule :: "string \<Rightarrow> string list \<Rightarrow> PolicyRule" where
  "example_rule i srcs =
     \<lparr>pr_ID = i, pr_PolicyID = ''p'', pr_Name = [], pr_Description = [], pr_Enabled = True, pr_Action = ''accept'',
      pr_Destinations = [''d''], pr_DestinationResource = \<lparr>res_ID = [], res_Type = []\<rparr>, pr_Sources = srcs,
      pr_SourceResource = \<lparr>res_ID = [], res_Type = []\<rparr>, pr_Bidirectional = True, pr_Protocol = ''all'',
      pr_Ports = [], pr_PortRanges = [], pr_AuthorizedGroups = [], pr_AuthorizedUser = []\<rparr>"

definition example_policy :: "PolicyRule list \<Rightarrow> Policy" where
  "example_policy rules =
     \<lparr>pol_ID = ''p'', pol_AccountID = ''a'', pol_Name = [], pol_Description = [], pol_Enabled = True,
      pol_Rules = rules, pol_SourcePostureChecks = []\<rparr>"

text \<open>C35: \<open>Equal\<close> on policies is exactly equality up to order: for policies whose rules have different ids,
  it holds if and only if the two agree in all fields, with the rules and the sources, destinations,
  ports, port ranges, posture checks and authorized groups of each compared as multisets and maps. It
  is therefore reflexive, symmetric and transitive, and a copy always equals its original.\<close>

theorem policy_equal_up_to_order:
  assumes "policy_wf p" and "policy_wf q"
  shows "(Policy_Equal (Some p) (Some q) \<longleftrightarrow> policy_canon p = policy_canon q)
    \<and> (Policy_Equal (Some p) (Some q) \<longleftrightarrow> Policy_Equal (Some q) (Some p))
    \<and> Policy_Equal (Some p) (Some (Policy_Copy p))"
proof -
  have main: "Policy_Equal (Some p) (Some q) \<longleftrightarrow> policy_canon p = policy_canon q"
    if "policy_wf p" "policy_wf q" for p q
  proof (cases "length (pol_Rules p) = length (pol_Rules q)")
    case True
    from rules_matched_canon [OF that this] True show ?thesis
      by (auto simp: Policy_Equal_def policy_canon_def stringSlices_mset)
  next
    case False
    then have "mset (map rule_canon (pol_Rules p)) \<noteq> mset (map rule_canon (pol_Rules q))"
      by (metis length_map size_mset)
    with False show ?thesis
      by (simp add: Policy_Equal_def policy_canon_def)
  qed
  have "map PolicyRule_Copy (pol_Rules p) = pol_Rules p"
    by (rule map_idI) (simp add: PolicyRule_Copy_def case_prod_eta)
  then have "Policy_Copy p = p"
    by (simp add: Policy_Copy_def)
  then show ?thesis
    using main [OF assms] main [OF assms(2,1)] main [OF assms(1,1)] by auto
qed

theorem policy_equal_up_to_order_witness:
  "Policy_Equal (Some (example_policy [example_rule ''1'' [''a'', ''b''], example_rule ''2'' []]))
     (Some (example_policy [example_rule ''2'' [], example_rule ''1'' [''b'', ''a'']]))
   \<longleftrightarrow> policy_canon (example_policy [example_rule ''1'' [''a'', ''b''], example_rule ''2'' []])
        = policy_canon (example_policy [example_rule ''2'' [], example_rule ''1'' [''b'', ''a'']])"
  using policy_equal_up_to_order
    [of "example_policy [example_rule ''1'' [''a'', ''b''], example_rule ''2'' []]"
        "example_policy [example_rule ''2'' [], example_rule ''1'' [''b'', ''a'']]"]
  by (simp add: policy_wf_def example_policy_def example_rule_def)

text \<open>C36: Rule strings are read within bounds and without wrap-around. Whatever string is accepted, the
  protocols all and icmp carry no ports, and every other protocol carries a range with
  \<open>1 \<le> Start \<le> End\<close> in 16 bits; and every valid range or single port, printed in decimal after tcp or
  udp, is accepted and read back exactly.\<close>

theorem rule_string_bounds:
  assumes "1 \<le> a" and "a \<le> b" and "b \<le> 65535" and "proto \<in> {''tcp'', ''udp''}"
  shows "ParseRuleString (proto @ ''/'' @ nat_str a @ ''-'' @ nat_str b) = Inr (proto, RulePortRange (of_nat a) (of_nat b))
    \<and> ParseRuleString (proto @ ''/'' @ nat_str a) = Inr (proto, RulePortRange (of_nat a) (of_nat a))
    \<and> (\<forall>s p r. ParseRuleString s = Inr (p, r) \<longrightarrow>
          (if p \<in> {PolicyRuleProtocolALL, PolicyRuleProtocolICMP} then r = RulePortRange 0 0
           else 1 \<le> Start r \<and> Start r \<le> End r))"
proof (intro conjI allI impI)
  have chars: "\<forall>c \<in> set (nat_str n). c \<noteq> CHR ''/'' \<and> \<not> is_space c \<and> to_lower_char c = c" for n
    using nat_str_chars by blast
  have "\<forall>c \<in> set (nat_str a @ CHR ''-'' # nat_str b). c \<noteq> CHR ''/'' \<and> \<not> is_space c \<and> to_lower_char c = c"
    using chars [of a] chars [of b] dash_char by auto
  from ParseRuleString_ports [OF assms(4) this parsePortRange_print(1) [OF assms(1-3)]]
  show "ParseRuleString (proto @ ''/'' @ nat_str a @ ''-'' @ nat_str b) = Inr (proto, RulePortRange (of_nat a) (of_nat b))"
    by simp
  from ParseRuleString_ports [OF assms(4) chars parsePortRange_print(2) [OF assms(1-3)]]
  show "ParseRuleString (proto @ ''/'' @ nat_str a) = Inr (proto, RulePortRange (of_nat a) (of_nat a))"
    by simp
  fix s p r assume "ParseRuleString s = Inr (p, r)"
  then show "if p \<in> {PolicyRuleProtocolALL, PolicyRuleProtocolICMP} then r = RulePortRange 0 0
      else 1 \<le> Start r \<and> Start r \<le> End r"
    by (rule ParseRuleString_bounds)
qed

theorem rule_string_bounds_witness:
  "ParseRuleString (''tcp'' @ ''/'' @ nat_str 80 @ ''-'' @ nat_str 443) = Inr (''tcp'', RulePortRange 80 443)"
  using rule_string_bounds [of 80 443 "''tcp''"] by simp

end
