(* ===== verification/NbPeer.thy ===== *)
theory NbPeer
  imports Prelude "HOL-Library.List_Lexorder" "HOL-Library.Char_ord"
begin

text \<open>
  The peers of the management server, \<open>management/server/peer/peer.go\<close>: the metadata a client reports,
  when it counts as new, and when a login or session has expired. An address is kept in its
  printed form, the only way the modelled code uses it; a time and a duration are a number of
  nanoseconds, and \<open>Time.Sub\<close> saturates at the range of a 64-bit duration. Strings are compared byte by
  byte, the order of \<open>List_Lexorder\<close> over \<open>Char_ord\<close>.
\<close>

section \<open>Addresses\<close>

text \<open>\<open>netip.Prefix\<close>: the bytes of the address and the length; the zero prefix has no address.\<close>

datatype netip_Prefix = Prefix (pfx_addr: bytes) (pfx_bits: nat)

fun mask_bytes :: "nat \<Rightarrow> bytes \<Rightarrow> bytes" where
  "mask_bytes n [] = []"
| "mask_bytes n (b # bs) =
     (if 8 \<le> n then b # mask_bytes (n - 8) bs
      else push_bit (8 - n) (drop_bit (8 - n) b) # map (\<lambda>_. 0) bs)"

definition Masked :: "netip_Prefix \<Rightarrow> netip_Prefix" where
  "Masked p = (if pfx_bits p > 8 * length (pfx_addr p) then Prefix [] 0
               else Prefix (mask_bytes (pfx_bits p) (pfx_addr p)) (pfx_bits p))"

section \<open>Metadata\<close>

record NetworkAddress =
  na_NetIP :: netip_Prefix
  na_Mac :: string

record Environment =
  env_Cloud :: string
  env_Platform :: string

record File =
  file_Path :: string
  file_Exist :: bool
  file_ProcessIsRunning :: bool

record Flags =
  RosenpassEnabled :: bool
  RosenpassPermissive :: bool
  ServerSSHAllowed :: bool
  DisableClientRoutes :: bool
  DisableServerRoutes :: bool
  DisableDNS :: bool
  DisableFirewall :: bool
  BlockLANAccess :: bool
  BlockInbound :: bool
  LazyConnectionEnabled :: bool

record PeerSystemMeta =
  pm_Hostname :: string
  pm_GoOS :: string
  pm_Kernel :: string
  pm_Core :: string
  pm_Platform :: string
  pm_OS :: string
  pm_OSVersion :: string
  pm_WtVersion :: string
  pm_UIVersion :: string
  pm_KernelVersion :: string
  pm_NetworkAddresses :: "NetworkAddress list"
  pm_SystemSerialNumber :: string
  pm_SystemProductName :: string
  pm_SystemManufacturer :: string
  pm_Environment :: Environment
  pm_Flags :: Flags
  pm_Files :: "File list"
  pm_PeerType :: string
  pm_AuthMethod :: string
  pm_CertDNSName :: string
  pm_CertDomain :: string
  pm_CertIssuerFP :: string
  pm_CertSerial :: string
  pm_CertTemplate :: string
  pm_FirstAuthTime :: string
  pm_LastCertAuthTime :: string

definition Flags_isEqual :: "Flags \<Rightarrow> Flags \<Rightarrow> bool" where
  "Flags_isEqual f other \<longleftrightarrow>
     RosenpassEnabled f = RosenpassEnabled other \<and> RosenpassPermissive f = RosenpassPermissive other
     \<and> ServerSSHAllowed f = ServerSSHAllowed other \<and> DisableClientRoutes f = DisableClientRoutes other
     \<and> DisableServerRoutes f = DisableServerRoutes other \<and> DisableDNS f = DisableDNS other
     \<and> DisableFirewall f = DisableFirewall other \<and> BlockLANAccess f = BlockLANAccess other
     \<and> BlockInbound f = BlockInbound other \<and> LazyConnectionEnabled f = LazyConnectionEnabled other"

text \<open>
  \<open>isEqual\<close> sorts the addresses and files of both sides in place, so the arguments it shares its slices
  with are sorted afterwards: the result is the verdict and both sides as they are left. The files are
  sorted only when the addresses agree. \<open>sort.Slice\<close> is the stable sort here; it differs only in
  the order of entries with equal keys in slices of more than twelve entries.
\<close>

definition meta_isEqual :: "PeerSystemMeta \<Rightarrow> PeerSystemMeta \<Rightarrow> bool \<times> PeerSystemMeta \<times> PeerSystemMeta" where
  "meta_isEqual p other =
     (let p = p\<lparr>pm_NetworkAddresses := sort_key na_Mac (pm_NetworkAddresses p)\<rparr>;
          other = other\<lparr>pm_NetworkAddresses := sort_key na_Mac (pm_NetworkAddresses other)\<rparr>
      in if \<not> list_all2 (\<lambda>a b. na_Mac a = na_Mac b \<and> na_NetIP a = na_NetIP b)
                (pm_NetworkAddresses p) (pm_NetworkAddresses other)
         then (False, p, other)
         else
           (let p = p\<lparr>pm_Files := sort_key file_Path (pm_Files p)\<rparr>;
                other = other\<lparr>pm_Files := sort_key file_Path (pm_Files other)\<rparr>
            in if \<not> list_all2 (\<lambda>a b. file_Path a = file_Path b \<and> file_Exist a = file_Exist b
                                  \<and> file_ProcessIsRunning a = file_ProcessIsRunning b)
                      (pm_Files p) (pm_Files other)
               then (False, p, other)
               else
                 (pm_Hostname p = pm_Hostname other \<and> pm_GoOS p = pm_GoOS other
                  \<and> pm_Kernel p = pm_Kernel other \<and> pm_KernelVersion p = pm_KernelVersion other
                  \<and> pm_Core p = pm_Core other \<and> pm_Platform p = pm_Platform other
                  \<and> pm_OS p = pm_OS other \<and> pm_OSVersion p = pm_OSVersion other
                  \<and> pm_WtVersion p = pm_WtVersion other \<and> pm_UIVersion p = pm_UIVersion other
                  \<and> pm_SystemSerialNumber p = pm_SystemSerialNumber other
                  \<and> pm_SystemProductName p = pm_SystemProductName other
                  \<and> pm_SystemManufacturer p = pm_SystemManufacturer other
                  \<and> env_Cloud (pm_Environment p) = env_Cloud (pm_Environment other)
                  \<and> env_Platform (pm_Environment p) = env_Platform (pm_Environment other)
                  \<and> Flags_isEqual (pm_Flags p) (pm_Flags other), p, other)))"

definition meta_isEmpty :: "PeerSystemMeta \<Rightarrow> bool" where
  "meta_isEmpty p \<longleftrightarrow>
     pm_Hostname p = '''' \<and> pm_GoOS p = '''' \<and> pm_Kernel p = '''' \<and> pm_Core p = '''' \<and> pm_Platform p = ''''
     \<and> pm_OS p = '''' \<and> pm_OSVersion p = '''' \<and> pm_WtVersion p = '''' \<and> pm_UIVersion p = ''''
     \<and> pm_KernelVersion p = '''' \<and> length (pm_NetworkAddresses p) = 0 \<and> pm_SystemSerialNumber p = ''''
     \<and> pm_SystemProductName p = '''' \<and> pm_SystemManufacturer p = ''''
     \<and> env_Cloud (pm_Environment p) = '''' \<and> env_Platform (pm_Environment p) = '''' \<and> length (pm_Files p) = 0"

section \<open>Peers\<close>

record PeerStatus =
  ps_LastSeen :: int
  ps_Connected :: bool
  ps_LoginExpired :: bool
  ps_RequiresApproval :: bool

record Location =
  loc_ConnectionIP :: string
  loc_CountryCode :: string
  loc_CityName :: string
  loc_GeoNameID :: nat

record ProxyMeta =
  proxy_Embedded :: bool
  proxy_Cluster :: string

record nbPeer =
  np_ID :: string
  np_AccountID :: string
  np_Key :: string
  np_IP :: string
  np_Meta :: PeerSystemMeta
  np_ProxyMeta :: ProxyMeta
  np_Name :: string
  np_DNSLabel :: string
  np_Status :: "PeerStatus option"
  np_UserID :: string
  np_SSHKey :: string
  np_SSHEnabled :: bool
  np_LoginExpirationEnabled :: bool
  np_InactivityExpirationEnabled :: bool
  np_LastLogin :: "int option"
  np_CreatedAt :: int
  np_Ephemeral :: bool
  np_Location :: Location
  np_ExtraDNSLabels :: "string list"
  np_AllowExtraDNSLabels :: bool

definition AddedWithSSOLogin :: "nbPeer \<Rightarrow> bool" where
  "AddedWithSSOLogin p \<longleftrightarrow> np_UserID p \<noteq> ''''"

definition Status_Copy :: "PeerStatus \<Rightarrow> PeerStatus" where
  "Status_Copy s = \<lparr>ps_LastSeen = ps_LastSeen s, ps_Connected = ps_Connected s,
     ps_LoginExpired = ps_LoginExpired s, ps_RequiresApproval = ps_RequiresApproval s\<rparr>"

definition Peer_Copy :: "nbPeer \<Rightarrow> nbPeer" where
  "Peer_Copy p =
     \<lparr>np_ID = np_ID p, np_AccountID = np_AccountID p, np_Key = np_Key p, np_IP = np_IP p, np_Meta = np_Meta p,
      np_ProxyMeta = np_ProxyMeta p, np_Name = np_Name p, np_DNSLabel = np_DNSLabel p,
      np_Status = (case np_Status p of None \<Rightarrow> None | Some s \<Rightarrow> Some (Status_Copy s)),
      np_UserID = np_UserID p, np_SSHKey = np_SSHKey p, np_SSHEnabled = np_SSHEnabled p,
      np_LoginExpirationEnabled = np_LoginExpirationEnabled p,
      np_InactivityExpirationEnabled = np_InactivityExpirationEnabled p, np_LastLogin = np_LastLogin p,
      np_CreatedAt = np_CreatedAt p, np_Ephemeral = np_Ephemeral p, np_Location = np_Location p,
      np_ExtraDNSLabels = np_ExtraDNSLabels p, np_AllowExtraDNSLabels = np_AllowExtraDNSLabels p\<rparr>"

text \<open>The peer, whether its metadata was replaced, and whether the client version differs.\<close>

definition UpdateMetaIfNew :: "nbPeer \<Rightarrow> PeerSystemMeta \<Rightarrow> nbPeer \<times> bool \<times> bool" where
  "UpdateMetaIfNew p meta =
     (if meta_isEmpty meta then (p, False, False)
      else
        (let versionChanged = (pm_WtVersion (np_Meta p) \<noteq> pm_WtVersion meta);
             meta = (if pm_UIVersion meta = '''' then meta\<lparr>pm_UIVersion := pm_UIVersion (np_Meta p)\<rparr> else meta);
             (same, old, meta) = meta_isEqual (np_Meta p) meta
         in if same then (p\<lparr>np_Meta := old\<rparr>, False, versionChanged)
            else (p\<lparr>np_Meta := meta\<rparr>, True, versionChanged)))"

definition zero_time :: int where "zero_time = 0"

definition GetLastLogin :: "nbPeer \<Rightarrow> int" where
  "GetLastLogin p = (case np_LastLogin p of Some t \<Rightarrow> t | None \<Rightarrow> zero_time)"

text \<open>Writing to the status of a peer that has none dereferences nil: \<open>None\<close>.\<close>

definition MarkLoginExpired :: "nbPeer \<Rightarrow> bool \<Rightarrow> nbPeer option" where
  "MarkLoginExpired p expired =
     (case np_Status p of
        None \<Rightarrow> None
      | Some s \<Rightarrow>
          (let newStatus = (Status_Copy s)\<lparr>ps_LoginExpired := expired\<rparr>;
               newStatus = (if expired then newStatus\<lparr>ps_Connected := False\<rparr> else newStatus)
           in Some (p\<lparr>np_Status := Some newStatus\<rparr>)))"

definition UpdateLastLogin :: "int \<Rightarrow> nbPeer \<Rightarrow> nbPeer option" where
  "UpdateLastLogin now p =
     (case np_Status p of
        None \<Rightarrow> None
      | Some s \<Rightarrow> Some (p\<lparr>np_LastLogin := Some now, np_Status := Some ((Status_Copy s)\<lparr>ps_LoginExpired := False\<rparr>)\<rparr>))"

definition sub_time :: "int \<Rightarrow> int \<Rightarrow> int" where
  "sub_time t u = max (- (2 ^ 63)) (min (2 ^ 63 - 1) (t - u))"

definition SessionExpired :: "int \<Rightarrow> nbPeer \<Rightarrow> int \<Rightarrow> (bool \<times> int) option" where
  "SessionExpired now p expiresIn =
     (if \<not> AddedWithSSOLogin p \<or> \<not> np_InactivityExpirationEnabled p then Some (False, 0)
      else case np_Status p of
             None \<Rightarrow> None
           | Some s \<Rightarrow>
               (if ps_Connected s then Some (False, 0)
                else (let timeLeft = sub_time (ps_LastSeen s + expiresIn) now in Some (timeLeft \<le> 0, timeLeft))))"

definition LoginExpired :: "int \<Rightarrow> nbPeer \<Rightarrow> int \<Rightarrow> bool \<times> int" where
  "LoginExpired now p expiresIn =
     (if \<not> AddedWithSSOLogin p \<or> \<not> np_LoginExpirationEnabled p then (False, 0)
      else (let timeLeft = sub_time (GetLastLogin p + expiresIn) now in (timeLeft \<le> 0, timeLeft)))"

definition FQDN :: "nbPeer \<Rightarrow> string \<Rightarrow> string" where
  "FQDN p dnsDomain = (if dnsDomain = '''' then '''' else np_DNSLabel p @ ''.'' @ dnsDomain)"

end
