(* ===== verification/Posture.thy ===== *)
theory Posture
  imports NbPeer
begin

text \<open>
  Posture checks, \<open>management/server/posture/\<close>: what a policy may demand of the peers in its source
  groups. The version library the checks call is a parameter: whether it parses a version and a
  constraint, and whether a version satisfies a constraint. A check that fails to run answers false
  beside its error.
\<close>

section \<open>Versions\<close>

record version_lib =
  NewVersion_ok :: "string \<Rightarrow> bool"
  NewConstraint_ok :: "string \<Rightarrow> bool"
  Constraints_Check :: "string \<Rightarrow> string \<Rightarrow> bool"

datatype check_error =
    VersionError | ConstraintError | LocationNotSet | InvalidAction | NoNetworkAddresses | UnsupportedOS

type_synonym check_result = "check_error + bool"

definition sanitizeVersion :: "string \<Rightarrow> string" where
  "sanitizeVersion v = hd (split_char (CHR ''-'') v)"

definition meets_constraint :: "version_lib \<Rightarrow> string \<Rightarrow> string \<Rightarrow> check_result" where
  "meets_constraint lib minVer peerVer =
     (if \<not> NewVersion_ok lib peerVer then Inl VersionError
      else if \<not> NewConstraint_ok lib (''>= '' @ minVer) then Inl ConstraintError
      else Inr (Constraints_Check lib (''>= '' @ minVer) peerVer))"

definition MeetsMinVersion :: "version_lib \<Rightarrow> string \<Rightarrow> string \<Rightarrow> check_result" where
  "MeetsMinVersion lib minVer peerVer = meets_constraint lib (sanitizeVersion minVer) (sanitizeVersion peerVer)"

section \<open>The checks\<close>

record OSVersionCheck =
  os_Android :: "string option"
  os_Darwin :: "string option"
  os_Ios :: "string option"
  os_Linux :: "string option"
  os_Windows :: "string option"

record posture_Location =
  pl_CountryCode :: string
  pl_CityName :: string

record GeoLocationCheck =
  geo_Locations :: "posture_Location list"
  geo_Action :: string

record PeerNetworkRangeCheck =
  nr_Action :: string
  nr_Ranges :: "netip_Prefix list"

record Process =
  LinuxPath :: string
  MacPath :: string
  WindowsPath :: string

datatype Check =
    NBVersionCheck string
  | OSVersion OSVersionCheck
  | GeoLocation GeoLocationCheck
  | PeerNetworkRange PeerNetworkRangeCheck
  | ProcessCheck "Process list"

definition NBVersionCheck_Check :: "version_lib \<Rightarrow> string \<Rightarrow> nbPeer \<Rightarrow> check_result" where
  "NBVersionCheck_Check lib minVersion peer = MeetsMinVersion lib minVersion (pm_WtVersion (np_Meta peer))"

definition checkMinVersion :: "version_lib \<Rightarrow> string \<Rightarrow> string option \<Rightarrow> check_result" where
  "checkMinVersion lib peerVersion check =
     (case check of None \<Rightarrow> Inr False | Some minVersion \<Rightarrow> meets_constraint lib minVersion peerVersion)"

definition checkMinKernelVersion :: "version_lib \<Rightarrow> string \<Rightarrow> string option \<Rightarrow> check_result" where
  "checkMinKernelVersion lib peerVersion check =
     (case check of None \<Rightarrow> Inr False | Some minVersion \<Rightarrow> meets_constraint lib minVersion peerVersion)"

definition OSVersionCheck_Check :: "version_lib \<Rightarrow> OSVersionCheck \<Rightarrow> nbPeer \<Rightarrow> check_result" where
  "OSVersionCheck_Check lib c peer =
     (let os = pm_GoOS (np_Meta peer); ver = pm_OSVersion (np_Meta peer); kernel = pm_KernelVersion (np_Meta peer)
      in if os = ''android'' then checkMinVersion lib ver (os_Android c)
         else if os = ''darwin'' then checkMinVersion lib ver (os_Darwin c)
         else if os = ''ios'' then checkMinVersion lib ver (os_Ios c)
         else if os = ''linux'' then checkMinKernelVersion lib (hd (split_char (CHR ''-'') kernel)) (os_Linux c)
         else if os = ''windows'' then checkMinKernelVersion lib kernel (os_Windows c)
         else Inr True)"

definition by_action :: "string \<Rightarrow> bool \<Rightarrow> check_result" where
  "by_action action matched =
     (if action = ''deny'' then Inr (\<not> matched)
      else if action = ''allow'' then Inr matched
      else Inl InvalidAction)"

fun location_matches :: "posture_Location list \<Rightarrow> Location \<Rightarrow> bool" where
  "location_matches [] l = False"
| "location_matches (loc # locs) l =
     (if pl_CountryCode loc = loc_CountryCode l \<and> (pl_CityName loc = '''' \<or> pl_CityName loc = loc_CityName l) then True
      else location_matches locs l)"

definition GeoLocationCheck_Check :: "GeoLocationCheck \<Rightarrow> nbPeer \<Rightarrow> check_result" where
  "GeoLocationCheck_Check g peer =
     (if loc_CountryCode (np_Location peer) = '''' \<and> loc_CityName (np_Location peer) = '''' then Inl LocationNotSet
      else by_action (geo_Action g) (location_matches (geo_Locations g) (np_Location peer)))"

fun range_matches :: "netip_Prefix list \<Rightarrow> NetworkAddress list \<Rightarrow> bool" where
  "range_matches maskedPrefixes [] = False"
| "range_matches maskedPrefixes (a # as) =
     (if Masked (na_NetIP a) \<in> set maskedPrefixes then True else range_matches maskedPrefixes as)"

definition PeerNetworkRangeCheck_Check :: "PeerNetworkRangeCheck \<Rightarrow> nbPeer \<Rightarrow> check_result" where
  "PeerNetworkRangeCheck_Check p peer =
     (if length (pm_NetworkAddresses (np_Meta peer)) = 0 then Inl NoNetworkAddresses
      else by_action (nr_Action p) (range_matches (map Masked (nr_Ranges p)) (pm_NetworkAddresses (np_Meta peer))))"

definition extractPeerActiveProcesses :: "File list \<Rightarrow> string list" where
  "extractPeerActiveProcesses files = map file_Path (filter file_ProcessIsRunning files)"

fun areAllProcessesRunning :: "Process list \<Rightarrow> string list \<Rightarrow> (Process \<Rightarrow> string) \<Rightarrow> bool" where
  "areAllProcessesRunning [] activeProcesses pathSelector = True"
| "areAllProcessesRunning (p # ps) activeProcesses pathSelector =
     (let path = pathSelector p
      in if path = '''' \<or> path \<notin> set activeProcesses then False
         else areAllProcessesRunning ps activeProcesses pathSelector)"

definition ProcessCheck_Check :: "Process list \<Rightarrow> nbPeer \<Rightarrow> check_result" where
  "ProcessCheck_Check ps peer =
     (let active = extractPeerActiveProcesses (pm_Files (np_Meta peer)); os = pm_GoOS (np_Meta peer)
      in if os = ''linux'' then Inr (areAllProcessesRunning ps active LinuxPath)
         else if os = ''darwin'' then Inr (areAllProcessesRunning ps active MacPath)
         else if os = ''windows'' then Inr (areAllProcessesRunning ps active WindowsPath)
         else Inl UnsupportedOS)"

text \<open>The interface call \<open>check.Check\<close>.\<close>

fun Check_Check :: "version_lib \<Rightarrow> Check \<Rightarrow> nbPeer \<Rightarrow> check_result" where
  "Check_Check lib (NBVersionCheck v) peer = NBVersionCheck_Check lib v peer"
| "Check_Check lib (OSVersion c) peer = OSVersionCheck_Check lib c peer"
| "Check_Check lib (GeoLocation g) peer = GeoLocationCheck_Check g peer"
| "Check_Check lib (PeerNetworkRange p) peer = PeerNetworkRangeCheck_Check p peer"
| "Check_Check lib (ProcessCheck ps) peer = ProcessCheck_Check ps peer"

section \<open>A set of checks\<close>

record Checks =
  pc_ID :: string
  pc_Name :: string
  pc_NBVersionCheck :: "string option"
  pc_OSVersionCheck :: "OSVersionCheck option"
  pc_GeoLocationCheck :: "GeoLocationCheck option"
  pc_PeerNetworkRangeCheck :: "PeerNetworkRangeCheck option"
  pc_ProcessCheck :: "Process list option"

definition GetChecks :: "Checks \<Rightarrow> Check list" where
  "GetChecks pc =
     (case pc_NBVersionCheck pc of None \<Rightarrow> [] | Some v \<Rightarrow> [NBVersionCheck v])
     @ (case pc_OSVersionCheck pc of None \<Rightarrow> [] | Some c \<Rightarrow> [OSVersion c])
     @ (case pc_GeoLocationCheck pc of None \<Rightarrow> [] | Some g \<Rightarrow> [GeoLocation g])
     @ (case pc_PeerNetworkRangeCheck pc of None \<Rightarrow> [] | Some p \<Rightarrow> [PeerNetworkRange p])
     @ (case pc_ProcessCheck pc of None \<Rightarrow> [] | Some ps \<Rightarrow> [ProcessCheck ps])"

section \<open>Validation\<close>

text \<open>The errors of \<open>Validate\<close>, one constructor per message.\<close>

datatype validate_error =
    NameEmpty | ChecksEmpty | MinVersionEmpty | VersionInvalid | NoOSVersion | ActionEmpty | ActionInvalid
  | LocationsEmpty | CountryCodeEmpty | CountryCodeInvalid | RangesEmpty | ProcessesEmpty | PathEmpty

definition isVersionValid :: "version_lib \<Rightarrow> string \<Rightarrow> bool" where
  "isVersionValid lib ver = NewVersion_ok lib ver"

definition country_code_ok :: "string \<Rightarrow> bool" where
  "country_code_ok s \<longleftrightarrow> length s = 2 \<and> list_all (\<lambda>c. is_lower c \<or> is_upper c) s"

definition NBVersionCheck_Validate :: "version_lib \<Rightarrow> string \<Rightarrow> validate_error option" where
  "NBVersionCheck_Validate lib minVersion =
     (if minVersion = '''' then Some MinVersionEmpty
      else if \<not> isVersionValid lib minVersion then Some VersionInvalid else None)"

definition os_versions :: "OSVersionCheck \<Rightarrow> string option list" where
  "os_versions c = [os_Android c, os_Ios c, os_Darwin c, os_Linux c, os_Windows c]"

definition OSVersionCheck_Validate :: "version_lib \<Rightarrow> OSVersionCheck \<Rightarrow> validate_error option" where
  "OSVersionCheck_Validate lib c =
     (if list_all (\<lambda>v. v = None) (os_versions c) then Some NoOSVersion
      else if list_ex (\<lambda>v. case v of None \<Rightarrow> False | Some s \<Rightarrow> \<not> isVersionValid lib s) (os_versions c)
           then Some VersionInvalid
      else None)"

fun validate_locations :: "posture_Location list \<Rightarrow> validate_error option" where
  "validate_locations [] = None"
| "validate_locations (l # ls) =
     (if pl_CountryCode l = '''' then Some CountryCodeEmpty
      else if \<not> country_code_ok (pl_CountryCode l) then Some CountryCodeInvalid
      else validate_locations ls)"

definition GeoLocationCheck_Validate :: "GeoLocationCheck \<Rightarrow> validate_error option" where
  "GeoLocationCheck_Validate g =
     (if geo_Action g = '''' then Some ActionEmpty
      else if geo_Action g \<notin> {''allow'', ''deny''} then Some ActionInvalid
      else if length (geo_Locations g) = 0 then Some LocationsEmpty
      else validate_locations (geo_Locations g))"

definition PeerNetworkRangeCheck_Validate :: "PeerNetworkRangeCheck \<Rightarrow> validate_error option" where
  "PeerNetworkRangeCheck_Validate p =
     (if nr_Action p = '''' then Some ActionEmpty
      else if nr_Action p \<notin> {''allow'', ''deny''} then Some ActionInvalid
      else if length (nr_Ranges p) = 0 then Some RangesEmpty
      else None)"

definition ProcessCheck_Validate :: "Process list \<Rightarrow> validate_error option" where
  "ProcessCheck_Validate ps =
     (if length ps = 0 then Some ProcessesEmpty
      else if list_ex (\<lambda>p. LinuxPath p = '''' \<and> MacPath p = '''' \<and> WindowsPath p = '''') ps then Some PathEmpty
      else None)"

fun Check_Validate :: "version_lib \<Rightarrow> Check \<Rightarrow> validate_error option" where
  "Check_Validate lib (NBVersionCheck v) = NBVersionCheck_Validate lib v"
| "Check_Validate lib (OSVersion c) = OSVersionCheck_Validate lib c"
| "Check_Validate lib (GeoLocation g) = GeoLocationCheck_Validate g"
| "Check_Validate lib (PeerNetworkRange p) = PeerNetworkRangeCheck_Validate p"
| "Check_Validate lib (ProcessCheck ps) = ProcessCheck_Validate ps"

fun validate_all :: "version_lib \<Rightarrow> Check list \<Rightarrow> validate_error option" where
  "validate_all lib [] = None"
| "validate_all lib (c # cs) =
     (case Check_Validate lib c of Some e \<Rightarrow> Some e | None \<Rightarrow> validate_all lib cs)"

definition Checks_Validate :: "version_lib \<Rightarrow> Checks \<Rightarrow> validate_error option" where
  "Checks_Validate lib pc =
     (if pc_Name pc = '''' then Some NameEmpty
      else if length (GetChecks pc) = 0 then Some ChecksEmpty
      else validate_all lib (GetChecks pc))"

end
