(* ===== verification/Account.thy ===== *)
theory Account
  imports Policy Posture RouteSelector "HOL-Library.AList"
begin

text \<open>
  The account of the management server, \<open>management/server/types/{account,group,user,network}.go\<close>: its
  data, the lookups and updates of peers and groups, login expiration and the host labels of peers.
  A Go map that the code iterates over is an association list with distinct keys, iterated in the
  order of the list; a lookup is \<^const>\<open>map_of\<close>, a write \<^const>\<open>AList.update\<close>. Where the code collects
  keys in a map of its own and then iterates over it, the order is the argument \<open>ord\<close>.
\<close>

section \<open>Data\<close>

record Group =
  grp_ID :: string
  grp_AccountID :: string
  grp_Name :: string
  grp_Issued :: string
  grp_Peers :: "string list"
  grp_GroupPeers :: "(string \<times> string \<times> string) list"
  grp_Resources :: "Resource list"

record User =
  usr_Id :: string
  usr_Role :: string
  usr_IsServiceUser :: bool
  usr_AutoGroups :: "string list"
  usr_Blocked :: bool

record NetworkRouter =
  nrt_ID :: string
  nrt_NetworkID :: string
  nrt_Peer :: string
  nrt_PeerGroups :: "string list"
  nrt_Masquerade :: bool
  nrt_Metric :: int
  nrt_Enabled :: bool

record NetworkResource =
  nrs_ID :: string
  nrs_NetworkID :: string
  nrs_AccountID :: string
  nrs_Name :: string
  nrs_Description :: string
  nrs_Type :: string
  nrs_Domain :: string
  nrs_Prefix :: string
  nrs_Enabled :: bool

record NameServer =
  ns_IP :: string
  ns_NSType :: nat
  ns_Port :: int

record NameServerGroup =
  nsg_ID :: string
  nsg_AccountID :: string
  nsg_Name :: string
  nsg_Description :: string
  nsg_NameServers :: "NameServer list"
  nsg_Groups :: "string list"
  nsg_Primary :: bool
  nsg_Domains :: "string list"
  nsg_Enabled :: bool
  nsg_SearchDomainsEnabled :: bool

record Settings =
  PeerLoginExpirationEnabled :: bool
  PeerLoginExpiration :: int
  PeerInactivityExpirationEnabled :: bool
  PeerInactivityExpiration :: int

record Account =
  acc_Id :: string
  acc_Peers :: "(string \<times> nbPeer) list"
  acc_Users :: "(string \<times> User) list"
  acc_Groups :: "(string \<times> Group) list"
  acc_Policies :: "Policy list"
  acc_Routes :: "(string \<times> Route) list"
  acc_NameServerGroups :: "(string \<times> NameServerGroup) list"
  acc_DisabledManagementGroups :: "string list"
  acc_PostureChecks :: "Checks list"
  acc_Settings :: Settings
  acc_NetworkRouters :: "NetworkRouter list"
  acc_NetworkResources :: "NetworkResource list"
  acc_Serial :: uint64

section \<open>Groups\<close>

definition LoadGroupPeers :: "Group \<Rightarrow> Group" where
  "LoadGroupPeers g = g\<lparr>grp_Peers := map (\<lambda>(_, _, p). p) (grp_GroupPeers g), grp_GroupPeers := []\<rparr>"

definition StoreGroupPeers :: "Group \<Rightarrow> Group" where
  "StoreGroupPeers g =
     g\<lparr>grp_GroupPeers := map (\<lambda>p. (grp_AccountID g, grp_ID g, p)) (grp_Peers g), grp_Peers := []\<rparr>"

definition Group_Copy :: "Group \<Rightarrow> Group" where
  "Group_Copy g =
     \<lparr>grp_ID = grp_ID g, grp_AccountID = grp_AccountID g, grp_Name = grp_Name g, grp_Issued = grp_Issued g,
      grp_Peers = grp_Peers g, grp_GroupPeers = grp_GroupPeers g, grp_Resources = grp_Resources g\<rparr>"

definition HasPeers :: "Group \<Rightarrow> bool" where
  "HasPeers g \<longleftrightarrow> length (grp_Peers g) > 0"

definition IsGroupAll :: "Group \<Rightarrow> bool" where
  "IsGroupAll g \<longleftrightarrow> grp_Name g = ''All''"

definition Group_AddPeer :: "Group \<Rightarrow> string \<Rightarrow> Group \<times> bool" where
  "Group_AddPeer g peerID =
     (if peerID = '''' then (g, False)
      else if peerID \<in> set (grp_Peers g) then (g, False)
      else (g\<lparr>grp_Peers := grp_Peers g @ [peerID]\<rparr>, True))"

definition Group_RemovePeer :: "Group \<Rightarrow> string \<Rightarrow> Group \<times> bool" where
  "Group_RemovePeer g peerID =
     (if peerID \<in> set (grp_Peers g) then (g\<lparr>grp_Peers := remove1 peerID (grp_Peers g)\<rparr>, True) else (g, False))"

definition Group_AddResource :: "Group \<Rightarrow> Resource \<Rightarrow> Group \<times> bool" where
  "Group_AddResource g r =
     (if r \<in> set (grp_Resources g) then (g, False) else (g\<lparr>grp_Resources := grp_Resources g @ [r]\<rparr>, True))"

definition Group_RemoveResource :: "Group \<Rightarrow> Resource \<Rightarrow> Group \<times> bool" where
  "Group_RemoveResource g r =
     (if r \<in> set (grp_Resources g) then (g\<lparr>grp_Resources := remove1 r (grp_Resources g)\<rparr>, True) else (g, False))"

definition HasResources :: "Group \<Rightarrow> bool" where
  "HasResources g \<longleftrightarrow> length (grp_Resources g) > 0"

section \<open>Lookups\<close>

definition GetPeer :: "Account \<Rightarrow> string \<Rightarrow> nbPeer option" where
  "GetPeer a peerID = map_of (acc_Peers a) peerID"

definition GetGroup :: "Account \<Rightarrow> string \<Rightarrow> Group option" where
  "GetGroup a groupID = map_of (acc_Groups a) groupID"

definition GetPeers :: "Account \<Rightarrow> nbPeer list" where
  "GetPeers a = map snd (acc_Peers a)"

definition GetPeerGroupsList :: "Account \<Rightarrow> string \<Rightarrow> string list" where
  "GetPeerGroupsList a peerID = map fst (filter (\<lambda>(_, g). peerID \<in> set (grp_Peers g)) (acc_Groups a))"

definition GetPeerGroups :: "Account \<Rightarrow> string \<Rightarrow> string set" where
  "GetPeerGroups a peerID = set (map fst (filter (\<lambda>(_, g). peerID \<in> set (grp_Peers g)) (acc_Groups a)))"

definition getPeerDNSManagementStatus :: "Account \<Rightarrow> string \<Rightarrow> bool" where
  "getPeerDNSManagementStatus a peerID =
     (let peerGroups = GetPeerGroups a peerID
      in \<not> list_ex (\<lambda>g. g \<in> peerGroups) (acc_DisabledManagementGroups a))"

definition GetGroupAll :: "Account \<Rightarrow> Group option" where
  "GetGroupAll a = find (\<lambda>g. grp_Name g = ''All'') (map snd (acc_Groups a))"

definition FindGroupByName :: "Account \<Rightarrow> string \<Rightarrow> Group option" where
  "FindGroupByName a name = find (\<lambda>g. grp_Name g = name) (map snd (acc_Groups a))"

definition FindPeerByPubKey :: "Account \<Rightarrow> string \<Rightarrow> nbPeer option" where
  "FindPeerByPubKey a key = map_option Peer_Copy (find (\<lambda>p. np_Key p = key) (map snd (acc_Peers a)))"

definition FindUserPeers :: "Account \<Rightarrow> string \<Rightarrow> nbPeer list" where
  "FindUserPeers a userID = filter (\<lambda>p. np_UserID p = userID) (map snd (acc_Peers a))"

definition FindUser :: "Account \<Rightarrow> string \<Rightarrow> User option" where
  "FindUser a userID = map_of (acc_Users a) userID"

definition GetTakenIPs :: "Account \<Rightarrow> string list" where
  "GetTakenIPs a = map (\<lambda>(_, p). np_IP p) (acc_Peers a)"

definition GetPeerDNSLabels :: "Account \<Rightarrow> string set" where
  "GetPeerDNSLabels a = set (filter (\<lambda>l. l \<noteq> '''') (map (\<lambda>(_, p). np_DNSLabel p) (acc_Peers a)))"

definition GetPostureChecks :: "Account \<Rightarrow> string \<Rightarrow> Checks option" where
  "GetPostureChecks a i = find (\<lambda>c. pc_ID c = i) (acc_PostureChecks a)"

definition getAllowedUserIDs :: "Account \<Rightarrow> string set" where
  "getAllowedUserIDs a =
     set (map usr_Id (filter (\<lambda>u. \<not> usr_Blocked u \<and> \<not> usr_IsServiceUser u) (map snd (acc_Users a))))"

text \<open>Users append themselves to the lists of their groups and of the group All.\<close>

definition append_to :: "string \<Rightarrow> string \<Rightarrow> (string \<times> string list) list \<Rightarrow> (string \<times> string list) list" where
  "append_to k v m = AList.update k ((case map_of m k of None \<Rightarrow> [] | Some vs \<Rightarrow> vs) @ [v]) m"

definition GetActiveGroupUsers :: "Account \<Rightarrow> (string \<times> string list) list" where
  "GetActiveGroupUsers a =
     (let allGroupID = (case GetGroupAll a of None \<Rightarrow> '''' | Some g \<Rightarrow> grp_ID g)
      in fold (\<lambda>u m. if \<not> usr_Blocked u \<and> \<not> usr_IsServiceUser u
                     then append_to allGroupID (usr_Id u) (fold (\<lambda>g. append_to g (usr_Id u)) (usr_AutoGroups u) m)
                     else m)
           (map snd (acc_Users a)) [])"

definition GetProxyPeers :: "Account \<Rightarrow> string \<Rightarrow> nbPeer list" where
  "GetProxyPeers a cluster =
     filter (\<lambda>p. proxy_Embedded (np_ProxyMeta p) \<and> proxy_Cluster (np_ProxyMeta p) = cluster) (map snd (acc_Peers a))"

section \<open>Updates\<close>

definition UpdatePeer :: "Account \<Rightarrow> nbPeer \<Rightarrow> Account" where
  "UpdatePeer a p = a\<lparr>acc_Peers := AList.update (np_ID p) p (acc_Peers a)\<rparr>"

fun remove_router :: "string \<Rightarrow> NetworkRouter list \<Rightarrow> NetworkRouter list" where
  "remove_router peerID [] = []"
| "remove_router peerID (r # rs) = (if nrt_Peer r = peerID then rs else r # remove_router peerID rs)"

definition DeletePeer :: "Account \<Rightarrow> string \<Rightarrow> Account" where
  "DeletePeer a peerID =
     a\<lparr>acc_Groups := map (\<lambda>(i, g). (i, g\<lparr>grp_Peers := remove1 peerID (grp_Peers g)\<rparr>)) (acc_Groups a),
       acc_Routes := map (\<lambda>(i, r). (i, if rt_Peer r = peerID then r\<lparr>rt_Enabled := False, rt_Peer := ''''\<rparr> else r)) (acc_Routes a),
       acc_NetworkRouters := remove_router peerID (acc_NetworkRouters a),
       acc_Peers := AList.delete peerID (acc_Peers a),
       acc_Serial := acc_Serial a + 1\<rparr>"

fun remove_resource :: "string \<Rightarrow> Resource list \<Rightarrow> Resource list" where
  "remove_resource i [] = []"
| "remove_resource i (r # rs) = (if res_ID r = i then rs else r # remove_resource i rs)"

definition DeleteResource :: "Account \<Rightarrow> string \<Rightarrow> Account" where
  "DeleteResource a i =
     a\<lparr>acc_Groups := map (\<lambda>(k, g). (k, g\<lparr>grp_Resources := remove_resource i (grp_Resources g)\<rparr>)) (acc_Groups a)\<rparr>"

definition Difference :: "string list \<Rightarrow> string list \<Rightarrow> string list" where
  "Difference a b = filter (\<lambda>x. x \<notin> set b) a"

text \<open>
  \<open>UserGroupsAddToPeers\<close> rebuilds the peers of a group in the array of the old slice
  (\<open>group.Peers[:0]\<close>), so \<open>oldPeers\<close>, a slice of the same array, holds the first entries of the new list
  when the difference is taken.
\<close>

definition add_user_peers ::
    "(string list \<Rightarrow> string list) \<Rightarrow> string list \<Rightarrow> Group \<Rightarrow> Group \<times> string list" where
  "add_user_peers ord userPeers g =
     (let new = ord (remdups (grp_Peers g @ userPeers));
          oldPeers = take (length (grp_Peers g)) new @ drop (length new) (grp_Peers g)
      in (g\<lparr>grp_Peers := new\<rparr>, Difference new oldPeers))"

fun UserGroupsAddToPeers ::
    "(string list \<Rightarrow> string list) \<Rightarrow> Account \<Rightarrow> string \<Rightarrow> string list \<Rightarrow> Account \<times> (string \<times> string list) list" where
  "UserGroupsAddToPeers ord a userID [] = (a, [])"
| "UserGroupsAddToPeers ord a userID (gid # gids) =
     (case map_of (acc_Groups a) gid of
        None \<Rightarrow> UserGroupsAddToPeers ord a userID gids
      | Some g \<Rightarrow>
          (let userPeers = map fst (filter (\<lambda>(_, p). np_UserID p = userID) (acc_Peers a));
               (g', upd) = add_user_peers ord userPeers g;
               (a', upds) = UserGroupsAddToPeers ord (a\<lparr>acc_Groups := AList.update gid g' (acc_Groups a)\<rparr>) userID gids
           in (a', if gid \<in> fst ` set upds then upds else (gid, upd) # upds)))"

definition not_user_peer :: "Account \<Rightarrow> string \<Rightarrow> string \<Rightarrow> bool" where
  "not_user_peer a userID pid = (case GetPeer a pid of None \<Rightarrow> False | Some p \<Rightarrow> np_UserID p \<noteq> userID)"

fun UserGroupsRemoveFromPeers :: "Account \<Rightarrow> string \<Rightarrow> string list \<Rightarrow> Account \<times> (string \<times> string list) list" where
  "UserGroupsRemoveFromPeers a userID [] = (a, [])"
| "UserGroupsRemoveFromPeers a userID (gid # gids) =
     (case map_of (acc_Groups a) gid of
        None \<Rightarrow> UserGroupsRemoveFromPeers a userID gids
      | Some g \<Rightarrow>
          if grp_Name g = ''All'' then UserGroupsRemoveFromPeers a userID gids
          else
            (let update = filter (not_user_peer a userID) (grp_Peers g);
                 (a', upds) = UserGroupsRemoveFromPeers
                                (a\<lparr>acc_Groups := AList.update gid (g\<lparr>grp_Peers := update\<rparr>) (acc_Groups a)\<rparr>) userID gids
             in (a', if gid \<in> fst ` set upds then upds else (gid, Difference (grp_Peers g) update) # upds)))"

section \<open>Expiration\<close>

definition GetPeersWithExpiration :: "Account \<Rightarrow> nbPeer list" where
  "GetPeersWithExpiration a =
     filter (\<lambda>p. np_LoginExpirationEnabled p \<and> AddedWithSSOLogin p) (map snd (acc_Peers a))"

definition GetExpiredPeers :: "int \<Rightarrow> Account \<Rightarrow> nbPeer list" where
  "GetExpiredPeers now a =
     filter (\<lambda>p. fst (LoginExpired now p (PeerLoginExpiration (acc_Settings a)))) (GetPeersWithExpiration a)"

definition second :: int where "second = 1000000000"

text \<open>
  The loop of \<open>GetNextPeerExpiration\<close> and \<open>GetNextInactivePeerExpiration\<close>: \<open>skip\<close> says which peers do not
  count, \<open>dur\<close> is the time a peer has left. Reading the status of a peer that has none panics: \<open>None\<close>.
\<close>

fun next_expiry ::
    "(PeerStatus \<Rightarrow> bool) \<Rightarrow> (nbPeer \<Rightarrow> int) \<Rightarrow> nbPeer list \<Rightarrow> int option \<Rightarrow> (int \<times> bool) option" where
  "next_expiry skip dur [] None = Some (0, False)"
| "next_expiry skip dur [] (Some d) = Some (d, True)"
| "next_expiry skip dur (p # ps) nextExpiry =
     (case np_Status p of
        None \<Rightarrow> None
      | Some s \<Rightarrow>
          if skip s then next_expiry skip dur ps nextExpiry
          else if nextExpiry = None \<or> dur p < the nextExpiry
               then (if dur p < second then Some (second, True) else next_expiry skip dur ps (Some (dur p)))
          else next_expiry skip dur ps nextExpiry)"

definition GetNextPeerExpiration :: "int \<Rightarrow> Account \<Rightarrow> (int \<times> bool) option" where
  "GetNextPeerExpiration now a =
     next_expiry (\<lambda>s. ps_LoginExpired s \<or> \<not> ps_Connected s)
       (\<lambda>p. snd (LoginExpired now p (PeerLoginExpiration (acc_Settings a)))) (GetPeersWithExpiration a) None"

definition GetPeersWithInactivity :: "Account \<Rightarrow> nbPeer list" where
  "GetPeersWithInactivity a =
     filter (\<lambda>p. np_InactivityExpirationEnabled p \<and> AddedWithSSOLogin p) (map snd (acc_Peers a))"

fun inactive_peers :: "int \<Rightarrow> int \<Rightarrow> nbPeer list \<Rightarrow> nbPeer list option" where
  "inactive_peers now expiresIn [] = Some []"
| "inactive_peers now expiresIn (p # ps) =
     (case SessionExpired now p expiresIn of
        None \<Rightarrow> None
      | Some (inactive, _) \<Rightarrow>
          map_option (\<lambda>qs. if inactive then p # qs else qs) (inactive_peers now expiresIn ps))"

definition GetInactivePeers :: "int \<Rightarrow> Account \<Rightarrow> nbPeer list option" where
  "GetInactivePeers now a = inactive_peers now (PeerInactivityExpiration (acc_Settings a)) (GetPeersWithInactivity a)"

definition GetNextInactivePeerExpiration :: "int \<Rightarrow> Account \<Rightarrow> (int \<times> bool) option" where
  "GetNextInactivePeerExpiration now a =
     next_expiry (\<lambda>s. ps_LoginExpired s \<or> ps_Connected s)
       (\<lambda>p. case SessionExpired now p (PeerInactivityExpiration (acc_Settings a)) of Some (_, d) \<Rightarrow> d | None \<Rightarrow> 0)
       (GetPeersWithInactivity a) None"

section \<open>Host labels\<close>

fun label_suffix :: "string \<Rightarrow> string set \<Rightarrow> nat \<Rightarrow> nat \<Rightarrow> string" where
  "label_suffix name labels i 0 = ''''"
| "label_suffix name labels i (Suc n) =
     (let nameWithSuffix = name @ ''-'' @ nat_str i
      in if nameWithSuffix \<notin> labels then nameWithSuffix else label_suffix name labels (i + 1) n)"

definition getUniqueHostLabel :: "string \<Rightarrow> string set \<Rightarrow> string" where
  "getUniqueHostLabel name labels = (if name \<notin> labels then name else label_suffix name labels 1 999)"

end
