(* ===== verification/AccountAcl.thy ===== *)
theory AccountAcl
  imports Account
begin

text \<open>
  Which peers a peer may talk to, and the firewall rules it gets: \<open>GetPeerConnectionResources\<close> of
  \<open>management/server/types/account.go\<close> with everything it calls. The closures of
  \<open>connResourcesGenerator\<close> share four variables; they are the record \<open>acl_state\<close>. The version library is a
  parameter (\<open>lib\<close>), as is the order in which Go iterates over the map of collected ids (\<open>ord\<close>).
\<close>

section \<open>Peers of a rule\<close>

definition check_ok :: "version_lib \<Rightarrow> Check \<Rightarrow> nbPeer \<Rightarrow> bool" where
  "check_ok lib c peer = (case Check_Check lib c peer of Inr b \<Rightarrow> b | Inl _ \<Rightarrow> False)"

definition validatePostureChecksOnPeer :: "version_lib \<Rightarrow> Account \<Rightarrow> string list \<Rightarrow> string \<Rightarrow> bool" where
  "validatePostureChecksOnPeer lib a checkIDs peerID =
     (case GetPeer a peerID of
        None \<Rightarrow> False
      | Some peer \<Rightarrow>
          list_all (\<lambda>i. case GetPostureChecks a i of
                          None \<Rightarrow> True
                        | Some pc \<Rightarrow> list_all (\<lambda>c. check_ok lib c peer) (GetChecks pc)) checkIDs)"

text \<open>The loop over the groups; \<open>n\<close> is \<open>len(groups)\<close> and \<open>acc\<close> the ids collected so far.\<close>

fun collect_group_peers ::
    "(string \<Rightarrow> Group option) \<Rightarrow> nat \<Rightarrow> string list \<Rightarrow> string list \<Rightarrow> (string list \<Rightarrow> string list) \<Rightarrow> string list" where
  "collect_group_peers groups n [] acc ord = ord (remdups acc)"
| "collect_group_peers groups n (gid # gids) acc ord =
     (case groups gid of
        None \<Rightarrow> collect_group_peers groups n gids acc ord
      | Some g \<Rightarrow>
          if IsGroupAll g \<or> n = 1 then grp_Peers g
          else collect_group_peers groups n gids (acc @ grp_Peers g) ord)"

definition getUniquePeerIDsFromGroupsIDs :: "(string list \<Rightarrow> string list) \<Rightarrow> Account \<Rightarrow> string list \<Rightarrow> string list" where
  "getUniquePeerIDsFromGroupsIDs ord a groups = collect_group_peers (GetGroup a) (length groups) groups [] ord"

definition eligible_peer :: "version_lib \<Rightarrow> Account \<Rightarrow> string list \<Rightarrow> string set \<Rightarrow> string \<Rightarrow> nbPeer option" where
  "eligible_peer lib a checkIDs validated p =
     (case GetPeer a p of
        None \<Rightarrow> None
      | Some peer \<Rightarrow>
          if proxy_Embedded (np_ProxyMeta peer) then None
          else if \<not> validatePostureChecksOnPeer lib a checkIDs (np_ID peer) then None
          else if np_ID peer \<notin> validated then None
          else Some peer)"

definition getAllPeersFromGroups ::
    "version_lib \<Rightarrow> (string list \<Rightarrow> string list) \<Rightarrow> Account \<Rightarrow> string list \<Rightarrow> string \<Rightarrow> string list \<Rightarrow> string set
     \<Rightarrow> nbPeer list \<times> bool" where
  "getAllPeersFromGroups lib ord a groups peerID checkIDs validated =
     (let peers = List.map_filter (eligible_peer lib a checkIDs validated) (getUniquePeerIDsFromGroupsIDs ord a groups)
      in (filter (\<lambda>p. np_ID p \<noteq> peerID) peers, list_ex (\<lambda>p. np_ID p = peerID) peers))"

definition getPeerFromResource :: "Account \<Rightarrow> Resource \<Rightarrow> string \<Rightarrow> nbPeer list \<times> bool" where
  "getPeerFromResource a resource peerID =
     (case GetPeer a (res_ID resource) of
        None \<Rightarrow> ([], False)
      | Some peer \<Rightarrow> if np_ID peer = peerID then ([], True) else ([peer], False))"

definition is_peer_resource :: "Resource \<Rightarrow> bool" where
  "is_peer_resource r \<longleftrightarrow> res_Type r = ResourceTypePeer \<and> res_ID r \<noteq> ''''"

definition rule_sources ::
    "version_lib \<Rightarrow> (string list \<Rightarrow> string list) \<Rightarrow> Account \<Rightarrow> string set \<Rightarrow> string \<Rightarrow> Policy \<Rightarrow> PolicyRule
     \<Rightarrow> nbPeer list \<times> bool" where
  "rule_sources lib ord a validated peerID policy rule =
     (if is_peer_resource (pr_SourceResource rule) then getPeerFromResource a (pr_SourceResource rule) peerID
      else getAllPeersFromGroups lib ord a (pr_Sources rule) peerID (pol_SourcePostureChecks policy) validated)"

definition rule_destinations ::
    "version_lib \<Rightarrow> (string list \<Rightarrow> string list) \<Rightarrow> Account \<Rightarrow> string set \<Rightarrow> string \<Rightarrow> Policy \<Rightarrow> PolicyRule
     \<Rightarrow> nbPeer list \<times> bool" where
  "rule_destinations lib ord a validated peerID policy rule =
     (if is_peer_resource (pr_DestinationResource rule) then getPeerFromResource a (pr_DestinationResource rule) peerID
      else getAllPeersFromGroups lib ord a (pr_Destinations rule) peerID [] validated)"

section \<open>Firewall rules\<close>

definition FirewallRuleDirectionIN :: nat where "FirewallRuleDirectionIN = 0"
definition FirewallRuleDirectionOUT :: nat where "FirewallRuleDirectionOUT = 1"

record FirewallRule =
  fw_PolicyID :: string
  fw_PeerIP :: string
  fw_Direction :: nat
  fw_Action :: string
  fw_Protocol :: string
  fw_Port :: string
  fw_PortRange :: RulePortRange

record supportedFeatures =
  nativeSSH :: bool
  portRanges :: bool

definition firewallRuleMinPortRangesVer :: string where "firewallRuleMinPortRangesVer = ''0.48.0''"
definition firewallRuleMinNativeSSHVer :: string where "firewallRuleMinNativeSSHVer = ''0.60.0''"

definition peerSupportedFirewallFeatures :: "version_lib \<Rightarrow> string \<Rightarrow> supportedFeatures" where
  "peerSupportedFirewallFeatures lib peerVer =
     (if sublist ''dev'' peerVer then \<lparr>nativeSSH = True, portRanges = True\<rparr>
      else
        (let native = (MeetsMinVersion lib firewallRuleMinNativeSSHVer peerVer = Inr True)
         in \<lparr>nativeSSH = native,
             portRanges = (native \<or> MeetsMinVersion lib firewallRuleMinPortRangesVer peerVer = Inr True)\<rparr>))"

definition shouldCheckRulesForNativeSSH :: "bool \<Rightarrow> PolicyRule \<Rightarrow> nbPeer \<Rightarrow> bool" where
  "shouldCheckRulesForNativeSSH supportsNative rule peer \<longleftrightarrow>
     supportsNative \<and> np_SSHEnabled peer \<and> ServerSSHAllowed (pm_Flags (np_Meta peer))
     \<and> pr_Protocol rule = PolicyRuleProtocolTCP"

definition isPortInRule :: "string \<Rightarrow> uint16 \<Rightarrow> FirewallRule \<Rightarrow> bool" where
  "isPortInRule portString portInt rule \<longleftrightarrow>
     fw_Port rule = portString \<or> (Start (fw_PortRange rule) \<le> portInt \<and> portInt \<le> End (fw_PortRange rule))"

fun native_ssh_loop :: "FirewallRule list \<Rightarrow> bool \<Rightarrow> bool" where
  "native_ssh_loop [] shouldAdd = shouldAdd"
| "native_ssh_loop (fr # frs) shouldAdd =
     (if isPortInRule nativeSSHPortString 22022 fr then False
      else native_ssh_loop frs (shouldAdd \<or> isPortInRule defaultSSHPortString 22 fr))"

definition addNativeSSHRule :: "FirewallRule \<Rightarrow> FirewallRule list \<Rightarrow> FirewallRule list" where
  "addNativeSSHRule base expanded =
     (if native_ssh_loop expanded False then expanded @ [base\<lparr>fw_Port := nativeSSHPortString\<rparr>] else expanded)"

definition expand_range :: "bool \<Rightarrow> FirewallRule \<Rightarrow> RulePortRange \<Rightarrow> FirewallRule option" where
  "expand_range ranges base r =
     (if ranges then Some (base\<lparr>fw_PortRange := r\<rparr>)
      else if Start r \<noteq> End r then None
      else Some (base\<lparr>fw_Port := nat_str (unat (Start r))\<rparr>))"

definition expandPortsAndRanges :: "version_lib \<Rightarrow> FirewallRule \<Rightarrow> PolicyRule \<Rightarrow> nbPeer \<Rightarrow> FirewallRule list" where
  "expandPortsAndRanges lib base rule peer =
     (let features = peerSupportedFirewallFeatures lib (pm_WtVersion (np_Meta peer));
          expanded = map (\<lambda>port. base\<lparr>fw_Port := port\<rparr>) (pr_Ports rule)
            @ (if length (pr_Ports rule) > 0 then []
               else List.map_filter (expand_range (portRanges features) base) (pr_PortRanges rule))
      in if shouldCheckRulesForNativeSSH (nativeSSH features) rule peer
            \<or> pr_Protocol rule = PolicyRuleProtocolNetbirdSSH
         then addNativeSSHRule base expanded else expanded)"

section \<open>The generator\<close>

record acl_state =
  rulesExists :: "string set"
  peersExists :: "string set"
  acl_rules :: "FirewallRule list"
  acl_peers :: "nbPeer list"

definition acl_start :: acl_state where
  "acl_start = \<lparr>rulesExists = {}, peersExists = {}, acl_rules = [], acl_peers = []\<rparr>"

definition base_rule :: "PolicyRule \<Rightarrow> string \<Rightarrow> nat \<Rightarrow> FirewallRule" where
  "base_rule rule ip direction =
     (let protocol = (if pr_Protocol rule = PolicyRuleProtocolNetbirdSSH then PolicyRuleProtocolTCP else pr_Protocol rule)
      in \<lparr>fw_PolicyID = pr_ID rule, fw_PeerIP = ip, fw_Direction = direction, fw_Action = pr_Action rule,
          fw_Protocol = protocol, fw_Port = '''', fw_PortRange = RulePortRange 0 0\<rparr>)"

definition rule_key :: "PolicyRule \<Rightarrow> string \<Rightarrow> nat \<Rightarrow> string" where
  "rule_key rule ip direction =
     (let fr = base_rule rule ip direction
      in pr_ID rule @ fw_PeerIP fr @ nat_str direction @ fw_Protocol fr @ fw_Action fr @ join_char (CHR '','') (pr_Ports rule))"

definition expand_rule :: "version_lib \<Rightarrow> nbPeer \<Rightarrow> PolicyRule \<Rightarrow> string \<Rightarrow> nat \<Rightarrow> FirewallRule list" where
  "expand_rule lib target rule ip direction =
     (let fr = base_rule rule ip direction
      in if length (pr_Ports rule) = 0 \<and> length (pr_PortRanges rule) = 0 then [fr]
         else expandPortsAndRanges lib fr rule target)"

definition generate_one :: "version_lib \<Rightarrow> nbPeer \<Rightarrow> PolicyRule \<Rightarrow> nat \<Rightarrow> nbPeer \<Rightarrow> acl_state \<Rightarrow> acl_state" where
  "generate_one lib target rule direction peer st =
     (let st = (if np_ID peer \<in> peersExists st then st
                else st\<lparr>acl_peers := acl_peers st @ [peer], peersExists := insert (np_ID peer) (peersExists st)\<rparr>);
          ruleID = rule_key rule (np_IP peer) direction
      in if ruleID \<in> rulesExists st then st
         else st\<lparr>rulesExists := insert ruleID (rulesExists st),
                 acl_rules := acl_rules st @ expand_rule lib target rule (np_IP peer) direction\<rparr>)"

definition generateResources ::
    "version_lib \<Rightarrow> nbPeer \<Rightarrow> PolicyRule \<Rightarrow> nbPeer list \<Rightarrow> nat \<Rightarrow> acl_state \<Rightarrow> acl_state" where
  "generateResources lib target rule groupPeers direction st = fold (generate_one lib target rule direction) groupPeers st"

section \<open>Authorized users\<close>

type_synonym authorized = "string \<rightharpoonup> string set"

definition Wildcard :: string where "Wildcard = ''*''"

definition authorize :: "string \<Rightarrow> string set \<Rightarrow> authorized \<Rightarrow> authorized" where
  "authorize localUser userIDs au = au(localUser \<mapsto> (case au localUser of None \<Rightarrow> {} | Some s \<Rightarrow> s) \<union> userIDs)"

definition authorize_group ::
    "(string \<rightharpoonup> string list) \<Rightarrow> string \<times> string list \<Rightarrow> authorized \<Rightarrow> authorized" where
  "authorize_group groupIDToUserIDs = (\<lambda>(groupID, localUsers) au.
     case groupIDToUserIDs groupID of
       None \<Rightarrow> au
     | Some userIDs \<Rightarrow>
         fold (\<lambda>lu. authorize lu (set userIDs)) (if length localUsers = 0 then [Wildcard] else localUsers) au)"

definition portRangeIncludesSSH :: "RulePortRange list \<Rightarrow> bool" where
  "portRangeIncludesSSH rs =
     list_ex (\<lambda>pr. (Start pr \<le> of_nat defaultSSHPortNumber \<and> of_nat defaultSSHPortNumber \<le> End pr)
                 \<or> (Start pr \<le> of_nat nativeSSHPortNumber \<and> of_nat nativeSSHPortNumber \<le> End pr)) rs"

definition portsIncludesSSH :: "string list \<Rightarrow> bool" where
  "portsIncludesSSH ports = list_ex (\<lambda>p. p = defaultSSHPortString \<or> p = nativeSSHPortString) ports"

definition policyRuleImpliesLegacySSH :: "PolicyRule \<Rightarrow> bool" where
  "policyRuleImpliesLegacySSH rule \<longleftrightarrow>
     pr_Protocol rule = PolicyRuleProtocolALL
     \<or> (pr_Protocol rule = PolicyRuleProtocolTCP \<and> (portsIncludesSSH (pr_Ports rule) \<or> portRangeIncludesSSH (pr_PortRanges rule)))"

text \<open>The end of the loop body, for a peer among the destinations of the rule.\<close>

definition ssh_step ::
    "(string \<rightharpoonup> string list) \<Rightarrow> string set \<Rightarrow> nbPeer \<Rightarrow> PolicyRule \<Rightarrow> authorized \<times> bool \<Rightarrow> authorized \<times> bool" where
  "ssh_step groupIDToUserIDs allowed peer rule = (\<lambda>(au, ssh).
     if pr_Protocol rule = PolicyRuleProtocolNetbirdSSH
     then ((if length (pr_AuthorizedGroups rule) > 0
            then fold (authorize_group groupIDToUserIDs) (pr_AuthorizedGroups rule) au
            else if pr_AuthorizedUser rule \<noteq> '''' then authorize Wildcard {pr_AuthorizedUser rule} au
            else au(Wildcard \<mapsto> allowed)), True)
     else if policyRuleImpliesLegacySSH rule \<and> np_SSHEnabled peer then (au(Wildcard \<mapsto> allowed), True)
     else (au, ssh))"

section \<open>The resources of a peer\<close>

type_synonym conn_state = "acl_state \<times> authorized \<times> bool"

text \<open>
  One rule of the loop of \<open>GetPeerConnectionResources\<close>, from the peers on either side and whether the
  target is among them.
\<close>

definition rule_step ::
    "version_lib \<Rightarrow> (string \<rightharpoonup> string list) \<Rightarrow> string set \<Rightarrow> nbPeer \<Rightarrow> PolicyRule
     \<Rightarrow> nbPeer list \<times> bool \<Rightarrow> nbPeer list \<times> bool \<Rightarrow> conn_state \<Rightarrow> conn_state" where
  "rule_step lib groupIDToUserIDs allowed target rule = (\<lambda>(sourcePeers, peerInSources) (destinationPeers, peerInDestinations) (st, au, ssh).
     let st = (if pr_Bidirectional rule \<and> peerInSources
               then generateResources lib target rule destinationPeers FirewallRuleDirectionIN st else st);
         st = (if pr_Bidirectional rule \<and> peerInDestinations
               then generateResources lib target rule sourcePeers FirewallRuleDirectionOUT st else st);
         st = (if peerInSources
               then generateResources lib target rule destinationPeers FirewallRuleDirectionOUT st else st);
         st = (if peerInDestinations
               then generateResources lib target rule sourcePeers FirewallRuleDirectionIN st else st)
     in (st, if peerInDestinations then ssh_step groupIDToUserIDs allowed target rule (au, ssh) else (au, ssh)))"

definition policy_step ::
    "version_lib \<Rightarrow> (string \<rightharpoonup> string list) \<Rightarrow> string set \<Rightarrow> nbPeer
     \<Rightarrow> (Policy \<Rightarrow> PolicyRule \<Rightarrow> nbPeer list \<times> bool) \<Rightarrow> (Policy \<Rightarrow> PolicyRule \<Rightarrow> nbPeer list \<times> bool)
     \<Rightarrow> Policy \<Rightarrow> conn_state \<Rightarrow> conn_state" where
  "policy_step lib groupIDToUserIDs allowed target srcs dsts policy st =
     (if \<not> pol_Enabled policy then st
      else fold (\<lambda>rule st. if \<not> pr_Enabled rule then st
                           else rule_step lib groupIDToUserIDs allowed target rule (srcs policy rule) (dsts policy rule) st)
             (pol_Rules policy) st)"

definition conn_result :: "conn_state \<Rightarrow> nbPeer list \<times> FirewallRule list \<times> authorized \<times> bool" where
  "conn_result = (\<lambda>(st, au, ssh). (acl_peers st, acl_rules st, au, ssh))"

definition GetPeerConnectionResources ::
    "version_lib \<Rightarrow> (string list \<Rightarrow> string list) \<Rightarrow> Account \<Rightarrow> nbPeer \<Rightarrow> string set \<Rightarrow> (string \<rightharpoonup> string list)
     \<Rightarrow> nbPeer list \<times> FirewallRule list \<times> authorized \<times> bool" where
  "GetPeerConnectionResources lib ord a peer validated groupIDToUserIDs =
     conn_result (fold (policy_step lib groupIDToUserIDs (getAllowedUserIDs a) peer
                          (rule_sources lib ord a validated (np_ID peer)) (rule_destinations lib ord a validated (np_ID peer)))
                    (acc_Policies a) (acl_start, Map.empty, False))"

end
