(* ===== verification/AclProps.thy ===== *)
theory AclProps
  imports AccountAcl
begin

text \<open>
  What \<open>GetPeerConnectionResources\<close> computes, independent of order and of its duplicate elimination: the
  grants the policies make. A grant names a rule, the other peer and a direction. The locale
  \<open>acl_provider\<close> is the interface between the loop over the policies and whoever supplies the peers of
  a rule; it is interpreted here for the account.
\<close>

section \<open>Grants\<close>

type_synonym grant = "PolicyRule \<times> nbPeer \<times> nat"

definition rule_grants :: "PolicyRule \<Rightarrow> nbPeer list \<times> bool \<Rightarrow> nbPeer list \<times> bool \<Rightarrow> grant set" where
  "rule_grants rule = (\<lambda>(sp, inS) (dp, inD).
     {(rule, p, d) | p d. inS \<and> p \<in> set dp \<and> (d = FirewallRuleDirectionOUT \<or> pr_Bidirectional rule \<and> d = FirewallRuleDirectionIN)}
     \<union> {(rule, p, d) | p d. inD \<and> p \<in> set sp \<and> (d = FirewallRuleDirectionIN \<or> pr_Bidirectional rule \<and> d = FirewallRuleDirectionOUT)})"

definition enabled_rules :: "Policy list \<Rightarrow> (Policy \<times> PolicyRule) set" where
  "enabled_rules policies =
     {(p, r). p \<in> set policies \<and> pol_Enabled p \<and> r \<in> set (pol_Rules p) \<and> pr_Enabled r}"

definition all_grants ::
    "(Policy \<Rightarrow> PolicyRule \<Rightarrow> nbPeer list \<times> bool) \<Rightarrow> (Policy \<Rightarrow> PolicyRule \<Rightarrow> nbPeer list \<times> bool) \<Rightarrow> Policy list \<Rightarrow> grant set" where
  "all_grants srcs dsts policies = (\<Union>(p, r) \<in> enabled_rules policies. rule_grants r (srcs p r) (dsts p r))"

text \<open>What a set of grants amounts to, and when the duplicate elimination cannot confuse two of them.\<close>

definition grant_rules_of :: "version_lib \<Rightarrow> nbPeer \<Rightarrow> grant set \<Rightarrow> FirewallRule set" where
  "grant_rules_of lib target I = (\<Union>(r, p, d) \<in> I. set (expand_rule lib target r (np_IP p) d))"

definition grant_peers_of :: "grant set \<Rightarrow> nbPeer set" where
  "grant_peers_of I = (\<lambda>(r, p, d). p) ` I"

definition grants_ok :: "version_lib \<Rightarrow> nbPeer \<Rightarrow> grant set \<Rightarrow> bool" where
  "grants_ok lib target I \<longleftrightarrow> (\<forall>r p d r' p' d'. (r, p, d) \<in> I \<longrightarrow> (r', p', d') \<in> I \<longrightarrow>
     (np_ID p = np_ID p' \<longrightarrow> p = p')
     \<and> (rule_key r (np_IP p) d = rule_key r' (np_IP p') d' \<longrightarrow>
          expand_rule lib target r (np_IP p) d = expand_rule lib target r' (np_IP p') d'))"

definition acl_inv :: "version_lib \<Rightarrow> nbPeer \<Rightarrow> grant set \<Rightarrow> acl_state \<Rightarrow> bool" where
  "acl_inv lib target I st \<longleftrightarrow>
     peersExists st = np_ID ` grant_peers_of I \<and> set (acl_peers st) = grant_peers_of I
     \<and> rulesExists st = (\<lambda>(r, p, d). rule_key r (np_IP p) d) ` I
     \<and> set (acl_rules st) = grant_rules_of lib target I \<and> distinct (map np_ID (acl_peers st))"

lemma grants_ok_subset: "grants_ok lib target J \<Longrightarrow> I \<subseteq> J \<Longrightarrow> grants_ok lib target I"
  unfolding grants_ok_def by blast

lemma acl_inv_start: "acl_inv lib target {} acl_start"
  by (simp add: acl_inv_def acl_start_def grant_peers_of_def grant_rules_of_def)

lemma generate_one_inv:
  assumes inv: "acl_inv lib target I st" and ok: "grants_ok lib target (insert (rule, peer, d) I)"
  shows "acl_inv lib target (insert (rule, peer, d) I) (generate_one lib target rule d peer st)"
proof -
  let ?x = "(rule, peer, d)"
  have known_peer: "peer \<in> grant_peers_of I" if known: "np_ID peer \<in> np_ID ` grant_peers_of I"
  proof -
    obtain r p e where "(r, p, e) \<in> I" "np_ID peer = np_ID p"
      using known by (auto simp: grant_peers_of_def)
    moreover from this have "peer = p"
      using ok unfolding grants_ok_def by blast
    ultimately show ?thesis by (force simp: grant_peers_of_def)
  qed
  have known_rule: "set (expand_rule lib target rule (np_IP peer) d) \<subseteq> grant_rules_of lib target I"
    if k: "rule_key rule (np_IP peer) d \<in> (\<lambda>(r, p, d). rule_key r (np_IP p) d) ` I"
  proof -
    obtain r p e where x: "(r, p, e) \<in> I" "rule_key rule (np_IP peer) d = rule_key r (np_IP p) e"
      using k by auto
    then have "expand_rule lib target rule (np_IP peer) d = expand_rule lib target r (np_IP p) e"
      using ok unfolding grants_ok_def by blast
    with x(1) show ?thesis by (auto simp: grant_rules_of_def)
  qed
  have peers: "grant_peers_of (insert ?x I) = insert peer (grant_peers_of I)"
    and rules: "grant_rules_of lib target (insert ?x I)
      = set (expand_rule lib target rule (np_IP peer) d) \<union> grant_rules_of lib target I"
    by (simp_all add: grant_peers_of_def grant_rules_of_def)
  have "np_ID peer \<in> np_ID ` grant_peers_of I \<Longrightarrow> insert peer (grant_peers_of I) = grant_peers_of I"
    using known_peer by blast
  moreover have "rule_key rule (np_IP peer) d \<in> (\<lambda>(r, p, d). rule_key r (np_IP p) d) ` I \<Longrightarrow>
      set (expand_rule lib target rule (np_IP peer) d) \<union> grant_rules_of lib target I = grant_rules_of lib target I"
    using known_rule by blast
  ultimately show ?thesis
    using inv unfolding acl_inv_def generate_one_def Let_def peers rules
    by (auto simp: insert_absorb)
qed

lemma generateResources_inv:
  "acl_inv lib target I st \<Longrightarrow> grants_ok lib target (I \<union> {(rule, p, d) | p. p \<in> set ps}) \<Longrightarrow>
   acl_inv lib target (I \<union> {(rule, p, d) | p. p \<in> set ps}) (generateResources lib target rule ps d st)"
proof (induction ps arbitrary: I st)
  case Nil
  then show ?case by (simp add: generateResources_def)
next
  case (Cons p ps)
  have eq: "insert (rule, p, d) I \<union> {(rule, q, d) | q. q \<in> set ps} = I \<union> {(rule, q, d) | q. q \<in> set (p # ps)}"
    by auto
  have "acl_inv lib target (insert (rule, p, d) I) (generate_one lib target rule d p st)"
    using Cons.prems by (intro generate_one_inv) (auto intro: grants_ok_subset)
  from Cons.IH [OF this] Cons.prems(2) show ?case
    unfolding eq by (simp add: generateResources_def)
qed

lemma rule_step_inv:
  assumes inv: "acl_inv lib target I st" and ok: "grants_ok lib target (I \<union> rule_grants rule s d)"
  shows "acl_inv lib target (I \<union> rule_grants rule s d)
           (fst (rule_step lib users allowed target rule s d (st, au)))"
proof -
  obtain sp inS where s: "s = (sp, inS)" by (cases s)
  obtain dp inD where d: "d = (dp, inD)" by (cases d)
  obtain a1 a2 where au: "au = (a1, a2)" by (cases au)
  let ?G = "\<lambda>b ps e. if b then {(rule, p, e) | p. p \<in> set ps} else {}"
  let ?g = "\<lambda>b ps e st. if b then generateResources lib target rule ps e st else st"
  have step: "acl_inv lib target (J \<union> ?G b ps e) (?g b ps e st')"
    if "acl_inv lib target J st'" "J \<union> ?G b ps e \<subseteq> I \<union> rule_grants rule s d" for J b ps e st'
    using that generateResources_inv [of lib target J st' rule e ps] grants_ok_subset [OF ok that(2)]
    by (cases b) simp_all
  let ?J1 = "I \<union> ?G (pr_Bidirectional rule \<and> inS) dp FirewallRuleDirectionIN"
  let ?J2 = "?J1 \<union> ?G (pr_Bidirectional rule \<and> inD) sp FirewallRuleDirectionOUT"
  let ?J3 = "?J2 \<union> ?G inS dp FirewallRuleDirectionOUT"
  let ?J4 = "?J3 \<union> ?G inD sp FirewallRuleDirectionIN"
  have J4: "?J4 = I \<union> rule_grants rule s d"
    unfolding s d rule_grants_def by auto
  have sub: "?J1 \<subseteq> ?J4" "?J2 \<subseteq> ?J4" "?J3 \<subseteq> ?J4" by blast+
  note s1 = step [OF inv sub(1) [unfolded J4]]
  note s2 = step [OF s1 sub(2) [unfolded J4]]
  note s3 = step [OF s2 sub(3) [unfolded J4]]
  note s4 = step [OF s3 eq_refl [OF J4]]
  show ?thesis
    using s4 [unfolded J4] unfolding s d au rule_step_def Let_def by simp
qed

lemma policy_step_inv:
  assumes inv: "acl_inv lib target I (fst st)" and ok: "grants_ok lib target J"
    and sub: "I \<subseteq> J" "all_grants srcs dsts [policy] \<subseteq> J"
  shows "acl_inv lib target (I \<union> all_grants srcs dsts [policy]) (fst (policy_step lib users allowed target srcs dsts policy st))"
proof (cases "pol_Enabled policy")
  case False
  then have "all_grants srcs dsts [policy] = {}" by (simp add: all_grants_def enabled_rules_def)
  with False inv show ?thesis by (simp add: policy_step_def)
next
  case True
  let ?G = "\<lambda>rules. \<Union>r \<in> {r \<in> set rules. pr_Enabled r}. rule_grants r (srcs policy r) (dsts policy r)"
  let ?f = "\<lambda>rule st. if \<not> pr_Enabled rule then st
              else rule_step lib users allowed target rule (srcs policy rule) (dsts policy rule) st"
  have all: "all_grants srcs dsts [policy] = ?G (pol_Rules policy)"
    using True by (auto simp: all_grants_def enabled_rules_def)
  have "acl_inv lib target (I \<union> ?G rules) (fst (fold ?f rules st))" if "I \<union> ?G rules \<subseteq> J" for rules
    using inv that
  proof (induction rules arbitrary: I st)
    case Nil
    then show ?case by simp
  next
    case (Cons r rules)
    show ?case
    proof (cases "pr_Enabled r")
      case False
      then have "{x. x \<in> set (r # rules) \<and> pr_Enabled x} = {x. x \<in> set rules \<and> pr_Enabled x}" by auto
      with Cons False show ?thesis by simp
    next
      case True
      let ?H = "rule_grants r (srcs policy r) (dsts policy r)"
      have eq: "I \<union> ?H \<union> ?G rules = I \<union> ?G (r # rules)" using True by auto
      have "acl_inv lib target (I \<union> ?H) (fst (?f r st))"
        using rule_step_inv [OF Cons.prems(1) grants_ok_subset [OF ok], of r "srcs policy r" "dsts policy r" users allowed "snd st"]
          Cons.prems(2) True eq by auto
      from Cons.IH [OF this] Cons.prems(2) show ?thesis unfolding eq by simp
    qed
  qed
  from this [of "pol_Rules policy"] sub all show ?thesis
    using True by (simp add: policy_step_def)
qed

lemma all_grants_append: "all_grants srcs dsts (ps @ qs) = all_grants srcs dsts ps \<union> all_grants srcs dsts qs"
  by (auto simp: all_grants_def enabled_rules_def)

lemma policies_inv:
  assumes "grants_ok lib target (all_grants srcs dsts policies)"
  shows "acl_inv lib target (all_grants srcs dsts policies)
           (fst (fold (policy_step lib users allowed target srcs dsts) policies (acl_start, au)))"
  using assms
proof (induction policies rule: rev_induct)
  case Nil
  then show ?case by (simp add: all_grants_def enabled_rules_def acl_inv_start)
next
  case (snoc p ps)
  have ok: "grants_ok lib target (all_grants srcs dsts ps)"
    using snoc.prems by (rule grants_ok_subset) (simp add: all_grants_append)
  show ?case
    using policy_step_inv [OF snoc.IH [OF ok] snoc.prems] by (simp add: all_grants_append)
qed

section \<open>The peers on the two sides of a rule\<close>

text \<open>
  The side of a rule does not depend on the peer the resources are computed for: the two functions return
  the others of it and whether the peer itself is among them.
\<close>

definition split_side :: "string \<Rightarrow> nbPeer list \<Rightarrow> nbPeer list \<times> bool" where
  "split_side peerID side = (filter (\<lambda>p. np_ID p \<noteq> peerID) side, list_ex (\<lambda>p. np_ID p = peerID) side)"

definition source_side ::
    "version_lib \<Rightarrow> (string list \<Rightarrow> string list) \<Rightarrow> Account \<Rightarrow> string set \<Rightarrow> Policy \<Rightarrow> PolicyRule \<Rightarrow> nbPeer list" where
  "source_side lib ord a validated policy rule =
     (if is_peer_resource (pr_SourceResource rule) then
        (case GetPeer a (res_ID (pr_SourceResource rule)) of None \<Rightarrow> [] | Some p \<Rightarrow> [p])
      else List.map_filter (eligible_peer lib a (pol_SourcePostureChecks policy) validated)
             (getUniquePeerIDsFromGroupsIDs ord a (pr_Sources rule)))"

definition destination_side ::
    "version_lib \<Rightarrow> (string list \<Rightarrow> string list) \<Rightarrow> Account \<Rightarrow> string set \<Rightarrow> Policy \<Rightarrow> PolicyRule \<Rightarrow> nbPeer list" where
  "destination_side lib ord a validated policy rule =
     (if is_peer_resource (pr_DestinationResource rule) then
        (case GetPeer a (res_ID (pr_DestinationResource rule)) of None \<Rightarrow> [] | Some p \<Rightarrow> [p])
      else List.map_filter (eligible_peer lib a [] validated)
             (getUniquePeerIDsFromGroupsIDs ord a (pr_Destinations rule)))"

lemma rule_sources_split:
  "rule_sources lib ord a validated peerID policy rule = split_side peerID (source_side lib ord a validated policy rule)"
  by (simp add: rule_sources_def source_side_def split_side_def getPeerFromResource_def getAllPeersFromGroups_def
      Let_def split: option.split)

lemma rule_destinations_split:
  "rule_destinations lib ord a validated peerID policy rule
     = split_side peerID (destination_side lib ord a validated policy rule)"
  by (simp add: rule_destinations_def destination_side_def split_side_def getPeerFromResource_def
      getAllPeersFromGroups_def Let_def split: option.split)

definition rule_admits :: "PolicyRule \<Rightarrow> nat \<Rightarrow> bool \<Rightarrow> bool \<Rightarrow> bool" where
  "rule_admits rule d forth back \<longleftrightarrow>
     (forth \<and> (d = FirewallRuleDirectionOUT \<or> pr_Bidirectional rule \<and> d = FirewallRuleDirectionIN))
     \<or> (back \<and> (d = FirewallRuleDirectionIN \<or> pr_Bidirectional rule \<and> d = FirewallRuleDirectionOUT))"

lemma mem_all_grants:
  "g \<in> all_grants srcs dsts policies \<longleftrightarrow> (\<exists>p r. (p, r) \<in> enabled_rules policies \<and> g \<in> rule_grants r (srcs p r) (dsts p r))"
  by (auto simp: all_grants_def)

lemma mem_rule_grants:
  "(r, p, d) \<in> rule_grants r' s t \<longleftrightarrow>
     r = r' \<and> rule_admits r' d (snd s \<and> p \<in> set (fst t)) (snd t \<and> p \<in> set (fst s))"
  by (cases s; cases t) (auto simp: rule_grants_def rule_admits_def)

text \<open>The grants for a peer: it is on one side of an enabled rule and the other peer on the other.\<close>

lemma grants_iff:
  "(r, q, d) \<in> all_grants (\<lambda>p r. split_side x (S p r)) (\<lambda>p r. split_side x (D p r)) policies \<longleftrightarrow>
   np_ID q \<noteq> x \<and> (\<exists>p. (p, r) \<in> enabled_rules policies \<and>
     rule_admits r d (x \<in> np_ID ` set (S p r) \<and> q \<in> set (D p r)) (x \<in> np_ID ` set (D p r) \<and> q \<in> set (S p r)))"
proof -
  have mem: "(r, q, d) \<in> rule_grants r' (split_side x A) (split_side x B) \<longleftrightarrow>
      r = r' \<and> np_ID q \<noteq> x \<and> rule_admits r d (x \<in> np_ID ` set A \<and> q \<in> set B) (x \<in> np_ID ` set B \<and> q \<in> set A)"
    for r' A B
    unfolding rule_grants_def split_side_def rule_admits_def by (auto simp: list_ex_iff)
  show ?thesis by (auto simp: mem_all_grants mem)
qed

lemma grants_mirror:
  assumes S: "\<And>p r. inj_on np_ID (insert x (insert y (set (S p r))))"
    and D: "\<And>p r. inj_on np_ID (insert x (insert y (set (D p r))))"
    and xy: "np_ID x \<noteq> np_ID y" and d: "{d, d'} = {FirewallRuleDirectionIN, FirewallRuleDirectionOUT}"
  shows "(r, y, d) \<in> all_grants (\<lambda>p r. split_side (np_ID x) (S p r)) (\<lambda>p r. split_side (np_ID x) (D p r)) policies \<longleftrightarrow>
         (r, x, d') \<in> all_grants (\<lambda>p r. split_side (np_ID y) (S p r)) (\<lambda>p r. split_side (np_ID y) (D p r)) policies"
proof -
  have mem: "np_ID z \<in> np_ID ` A \<longleftrightarrow> z \<in> A" if "inj_on np_ID (insert x (insert y A))" "z = x \<or> z = y" for z A
    using that by (auto simp: inj_on_def)
  have "rule_admits r d (a \<and> b) (e \<and> f) = rule_admits r d' (f \<and> e) (b \<and> a)" for r a b e f
    using d unfolding rule_admits_def
    by (auto simp: doubleton_eq_iff FirewallRuleDirectionIN_def FirewallRuleDirectionOUT_def)
  then show ?thesis
    unfolding grants_iff using xy by (simp add: mem [OF S] mem [OF D])
qed

section \<open>Firewall rules of a grant\<close>

definition retarget :: "string \<Rightarrow> nat \<Rightarrow> FirewallRule \<Rightarrow> FirewallRule" where
  "retarget ip d fr = fr\<lparr>fw_PeerIP := ip, fw_Direction := d\<rparr>"

lemma base_rule_retarget: "base_rule rule ip d = retarget ip d (base_rule rule ip' d')"
  by (simp add: base_rule_def retarget_def Let_def)

lemma isPortInRule_retarget [simp]: "isPortInRule s i (retarget ip d fr) = isPortInRule s i fr"
  by (simp add: isPortInRule_def retarget_def)

lemma native_ssh_loop_retarget [simp]: "native_ssh_loop (map (retarget ip d) frs) b = native_ssh_loop frs b"
  by (induction frs arbitrary: b) simp_all

lemma expand_range_retarget: "expand_range b (retarget ip d fr) r = map_option (retarget ip d) (expand_range b fr r)"
  by (simp add: expand_range_def retarget_def)

lemma expandPortsAndRanges_retarget:
  "expandPortsAndRanges lib (retarget ip d fr) rule peer = map (retarget ip d) (expandPortsAndRanges lib fr rule peer)"
proof -
  have ranges: "List.map_filter (expand_range b (retarget ip d fr)) rs = map (retarget ip d) (List.map_filter (expand_range b fr) rs)"
    for b rs
    by (induction rs) (auto simp: List.map_filter_def expand_range_retarget)
  have ports: "map (\<lambda>port. (retarget ip d fr)\<lparr>fw_Port := port\<rparr>) ps = map (retarget ip d) (map (\<lambda>port. fr\<lparr>fw_Port := port\<rparr>) ps)" for ps
    by (simp add: retarget_def)
  have append: "map (retarget ip d) xs @ (if c then [] else map (retarget ip d) ys)
      = map (retarget ip d) (xs @ (if c then [] else ys))" for xs ys c
    by simp
  have add: "addNativeSSHRule (retarget ip d fr) (map (retarget ip d) frs) = map (retarget ip d) (addNativeSSHRule fr frs)" for frs
    by (simp add: addNativeSSHRule_def) (simp add: retarget_def)
  show ?thesis
    unfolding expandPortsAndRanges_def Let_def ranges ports append
    by (simp only: add if_distrib [of "map (retarget ip d)"])
qed

lemma expand_rule_retarget:
  "expand_rule lib target rule ip d = map (retarget ip d) (expand_rule lib target rule ip' d')"
  unfolding expand_rule_def Let_def base_rule_retarget [of rule ip d ip' d']
  by (simp add: expandPortsAndRanges_retarget)

section \<open>The interface between the loop and the provider of the sides\<close>

lemma rule_key_inj:
  assumes "length (pr_ID r) = length (pr_ID r')" "pr_ID r = pr_ID r' \<Longrightarrow> r = r'"
    and d: "d = FirewallRuleDirectionIN \<or> d = FirewallRuleDirectionOUT"
           "d' = FirewallRuleDirectionIN \<or> d' = FirewallRuleDirectionOUT"
    and key: "rule_key r ip d = rule_key r' ip' d'"
  shows "r = r' \<and> ip = ip' \<and> d = d'"
proof -
  have digit: "nat_str FirewallRuleDirectionIN = ''0''" "nat_str FirewallRuleDirectionOUT = ''1''"
    by code_simp+
  have "pr_ID r = pr_ID r'"
    using key assms(1) by (simp add: rule_key_def Let_def)
  then have r: "r = r'" by (rule assms(2))
  have "ip @ nat_str d = ip' @ nat_str d'"
    using key unfolding r rule_key_def Let_def by (simp add: base_rule_def Let_def)
  then have "ip = ip' \<and> d = d'"
    using d by (auto simp: digit)
  with r show ?thesis by simp
qed

text \<open>
  A provider gives the policies, and for every rule the peers on its sides without the target and whether the
  target is one of them. It promises that a peer is known by its id and a rule by its id. The duplicate
  elimination of the generator then loses nothing.
\<close>

locale acl_provider =
  fixes wf :: "'s \<Rightarrow> bool" and peers :: "'s \<Rightarrow> nbPeer set" and policies :: "'s \<Rightarrow> Policy list"
    and srcs :: "'s \<Rightarrow> Policy \<Rightarrow> PolicyRule \<Rightarrow> nbPeer list \<times> bool"
    and dsts :: "'s \<Rightarrow> Policy \<Rightarrow> PolicyRule \<Rightarrow> nbPeer list \<times> bool"
  assumes srcs_peers: "wf s \<Longrightarrow> set (fst (srcs s p r)) \<subseteq> peers s"
    and dsts_peers: "wf s \<Longrightarrow> set (fst (dsts s p r)) \<subseteq> peers s"
    and inj_ID: "wf s \<Longrightarrow> inj_on np_ID (peers s)"
    and rule_ids: "wf s \<Longrightarrow> (p, r) \<in> enabled_rules (policies s) \<Longrightarrow> (p', r') \<in> enabled_rules (policies s) \<Longrightarrow>
      length (pr_ID r) = length (pr_ID r') \<and> (pr_ID r = pr_ID r' \<longrightarrow> r = r')"
begin

lemma grant_cases:
  assumes "wf s" "(r, p, d) \<in> all_grants (srcs s) (dsts s) (policies s)"
  shows "\<exists>pol. (pol, r) \<in> enabled_rules (policies s)" "p \<in> peers s"
    "d = FirewallRuleDirectionIN \<or> d = FirewallRuleDirectionOUT"
proof -
  obtain pol where e: "(pol, r) \<in> enabled_rules (policies s)" and g: "(r, p, d) \<in> rule_grants r (srcs s pol r) (dsts s pol r)"
    using assms(2) by (auto simp: mem_all_grants mem_rule_grants)
  show "\<exists>pol. (pol, r) \<in> enabled_rules (policies s)" using e by blast
  show "p \<in> peers s"
    using g srcs_peers [OF assms(1), of pol r] dsts_peers [OF assms(1), of pol r] by (auto simp: mem_rule_grants rule_admits_def)
  show "d = FirewallRuleDirectionIN \<or> d = FirewallRuleDirectionOUT" using g by (auto simp: mem_rule_grants rule_admits_def)
qed

lemma provider_grants_ok:
  assumes wf: "wf s"
  shows "grants_ok lib target (all_grants (srcs s) (dsts s) (policies s))"
  unfolding grants_ok_def
proof (intro allI impI conjI)
  fix r p d r' p' d'
  assume g: "(r, p, d) \<in> all_grants (srcs s) (dsts s) (policies s)"
    and g': "(r', p', d') \<in> all_grants (srcs s) (dsts s) (policies s)"
  note c = grant_cases [OF wf g] and c' = grant_cases [OF wf g']
  show "p = p'" if "np_ID p = np_ID p'"
    using inj_ID [OF wf] that c(2) c'(2) by (rule inj_onD)
  show "expand_rule lib target r (np_IP p) d = expand_rule lib target r' (np_IP p') d'"
    if key: "rule_key r (np_IP p) d = rule_key r' (np_IP p') d'"
  proof -
    have "length (pr_ID r) = length (pr_ID r')" "pr_ID r = pr_ID r' \<Longrightarrow> r = r'"
      using c(1) c'(1) rule_ids [OF wf] by blast+
    from rule_key_inj [OF this c(3) c'(3) key] show ?thesis by simp
  qed
qed

lemma provider_result:
  assumes wf: "wf s"
    and R: "conn_result (fold (policy_step lib users allowed target (srcs s) (dsts s)) (policies s) (acl_start, au)) = (ps, rs, rest)"
  shows "set ps = grant_peers_of (all_grants (srcs s) (dsts s) (policies s))"
    and "set rs = grant_rules_of lib target (all_grants (srcs s) (dsts s) (policies s))"
    and "distinct (map np_ID ps)"
proof -
  let ?st = "fold (policy_step lib users allowed target (srcs s) (dsts s)) (policies s) (acl_start, au)"
  have "acl_inv lib target (all_grants (srcs s) (dsts s) (policies s)) (fst ?st)"
    by (rule policies_inv) (rule provider_grants_ok [OF wf])
  moreover have "ps = acl_peers (fst ?st)" "rs = acl_rules (fst ?st)"
    using R unfolding conn_result_def by (auto split: prod.splits)
  ultimately show "set ps = grant_peers_of (all_grants (srcs s) (dsts s) (policies s))"
    "set rs = grant_rules_of lib target (all_grants (srcs s) (dsts s) (policies s))" "distinct (map np_ID ps)"
    unfolding acl_inv_def by auto
qed

end

section \<open>The account as the provider of the sides\<close>

definition is_order :: "(string list \<Rightarrow> string list) \<Rightarrow> bool" where
  "is_order ord \<longleftrightarrow> (\<forall>xs. mset (ord xs) = mset xs)"

definition account_rules :: "Account \<Rightarrow> PolicyRule list" where
  "account_rules a = concat (map pol_Rules (acc_Policies a))"

text \<open>
  What the store guarantees of an account: peers are kept under their ids and have different addresses, and
  the ids of the rules, which are generated, differ and have one length.
\<close>

definition account_ok :: "Account \<Rightarrow> bool" where
  "account_ok a \<longleftrightarrow>
     list_all (\<lambda>(k, p). np_ID p = k) (acc_Peers a) \<and> distinct (map fst (acc_Peers a))
     \<and> distinct (map (\<lambda>(k, p). np_IP p) (acc_Peers a))
     \<and> distinct (map pr_ID (account_rules a))
     \<and> list_all (\<lambda>r. length (pr_ID r) = length (pr_ID (hd (account_rules a)))) (account_rules a)"

definition account_grants ::
    "version_lib \<Rightarrow> (string list \<Rightarrow> string list) \<Rightarrow> Account \<Rightarrow> string set \<Rightarrow> string \<Rightarrow> grant set" where
  "account_grants lib ord a validated x =
     all_grants (rule_sources lib ord a validated x) (rule_destinations lib ord a validated x) (acc_Policies a)"

lemma is_order_set: "is_order ord \<Longrightarrow> set (ord xs) = set xs"
  unfolding is_order_def by (metis set_mset_mset)

lemma set_collect_group_peers:
  "is_order ord \<Longrightarrow> set (collect_group_peers groups n gids acc ord) = set (collect_group_peers groups n gids acc id)"
  by (induction groups n gids acc ord rule: collect_group_peers.induct) (auto simp: is_order_set split: option.split)

lemma set_sides:
  assumes "is_order ord"
  shows "set (source_side lib ord a validated p r) = set (source_side lib id a validated p r)"
    "set (destination_side lib ord a validated p r) = set (destination_side lib id a validated p r)"
  using set_collect_group_peers [OF assms]
  by (simp_all add: source_side_def destination_side_def set_map_filter getUniquePeerIDsFromGroupsIDs_def)

lemma account_grants_split:
  "account_grants lib ord a validated x =
     all_grants (\<lambda>p r. split_side x (source_side lib ord a validated p r))
       (\<lambda>p r. split_side x (destination_side lib ord a validated p r)) (acc_Policies a)"
  by (simp add: account_grants_def rule_sources_split [abs_def] rule_destinations_split [abs_def])

lemma account_grants_order: "is_order ord \<Longrightarrow> account_grants lib ord a validated x = account_grants lib id a validated x"
  by (auto simp: account_grants_split grants_iff set_sides)

lemma eligible_peer_GetPeer: "eligible_peer lib a checks validated i = Some p \<Longrightarrow> GetPeer a i = Some p"
  by (simp add: eligible_peer_def split: option.splits if_splits)

lemma sides_in_account:
  "set (source_side lib ord a validated p r) \<subseteq> ran (GetPeer a)"
  "set (destination_side lib ord a validated p r) \<subseteq> ran (GetPeer a)"
  by (auto simp: source_side_def destination_side_def set_map_filter ran_def dest: eligible_peer_GetPeer split: option.splits)

lemma GetPeer_ID: "account_ok a \<Longrightarrow> GetPeer a i = Some p \<Longrightarrow> np_ID p = i"
  by (auto simp: account_ok_def GetPeer_def list_all_iff dest: map_of_SomeD)

lemma account_inj_ID: "account_ok a \<Longrightarrow> inj_on np_ID (ran (GetPeer a))"
proof (rule inj_onI)
  fix p q assume ok: "account_ok a" and pq: "p \<in> ran (GetPeer a)" "q \<in> ran (GetPeer a)" "np_ID p = np_ID q"
  then obtain i j where "GetPeer a i = Some p" "GetPeer a j = Some q" by (auto simp: ran_def)
  moreover from this have "i = j" using GetPeer_ID [OF ok] pq(3) by metis
  ultimately show "p = q" by simp
qed

lemma account_inj_IP:
  assumes "account_ok a"
  shows "inj_on np_IP (ran (GetPeer a))"
proof (rule inj_onI)
  fix p q assume pq: "p \<in> ran (GetPeer a)" "q \<in> ran (GetPeer a)" "np_IP p = np_IP q"
  then obtain i j where "(i, p) \<in> set (acc_Peers a)" "(j, q) \<in> set (acc_Peers a)"
    by (auto simp: ran_def GetPeer_def dest: map_of_SomeD)
  moreover have "inj_on (\<lambda>(k, p). np_IP p) (set (acc_Peers a))"
    using assms by (simp add: account_ok_def distinct_map)
  ultimately have "(i, p) = (j, q)" using pq(3) by (auto simp: inj_on_def)
  then show "p = q" by simp
qed

lemma grant_in_account:
  assumes "(r, p, d) \<in> account_grants lib ord a validated x"
  shows "r \<in> set (account_rules a)" "p \<in> ran (GetPeer a)" "d = FirewallRuleDirectionIN \<or> d = FirewallRuleDirectionOUT"
    "np_ID p \<noteq> x"
  using assms sides_in_account
  by (fastforce simp: account_grants_split grants_iff enabled_rules_def account_rules_def rule_admits_def)+

text \<open>The account is such a provider.\<close>

interpretation account_acl: acl_provider "\<lambda>(lib, ord, a, validated, x). account_ok a"
  "\<lambda>(lib, ord, a, validated, x). ran (GetPeer a)" "\<lambda>(lib, ord, a, validated, x). acc_Policies a"
  "\<lambda>(lib, ord, a, validated, x). rule_sources lib ord a validated x"
  "\<lambda>(lib, ord, a, validated, x). rule_destinations lib ord a validated x"
proof (unfold_locales, goal_cases)
  case (1 s p r)
  then show ?case using sides_in_account by (cases s) (fastforce simp: rule_sources_split split_side_def)
next
  case (2 s p r)
  then show ?case using sides_in_account by (cases s) (fastforce simp: rule_destinations_split split_side_def)
next
  case (3 s)
  then show ?case by (cases s) (simp add: account_inj_ID)
next
  case (4 s p r p' r')
  then show ?case
    by (cases s) (auto simp: account_ok_def list_all_iff distinct_map inj_on_def enabled_rules_def account_rules_def)
qed

section \<open>Rules come in pairs\<close>

definition same_features :: "version_lib \<Rightarrow> nbPeer \<Rightarrow> nbPeer \<Rightarrow> bool" where
  "same_features lib x y \<longleftrightarrow>
     peerSupportedFirewallFeatures lib (pm_WtVersion (np_Meta x)) = peerSupportedFirewallFeatures lib (pm_WtVersion (np_Meta y))
     \<and> np_SSHEnabled x = np_SSHEnabled y
     \<and> ServerSSHAllowed (pm_Flags (np_Meta x)) = ServerSSHAllowed (pm_Flags (np_Meta y))"

lemma expand_rule_same_features: "same_features lib x y \<Longrightarrow> expand_rule lib x rule ip d = expand_rule lib y rule ip d"
  by (simp add: expand_rule_def expandPortsAndRanges_def same_features_def shouldCheckRulesForNativeSSH_def Let_def)

lemma GetPeerConnectionResources_grants:
  assumes ok: "account_ok a" and ord: "is_order ord"
    and R: "GetPeerConnectionResources lib ord a x validated users = (ps, rs, au, ssh)"
  shows "set ps = grant_peers_of (account_grants lib id a validated (np_ID x))"
    and "set rs = grant_rules_of lib x (account_grants lib id a validated (np_ID x))"
    and "distinct (map np_ID ps)"
  using account_acl.provider_result [of "(lib, ord, a, validated, np_ID x)" lib users "getAllowedUserIDs a" x
      "(Map.empty, False)" ps rs "(au, ssh)"] ok R account_grants_order [OF ord, of lib a validated "np_ID x"]
  unfolding GetPeerConnectionResources_def account_grants_def by simp_all

lemma account_peers_iff:
  "q \<in> grant_peers_of (account_grants lib ord a validated k) \<longleftrightarrow>
     (\<exists>r. (r, q, FirewallRuleDirectionIN) \<in> account_grants lib ord a validated k
        \<or> (r, q, FirewallRuleDirectionOUT) \<in> account_grants lib ord a validated k)"
proof
  assume "q \<in> grant_peers_of (account_grants lib ord a validated k)"
  then obtain r d where "(r, q, d) \<in> account_grants lib ord a validated k"
    by (auto simp: grant_peers_of_def)
  then show "\<exists>r. (r, q, FirewallRuleDirectionIN) \<in> account_grants lib ord a validated k
      \<or> (r, q, FirewallRuleDirectionOUT) \<in> account_grants lib ord a validated k"
    using grant_in_account(3) [of r q d] by blast
qed (force simp: grant_peers_of_def)

lemma account_grants_mirror:
  assumes ok: "account_ok a" and x: "x \<in> ran (GetPeer a)" and y: "y \<in> ran (GetPeer a)" and xy: "np_ID x \<noteq> np_ID y"
    and d: "{d, d'} = {FirewallRuleDirectionIN, FirewallRuleDirectionOUT}"
  shows "(r, y, d) \<in> account_grants lib id a validated (np_ID x) \<longleftrightarrow> (r, x, d') \<in> account_grants lib id a validated (np_ID y)"
  unfolding account_grants_split
  by (rule grants_mirror [OF _ _ xy d]) (rule inj_on_subset [OF account_inj_ID [OF ok]]; use x y sides_in_account in blast)+

lemma expand_rule_fields:
  assumes "fr \<in> set (expand_rule lib x r ip d)"
  shows "fw_PeerIP fr = ip" "fw_Direction fr = d"
proof -
  have "fr \<in> retarget ip d ` set (expand_rule lib x r ip d)"
    using assms expand_rule_retarget [of lib x r ip d ip d] by (metis set_map)
  then show "fw_PeerIP fr = ip" "fw_Direction fr = d" by (auto simp: retarget_def)
qed

lemma retarget_in_grant_rules:
  assumes ok: "account_ok a" and y: "y \<in> ran (GetPeer a)"
  shows "retarget (np_IP y) d fr \<in> grant_rules_of lib x (account_grants lib id a validated i) \<longleftrightarrow>
    (\<exists>r. (r, y, d) \<in> account_grants lib id a validated i \<and> retarget (np_IP y) d fr \<in> set (expand_rule lib x r (np_IP y) d))"
proof -
  have "p = y \<and> e = d"
    if g: "(r, p, e) \<in> account_grants lib id a validated i" and fr: "retarget (np_IP y) d fr \<in> set (expand_rule lib x r (np_IP p) e)" for r p e
  proof -
    have "np_IP y = np_IP p" "d = e" using expand_rule_fields [OF fr] by (simp_all add: retarget_def)
    then show ?thesis
      using inj_onD [OF account_inj_IP [OF ok] _ grant_in_account(2) [OF g] y] by simp
  qed
  then show ?thesis unfolding grant_rules_of_def by fast
qed

lemma grant_rules_mirror:
  assumes ok: "account_ok a" and x: "x \<in> ran (GetPeer a)" and y: "y \<in> ran (GetPeer a)" and xy: "np_ID x \<noteq> np_ID y"
    and feat: "same_features lib x y" and d: "{d, d'} = {FirewallRuleDirectionIN, FirewallRuleDirectionOUT}"
  shows "retarget (np_IP y) d fr \<in> grant_rules_of lib x (account_grants lib id a validated (np_ID x)) \<longleftrightarrow>
         retarget (np_IP x) d' fr \<in> grant_rules_of lib y (account_grants lib id a validated (np_ID y))"
proof -
  have swap: "retarget (np_IP x) d' fr \<in> set (expand_rule lib y r (np_IP x) d')"
    if "retarget (np_IP y) d fr \<in> set (expand_rule lib x r (np_IP y) d)" "same_features lib x y" for r x y d d'
  proof -
    have "retarget (np_IP x) d' (retarget (np_IP y) d fr) \<in> set (expand_rule lib x r (np_IP x) d')"
      unfolding expand_rule_retarget [of lib x r "np_IP x" d' "np_IP y" d] using that(1) by simp
    then show ?thesis by (simp add: retarget_def expand_rule_same_features [OF that(2)])
  qed
  have feat': "same_features lib y x" using feat by (simp add: same_features_def)
  show ?thesis
    unfolding retarget_in_grant_rules [OF ok y] retarget_in_grant_rules [OF ok x] account_grants_mirror [OF ok x y xy d]
    using swap [OF _ feat] swap [OF _ feat'] by blast
qed


definition example_lib :: version_lib where
  "example_lib = \<lparr>NewVersion_ok = (\<lambda>_. True), NewConstraint_ok = (\<lambda>_. True), Constraints_Check = (\<lambda>_ _. True)\<rparr>"

definition example_meta :: PeerSystemMeta where
  "example_meta = \<lparr>pm_Hostname = '''', pm_GoOS = ''windows'', pm_Kernel = '''', pm_Core = '''', pm_Platform = '''', pm_OS = '''',
     pm_OSVersion = '''', pm_WtVersion = ''0.60.1'', pm_UIVersion = '''', pm_KernelVersion = '''', pm_NetworkAddresses = [],
     pm_SystemSerialNumber = '''', pm_SystemProductName = '''', pm_SystemManufacturer = '''',
     pm_Environment = \<lparr>env_Cloud = '''', env_Platform = ''''\<rparr>,
     pm_Flags = \<lparr>RosenpassEnabled = False, RosenpassPermissive = False, ServerSSHAllowed = False, DisableClientRoutes = False,
       DisableServerRoutes = False, DisableDNS = False, DisableFirewall = False, BlockLANAccess = False,
       BlockInbound = False, LazyConnectionEnabled = False\<rparr>,
     pm_Files = [], pm_PeerType = '''', pm_AuthMethod = '''', pm_CertDNSName = '''', pm_CertDomain = '''', pm_CertIssuerFP = '''',
     pm_CertSerial = '''', pm_CertTemplate = '''', pm_FirstAuthTime = '''', pm_LastCertAuthTime = ''''\<rparr>"

definition example_peer :: "string \<Rightarrow> string \<Rightarrow> nbPeer" where
  "example_peer i ip = \<lparr>np_ID = i, np_AccountID = ''acme'', np_Key = i, np_IP = ip, np_Meta = example_meta,
     np_ProxyMeta = \<lparr>proxy_Embedded = False, proxy_Cluster = ''''\<rparr>, np_Name = i, np_DNSLabel = i, np_Status = None,
     np_UserID = '''', np_SSHKey = '''', np_SSHEnabled = False, np_LoginExpirationEnabled = False,
     np_InactivityExpirationEnabled = False, np_LastLogin = None, np_CreatedAt = 0, np_Ephemeral = False,
     np_Location = \<lparr>loc_ConnectionIP = '''', loc_CountryCode = '''', loc_CityName = '''', loc_GeoNameID = 0\<rparr>,
     np_ExtraDNSLabels = [], np_AllowExtraDNSLabels = False\<rparr>"

definition example_group :: "string \<Rightarrow> string list \<Rightarrow> Group" where
  "example_group i ps = \<lparr>grp_ID = i, grp_AccountID = ''acme'', grp_Name = i, grp_Issued = '''', grp_Peers = ps,
     grp_GroupPeers = [], grp_Resources = []\<rparr>"

definition example_account :: Account where
  "example_account = \<lparr>acc_Id = ''acme'',
     acc_Peers = [(''pc'', example_peer ''pc'' ''100.64.0.1''), (''dc'', example_peer ''dc'' ''100.64.0.2'')],
     acc_Users = [], acc_Groups = [(''All'', example_group ''All'' [''pc'', ''dc'']),
       (''clients'', example_group ''clients'' [''pc'']), (''servers'', example_group ''servers'' [''dc''])],
     acc_Policies = [example_policy [(example_rule ''r'' [''clients''])\<lparr>pr_Protocol := PolicyRuleProtocolTCP,
       pr_Destinations := [''servers''], pr_Bidirectional := False, pr_Ports := [''445'']\<rparr>]],
     acc_Routes = [], acc_NameServerGroups = [], acc_DisabledManagementGroups = [], acc_PostureChecks = [],
     acc_Settings = \<lparr>PeerLoginExpirationEnabled = False, PeerLoginExpiration = 0,
       PeerInactivityExpirationEnabled = False, PeerInactivityExpiration = 0\<rparr>,
     acc_NetworkRouters = [], acc_NetworkResources = [], acc_Serial = 0\<rparr>"


end
