(* ===== verification/AccountDns.thy ===== *)
theory AccountDns
  imports Account
begin

text \<open>
  The DNS part of a network map (\<open>management/server/types/account.go\<close>, \<open>account_components.go\<close>): the zone with the
  names of the peers, the zones of the account, and the nameserver groups of a peer. Addresses are kept in
  the form they print in; \<open>Fqdn\<close>, of the DNS library, is a parameter.
\<close>

section \<open>Records and zones\<close>

record SimpleRecord =
  sr_Name :: string
  sr_Type :: nat
  sr_Class :: string
  sr_TTL :: int
  sr_RData :: string

record CustomZone =
  cz_Domain :: string
  cz_Records :: "SimpleRecord list"
  cz_SearchDomainDisabled :: bool
  cz_NonAuthoritative :: bool

record zone_Record =
  zr_Name :: string
  zr_Type :: string
  zr_Content :: string
  zr_TTL :: int

record Zone =
  zn_Domain :: string
  zn_Enabled :: bool
  zn_EnableSearchDomain :: bool
  zn_DistributionGroups :: "string list"
  zn_Records :: "zone_Record list"

definition DefaultClass :: string where "DefaultClass = ''IN''"
definition defaultTTL :: int where "defaultTTL = 300"
definition dns_TypeA :: nat where "dns_TypeA = 1"
definition dns_TypeCNAME :: nat where "dns_TypeCNAME = 5"
definition dns_TypeAAAA :: nat where "dns_TypeAAAA = 28"

section \<open>The zone of the peers\<close>

definition peer_record :: "string \<Rightarrow> nbPeer \<Rightarrow> string \<Rightarrow> SimpleRecord" where
  "peer_record dnsDomain peer label =
     \<lparr>sr_Name = label @ ''.'' @ dnsDomain, sr_Type = dns_TypeA, sr_Class = DefaultClass, sr_TTL = defaultTTL,
      sr_RData = np_IP peer\<rparr>"

definition peer_records :: "string \<Rightarrow> nbPeer \<Rightarrow> SimpleRecord list" where
  "peer_records dnsDomain peer =
     (if np_DNSLabel peer = '''' then []
      else peer_record dnsDomain peer (np_DNSLabel peer) # map (peer_record dnsDomain peer) (np_ExtraDNSLabels peer))"

definition GetPeersCustomZone :: "(string \<Rightarrow> string) \<Rightarrow> Account \<Rightarrow> string \<Rightarrow> CustomZone" where
  "GetPeersCustomZone Fqdn a dnsDomain =
     (if dnsDomain = ''''
      then \<lparr>cz_Domain = '''', cz_Records = [], cz_SearchDomainDisabled = False, cz_NonAuthoritative = False\<rparr>
      else \<lparr>cz_Domain = Fqdn dnsDomain, cz_Records = concat (map (\<lambda>(_, p). peer_records dnsDomain p) (acc_Peers a)),
            cz_SearchDomainDisabled = False, cz_NonAuthoritative = False\<rparr>)"

definition filterZoneRecordsForPeers :: "nbPeer \<Rightarrow> CustomZone \<Rightarrow> nbPeer list \<Rightarrow> nbPeer list \<Rightarrow> SimpleRecord list" where
  "filterZoneRecordsForPeers peer customZone peersToConnect expiredPeers =
     (let peerIPs = insert (np_IP peer) (np_IP ` set peersToConnect \<union> np_IP ` set expiredPeers)
      in filter (\<lambda>r. sr_RData r \<in> peerIPs) (cz_Records customZone))"

section \<open>The zones of the account\<close>

definition zone_record :: "(string \<Rightarrow> string) \<Rightarrow> zone_Record \<Rightarrow> SimpleRecord option" where
  "zone_record Fqdn r =
     (let result = (\<lambda>recordType rData. Some \<lparr>sr_Name = Fqdn (zr_Name r), sr_Type = recordType, sr_Class = DefaultClass,
                      sr_TTL = zr_TTL r, sr_RData = rData\<rparr>)
      in if zr_Type r = ''A'' then result dns_TypeA (zr_Content r)
         else if zr_Type r = ''AAAA'' then result dns_TypeAAAA (zr_Content r)
         else if zr_Type r = ''CNAME'' then result dns_TypeCNAME (Fqdn (zr_Content r))
         else None)"

definition applied_zone :: "(string \<Rightarrow> string) \<Rightarrow> string set \<Rightarrow> Zone \<Rightarrow> CustomZone option" where
  "applied_zone Fqdn peerGroups z =
     (if \<not> zn_Enabled z \<or> length (zn_Records z) = 0 then None
      else if \<not> list_ex (\<lambda>g. g \<in> peerGroups) (zn_DistributionGroups z) then None
      else Some \<lparr>cz_Domain = Fqdn (zn_Domain z), cz_Records = List.map_filter (zone_record Fqdn) (zn_Records z),
                 cz_SearchDomainDisabled = (\<not> zn_EnableSearchDomain z), cz_NonAuthoritative = True\<rparr>)"

definition filterPeerAppliedZones :: "(string \<Rightarrow> string) \<Rightarrow> Zone list \<Rightarrow> string set \<Rightarrow> CustomZone list" where
  "filterPeerAppliedZones Fqdn accountZones peerGroups =
     (if peerGroups = {} then [] else List.map_filter (applied_zone Fqdn peerGroups) accountZones)"

section \<open>Nameservers\<close>

definition NameServerGroup_Copy :: "NameServerGroup \<Rightarrow> NameServerGroup" where
  "NameServerGroup_Copy g =
     \<lparr>nsg_ID = nsg_ID g, nsg_AccountID = '''', nsg_Name = nsg_Name g, nsg_Description = nsg_Description g,
      nsg_NameServers = nsg_NameServers g, nsg_Groups = nsg_Groups g, nsg_Primary = nsg_Primary g,
      nsg_Domains = nsg_Domains g, nsg_Enabled = nsg_Enabled g, nsg_SearchDomainsEnabled = nsg_SearchDomainsEnabled g\<rparr>"

text \<open>\<open>IP.Equal\<close> takes an IPv4 address and its IPv4-in-IPv6 form as equal.\<close>

definition peerIsNameserver :: "nbPeer \<Rightarrow> NameServerGroup \<Rightarrow> bool" where
  "peerIsNameserver peer nsGroup =
     list_ex (\<lambda>ns. ns_IP ns = np_IP peer \<or> ns_IP ns = ''::ffff:'' @ np_IP peer) (nsg_NameServers nsGroup)"

text \<open>
  A group is copied at the first of its distribution groups the peer is in, unless the peer serves it.
  Asking whether a peer that does not exist is a nameserver dereferences nil; such a peer is in no group the
  loop reaches, unless a group lists an unknown peer.
\<close>

fun getPeerNSGroups_loop :: "nbPeer option \<Rightarrow> string set \<Rightarrow> NameServerGroup list \<Rightarrow> NameServerGroup list option" where
  "getPeerNSGroups_loop peer groupList [] = Some []"
| "getPeerNSGroups_loop peer groupList (nsGroup # rest) =
     (if \<not> nsg_Enabled nsGroup \<or> \<not> list_ex (\<lambda>g. g \<in> groupList) (nsg_Groups nsGroup)
      then getPeerNSGroups_loop peer groupList rest
      else case peer of
             None \<Rightarrow> if nsg_NameServers nsGroup = []
                     then map_option (\<lambda>gs. NameServerGroup_Copy nsGroup # gs) (getPeerNSGroups_loop peer groupList rest)
                     else None
           | Some p \<Rightarrow>
               if peerIsNameserver p nsGroup then getPeerNSGroups_loop peer groupList rest
               else map_option (\<lambda>gs. NameServerGroup_Copy nsGroup # gs) (getPeerNSGroups_loop peer groupList rest))"

definition getPeerNSGroups :: "Account \<Rightarrow> string \<Rightarrow> NameServerGroup list option" where
  "getPeerNSGroups a peerID =
     getPeerNSGroups_loop (GetPeer a peerID) (GetPeerGroups a peerID) (map snd (acc_NameServerGroups a))"

end
