(* ===== verification/Components.thy ===== *)
theory Components
  imports AccountAcl AccountDns
begin

text \<open>
  The second way to a network map: \<open>account_components.go\<close> extracts from an account the parts that matter for one
  peer, and \<open>networkmap_components.go\<close> computes from them alone. The extraction with all its state, and the
  computation of the peers and firewall rules. Maps of pointers can hold nil: they are association lists of
  options. A nil dereference or an index out of range is the value \<open>None\<close> of the extraction.
\<close>

section \<open>Data\<close>

type_synonym 'a ptr_map = "(string \<times> 'a option) list"

definition ptr_lookup :: "'a ptr_map \<Rightarrow> string \<Rightarrow> 'a option" where
  "ptr_lookup m k = (case map_of m k of Some v \<Rightarrow> v | None \<Rightarrow> None)"

definition has_key :: "(string \<times> 'a) list \<Rightarrow> string \<Rightarrow> bool" where
  "has_key m k \<longleftrightarrow> map_of m k \<noteq> None"

type_synonym failed_peers = "string \<rightharpoonup> string set"

record NetworkMapComponents =
  c_PeerID :: string
  c_Serial :: uint64
  c_AccountSettings :: Settings
  c_DisabledManagementGroups :: "string list"
  c_CustomZoneDomain :: string
  c_Peers :: "nbPeer ptr_map"
  c_Groups :: "Group ptr_map"
  c_Policies :: "Policy list"
  c_Routes :: "Route list"
  c_NameServerGroups :: "NameServerGroup list"
  c_AllDNSRecords :: "SimpleRecord list"
  c_AccountZones :: "CustomZone list"
  c_ResourcePoliciesMap :: "(string \<times> Policy list) list"
  c_RoutersMap :: "(string \<times> (string \<times> NetworkRouter) list) list"
  c_NetworkResources :: "NetworkResource list"
  c_GroupIDToUserIDs :: "string \<rightharpoonup> string list"
  c_AllowedUserIDs :: "string set option"
  c_PostureFailedPeers :: failed_peers
  c_RouterPeers :: "(string \<times> nbPeer) list"

section \<open>Posture checks, remembering what failed\<close>

definition fails_posture :: "version_lib \<Rightarrow> Account \<Rightarrow> nbPeer \<Rightarrow> string \<Rightarrow> bool" where
  "fails_posture lib a peer i =
     (case GetPostureChecks a i of
        None \<Rightarrow> False
      | Some pc \<Rightarrow> \<not> list_all (\<lambda>c. check_ok lib c peer) (GetChecks pc))"

definition validatePostureChecksOnPeerGetFailed :: "version_lib \<Rightarrow> Account \<Rightarrow> string list \<Rightarrow> string \<Rightarrow> bool \<times> string" where
  "validatePostureChecksOnPeerGetFailed lib a checkIDs peerID =
     (case GetPeer a peerID of
        None \<Rightarrow> (False, '''')
      | Some peer \<Rightarrow>
          (case find (fails_posture lib a peer) checkIDs of
             None \<Rightarrow> (True, '''')
           | Some i \<Rightarrow> (False, i)))"

definition record_failed :: "string \<Rightarrow> string \<Rightarrow> failed_peers \<Rightarrow> failed_peers" where
  "record_failed pname peerID pf = pf(pname \<mapsto> insert peerID (case pf pname of None \<Rightarrow> {} | Some s \<Rightarrow> s))"

section \<open>The peers of a list of groups\<close>

text \<open>The state of the loop: the collected ids, whether the peer itself was met, and the failures.\<close>

type_synonym collect_state = "string list \<times> bool \<times> failed_peers"

definition take_group_peer ::
    "version_lib \<Rightarrow> Account \<Rightarrow> string list \<Rightarrow> string set \<Rightarrow> string \<Rightarrow> string \<Rightarrow> collect_state \<Rightarrow> collect_state" where
  "take_group_peer lib a checkIDs validated peerID pid = (\<lambda>(filtered, inGroups, pf).
     case GetPeer a pid of
       None \<Rightarrow> (filtered, inGroups, pf)
     | Some peer \<Rightarrow>
         if np_ID peer \<notin> validated then (filtered, inGroups, pf)
         else (let (isValid, pname) = validatePostureChecksOnPeerGetFailed lib a checkIDs (np_ID peer)
               in if \<not> isValid \<and> pname \<noteq> '''' then (filtered, inGroups, record_failed pname (np_ID peer) pf)
                  else if np_ID peer = peerID then (filtered, True, pf)
                  else (filtered @ [np_ID peer], inGroups, pf)))"

definition take_unseen_peer ::
    "version_lib \<Rightarrow> Account \<Rightarrow> string list \<Rightarrow> string set \<Rightarrow> string \<Rightarrow> string \<Rightarrow> string set \<times> collect_state \<Rightarrow> string set \<times> collect_state" where
  "take_unseen_peer lib a checkIDs validated peerID pid = (\<lambda>(seen, st).
     if pid \<in> seen then (seen, st) else (insert pid seen, take_group_peer lib a checkIDs validated peerID pid st))"

fun peers_from_groups ::
    "version_lib \<Rightarrow> Account \<Rightarrow> string list \<Rightarrow> string set \<Rightarrow> string \<Rightarrow> nat \<Rightarrow> string list \<Rightarrow> string set \<times> collect_state \<Rightarrow> collect_state" where
  "peers_from_groups lib a checkIDs validated peerID n [] st = snd st"
| "peers_from_groups lib a checkIDs validated peerID n (gid # gids) st =
     (case GetGroup a gid of
        None \<Rightarrow> peers_from_groups lib a checkIDs validated peerID n gids st
      | Some g \<Rightarrow>
          if IsGroupAll g \<or> n = 1
          then fold (take_group_peer lib a checkIDs validated peerID) (grp_Peers g) ([], False, snd (snd (snd st)))
          else peers_from_groups lib a checkIDs validated peerID n gids
                 (fold (take_unseen_peer lib a checkIDs validated peerID) (grp_Peers g) st))"

definition getPeersFromGroups ::
    "version_lib \<Rightarrow> Account \<Rightarrow> string list \<Rightarrow> string \<Rightarrow> string list \<Rightarrow> string set \<Rightarrow> failed_peers \<Rightarrow> collect_state" where
  "getPeersFromGroups lib a groups peerID checkIDs validated pf =
     peers_from_groups lib a checkIDs validated peerID (length groups) groups ({}, [], False, pf)"

section \<open>Relevant peers, groups and policies\<close>

record relevant =
  rel_peers :: "nbPeer ptr_map"
  rel_groups :: "Group ptr_map"
  rel_failed :: failed_peers
  neededGroupIDs :: "string set"
  needAllowedUserIDs :: bool

definition add_groups :: "Account \<Rightarrow> string list \<Rightarrow> Group ptr_map \<Rightarrow> Group ptr_map" where
  "add_groups a gids gs = fold (\<lambda>g. AList.update g (GetGroup a g)) gids gs"

definition add_peers :: "Account \<Rightarrow> string list \<Rightarrow> nbPeer ptr_map \<Rightarrow> nbPeer ptr_map" where
  "add_peers a pids ps = fold (\<lambda>p. AList.update p (GetPeer a p)) pids ps"

definition relevant_side ::
    "version_lib \<Rightarrow> Account \<Rightarrow> Resource \<Rightarrow> string list \<Rightarrow> string \<Rightarrow> string list \<Rightarrow> string set \<Rightarrow> failed_peers \<Rightarrow> collect_state" where
  "relevant_side lib a resource groups peerID checkIDs validated pf =
     (if is_peer_resource resource then ([res_ID resource], res_ID resource = peerID, pf)
      else getPeersFromGroups lib a groups peerID checkIDs validated pf)"

definition ssh_needs :: "bool \<Rightarrow> PolicyRule \<Rightarrow> relevant \<Rightarrow> relevant" where
  "ssh_needs peerSSHEnabled rule st =
     (if pr_Protocol rule = PolicyRuleProtocolNetbirdSSH
      then if length (pr_AuthorizedGroups rule) > 0
           then st\<lparr>neededGroupIDs := neededGroupIDs st \<union> fst ` set (pr_AuthorizedGroups rule)\<rparr>
           else if pr_AuthorizedUser rule \<noteq> '''' then st
           else st\<lparr>needAllowedUserIDs := True\<rparr>
      else if policyRuleImpliesLegacySSH rule \<and> peerSSHEnabled then st\<lparr>needAllowedUserIDs := True\<rparr>
      else st)"

definition relevant_rule ::
    "version_lib \<Rightarrow> Account \<Rightarrow> string set \<Rightarrow> string \<Rightarrow> bool \<Rightarrow> string set \<Rightarrow> Policy \<Rightarrow> PolicyRule \<Rightarrow> bool \<times> relevant \<Rightarrow> bool \<times> relevant" where
  "relevant_rule lib a validated peerID peerSSHEnabled routeGroups policy rule = (\<lambda>(policyRelevant, st).
     if \<not> pr_Enabled rule then (policyRelevant, st)
     else
       (let routed = list_ex (\<lambda>d. d \<in> routeGroups) (pr_Destinations rule);
            st = (if routed
                  then st\<lparr>rel_groups := add_groups a (pr_Destinations rule) (add_groups a (pr_Sources rule) (rel_groups st))\<rparr>
                  else st);
            (sourcePeers, inS, pf) = relevant_side lib a (pr_SourceResource rule) (pr_Sources rule) peerID
                                       (pol_SourcePostureChecks policy) validated (rel_failed st);
            (destinationPeers, inD, pf) = relevant_side lib a (pr_DestinationResource rule) (pr_Destinations rule) peerID
                                            [] validated pf;
            st = st\<lparr>rel_failed := pf\<rparr>;
            st = (if inS
                  then st\<lparr>rel_peers := add_peers a destinationPeers (rel_peers st),
                          rel_groups := add_groups a (pr_Destinations rule) (rel_groups st)\<rparr>
                  else st);
            st = (if inD
                  then ssh_needs peerSSHEnabled rule
                         (st\<lparr>rel_peers := add_peers a sourcePeers (rel_peers st),
                             rel_groups := add_groups a (pr_Sources rule) (rel_groups st)\<rparr>)
                  else st)
        in (policyRelevant \<or> routed \<or> inS \<or> inD, st)))"

definition relevant_policy ::
    "version_lib \<Rightarrow> Account \<Rightarrow> string set \<Rightarrow> string \<Rightarrow> bool \<Rightarrow> string set \<Rightarrow> Policy \<Rightarrow> Policy list \<times> relevant \<Rightarrow> Policy list \<times> relevant" where
  "relevant_policy lib a validated peerID peerSSHEnabled routeGroups policy = (\<lambda>(policies, st).
     if \<not> pol_Enabled policy then (policies, st)
     else (let (policyRelevant, st) = fold (relevant_rule lib a validated peerID peerSSHEnabled routeGroups policy)
                                        (pol_Rules policy) (False, st)
           in (if policyRelevant then policies @ [policy] else policies, st)))"

definition own_groups :: "Account \<Rightarrow> string \<Rightarrow> Group ptr_map" where
  "own_groups a peerID =
     fold (\<lambda>(gid, g) gs. if peerID \<in> set (grp_Peers g) then AList.update gid (GetGroup a gid) gs else gs) (acc_Groups a) []"

definition route_groups :: "Account \<Rightarrow> Route \<Rightarrow> Group ptr_map \<Rightarrow> Group ptr_map" where
  "route_groups a r gs =
     (let gs = add_groups a (rt_PeerGroups r) (add_groups a (rt_Groups r) gs)
      in if rt_Enabled r then add_groups a (rt_AccessControlGroups r) gs else gs)"

definition routeAccessControlGroups :: "Account \<Rightarrow> string set" where
  "routeAccessControlGroups a =
     set (concat (map (\<lambda>(_, r). if rt_Enabled r then rt_AccessControlGroups r else []) (acc_Routes a)))"

definition getPeersGroupsPoliciesRoutes ::
    "version_lib \<Rightarrow> Account \<Rightarrow> string \<Rightarrow> bool \<Rightarrow> string set \<Rightarrow> Policy list \<times> relevant" where
  "getPeersGroupsPoliciesRoutes lib a peerID peerSSHEnabled validated =
     fold (relevant_policy lib a validated peerID peerSSHEnabled (routeAccessControlGroups a)) (acc_Policies a)
       ([], \<lparr>rel_peers = [(peerID, GetPeer a peerID)],
             rel_groups = fold (\<lambda>(_, r). route_groups a r) (acc_Routes a) (own_groups a peerID),
             rel_failed = Map.empty, neededGroupIDs = {}, needAllowedUserIDs = False\<rparr>)"

section \<open>Network resources\<close>

definition save_failed ::
    "version_lib \<Rightarrow> Account \<Rightarrow> string list \<Rightarrow> string set \<Rightarrow> string \<Rightarrow> string list \<times> failed_peers \<Rightarrow> string list \<times> failed_peers" where
  "save_failed lib a checkIDs validated peerID = (\<lambda>(dest, pf).
     if peerID \<notin> validated then (dest, pf)
     else (let (valid, pname) = validatePostureChecksOnPeerGetFailed lib a checkIDs peerID
           in if valid then (dest @ [peerID], pf) else (dest, record_failed pname peerID pf)))"

definition getPostureValidPeersSaveFailed ::
    "version_lib \<Rightarrow> Account \<Rightarrow> string list \<Rightarrow> string list \<Rightarrow> string set \<Rightarrow> failed_peers \<Rightarrow> string list \<times> failed_peers" where
  "getPostureValidPeersSaveFailed lib a inputPeers checkIDs validated pf =
     fold (save_failed lib a checkIDs validated) inputPeers ([], pf)"

definition add_missing :: "string \<Rightarrow> 'a \<Rightarrow> (string \<times> 'a) list \<Rightarrow> (string \<times> 'a) list" where
  "add_missing k v m = (if has_key m k then m else AList.update k v m)"

definition add_missing_groups :: "Account \<Rightarrow> string list \<Rightarrow> Group ptr_map \<Rightarrow> Group ptr_map" where
  "add_missing_groups a gids gs =
     fold (\<lambda>gid gs. case GetGroup a gid of None \<Rightarrow> gs | Some g \<Rightarrow> add_missing gid (Some g) gs) gids gs"

definition policy_sources :: "(string list \<Rightarrow> string list) \<Rightarrow> Account \<Rightarrow> Policy \<Rightarrow> PolicyRule \<Rightarrow> string list" where
  "policy_sources ord a policy r0 =
     (if is_peer_resource (pr_SourceResource r0) then [res_ID (pr_SourceResource r0)]
      else getUniquePeerIDsFromGroupsIDs ord a (SourceGroups ord policy))"

definition peer_in_policy_sources :: "(string list \<Rightarrow> string list) \<Rightarrow> Account \<Rightarrow> Policy \<Rightarrow> PolicyRule \<Rightarrow> string \<Rightarrow> bool" where
  "peer_in_policy_sources ord a policy r0 peerID =
     (if is_peer_resource (pr_SourceResource r0) then res_ID (pr_SourceResource r0) = peerID
      else list_ex (\<lambda>g. case GetGroup a g of None \<Rightarrow> False | Some g \<Rightarrow> peerID \<in> set (grp_Peers g)) (SourceGroups ord policy))"

text \<open>One policy of a resource; the flag is \<open>addSourcePeers\<close>.\<close>

definition resource_policy ::
    "version_lib \<Rightarrow> (string list \<Rightarrow> string list) \<Rightarrow> Account \<Rightarrow> string \<Rightarrow> string set \<Rightarrow> string \<Rightarrow> Policy list \<Rightarrow> Policy
     \<Rightarrow> NetworkMapComponents \<times> bool \<Rightarrow> (NetworkMapComponents \<times> bool) option" where
  "resource_policy lib ord a peerID validated resourceID policies policy = (\<lambda>(c, addSourcePeers).
     let gs = (\<lambda>c. c\<lparr>c_Groups := fold (\<lambda>rule gs. add_missing_groups a (pr_Destinations rule) (add_missing_groups a (pr_Sources rule) gs))
                                     (pol_Rules policy) (c_Groups c),
                     c_ResourcePoliciesMap := AList.update resourceID policies (c_ResourcePoliciesMap c)\<rparr>)
     in case pol_Rules policy of
       [] \<Rightarrow> None
     | r0 # _ \<Rightarrow>
         if addSourcePeers
         then (let (valid, pf) = getPostureValidPeersSaveFailed lib a (policy_sources ord a policy r0)
                                   (pol_SourcePostureChecks policy) validated (c_PostureFailedPeers c);
                   ps = fold (\<lambda>p. add_missing p (GetPeer a p)) valid (c_Peers c)
               in Some (gs (c\<lparr>c_Peers := ps, c_PostureFailedPeers := pf\<rparr>), True))
         else if \<not> peer_in_policy_sources ord a policy r0 peerID then Some (c, False)
         else (let (isValid, pname) = validatePostureChecksOnPeerGetFailed lib a (pol_SourcePostureChecks policy) peerID
               in if \<not> isValid \<and> pname \<noteq> ''''
                  then Some (c\<lparr>c_PostureFailedPeers := record_failed pname peerID (c_PostureFailedPeers c)\<rparr>, False)
                  else Some (gs c, True)))"

fun resource_policies ::
    "version_lib \<Rightarrow> (string list \<Rightarrow> string list) \<Rightarrow> Account \<Rightarrow> string \<Rightarrow> string set \<Rightarrow> string \<Rightarrow> Policy list \<Rightarrow> Policy list
     \<Rightarrow> NetworkMapComponents \<times> bool \<Rightarrow> (NetworkMapComponents \<times> bool) option" where
  "resource_policies lib ord a peerID validated resourceID policies [] st = Some st"
| "resource_policies lib ord a peerID validated resourceID policies (p # ps) st =
     (case resource_policy lib ord a peerID validated resourceID policies p st of
        None \<Rightarrow> None
      | Some st \<Rightarrow> resource_policies lib ord a peerID validated resourceID policies ps st)"

definition add_router_peer :: "Account \<Rightarrow> string set \<Rightarrow> string \<Rightarrow> NetworkMapComponents \<Rightarrow> NetworkMapComponents" where
  "add_router_peer a validated k c =
     (case GetPeer a k of
        None \<Rightarrow> c
      | Some p \<Rightarrow>
          c\<lparr>c_RouterPeers := add_missing k p (c_RouterPeers c),
            c_Peers := (if k \<in> validated then add_missing k (Some p) (c_Peers c) else c_Peers c)\<rparr>)"

definition add_resource ::
    "version_lib \<Rightarrow> (string list \<Rightarrow> string list) \<Rightarrow> Account \<Rightarrow> string \<Rightarrow> string set \<Rightarrow> (string \<times> Policy list) list
     \<Rightarrow> (string \<times> (string \<times> NetworkRouter) list) list \<Rightarrow> NetworkResource \<Rightarrow> NetworkMapComponents \<Rightarrow> NetworkMapComponents option" where
  "add_resource lib ord a peerID validated resourcePolicies routers resource c =
     (if \<not> nrs_Enabled resource then Some c
      else case map_of resourcePolicies (nrs_ID resource) of
        None \<Rightarrow> Some c
      | Some policies \<Rightarrow>
          (let networkRoutingPeers = (case map_of routers (nrs_NetworkID resource) of None \<Rightarrow> [] | Some rs \<Rightarrow> rs)
           in case resource_policies lib ord a peerID validated (nrs_ID resource) policies policies
                     (c, has_key networkRoutingPeers peerID) of
                None \<Rightarrow> None
              | Some (c, addSourcePeers) \<Rightarrow>
                  (let c = c\<lparr>c_RoutersMap := AList.update (nrs_NetworkID resource) networkRoutingPeers (c_RoutersMap c)\<rparr>;
                       c = fold (\<lambda>(k, _). add_router_peer a validated k) networkRoutingPeers c
                   in Some (if addSourcePeers then c\<lparr>c_NetworkResources := c_NetworkResources c @ [resource]\<rparr> else c))))"

fun add_resources ::
    "version_lib \<Rightarrow> (string list \<Rightarrow> string list) \<Rightarrow> Account \<Rightarrow> string \<Rightarrow> string set \<Rightarrow> (string \<times> Policy list) list
     \<Rightarrow> (string \<times> (string \<times> NetworkRouter) list) list \<Rightarrow> NetworkResource list \<Rightarrow> NetworkMapComponents \<Rightarrow> NetworkMapComponents option" where
  "add_resources lib ord a peerID validated resourcePolicies routers [] c = Some c"
| "add_resources lib ord a peerID validated resourcePolicies routers (r # rs) c =
     (case add_resource lib ord a peerID validated resourcePolicies routers r c of
        None \<Rightarrow> None
      | Some c \<Rightarrow> add_resources lib ord a peerID validated resourcePolicies routers rs c)"

section \<open>The extraction\<close>

definition filter_group :: "(string \<Rightarrow> bool) \<Rightarrow> Group \<Rightarrow> Group option" where
  "filter_group known g =
     (let filteredPeers = filter known (grp_Peers g)
      in if length filteredPeers = 0 then None
         else if length filteredPeers \<noteq> length (grp_Peers g) then Some ((Group_Copy g)\<lparr>grp_Peers := filteredPeers\<rparr>)
         else Some g)"

text \<open>A nil group in the map is dereferenced.\<close>

definition filterGroupPeers :: "Group ptr_map \<Rightarrow> nbPeer ptr_map \<Rightarrow> Group ptr_map option" where
  "filterGroupPeers groups peers =
     (if list_ex (\<lambda>(_, g). g = None) groups then None
      else Some (List.map_filter (\<lambda>(gid, g). case Option.bind g (filter_group (has_key peers)) of
                                                None \<Rightarrow> None | Some g \<Rightarrow> Some (gid, Some g)) groups))"

definition filterPostureFailedPeers ::
    "failed_peers \<Rightarrow> Policy list \<Rightarrow> (string \<times> Policy list) list \<Rightarrow> nbPeer ptr_map \<Rightarrow> failed_peers" where
  "filterPostureFailedPeers pf policies resourcePoliciesMap peers =
     (let referenced = set (concat (map pol_SourcePostureChecks policies))
                       \<union> set (concat (map (\<lambda>(_, ps). concat (map pol_SourcePostureChecks ps)) resourcePoliciesMap))
      in (\<lambda>checkID. case pf checkID of
            None \<Rightarrow> None
          | Some failed \<Rightarrow>
              if checkID \<notin> referenced then None
              else (let kept = {p \<in> failed. has_key peers p} in if kept = {} then None else Some kept)))"

definition filterDNSRecordsByPeers :: "SimpleRecord list \<Rightarrow> nbPeer ptr_map \<Rightarrow> SimpleRecord list" where
  "filterDNSRecordsByPeers records peers =
     (let peerIPs = set (List.map_filter (\<lambda>(_, p). map_option np_IP p) peers)
      in filter (\<lambda>r. sr_RData r \<in> peerIPs) records)"

definition filterGroupIDToUserIDs :: "(string \<rightharpoonup> string list) \<Rightarrow> string set \<Rightarrow> (string \<rightharpoonup> string list)" where
  "filterGroupIDToUserIDs fullMap needed = (\<lambda>g. if g \<in> needed then fullMap g else None)"

definition ns_group_relevant :: "Group ptr_map \<Rightarrow> NameServerGroup \<Rightarrow> bool" where
  "ns_group_relevant groups nsGroup \<longleftrightarrow> nsg_Enabled nsGroup \<and> list_ex (has_key groups) (nsg_Groups nsGroup)"

definition base_components ::
    "(string \<Rightarrow> string) \<Rightarrow> version_lib \<Rightarrow> Account \<Rightarrow> nbPeer \<Rightarrow> string \<Rightarrow> CustomZone \<Rightarrow> Zone list \<Rightarrow> string set
     \<Rightarrow> (string \<rightharpoonup> string list) \<Rightarrow> NetworkMapComponents" where
  "base_components Fqdn lib a peer peerID peersCustomZone accountZones validated groupIDToUserIDs =
     (let (policies, rel) = getPeersGroupsPoliciesRoutes lib a peerID (np_SSHEnabled peer) validated
      in \<lparr>c_PeerID = peerID, c_Serial = acc_Serial a, c_AccountSettings = acc_Settings a,
          c_DisabledManagementGroups = acc_DisabledManagementGroups a, c_CustomZoneDomain = cz_Domain peersCustomZone,
          c_Peers = rel_peers rel, c_Groups = rel_groups rel, c_Policies = policies, c_Routes = map snd (acc_Routes a),
          c_NameServerGroups = filter (ns_group_relevant (rel_groups rel)) (map snd (acc_NameServerGroups a)),
          c_AllDNSRecords = filterDNSRecordsByPeers (cz_Records peersCustomZone) (rel_peers rel),
          c_AccountZones = filterPeerAppliedZones Fqdn accountZones (GetPeerGroups a peerID),
          c_ResourcePoliciesMap = [], c_RoutersMap = [], c_NetworkResources = [],
          c_GroupIDToUserIDs = filterGroupIDToUserIDs groupIDToUserIDs (neededGroupIDs rel),
          c_AllowedUserIDs = (if needAllowedUserIDs rel then Some (getAllowedUserIDs a) else None),
          c_PostureFailedPeers = rel_failed rel, c_RouterPeers = []\<rparr>)"

definition GetPeerNetworkMapComponents ::
    "(string \<Rightarrow> string) \<Rightarrow> version_lib \<Rightarrow> (string list \<Rightarrow> string list) \<Rightarrow> Account \<Rightarrow> string \<Rightarrow> CustomZone \<Rightarrow> Zone list
     \<Rightarrow> string set \<Rightarrow> (string \<times> Policy list) list \<Rightarrow> (string \<times> (string \<times> NetworkRouter) list) list
     \<Rightarrow> (string \<rightharpoonup> string list) \<Rightarrow> (unit, NetworkMapComponents option) outcome" where
  "GetPeerNetworkMapComponents Fqdn lib ord a peerID peersCustomZone accountZones validated resourcePolicies routers groupIDToUserIDs =
     (case GetPeer a peerID of
        None \<Rightarrow> Returns None
      | Some peer \<Rightarrow>
          if peerID \<notin> validated then Returns None
          else case add_resources lib ord a peerID validated resourcePolicies routers (acc_NetworkResources a)
                      (base_components Fqdn lib a peer peerID peersCustomZone accountZones validated groupIDToUserIDs) of
                 None \<Rightarrow> Panics
               | Some c \<Rightarrow>
                   (case filterGroupPeers (c_Groups c) (c_Peers c) of
                      None \<Rightarrow> Panics
                    | Some groups \<Rightarrow>
                        Returns (Some (c\<lparr>c_Groups := groups,
                          c_PostureFailedPeers := filterPostureFailedPeers (c_PostureFailedPeers c) (c_Policies c)
                                                    (c_ResourcePoliciesMap c) (c_Peers c)\<rparr>))))"

section \<open>Peers and firewall rules from the components\<close>

definition GetPeerInfo :: "NetworkMapComponents \<Rightarrow> string \<Rightarrow> nbPeer option" where
  "GetPeerInfo c peerID = ptr_lookup (c_Peers c) peerID"

definition GetGroupInfo :: "NetworkMapComponents \<Rightarrow> string \<Rightarrow> Group option" where
  "GetGroupInfo c groupID = ptr_lookup (c_Groups c) groupID"

definition ValidatePostureChecksOnPeer :: "NetworkMapComponents \<Rightarrow> string \<Rightarrow> string list \<Rightarrow> bool" where
  "ValidatePostureChecksOnPeer c peerID checkIDs \<longleftrightarrow>
     has_key (c_Peers c) peerID
     \<and> list_all (\<lambda>i. case c_PostureFailedPeers c i of None \<Rightarrow> True | Some failed \<Rightarrow> peerID \<notin> failed) checkIDs"

definition c_getUniquePeerIDsFromGroupsIDs :: "(string list \<Rightarrow> string list) \<Rightarrow> NetworkMapComponents \<Rightarrow> string list \<Rightarrow> string list" where
  "c_getUniquePeerIDsFromGroupsIDs ord c groups = collect_group_peers (GetGroupInfo c) (length groups) groups [] ord"

definition c_eligible :: "NetworkMapComponents \<Rightarrow> string list \<Rightarrow> string \<Rightarrow> (string \<times> nbPeer) option" where
  "c_eligible c checkIDs p =
     (case GetPeerInfo c p of
        None \<Rightarrow> None
      | Some peerInfo \<Rightarrow> if \<not> ValidatePostureChecksOnPeer c p checkIDs then None else Some (p, peerInfo))"

definition c_getAllPeersFromGroups ::
    "(string list \<Rightarrow> string list) \<Rightarrow> NetworkMapComponents \<Rightarrow> string list \<Rightarrow> string \<Rightarrow> string list \<Rightarrow> nbPeer list \<times> bool" where
  "c_getAllPeersFromGroups ord c groups peerID checkIDs =
     (let ps = List.map_filter (c_eligible c checkIDs) (c_getUniquePeerIDsFromGroupsIDs ord c groups)
      in (map snd (filter (\<lambda>(p, _). p \<noteq> peerID) ps), list_ex (\<lambda>(p, _). p = peerID) ps))"

definition c_getPeerFromResource :: "NetworkMapComponents \<Rightarrow> Resource \<Rightarrow> string \<Rightarrow> nbPeer list \<times> bool" where
  "c_getPeerFromResource c resource peerID =
     (if res_ID resource = peerID then ([], True)
      else case GetPeerInfo c (res_ID resource) of
             None \<Rightarrow> ([], False)
           | Some peerInfo \<Rightarrow> ([peerInfo], False))"

definition c_rule_sources ::
    "(string list \<Rightarrow> string list) \<Rightarrow> NetworkMapComponents \<Rightarrow> string \<Rightarrow> Policy \<Rightarrow> PolicyRule \<Rightarrow> nbPeer list \<times> bool" where
  "c_rule_sources ord c peerID policy rule =
     (if is_peer_resource (pr_SourceResource rule) then c_getPeerFromResource c (pr_SourceResource rule) peerID
      else c_getAllPeersFromGroups ord c (pr_Sources rule) peerID (pol_SourcePostureChecks policy))"

definition c_rule_destinations ::
    "(string list \<Rightarrow> string list) \<Rightarrow> NetworkMapComponents \<Rightarrow> string \<Rightarrow> Policy \<Rightarrow> PolicyRule \<Rightarrow> nbPeer list \<times> bool" where
  "c_rule_destinations ord c peerID policy rule =
     (if is_peer_resource (pr_DestinationResource rule) then c_getPeerFromResource c (pr_DestinationResource rule) peerID
      else c_getAllPeersFromGroups ord c (pr_Destinations rule) peerID [])"

definition c_getAllowedUserIDs :: "NetworkMapComponents \<Rightarrow> string set" where
  "c_getAllowedUserIDs c = (case c_AllowedUserIDs c of Some users \<Rightarrow> users | None \<Rightarrow> {})"

text \<open>The loop and the generator repeat those of the account, so they are the same definitions here.\<close>

definition c_getPeerConnectionResources ::
    "version_lib \<Rightarrow> (string list \<Rightarrow> string list) \<Rightarrow> NetworkMapComponents \<Rightarrow> string
     \<Rightarrow> nbPeer list \<times> FirewallRule list \<times> authorized \<times> bool" where
  "c_getPeerConnectionResources lib ord c targetPeerID =
     (case GetPeerInfo c targetPeerID of
        None \<Rightarrow> ([], [], Map.empty, False)
      | Some targetPeer \<Rightarrow>
          conn_result (fold (policy_step lib (c_GroupIDToUserIDs c) (c_getAllowedUserIDs c) targetPeer
                               (c_rule_sources ord c targetPeerID) (c_rule_destinations ord c targetPeerID))
                         (c_Policies c) (acl_start, Map.empty, False)))"

end
