(* ===== verification/ComponentsParts.thy ===== *)
theory ComponentsParts
  imports AclProps Components
begin

text \<open>
  What the extraction of the components keeps of three maps (peers, groups, failed posture checks): on the
  accounts described by \<open>components_ok\<close> the parts only grow, stay consistent with the account, and are closed under
  every rule that concerns the peer.
\<close>

section \<open>Failed posture checks\<close>

definition fails_known :: "version_lib \<Rightarrow> Account \<Rightarrow> string \<Rightarrow> string \<Rightarrow> bool" where
  "fails_known lib a p i \<longleftrightarrow> (\<forall>q. GetPeer a p = Some q \<longrightarrow> fails_posture lib a q i)"

definition failed_sound :: "version_lib \<Rightarrow> Account \<Rightarrow> failed_peers \<Rightarrow> bool" where
  "failed_sound lib a pf \<longleftrightarrow> (\<forall>i s p. pf i = Some s \<longrightarrow> p \<in> s \<longrightarrow> fails_known lib a p i)"

definition failed_le :: "failed_peers \<Rightarrow> failed_peers \<Rightarrow> bool" where
  "failed_le pf pf' \<longleftrightarrow> (\<forall>i s p. pf i = Some s \<longrightarrow> p \<in> s \<longrightarrow> (\<exists>s'. pf' i = Some s' \<and> p \<in> s'))"

definition noted :: "version_lib \<Rightarrow> Account \<Rightarrow> string list \<Rightarrow> string set \<Rightarrow> failed_peers \<Rightarrow> string \<Rightarrow> bool" where
  "noted lib a checkIDs validated pf p \<longleftrightarrow>
     (\<forall>q. GetPeer a p = Some q \<longrightarrow> p \<in> validated \<longrightarrow> (\<exists>i \<in> set checkIDs. fails_posture lib a q i) \<longrightarrow>
        (\<exists>i \<in> set checkIDs. \<exists>s. pf i = Some s \<and> p \<in> s))"

lemma failed_le_refl [simp]: "failed_le pf pf"
  by (simp add: failed_le_def)

lemma failed_le_trans: "failed_le pf pf' \<Longrightarrow> failed_le pf' pf'' \<Longrightarrow> failed_le pf pf''"
  unfolding failed_le_def by blast

lemma noted_mono: "noted lib a checkIDs validated pf p \<Longrightarrow> failed_le pf pf' \<Longrightarrow> noted lib a checkIDs validated pf' p"
  unfolding noted_def failed_le_def by blast

lemma record_failed_le [simp]: "failed_le pf (record_failed i p pf)"
  by (auto simp: failed_le_def record_failed_def split: option.split)

lemma record_failed_sound: "failed_sound lib a pf \<Longrightarrow> fails_known lib a p i \<Longrightarrow> failed_sound lib a (record_failed i p pf)"
  by (auto simp: failed_sound_def record_failed_def split: option.splits if_splits)

lemma record_failed_mem: "\<exists>s. record_failed i p pf i = Some s \<and> p \<in> s"
  by (simp add: record_failed_def)

lemma validate_posture_fails:
  "validatePostureChecksOnPeer lib a checkIDs p \<longleftrightarrow>
     (\<exists>q. GetPeer a p = Some q \<and> (\<forall>i \<in> set checkIDs. \<not> fails_posture lib a q i))"
  by (auto simp: validatePostureChecksOnPeer_def fails_posture_def list_all_iff split: option.split)

lemma GetFailed_cases:
  obtains (valid) "validatePostureChecksOnPeerGetFailed lib a checkIDs p = (True, '''')" "validatePostureChecksOnPeer lib a checkIDs p"
  | (missing) "validatePostureChecksOnPeerGetFailed lib a checkIDs p = (False, '''')" "GetPeer a p = None"
  | (failed) i q where "validatePostureChecksOnPeerGetFailed lib a checkIDs p = (False, i)" "GetPeer a p = Some q"
      "i \<in> set checkIDs" "fails_posture lib a q i"
proof (cases "GetPeer a p")
  case None
  then show ?thesis using missing by (simp add: validatePostureChecksOnPeerGetFailed_def)
next
  case (Some q)
  show ?thesis
  proof (cases "find (fails_posture lib a q) checkIDs")
    case None
    then have "\<forall>i \<in> set checkIDs. \<not> fails_posture lib a q i" by (simp add: find_None_iff)
    then show ?thesis
      using valid Some None by (simp add: validatePostureChecksOnPeerGetFailed_def validate_posture_fails)
  next
    case (Some i)
    then have "i \<in> set checkIDs" "fails_posture lib a q i" by (auto simp: find_Some_iff)
    then show ?thesis
      using failed [of i q] Some \<open>GetPeer a p = Some q\<close> by (simp add: validatePostureChecksOnPeerGetFailed_def)
  qed
qed

section \<open>The accounts the two ways agree on\<close>

definition groups_exist :: "Account \<Rightarrow> string list \<Rightarrow> bool" where
  "groups_exist a gids = list_all (\<lambda>g. GetGroup a g \<noteq> None) gids"

definition resource_validated :: "Account \<Rightarrow> string set \<Rightarrow> Resource \<Rightarrow> bool" where
  "resource_validated a validated r \<longleftrightarrow>
     \<not> is_peer_resource r \<or> GetPeer a (res_ID r) = None \<or> res_ID r \<in> validated"

text \<open>
  Every group a rule or a route names exists; a group named All holds the peer; posture checks have ids; peers
  embedded in a proxy are not validated, while peers named by a rule as a resource are.
\<close>

definition components_ok :: "Account \<Rightarrow> string set \<Rightarrow> string \<Rightarrow> bool" where
  "components_ok a validated x \<longleftrightarrow>
     account_ok a
     \<and> list_all (\<lambda>r. groups_exist a (pr_Sources r) \<and> groups_exist a (pr_Destinations r)
                   \<and> resource_validated a validated (pr_SourceResource r)
                   \<and> resource_validated a validated (pr_DestinationResource r)) (account_rules a)
     \<and> list_all (\<lambda>(_, r). groups_exist a (rt_Groups r) \<and> groups_exist a (rt_PeerGroups r)
                        \<and> groups_exist a (rt_AccessControlGroups r)) (acc_Routes a)
     \<and> list_all (\<lambda>(_, g). IsGroupAll g \<longrightarrow> x \<in> set (grp_Peers g)) (acc_Groups a)
     \<and> list_all (\<lambda>c. pc_ID c \<noteq> '''') (acc_PostureChecks a)
     \<and> list_all (\<lambda>(_, p). np_ID p \<in> validated \<longrightarrow> \<not> proxy_Embedded (np_ProxyMeta p)) (acc_Peers a)
     \<and> x \<in> validated"

lemma fails_posture_named: "list_all (\<lambda>c. pc_ID c \<noteq> '''') (acc_PostureChecks a) \<Longrightarrow> fails_posture lib a q i \<Longrightarrow> i \<noteq> ''''"
  by (auto simp: fails_posture_def GetPostureChecks_def find_Some_iff list_all_iff split: option.splits)

text \<open>On them, a peer is eligible when it is known, validated and passes the posture checks.\<close>

lemma eligible_peer_iff:
  assumes "components_ok a validated x"
  shows "eligible_peer lib a checkIDs validated p = Some q \<longleftrightarrow>
     GetPeer a p = Some q \<and> p \<in> validated \<and> (\<forall>i \<in> set checkIDs. \<not> fails_posture lib a q i)"
proof -
  have ok: "account_ok a" using assms by (simp add: components_ok_def)
  have "\<not> proxy_Embedded (np_ProxyMeta q)" if "GetPeer a p = Some q" "p \<in> validated"
    using assms that GetPeer_ID [OF ok that(1)]
    by (auto simp: components_ok_def list_all_iff GetPeer_def dest!: map_of_SomeD)
  then show ?thesis
    using GetPeer_ID [OF ok] by (auto simp: eligible_peer_def validate_posture_fails split: option.splits)
qed

lemma take_group_peer_result:
  assumes ok: "components_ok a validated x" and sound: "failed_sound lib a pf"
  obtains pf' where
    "take_group_peer lib a checkIDs validated x p (f, b, pf) =
       (if eligible_peer lib a checkIDs validated p \<noteq> None \<and> p \<noteq> x then f @ [p] else f,
        b \<or> eligible_peer lib a checkIDs validated p \<noteq> None \<and> p = x, pf')"
    "failed_sound lib a pf'" "failed_le pf pf'" "noted lib a checkIDs validated pf' p"
proof (cases "GetPeer a p")
  case None
  then have "eligible_peer lib a checkIDs validated p = None" by (simp add: eligible_peer_def)
  with None sound that [of pf] show ?thesis by (simp add: take_group_peer_def noted_def)
next
  case (Some q)
  have ID: "np_ID q = p" using ok Some GetPeer_ID by (auto simp: components_ok_def)
  show ?thesis
  proof (cases "p \<in> validated")
    case False
    then have "eligible_peer lib a checkIDs validated p = None"
      using eligible_peer_iff [OF ok, of lib checkIDs p] by (auto simp: not_None_eq [symmetric] simp del: not_None_eq)
    with False Some ID sound that [of pf] show ?thesis by (simp add: take_group_peer_def noted_def)
  next
    case True
    show ?thesis
    proof (cases rule: GetFailed_cases [of lib a checkIDs p])
      case valid
      then have pass: "\<forall>i \<in> set checkIDs. \<not> fails_posture lib a q i" using Some by (simp add: validate_posture_fails)
      then have "eligible_peer lib a checkIDs validated p = Some q" using eligible_peer_iff [OF ok] Some True by blast
      with valid(1) pass Some True ID sound that [of pf] show ?thesis
        by (auto simp: take_group_peer_def noted_def)
    next
      case missing
      with Some show ?thesis by simp
    next
      case (failed i q')
      have i: "i \<noteq> ''''" using ok failed(4) fails_posture_named by (auto simp: components_ok_def)
      have "fails_known lib a p i" using failed(2,4) by (simp add: fails_known_def)
      note sound' = record_failed_sound [OF sound this]
      have "eligible_peer lib a checkIDs validated p \<noteq> Some r" for r
        using eligible_peer_iff [OF ok, of lib checkIDs p r] failed(2-4) by auto
      then have "eligible_peer lib a checkIDs validated p = None" by (meson not_None_eq)
      moreover have "noted lib a checkIDs validated (record_failed i p pf) p"
        using failed(3) record_failed_mem unfolding noted_def by blast
      ultimately show ?thesis
        using that [of "record_failed i p pf"] failed(1) i Some True ID sound' by (simp add: take_group_peer_def)
    qed
  qed
qed

section \<open>The peers of a list of groups\<close>

text \<open>
  What the collecting loops have done for a list of ids: the collected ids are the eligible ones other than the
  peer itself, and every failure among them is noted.
\<close>

definition collected ::
    "version_lib \<Rightarrow> Account \<Rightarrow> string list \<Rightarrow> string set \<Rightarrow> string \<Rightarrow> failed_peers \<Rightarrow> string set \<Rightarrow> collect_state \<Rightarrow> bool" where
  "collected lib a checkIDs validated x pf0 ids = (\<lambda>(f, b, pf).
     set f = {p \<in> ids. eligible_peer lib a checkIDs validated p \<noteq> None \<and> p \<noteq> x}
     \<and> (b \<longleftrightarrow> x \<in> ids \<and> eligible_peer lib a checkIDs validated x \<noteq> None)
     \<and> failed_sound lib a pf \<and> failed_le pf0 pf \<and> (\<forall>p \<in> ids. noted lib a checkIDs validated pf p))"

lemma collected_take:
  assumes ok: "components_ok a validated x" and st: "collected lib a checkIDs validated x pf0 ids st"
  shows "collected lib a checkIDs validated x pf0 (insert p ids) (take_group_peer lib a checkIDs validated x p st)"
proof -
  obtain f b pf where s: "st = (f, b, pf)" by (cases st)
  then have sound: "failed_sound lib a pf" using st by (simp add: collected_def)
  obtain pf' where r: "take_group_peer lib a checkIDs validated x p (f, b, pf) =
       (if eligible_peer lib a checkIDs validated p \<noteq> None \<and> p \<noteq> x then f @ [p] else f,
        b \<or> eligible_peer lib a checkIDs validated p \<noteq> None \<and> p = x, pf')"
    and pf': "failed_sound lib a pf'" "failed_le pf pf'" "noted lib a checkIDs validated pf' p"
    by (rule take_group_peer_result [OF ok sound])
  have "\<forall>q \<in> insert p ids. noted lib a checkIDs validated pf' q"
    using st pf' unfolding s collected_def by (auto intro: noted_mono)
  moreover have "failed_le pf0 pf'"
    using st pf' failed_le_trans unfolding s collected_def by blast
  ultimately show ?thesis
    using st pf'(1) unfolding s r collected_def by auto
qed

lemma collected_fold:
  assumes ok: "components_ok a validated x"
  shows "collected lib a checkIDs validated x pf0 ids st \<Longrightarrow>
    collected lib a checkIDs validated x pf0 (ids \<union> set ps) (fold (take_group_peer lib a checkIDs validated x) ps st)"
proof (induction ps arbitrary: ids st)
  case (Cons p ps)
  from Cons.IH [OF collected_take [OF ok Cons.prems, of p]] show ?case by simp
qed simp

lemma collected_fold_unseen:
  assumes ok: "components_ok a validated x"
  shows "collected lib a checkIDs validated x pf0 seen st \<Longrightarrow>
    (\<exists>st'. fold (take_unseen_peer lib a checkIDs validated x) ps (seen, st) = (seen \<union> set ps, st')
         \<and> collected lib a checkIDs validated x pf0 (seen \<union> set ps) st')"
proof (induction ps arbitrary: seen st)
  case (Cons p ps)
  show ?case
  proof (cases "p \<in> seen")
    case True
    then have "seen \<union> set (p # ps) = seen \<union> set ps" by auto
    with Cons True show ?thesis by (simp add: take_unseen_peer_def)
  next
    case False
    from Cons.IH [OF collected_take [OF ok Cons.prems, of p]] False show ?thesis
      by (simp add: take_unseen_peer_def)
  qed
qed simp

lemma collected_start: "failed_sound lib a pf \<Longrightarrow> failed_le pf0 pf \<Longrightarrow> collected lib a checkIDs validated x pf0 {} ([], False, pf)"
  by (simp add: collected_def)

lemma collected_groups:
  assumes ok: "components_ok a validated x"
  shows "collected lib a checkIDs validated x pf0 (set acc) st \<Longrightarrow>
    collected lib a checkIDs validated x pf0 (set (collect_group_peers (GetGroup a) n gids acc id))
      (peers_from_groups lib a checkIDs validated x n gids (set acc, st))"
proof (induction gids arbitrary: acc st)
  case (Cons gid gids)
  show ?case
  proof (cases "GetGroup a gid")
    case None
    with Cons show ?thesis by simp
  next
    case (Some g)
    obtain f b pf where s: "st = (f, b, pf)" by (cases st)
    show ?thesis
    proof (cases "IsGroupAll g \<or> n = 1")
      case True
      have "collected lib a checkIDs validated x pf0 {} ([], False, pf)"
        using Cons.prems unfolding s by (simp add: collected_def)
      from collected_fold [OF ok this, of "grp_Peers g"] show ?thesis
        using Some True s by simp
    next
      case False
      from collected_fold_unseen [OF ok Cons.prems, of "grp_Peers g"] obtain st' where
        st': "fold (take_unseen_peer lib a checkIDs validated x) (grp_Peers g) (set acc, st) = (set acc \<union> set (grp_Peers g), st')"
        and c: "collected lib a checkIDs validated x pf0 (set acc \<union> set (grp_Peers g)) st'" by blast
      have e: "set acc \<union> set (grp_Peers g) = set (acc @ grp_Peers g)" by simp
      from Cons.IH [OF c [unfolded e]] show ?thesis
        using Some False st' by simp
    qed
  qed
qed simp

lemma getPeersFromGroups_collected:
  assumes "components_ok a validated x" "failed_sound lib a pf"
  shows "collected lib a checkIDs validated x pf (set (getUniquePeerIDsFromGroupsIDs id a groups))
           (getPeersFromGroups lib a groups x checkIDs validated pf)"
  using collected_groups [OF assms(1), of lib checkIDs pf "[]" "([], False, pf)" "length groups" groups]
    collected_start [OF assms(2) failed_le_refl]
  by (simp add: getPeersFromGroups_def getUniquePeerIDsFromGroupsIDs_def)

section \<open>What the extraction keeps\<close>

definition parts_ok :: "version_lib \<Rightarrow> Account \<Rightarrow> string set \<Rightarrow> relevant \<Rightarrow> bool" where
  "parts_ok lib a validated st \<longleftrightarrow>
     (\<forall>p v. (p, v) \<in> set (rel_peers st) \<longrightarrow> v = GetPeer a p \<and> (v = None \<or> p \<in> validated))
     \<and> (\<forall>g v. (g, v) \<in> set (rel_groups st) \<longrightarrow> v = GetGroup a g \<and> v \<noteq> None)
     \<and> failed_sound lib a (rel_failed st)"

definition parts_le :: "relevant \<Rightarrow> relevant \<Rightarrow> bool" where
  "parts_le st st' \<longleftrightarrow>
     (\<forall>p. has_key (rel_peers st) p \<longrightarrow> has_key (rel_peers st') p) \<and> (\<forall>g. has_key (rel_groups st) g \<longrightarrow> has_key (rel_groups st') g)
     \<and> failed_le (rel_failed st) (rel_failed st') \<and> neededGroupIDs st \<subseteq> neededGroupIDs st'
     \<and> (needAllowedUserIDs st \<longrightarrow> needAllowedUserIDs st')"

definition ssh_covered :: "nbPeer \<Rightarrow> PolicyRule \<Rightarrow> relevant \<Rightarrow> bool" where
  "ssh_covered peer rule st \<longleftrightarrow>
     (if pr_Protocol rule = PolicyRuleProtocolNetbirdSSH
      then if length (pr_AuthorizedGroups rule) > 0 then fst ` set (pr_AuthorizedGroups rule) \<subseteq> neededGroupIDs st
           else pr_AuthorizedUser rule \<noteq> '''' \<or> needAllowedUserIDs st
      else policyRuleImpliesLegacySSH rule \<and> np_SSHEnabled peer \<longrightarrow> needAllowedUserIDs st)"

text \<open>A rule is closed when whatever it grants the peer can be computed from the parts.\<close>

definition rule_closed :: "version_lib \<Rightarrow> Account \<Rightarrow> string set \<Rightarrow> nbPeer \<Rightarrow> relevant \<Rightarrow> Policy \<Rightarrow> PolicyRule \<Rightarrow> bool" where
  "rule_closed lib a validated peer st policy rule \<longleftrightarrow>
     (let s = rule_sources lib id a validated (np_ID peer) policy rule; d = rule_destinations lib id a validated (np_ID peer) policy rule
      in (snd s \<longrightarrow> (\<forall>q \<in> set (fst d). has_key (rel_peers st) (np_ID q)) \<and> (\<forall>g \<in> set (pr_Destinations rule). has_key (rel_groups st) g))
       \<and> (snd d \<longrightarrow> (\<forall>q \<in> set (fst s). has_key (rel_peers st) (np_ID q)) \<and> (\<forall>g \<in> set (pr_Sources rule). has_key (rel_groups st) g)
                    \<and> ssh_covered peer rule st)
       \<and> (\<not> is_peer_resource (pr_SourceResource rule) \<longrightarrow>
            (\<forall>p \<in> set (getUniquePeerIDsFromGroupsIDs id a (pr_Sources rule)).
               noted lib a (pol_SourcePostureChecks policy) validated (rel_failed st) p)))"

lemma parts_le_refl [simp]: "parts_le st st"
  by (simp add: parts_le_def)

lemma parts_le_trans: "parts_le st st' \<Longrightarrow> parts_le st' st'' \<Longrightarrow> parts_le st st''"
  unfolding parts_le_def using failed_le_trans by blast

lemma ssh_covered_mono: "ssh_covered peer rule st \<Longrightarrow> parts_le st st' \<Longrightarrow> ssh_covered peer rule st'"
  unfolding ssh_covered_def parts_le_def by (auto split: if_splits)

lemma rule_closed_mono:
  assumes "rule_closed lib a validated peer st policy rule" and le: "parts_le st st'"
  shows "rule_closed lib a validated peer st' policy rule"
proof -
  have "failed_le (rel_failed st) (rel_failed st')" using le by (simp add: parts_le_def)
  with assms show ?thesis
    unfolding rule_closed_def Let_def using ssh_covered_mono [OF _ le] noted_mono
    by (fastforce simp: parts_le_def)
qed

lemma set_alist_update: "(k', v') \<in> set (AList.update k v m) \<Longrightarrow> (k', v') = (k, v) \<or> (k', v') \<in> set m"
  by (induction m) (auto split: if_splits)

lemma has_key_update [simp]: "has_key (AList.update k v m) k' \<longleftrightarrow> k' = k \<or> has_key m k'"
  by (simp add: has_key_def update_conv')

lemma has_key_iff: "has_key m k \<longleftrightarrow> k \<in> fst ` set m"
  by (simp add: has_key_def map_of_eq_None_iff)

lemma has_key_add_groups: "has_key (add_groups a gids gs) g \<longleftrightarrow> g \<in> set gids \<or> has_key gs g"
  unfolding add_groups_def by (induction gids arbitrary: gs) auto

lemma has_key_add_peers: "has_key (add_peers a pids ps) p \<longleftrightarrow> p \<in> set pids \<or> has_key ps p"
  unfolding add_peers_def by (induction pids arbitrary: ps) auto

lemma set_add_groups: "(g, v) \<in> set (add_groups a gids gs) \<Longrightarrow> (g \<in> set gids \<and> v = GetGroup a g) \<or> (g, v) \<in> set gs"
  unfolding add_groups_def by (induction gids arbitrary: gs) (auto dest: set_alist_update)

lemma set_add_peers: "(p, v) \<in> set (add_peers a pids ps) \<Longrightarrow> (p \<in> set pids \<and> v = GetPeer a p) \<or> (p, v) \<in> set ps"
  unfolding add_peers_def by (induction pids arbitrary: ps) (auto dest: set_alist_update)

lemma parts_ok_add_groups:
  "parts_ok lib a validated st \<Longrightarrow> groups_exist a gids \<Longrightarrow> parts_ok lib a validated (st\<lparr>rel_groups := add_groups a gids (rel_groups st)\<rparr>)"
  by (auto simp: parts_ok_def groups_exist_def list_all_iff dest!: set_add_groups)

lemma parts_ok_add_peers:
  "parts_ok lib a validated st \<Longrightarrow> \<forall>p \<in> set pids. GetPeer a p = None \<or> p \<in> validated \<Longrightarrow>
   parts_ok lib a validated (st\<lparr>rel_peers := add_peers a pids (rel_peers st)\<rparr>)"
  by (auto simp: parts_ok_def dest!: set_add_peers)

lemma parts_le_add_groups [simp]: "parts_le st (st\<lparr>rel_groups := add_groups a gids (rel_groups st)\<rparr>)"
  by (simp add: parts_le_def has_key_add_groups)

lemma parts_le_add_peers [simp]: "parts_le st (st\<lparr>rel_peers := add_peers a pids (rel_peers st)\<rparr>)"
  by (simp add: parts_le_def has_key_add_peers)

lemma ssh_needs_parts:
  "parts_ok lib a validated st \<Longrightarrow> parts_ok lib a validated (ssh_needs b rule st)"
  "parts_le st (ssh_needs b rule st)" "np_SSHEnabled peer = b \<Longrightarrow> ssh_covered peer rule (ssh_needs b rule st)"
  by (auto simp: ssh_needs_def parts_ok_def parts_le_def ssh_covered_def)

lemma relevant_side_result:
  assumes ok: "components_ok a validated x" and peer: "GetPeer a x = Some peer"
    and res: "resource_validated a validated resource" and sound: "failed_sound lib a pf"
    and r: "relevant_side lib a resource groups x checkIDs validated pf = (ids, b, pf')"
    and l: "l = (if is_peer_resource resource then getPeerFromResource a resource x
                 else getAllPeersFromGroups lib id a groups x checkIDs validated)"
  shows "b = snd l" "\<forall>q \<in> set (fst l). np_ID q \<in> set ids" "\<forall>p \<in> set ids. GetPeer a p = None \<or> p \<in> validated"
    "failed_sound lib a pf'" "failed_le pf pf'"
    "\<not> is_peer_resource resource \<Longrightarrow>
       \<forall>p \<in> set (getUniquePeerIDsFromGroupsIDs id a groups). noted lib a checkIDs validated pf' p"
proof -
  have acc: "account_ok a" using ok by (simp add: components_ok_def)
  have "b = snd l \<and> (\<forall>q \<in> set (fst l). np_ID q \<in> set ids) \<and> (\<forall>p \<in> set ids. GetPeer a p = None \<or> p \<in> validated)
      \<and> failed_sound lib a pf' \<and> failed_le pf pf' \<and> (\<not> is_peer_resource resource \<longrightarrow>
       (\<forall>p \<in> set (getUniquePeerIDsFromGroupsIDs id a groups). noted lib a checkIDs validated pf' p))"
  proof (cases "is_peer_resource resource")
    case True
    then have e: "ids = [res_ID resource]" "b = (res_ID resource = x)" "pf' = pf"
      using r by (auto simp: relevant_side_def)
    have "GetPeer a (res_ID resource) = Some q \<Longrightarrow> np_ID q = res_ID resource" for q using GetPeer_ID [OF acc] .
    then show ?thesis
      using True res sound peer unfolding e l
      by (auto simp: getPeerFromResource_def resource_validated_def split: option.split)
  next
    case False
    have c: "collected lib a checkIDs validated x pf (set (getUniquePeerIDsFromGroupsIDs id a groups)) (ids, b, pf')"
      using getPeersFromGroups_collected [OF ok sound, of checkIDs groups] r False by (simp add: relevant_side_def)
    have ID: "eligible_peer lib a checkIDs validated p = Some q \<Longrightarrow> np_ID q = p" for p q
      using GetPeer_ID [OF acc] eligible_peer_GetPeer by blast
    have "snd l \<longleftrightarrow> b"
      using c ID False unfolding l collected_def
      by (auto simp: getAllPeersFromGroups_def Let_def list_ex_iff set_map_filter)
    moreover have "\<forall>q \<in> set (fst l). np_ID q \<in> set ids"
      using c ID False unfolding l collected_def
      by (auto simp: getAllPeersFromGroups_def Let_def set_map_filter)
    moreover have "\<forall>p \<in> set ids. GetPeer a p = None \<or> p \<in> validated"
      using c eligible_peer_iff [OF ok] unfolding collected_def by auto
    ultimately show ?thesis
      using c unfolding collected_def by auto
  qed
  then show "b = snd l" "\<forall>q \<in> set (fst l). np_ID q \<in> set ids" "\<forall>p \<in> set ids. GetPeer a p = None \<or> p \<in> validated"
    "failed_sound lib a pf'" "failed_le pf pf'"
    "\<not> is_peer_resource resource \<Longrightarrow>
       \<forall>p \<in> set (getUniquePeerIDsFromGroupsIDs id a groups). noted lib a checkIDs validated pf' p"
    by auto
qed

lemma rule_in_account: "(policy, rule) \<in> enabled_rules (acc_Policies a) \<Longrightarrow> rule \<in> set (account_rules a)"
  by (auto simp: enabled_rules_def account_rules_def)

lemma relevant_rule_parts:
  assumes ok: "components_ok a validated x" and peer: "GetPeer a x = Some peer"
    and rule: "rule \<in> set (account_rules a)" and en: "pr_Enabled rule" and st: "parts_ok lib a validated st"
    and r: "relevant_rule lib a validated x (np_SSHEnabled peer) routeGroups policy rule (rel, st) = (rel', st')"
  shows "parts_ok lib a validated st'" "parts_le st st'" "rule_closed lib a validated peer st' policy rule"
    "rel' \<longleftrightarrow> rel \<or> list_ex (\<lambda>d. d \<in> routeGroups) (pr_Destinations rule)
       \<or> snd (rule_sources lib id a validated x policy rule) \<or> snd (rule_destinations lib id a validated x policy rule)"
proof -
  define st1 where "st1 = (if list_ex (\<lambda>d. d \<in> routeGroups) (pr_Destinations rule)
    then st\<lparr>rel_groups := add_groups a (pr_Destinations rule) (add_groups a (pr_Sources rule) (rel_groups st))\<rparr> else st)"
  obtain sp inS pf where s: "relevant_side lib a (pr_SourceResource rule) (pr_Sources rule) x (pol_SourcePostureChecks policy)
      validated (rel_failed st1) = (sp, inS, pf)" by (metis prod_cases3)
  obtain dp inD pf' where d: "relevant_side lib a (pr_DestinationResource rule) (pr_Destinations rule) x []
      validated pf = (dp, inD, pf')" by (metis prod_cases3)
  define st2 where "st2 = st1\<lparr>rel_failed := pf'\<rparr>"
  define st3 where "st3 = (if inS then st2\<lparr>rel_peers := add_peers a dp (rel_peers st2),
      rel_groups := add_groups a (pr_Destinations rule) (rel_groups st2)\<rparr> else st2)"
  define st4 where "st4 = (if inD then ssh_needs (np_SSHEnabled peer) rule (st3\<lparr>rel_peers := add_peers a sp (rel_peers st3),
      rel_groups := add_groups a (pr_Sources rule) (rel_groups st3)\<rparr>) else st3)"
  have r': "rel' \<longleftrightarrow> rel \<or> list_ex (\<lambda>d. d \<in> routeGroups) (pr_Destinations rule) \<or> inS \<or> inD" "st' = st4"
    using r en s d unfolding relevant_rule_def st4_def st3_def st2_def st1_def Let_def by (auto simp: case_prod_beta)
  have g: "groups_exist a (pr_Sources rule)" "groups_exist a (pr_Destinations rule)"
      "resource_validated a validated (pr_SourceResource rule)" "resource_validated a validated (pr_DestinationResource rule)"
    using ok rule by (auto simp: components_ok_def list_all_iff)
  have x: "np_ID peer = x" using ok peer GetPeer_ID by (auto simp: components_ok_def)
  have "parts_ok lib a validated (st\<lparr>rel_groups := add_groups a (pr_Sources rule) (rel_groups st)\<rparr>)"
    by (rule parts_ok_add_groups [OF st g(1)])
  from parts_ok_add_groups [OF this g(2)] st
  have st1: "parts_ok lib a validated st1" unfolding st1_def by simp
  have le1: "parts_le st st1" unfolding st1_def by (simp add: parts_le_def has_key_add_groups)
  have sound: "failed_sound lib a (rel_failed st1)" using st1 by (simp add: parts_ok_def)
  note S = relevant_side_result [OF ok peer g(3) sound s refl]
  note D = relevant_side_result [OF ok peer g(4) S(4) d refl]
  have st2: "parts_ok lib a validated st2" using st1 D(4) unfolding st2_def by (simp add: parts_ok_def)
  have le2: "parts_le st1 st2" using failed_le_trans [OF S(5) D(5)] unfolding st2_def by (simp add: parts_le_def)
  from parts_ok_add_groups [OF parts_ok_add_peers [OF st2 D(3)] g(2)] st2
  have st3: "parts_ok lib a validated st3" unfolding st3_def by simp
  have le3: "parts_le st2 st3" unfolding st3_def by (simp add: parts_le_def has_key_add_groups has_key_add_peers)
  let ?st4 = "st3\<lparr>rel_peers := add_peers a sp (rel_peers st3), rel_groups := add_groups a (pr_Sources rule) (rel_groups st3)\<rparr>"
  have "parts_ok lib a validated ?st4" "parts_le st3 ?st4"
    using parts_ok_add_groups [OF parts_ok_add_peers [OF st3 S(3)] g(1)]
    by (simp_all add: parts_le_def has_key_add_groups has_key_add_peers)
  with st3 have st4: "parts_ok lib a validated st4" and le4: "parts_le st3 st4"
    unfolding st4_def using ssh_needs_parts parts_le_trans by auto
  show "parts_ok lib a validated st'" "parts_le st st'"
    unfolding r'(2) using st4 le1 le2 le3 le4 parts_le_trans by blast+
  have inS: "inS = snd (rule_sources lib id a validated x policy rule)" and inD: "inD = snd (rule_destinations lib id a validated x policy rule)"
    using S(1) D(1) by (simp_all add: rule_sources_def rule_destinations_def)
  then show "rel' \<longleftrightarrow> rel \<or> list_ex (\<lambda>d. d \<in> routeGroups) (pr_Destinations rule)
       \<or> snd (rule_sources lib id a validated x policy rule) \<or> snd (rule_destinations lib id a validated x policy rule)"
    using r'(1) by simp
  have "inS \<Longrightarrow> (\<forall>q \<in> set (fst (rule_destinations lib id a validated x policy rule)). has_key (rel_peers st3) (np_ID q))
      \<and> (\<forall>g \<in> set (pr_Destinations rule). has_key (rel_groups st3) g)"
    using D(2) unfolding st3_def rule_destinations_def by (simp add: has_key_add_groups has_key_add_peers)
  moreover have "inD \<Longrightarrow> (\<forall>q \<in> set (fst (rule_sources lib id a validated x policy rule)). has_key (rel_peers ?st4) (np_ID q))
      \<and> (\<forall>g \<in> set (pr_Sources rule). has_key (rel_groups ?st4) g)"
    using S(2) unfolding rule_sources_def by (simp add: has_key_add_groups has_key_add_peers)
  moreover have "inD \<Longrightarrow> st4 = ssh_needs (np_SSHEnabled peer) rule ?st4" by (simp add: st4_def)
  moreover have "rel_failed st4 = pf'" unfolding st4_def st3_def st2_def by (auto simp: ssh_needs_def)
  ultimately show "rule_closed lib a validated peer st' policy rule"
    unfolding rule_closed_def Let_def x r'(2) inS [symmetric] inD [symmetric]
    using le4 ssh_needs_parts(2,3) S(6) noted_mono [OF _ D(5)] by (auto simp: parts_le_def)
qed

section \<open>All policies\<close>

definition rule_concerns :: "version_lib \<Rightarrow> Account \<Rightarrow> string set \<Rightarrow> string \<Rightarrow> Policy \<Rightarrow> PolicyRule \<Rightarrow> bool" where
  "rule_concerns lib a validated x policy rule \<longleftrightarrow>
     list_ex (\<lambda>d. d \<in> routeAccessControlGroups a) (pr_Destinations rule)
     \<or> snd (rule_sources lib id a validated x policy rule) \<or> snd (rule_destinations lib id a validated x policy rule)"

definition policy_concerns :: "version_lib \<Rightarrow> Account \<Rightarrow> string set \<Rightarrow> string \<Rightarrow> Policy \<Rightarrow> bool" where
  "policy_concerns lib a validated x policy \<longleftrightarrow>
     pol_Enabled policy \<and> (\<exists>r \<in> set (pol_Rules policy). pr_Enabled r \<and> rule_concerns lib a validated x policy r)"

lemma relevant_rules_parts:
  assumes ok: "components_ok a validated x" and peer: "GetPeer a x = Some peer"
  shows "parts_ok lib a validated st \<Longrightarrow> set rules \<subseteq> set (account_rules a) \<Longrightarrow>
    fold (relevant_rule lib a validated x (np_SSHEnabled peer) (routeAccessControlGroups a) policy) rules (rel, st) = (rel', st') \<Longrightarrow>
    parts_ok lib a validated st' \<and> parts_le st st'
    \<and> (\<forall>r \<in> set rules. pr_Enabled r \<longrightarrow> rule_closed lib a validated peer st' policy r)
    \<and> (rel' \<longleftrightarrow> rel \<or> (\<exists>r \<in> set rules. pr_Enabled r \<and> rule_concerns lib a validated x policy r))"
proof (induction rules arbitrary: rel st)
  case (Cons r rules)
  let ?f = "relevant_rule lib a validated x (np_SSHEnabled peer) (routeAccessControlGroups a) policy"
  obtain rel1 st1 where r1: "?f r (rel, st) = (rel1, st1)" by fastforce
  have fold: "fold ?f rules (rel1, st1) = (rel', st')" using Cons.prems(3) r1 by simp
  show ?case
  proof (cases "pr_Enabled r")
    case False
    then have "rel1 = rel" "st1 = st" using r1 by (auto simp: relevant_rule_def)
    with Cons.IH [OF _ _ fold] Cons.prems(1,2) False show ?thesis by auto
  next
    case True
    have "r \<in> set (account_rules a)" using Cons.prems(2) by simp
    note step = relevant_rule_parts [OF ok peer this True Cons.prems(1) r1]
    from Cons.IH [OF step(1) _ fold] Cons.prems(2)
    have IH: "parts_ok lib a validated st'" "parts_le st1 st'" "\<forall>r \<in> set rules. pr_Enabled r \<longrightarrow> rule_closed lib a validated peer st' policy r"
      "rel' \<longleftrightarrow> rel1 \<or> (\<exists>r \<in> set rules. pr_Enabled r \<and> rule_concerns lib a validated x policy r)" by auto
    then show ?thesis
      using step(2-4) rule_closed_mono [OF step(3) IH(2)] parts_le_trans True by (auto simp: rule_concerns_def)
  qed
qed auto

lemma relevant_policies_parts:
  assumes ok: "components_ok a validated x" and peer: "GetPeer a x = Some peer"
  shows "parts_ok lib a validated st \<Longrightarrow> set policies \<subseteq> set (acc_Policies a) \<Longrightarrow>
    fold (relevant_policy lib a validated x (np_SSHEnabled peer) (routeAccessControlGroups a)) policies (Q, st) = (Q', st') \<Longrightarrow>
    parts_ok lib a validated st' \<and> parts_le st st' \<and> Q' = Q @ filter (policy_concerns lib a validated x) policies
    \<and> (\<forall>(p, r) \<in> enabled_rules policies. rule_closed lib a validated peer st' p r)"
proof (induction policies arbitrary: Q st)
  case Nil
  then show ?case by (auto simp: enabled_rules_def)
next
  case (Cons p policies)
  let ?f = "relevant_policy lib a validated x (np_SSHEnabled peer) (routeAccessControlGroups a)"
  obtain Q1 st1 where p1: "?f p (Q, st) = (Q1, st1)" by fastforce
  have fold: "fold ?f policies (Q1, st1) = (Q', st')" using Cons.prems(3) p1 by simp
  obtain rel2 st2 where r2: "fold (relevant_rule lib a validated x (np_SSHEnabled peer) (routeAccessControlGroups a) p)
      (pol_Rules p) (False, st) = (rel2, st2)" by fastforce
  have sub: "set (pol_Rules p) \<subseteq> set (account_rules a)" using Cons.prems(2) by (auto simp: account_rules_def)
  note rules = relevant_rules_parts [OF ok peer Cons.prems(1) sub r2]
  have step: "parts_ok lib a validated st1 \<and> parts_le st st1 \<and> Q1 = Q @ filter (policy_concerns lib a validated x) [p]
      \<and> (\<forall>r. (p, r) \<in> enabled_rules [p] \<longrightarrow> rule_closed lib a validated peer st1 p r)"
    using p1 r2 rules Cons.prems(1)
    by (auto simp: relevant_policy_def policy_concerns_def enabled_rules_def split: if_splits)
  then have IH: "parts_ok lib a validated st'" "parts_le st1 st'" "Q' = Q1 @ filter (policy_concerns lib a validated x) policies"
      "\<forall>(p, r) \<in> enabled_rules policies. rule_closed lib a validated peer st' p r"
    using Cons.IH [OF _ _ fold] Cons.prems(2) by auto
  have "(q, r) \<in> enabled_rules (p # policies) \<Longrightarrow> (q, r) \<in> enabled_rules policies \<or> q = p \<and> (p, r) \<in> enabled_rules [p]" for q r
    by (auto simp: enabled_rules_def)
  then show ?case
    using step IH rule_closed_mono [OF _ IH(2)] parts_le_trans by fastforce
qed

lemma own_groups_parts:
  "(g, v) \<in> set (own_groups a x) \<Longrightarrow> v = GetGroup a g \<and> v \<noteq> None"
  "GetGroup a g = Some gr \<Longrightarrow> x \<in> set (grp_Peers gr) \<Longrightarrow> has_key (own_groups a x) g"
proof -
  let ?f = "\<lambda>(gid, g) gs. if x \<in> set (grp_Peers g) then AList.update gid (GetGroup a gid) gs else gs"
  have vals: "(g, v) \<in> set (fold ?f ps gs) \<Longrightarrow> (g, v) \<in> set gs \<or> g \<in> fst ` set ps \<and> v = GetGroup a g" for ps gs
  proof (induction ps arbitrary: gs)
    case (Cons p ps)
    obtain k h where p: "p = (k, h)" by (cases p)
    from Cons.IH [of "?f p gs"] Cons.prems show ?case
      unfolding p by (auto dest!: set_alist_update split: if_splits)
  qed simp
  have keys: "has_key gs g \<or> (\<exists>gr. (g, gr) \<in> set ps \<and> x \<in> set (grp_Peers gr)) \<Longrightarrow> has_key (fold ?f ps gs) g" for ps gs
    by (induction ps arbitrary: gs) auto
  show "(g, v) \<in> set (own_groups a x) \<Longrightarrow> v = GetGroup a g \<and> v \<noteq> None"
    using vals [of "acc_Groups a" "[]"] unfolding own_groups_def by (auto simp: GetGroup_def map_of_eq_None_iff)
  show "GetGroup a g = Some gr \<Longrightarrow> x \<in> set (grp_Peers gr) \<Longrightarrow> has_key (own_groups a x) g"
    using keys [of "[]" "acc_Groups a"] unfolding own_groups_def GetGroup_def by (auto dest: map_of_SomeD)
qed

lemma route_groups_parts:
  assumes "groups_exist a (rt_Groups r)" "groups_exist a (rt_PeerGroups r)" "groups_exist a (rt_AccessControlGroups r)"
  shows "(g, v) \<in> set (route_groups a r gs) \<Longrightarrow> (g, v) \<in> set gs \<or> v = GetGroup a g \<and> v \<noteq> None"
    "has_key gs g \<Longrightarrow> has_key (route_groups a r gs) g"
  using assms unfolding route_groups_def groups_exist_def
  by (auto simp: Let_def list_all_iff has_key_add_groups split: if_splits dest!: set_add_groups)

lemma all_route_groups_parts:
  assumes "list_all (\<lambda>(_, r). groups_exist a (rt_Groups r) \<and> groups_exist a (rt_PeerGroups r)
                        \<and> groups_exist a (rt_AccessControlGroups r)) routes"
  shows "((g, v) \<in> set (fold (\<lambda>(_, r). route_groups a r) routes gs) \<longrightarrow> (g, v) \<in> set gs \<or> v = GetGroup a g \<and> v \<noteq> None)
    \<and> (has_key gs g \<longrightarrow> has_key (fold (\<lambda>(_, r). route_groups a r) routes gs) g)"
  using assms
proof (induction routes arbitrary: gs)
  case (Cons e routes)
  obtain k r where e: "e = (k, r)" by (cases e)
  from Cons.prems have r: "groups_exist a (rt_Groups r)" "groups_exist a (rt_PeerGroups r)" "groups_exist a (rt_AccessControlGroups r)"
    unfolding e by auto
  from Cons.IH [of "route_groups a r gs"] Cons.prems route_groups_parts [OF r] show ?case unfolding e by auto
qed simp

lemma getPeersGroupsPoliciesRoutes_parts:
  assumes ok: "components_ok a validated x" and peer: "GetPeer a x = Some peer"
    and r: "getPeersGroupsPoliciesRoutes lib a x (np_SSHEnabled peer) validated = (Q, st)"
  shows "parts_ok lib a validated st" "has_key (rel_peers st) x"
    "\<And>g gr. GetGroup a g = Some gr \<Longrightarrow> x \<in> set (grp_Peers gr) \<Longrightarrow> has_key (rel_groups st) g"
    "Q = filter (policy_concerns lib a validated x) (acc_Policies a)"
    "\<And>p r. (p, r) \<in> enabled_rules (acc_Policies a) \<Longrightarrow> rule_closed lib a validated peer st p r"
proof -
  define st0 where "st0 = \<lparr>rel_peers = [(x, GetPeer a x)],
     rel_groups = fold (\<lambda>(_, r). route_groups a r) (acc_Routes a) (own_groups a x),
     rel_failed = Map.empty, neededGroupIDs = {}, needAllowedUserIDs = False\<rparr>"
  have routes: "list_all (\<lambda>(_, r). groups_exist a (rt_Groups r) \<and> groups_exist a (rt_PeerGroups r)
                        \<and> groups_exist a (rt_AccessControlGroups r)) (acc_Routes a)"
    using ok by (simp add: components_ok_def)
  have st0: "parts_ok lib a validated st0"
    using ok own_groups_parts(1) [of _ _ a x] all_route_groups_parts [OF routes, of _ _ "own_groups a x"]
    unfolding st0_def parts_ok_def failed_sound_def components_ok_def by auto blast+
  have "fold (relevant_policy lib a validated x (np_SSHEnabled peer) (routeAccessControlGroups a)) (acc_Policies a) ([], st0) = (Q, st)"
    using r unfolding getPeersGroupsPoliciesRoutes_def st0_def .
  note P = relevant_policies_parts [OF ok peer st0 subset_refl this]
  then show "parts_ok lib a validated st" "Q = filter (policy_concerns lib a validated x) (acc_Policies a)"
    "\<And>p r. (p, r) \<in> enabled_rules (acc_Policies a) \<Longrightarrow> rule_closed lib a validated peer st p r" by auto
  have "has_key (rel_peers st0) x" by (simp add: st0_def has_key_def)
  with P show "has_key (rel_peers st) x" by (auto simp: parts_le_def)
  show "has_key (rel_groups st) g" if "GetGroup a g = Some gr" "x \<in> set (grp_Peers gr)" for g gr
  proof -
    have "has_key (rel_groups st0) g"
      using own_groups_parts(2) [OF that] all_route_groups_parts [OF routes, of g _ "own_groups a x"] by (simp add: st0_def)
    with P show ?thesis by (auto simp: parts_le_def)
  qed
qed

section \<open>Network resources\<close>

definition view :: "relevant \<Rightarrow> NetworkMapComponents \<Rightarrow> relevant" where
  "view st c = st\<lparr>rel_peers := c_Peers c, rel_groups := c_Groups c, rel_failed := c_PostureFailedPeers c\<rparr>"

text \<open>The resources only add to the parts; what the computation of the rules uses besides them stays.\<close>

definition extends :: "version_lib \<Rightarrow> Account \<Rightarrow> string set \<Rightarrow> relevant \<Rightarrow> NetworkMapComponents \<Rightarrow> NetworkMapComponents \<Rightarrow> bool" where
  "extends lib a validated st c c' \<longleftrightarrow>
     (parts_ok lib a validated (view st c) \<longrightarrow> parts_ok lib a validated (view st c')) \<and> parts_le (view st c) (view st c')
     \<and> c_Policies c' = c_Policies c \<and> c_GroupIDToUserIDs c' = c_GroupIDToUserIDs c \<and> c_AllowedUserIDs c' = c_AllowedUserIDs c"

lemma extends_refl [simp]: "extends lib a validated st c c"
  by (simp add: extends_def)

lemma extends_trans: "extends lib a validated st c c' \<Longrightarrow> extends lib a validated st c' c'' \<Longrightarrow> extends lib a validated st c c''"
  unfolding extends_def by (simp add: parts_le_trans [of "view st c" "view st c'" "view st c''"])

lemma set_add_missing: "(k', v') \<in> set (add_missing k v m) \<Longrightarrow> (k', v') = (k, v) \<or> (k', v') \<in> set m"
  using set_alist_update [of k' v' k v m] by (cases "has_key m k") (simp_all add: add_missing_def)

lemma has_key_add_missing [simp]: "has_key (add_missing k v m) k' \<longleftrightarrow> k' = k \<or> has_key m k'"
  by (cases "has_key m k"; cases "k' = k") (simp_all add: add_missing_def)

lemma set_add_missing_groups: "(g, v) \<in> set (add_missing_groups a gids gs) \<Longrightarrow> (g, v) \<in> set gs \<or> v = GetGroup a g \<and> v \<noteq> None"
  unfolding add_missing_groups_def
proof (induction gids arbitrary: gs)
  case (Cons gid gids)
  let ?gs = "case GetGroup a gid of None \<Rightarrow> gs | Some g \<Rightarrow> add_missing gid (Some g) gs"
  have "(g, v) \<in> set ?gs \<or> v = GetGroup a g \<and> v \<noteq> None" using Cons.IH [of ?gs] Cons.prems by simp
  then show ?case by (auto split: option.splits dest!: set_add_missing)
qed simp

lemma has_key_add_missing_groups: "has_key gs g \<Longrightarrow> has_key (add_missing_groups a gids gs) g"
  unfolding add_missing_groups_def by (induction gids arbitrary: gs) (auto split: option.split)

lemma resource_groups:
  fixes rules a
  defines "f \<equiv> fold (\<lambda>rule gs. add_missing_groups a (pr_Destinations rule) (add_missing_groups a (pr_Sources rule) gs)) rules"
  shows "(g, v) \<in> set (f gs) \<Longrightarrow> (g, v) \<in> set gs \<or> v = GetGroup a g \<and> v \<noteq> None" "has_key gs g \<Longrightarrow> has_key (f gs) g"
proof -
  show "(g, v) \<in> set (f gs) \<Longrightarrow> (g, v) \<in> set gs \<or> v = GetGroup a g \<and> v \<noteq> None"
    unfolding f_def
  proof (induction rules arbitrary: gs)
    case (Cons r rules)
    let ?gs = "add_missing_groups a (pr_Destinations r) (add_missing_groups a (pr_Sources r) gs)"
    have "(g, v) \<in> set ?gs \<or> v = GetGroup a g \<and> v \<noteq> None" using Cons.IH [of ?gs] Cons.prems by simp
    then show ?case using set_add_missing_groups by metis
  qed simp
  show "has_key gs g \<Longrightarrow> has_key (f gs) g"
    unfolding f_def by (induction rules arbitrary: gs) (auto simp: has_key_add_missing_groups)
qed

definition saved :: "version_lib \<Rightarrow> Account \<Rightarrow> string set \<Rightarrow> failed_peers \<Rightarrow> string list \<times> failed_peers \<Rightarrow> bool" where
  "saved lib a validated pf0 = (\<lambda>(dest, pf). failed_sound lib a pf \<and> failed_le pf0 pf \<and> set dest \<subseteq> validated)"

lemma save_failed_saved:
  assumes "saved lib a validated pf0 (dest, pf)"
  shows "saved lib a validated pf0 (save_failed lib a checkIDs validated p (dest, pf))"
proof (cases "p \<in> validated")
  case True
  have rec: "saved lib a validated pf0 (dest, record_failed i p pf)" if "fails_known lib a p i" for i
    using assms record_failed_sound [OF _ that] failed_le_trans [OF _ record_failed_le] unfolding saved_def by blast
  show ?thesis
  proof (cases rule: GetFailed_cases [of lib a checkIDs p])
    case valid
    then show ?thesis using assms True by (simp add: save_failed_def saved_def)
  next
    case missing
    with rec [of "[]"] True show ?thesis by (simp add: save_failed_def fails_known_def)
  next
    case (failed i q)
    with rec [of i] True show ?thesis by (simp add: save_failed_def fails_known_def)
  qed
qed (use assms in \<open>simp add: save_failed_def\<close>)

lemma getPostureValidPeersSaveFailed_result:
  assumes "failed_sound lib a pf" "getPostureValidPeersSaveFailed lib a ps checkIDs validated pf = (valid, pf')"
  shows "failed_sound lib a pf'" "failed_le pf pf'" "set valid \<subseteq> validated"
proof -
  have "saved lib a validated pf r \<Longrightarrow> saved lib a validated pf (fold (save_failed lib a checkIDs validated) ps r)" for r
  proof (induction ps arbitrary: r)
    case (Cons p ps)
    obtain dest pf1 where r: "r = (dest, pf1)" by (cases r)
    from Cons.IH [OF save_failed_saved [OF Cons.prems [unfolded r]]] show ?case unfolding r by simp
  qed simp
  from this [of "([], pf)"] assms show "failed_sound lib a pf'" "failed_le pf pf'" "set valid \<subseteq> validated"
    unfolding getPostureValidPeersSaveFailed_def by (simp_all add: saved_def)
qed

lemma add_missing_peers:
  "(p, v) \<in> set (fold (\<lambda>p. add_missing p (GetPeer a p)) ps m) \<Longrightarrow> (p, v) \<in> set m \<or> p \<in> set ps \<and> v = GetPeer a p"
  "has_key m p \<Longrightarrow> has_key (fold (\<lambda>p. add_missing p (GetPeer a p)) ps m) p"
proof -
  show "(p, v) \<in> set (fold (\<lambda>p. add_missing p (GetPeer a p)) ps m) \<Longrightarrow> (p, v) \<in> set m \<or> p \<in> set ps \<and> v = GetPeer a p"
  proof (induction ps arbitrary: m)
    case (Cons r ps)
    have "(p, v) \<in> set (add_missing r (GetPeer a r) m) \<or> p \<in> set ps \<and> v = GetPeer a p" using Cons.IH Cons.prems by simp
    then show ?case by (auto dest!: set_add_missing)
  qed simp
  show "has_key m p \<Longrightarrow> has_key (fold (\<lambda>p. add_missing p (GetPeer a p)) ps m) p"
    by (induction ps arbitrary: m) simp_all
qed

lemma extendsI:
  assumes "\<And>p v. (p, v) \<in> set (c_Peers c') \<Longrightarrow> (p, v) \<in> set (c_Peers c) \<or> v = GetPeer a p \<and> p \<in> validated"
    and "\<And>g v. (g, v) \<in> set (c_Groups c') \<Longrightarrow> (g, v) \<in> set (c_Groups c) \<or> v = GetGroup a g \<and> v \<noteq> None"
    and "\<And>p. has_key (c_Peers c) p \<Longrightarrow> has_key (c_Peers c') p" "\<And>g. has_key (c_Groups c) g \<Longrightarrow> has_key (c_Groups c') g"
    and "failed_sound lib a (c_PostureFailedPeers c) \<Longrightarrow> failed_sound lib a (c_PostureFailedPeers c')"
    and "failed_le (c_PostureFailedPeers c) (c_PostureFailedPeers c')"
    and "c_Policies c' = c_Policies c" "c_GroupIDToUserIDs c' = c_GroupIDToUserIDs c" "c_AllowedUserIDs c' = c_AllowedUserIDs c"
  shows "extends lib a validated st c c'"
  unfolding extends_def
proof (intro conjI impI)
  show "parts_le (view st c) (view st c')" using assms(3,4,6) by (simp add: parts_le_def view_def)
  assume ok: "parts_ok lib a validated (view st c)"
  show "parts_ok lib a validated (view st c')"
    unfolding parts_ok_def
  proof (intro conjI allI impI)
    show "v = GetPeer a p" "v = None \<or> p \<in> validated" if "(p, v) \<in> set (rel_peers (view st c'))" for p v
      using assms(1) [of p v] ok that by (auto simp: parts_ok_def view_def)
    show "v = GetGroup a g" "v \<noteq> None" if "(g, v) \<in> set (rel_groups (view st c'))" for g v
      using assms(2) [of g v] ok that by (auto simp: parts_ok_def view_def)
    show "failed_sound lib a (rel_failed (view st c'))" using assms(5) ok by (simp add: parts_ok_def view_def)
  qed
qed (use assms(7-9) in simp_all)

lemma resource_policy_extends:
  assumes sound: "failed_sound lib a (c_PostureFailedPeers c)" and rules: "pol_Rules policy \<noteq> []"
  shows "\<exists>c' b'. resource_policy lib ord a x validated i policies policy (c, b) = Some (c', b') \<and> extends lib a validated st c c'"
proof -
  obtain r0 rs where r0: "pol_Rules policy = r0 # rs" using rules by (cases "pol_Rules policy") auto
  define gs where "gs c = c\<lparr>c_Groups := fold (\<lambda>rule gs. add_missing_groups a (pr_Destinations rule) (add_missing_groups a (pr_Sources rule) gs))
      (r0 # rs) (c_Groups c), c_ResourcePoliciesMap := AList.update i policies (c_ResourcePoliciesMap c)\<rparr>"
    for c :: NetworkMapComponents
  have gs: "extends lib a validated st c (gs c)" for c
    by (rule extendsI) (auto simp: gs_def simp del: fold.simps dest!: resource_groups(1) intro: resource_groups(2))
  show ?thesis
  proof (cases b)
    case True
    obtain valid pf where v: "getPostureValidPeersSaveFailed lib a (policy_sources ord a policy r0)
        (pol_SourcePostureChecks policy) validated (c_PostureFailedPeers c) = (valid, pf)" by fastforce
    note pf = getPostureValidPeersSaveFailed_result [OF sound v]
    let ?c = "c\<lparr>c_Peers := fold (\<lambda>p. add_missing p (GetPeer a p)) valid (c_Peers c), c_PostureFailedPeers := pf\<rparr>"
    have "extends lib a validated st c ?c"
      by (rule extendsI) (use pf in \<open>auto dest!: add_missing_peers(1) intro: add_missing_peers(2)\<close>)
    moreover have "resource_policy lib ord a x validated i policies policy (c, b) = Some (gs ?c, True)"
      using True v r0 by (simp add: resource_policy_def gs_def Let_def)
    ultimately show ?thesis using extends_trans [OF _ gs] by blast
  next
    case False
    have rec: "extends lib a validated st c (c\<lparr>c_PostureFailedPeers := record_failed n x (c_PostureFailedPeers c)\<rparr>)"
      if "fails_known lib a x n" for n
      by (rule extendsI) (use record_failed_sound [OF _ that] in auto)
    show ?thesis
    proof (cases rule: GetFailed_cases [of lib a "pol_SourcePostureChecks policy" x])
      case valid
      then show ?thesis using False r0 gs by (auto simp: resource_policy_def gs_def Let_def)
    next
      case missing
      then show ?thesis using False r0 gs by (auto simp: resource_policy_def gs_def Let_def)
    next
      case (failed n q)
      have "fails_known lib a x n" using failed by (simp add: fails_known_def)
      from rec [OF this] failed(1) False r0 gs show ?thesis by (auto simp: resource_policy_def gs_def Let_def)
    qed
  qed
qed

lemma extends_parts_ok: "extends lib a validated st c c' \<Longrightarrow> parts_ok lib a validated (view st c) \<Longrightarrow> parts_ok lib a validated (view st c')"
  unfolding extends_def by blast

lemma parts_ok_sound: "parts_ok lib a validated (view st c) \<Longrightarrow> failed_sound lib a (c_PostureFailedPeers c)"
  by (simp add: parts_ok_def view_def)

lemma resource_policies_extends:
  "parts_ok lib a validated (view st c) \<Longrightarrow> list_all (\<lambda>p. pol_Rules p \<noteq> []) ps \<Longrightarrow>
   \<exists>c' b'. resource_policies lib ord a x validated i policies ps (c, b) = Some (c', b') \<and> extends lib a validated st c c'"
proof (induction ps arbitrary: c b)
  case (Cons p ps)
  have p: "pol_Rules p \<noteq> []" and ps: "list_all (\<lambda>p. pol_Rules p \<noteq> []) ps" using Cons.prems(2) by simp_all
  from resource_policy_extends [OF parts_ok_sound [OF Cons.prems(1)] p] obtain c1 b1 where
    c1: "resource_policy lib ord a x validated i policies p (c, b) = Some (c1, b1)" and e1: "extends lib a validated st c c1" by blast
  from Cons.IH [OF extends_parts_ok [OF e1 Cons.prems(1)] ps, of b1] obtain c2 b2 where
    c2: "resource_policies lib ord a x validated i policies ps (c1, b1) = Some (c2, b2)" and e2: "extends lib a validated st c1 c2" by blast
  have "resource_policies lib ord a x validated i policies (p # ps) (c, b) = Some (c2, b2)" using c1 c2 by simp
  with extends_trans [OF e1 e2] show ?case by blast
qed simp

lemma add_router_peer_extends: "extends lib a validated st c (add_router_peer a validated k c)"
proof (cases "GetPeer a k")
  case (Some p)
  show ?thesis by (rule extendsI) (use Some in \<open>auto simp: add_router_peer_def dest!: set_add_missing split: if_splits\<close>)
qed (simp add: add_router_peer_def)

lemma add_router_peers_extends: "extends lib a validated st c (fold (\<lambda>(k, _). add_router_peer a validated k) rs c)"
proof (induction rs arbitrary: c)
  case (Cons e rs)
  show ?case by (cases e) (auto intro: extends_trans [OF add_router_peer_extends Cons.IH])
qed simp

lemma add_resource_extends:
  assumes ok: "parts_ok lib a validated (view st c)"
    and rules: "list_all (\<lambda>(_, ps). list_all (\<lambda>p. pol_Rules p \<noteq> []) ps) resourcePolicies"
  shows "\<exists>c'. add_resource lib ord a x validated resourcePolicies routers resource c = Some c' \<and> extends lib a validated st c c'"
proof (cases "nrs_Enabled resource \<and> map_of resourcePolicies (nrs_ID resource) \<noteq> None")
  case False
  then show ?thesis by (auto simp: add_resource_def)
next
  case True
  then obtain policies where p: "map_of resourcePolicies (nrs_ID resource) = Some policies" by auto
  then have "list_all (\<lambda>p. pol_Rules p \<noteq> []) policies" using rules by (auto simp: list_all_iff dest!: map_of_SomeD)
  define rs where "rs = (case map_of routers (nrs_NetworkID resource) of None \<Rightarrow> [] | Some rs \<Rightarrow> rs)"
  obtain c1 b1 where c1: "resource_policies lib ord a x validated (nrs_ID resource) policies policies (c, has_key rs x) = Some (c1, b1)"
      and e1: "extends lib a validated st c c1"
    using resource_policies_extends [OF ok \<open>list_all _ policies\<close>] by blast
  define c2 where "c2 = c1\<lparr>c_RoutersMap := AList.update (nrs_NetworkID resource) rs (c_RoutersMap c1)\<rparr>"
  define c3 where "c3 = fold (\<lambda>(k, _). add_router_peer a validated k) rs c2"
  define c4 where "c4 = (if b1 then c3\<lparr>c_NetworkResources := c_NetworkResources c3 @ [resource]\<rparr> else c3)"
  have "extends lib a validated st c1 c2" by (rule extendsI) (auto simp: c2_def)
  moreover have "extends lib a validated st c2 c3" unfolding c3_def by (rule add_router_peers_extends)
  moreover have "extends lib a validated st c3 c4" by (rule extendsI) (auto simp: c4_def split: if_splits)
  ultimately have "extends lib a validated st c c4" using e1 extends_trans by blast
  moreover have "add_resource lib ord a x validated resourcePolicies routers resource c = Some c4"
    using True p c1 unfolding add_resource_def c4_def c3_def c2_def rs_def [symmetric] by (simp add: Let_def)
  ultimately show ?thesis by blast
qed

lemma add_resources_extends:
  assumes rules: "list_all (\<lambda>(_, ps). list_all (\<lambda>p. pol_Rules p \<noteq> []) ps) resourcePolicies"
  shows "parts_ok lib a validated (view st c) \<Longrightarrow>
    \<exists>c'. add_resources lib ord a x validated resourcePolicies routers rs c = Some c' \<and> extends lib a validated st c c'"
proof (induction rs arbitrary: c)
  case (Cons r rs)
  from add_resource_extends [OF Cons.prems rules] obtain c1 where
    c1: "add_resource lib ord a x validated resourcePolicies routers r c = Some c1" and e1: "extends lib a validated st c c1" by blast
  from Cons.IH [OF extends_parts_ok [OF e1 Cons.prems]] obtain c2 where
    c2: "add_resources lib ord a x validated resourcePolicies routers rs c1 = Some c2" and e2: "extends lib a validated st c1 c2" by blast
  have "add_resources lib ord a x validated resourcePolicies routers (r # rs) c = Some c2" using c1 c2 by simp
  with extends_trans [OF e1 e2] show ?case by blast
qed simp

end
