(* ===== verification/ComponentsProps.thy ===== *)
theory ComponentsProps
  imports ComponentsParts
begin

text \<open>
  The components give the same peers, firewall rules and authorized users as the account they were extracted
  from, on the accounts described by \<open>components_ok\<close>.
\<close>

section \<open>Groups after filtering\<close>

lemma filter_group_fields:
  "filter_group known g = Some g' \<Longrightarrow> grp_Peers g' = filter known (grp_Peers g) \<and> IsGroupAll g' = IsGroupAll g"
  "p \<in> set (grp_Peers g) \<Longrightarrow> known p \<Longrightarrow> filter_group known g \<noteq> None"
proof -
  have "length (filter known (grp_Peers g)) = length (grp_Peers g) \<Longrightarrow> filter known (grp_Peers g) = grp_Peers g"
    by (simp add: filter_id_conv length_filter_less leD) (metis length_filter_less less_irrefl)
  then show "filter_group known g = Some g' \<Longrightarrow> grp_Peers g' = filter known (grp_Peers g) \<and> IsGroupAll g' = IsGroupAll g"
    by (auto simp: filter_group_def Let_def Group_Copy_def IsGroupAll_def split: if_splits)
  show "p \<in> set (grp_Peers g) \<Longrightarrow> known p \<Longrightarrow> filter_group known g \<noteq> None"
    by (auto simp: filter_group_def Let_def filter_empty_conv)
qed

lemma has_key_Cons: "has_key ((k, v) # m) g \<longleftrightarrow> k = g \<or> has_key m g"
  by (simp add: has_key_def)

lemma ptr_lookup_Cons: "ptr_lookup ((k, v) # m) g = (if k = g then v else ptr_lookup m g)"
  by (simp add: ptr_lookup_def)

lemma filterGroupPeers_lookup:
  assumes vals: "\<And>g v. (g, v) \<in> set groups \<Longrightarrow> v = GetGroup a g \<and> v \<noteq> None"
  shows "\<exists>gs. filterGroupPeers groups peers = Some gs
    \<and> (\<forall>g. ptr_lookup gs g = (if has_key groups g then Option.bind (GetGroup a g) (filter_group (has_key peers)) else None))"
proof -
  let ?h = "\<lambda>(gid, g). case Option.bind g (filter_group (has_key peers)) of None \<Rightarrow> None | Some g \<Rightarrow> Some (gid, Some g)"
  have "ptr_lookup (List.map_filter ?h groups) g =
      (if has_key groups g then Option.bind (GetGroup a g) (filter_group (has_key peers)) else None)" for g
    using vals
  proof (induction groups)
    case Nil
    then show ?case by (simp add: ptr_lookup_def has_key_def List.map_filter_def)
  next
    case (Cons e groups)
    obtain k v where e: "e = (k, v)" by (cases e)
    have v: "v = GetGroup a k" using Cons.prems unfolding e by simp
    have IH: "ptr_lookup (List.map_filter ?h groups) g =
      (if has_key groups g then Option.bind (GetGroup a g) (filter_group (has_key peers)) else None)"
      by (rule Cons.IH) (use Cons.prems in auto)
    show ?case
    proof (cases "Option.bind v (filter_group (has_key peers))")
      case None
      then have eq: "List.map_filter ?h (e # groups) = List.map_filter ?h groups" by (simp add: e List.map_filter_def)
      show ?thesis unfolding eq using IH None unfolding e v by (auto simp: has_key_Cons)
    next
      case (Some g')
      then have eq: "List.map_filter ?h (e # groups) = (k, Some g') # List.map_filter ?h groups" by (simp add: e List.map_filter_def)
      show ?thesis unfolding eq using IH Some unfolding e v by (auto simp: has_key_Cons ptr_lookup_Cons)
    qed
  qed
  moreover have "\<not> list_ex (\<lambda>(_, g). g = None) groups" using vals by (auto simp: list_ex_iff)
  ultimately show ?thesis by (auto simp: filterGroupPeers_def)
qed

text \<open>For a known peer, collecting over the filtered groups gives what collecting over all groups gives.\<close>

lemma collect_agree:
  assumes G': "\<And>g. G' g = (if K g then Option.bind (G g) (filter_group known) else None)"
    and x: "known x" "\<And>g gr. G g = Some gr \<Longrightarrow> x \<in> set (grp_Peers gr) \<Longrightarrow> K g"
    and All: "\<And>g gr. G g = Some gr \<Longrightarrow> IsGroupAll gr \<Longrightarrow> x \<in> set (grp_Peers gr)"
    and p: "known p"
  shows "\<forall>g gr. g \<in> set gids \<longrightarrow> G g = Some gr \<longrightarrow> p \<in> set (grp_Peers gr) \<longrightarrow> K g \<Longrightarrow>
    n = 1 \<longrightarrow> length gids \<le> 1 \<and> p \<notin> set acc \<Longrightarrow> (p \<in> set acc \<longleftrightarrow> p \<in> set acc') \<Longrightarrow>
    p \<in> set (collect_group_peers G' n gids acc id) \<longleftrightarrow> p \<in> set (collect_group_peers G n gids acc' id)"
proof (induction gids arbitrary: acc acc')
  case (Cons g gids)
  note prems = Cons.prems
  have rest: "\<forall>g gr. g \<in> set gids \<longrightarrow> G g = Some gr \<longrightarrow> p \<in> set (grp_Peers gr) \<longrightarrow> K g" using prems(1) by simp
  show ?case
  proof (cases "G g")
    case None
    then have "G' g = None" by (simp add: G')
    with None Cons.IH [OF rest _ prems(3)] prems(2) show ?thesis by auto
  next
    case (Some gr)
    show ?thesis
    proof (cases "G' g")
      case None
      have no_p: "p \<notin> set (grp_Peers gr)"
        using None Some prems(1) filter_group_fields(2) [of p gr known] p by (auto simp: G' split: if_splits)
      have "\<not> IsGroupAll gr"
        using None Some All x filter_group_fields(2) [of x gr known] by (auto simp: G' split: if_splits)
      moreover have "n = 1 \<Longrightarrow> gids = [] \<and> p \<notin> set acc" using prems(2) by auto
      ultimately show ?thesis
        using None Some no_p Cons.IH [OF rest, of acc "acc' @ grp_Peers gr"] prems(2,3) by auto
    next
      case (Some gr')
      then have "K g" "filter_group known gr = Some gr'" using \<open>G g = Some gr\<close> by (auto simp: G' split: if_splits)
      note f = filter_group_fields(1) [OF this(2)]
      show ?thesis
        using Some \<open>G g = Some gr\<close> f p Cons.IH [OF rest, of "acc @ grp_Peers gr'" "acc' @ grp_Peers gr"] prems(2,3) by auto
    qed
  qed
qed simp

section \<open>What was extracted\<close>

text \<open>
  The parts before the last two filters, and the components after them.
\<close>

definition extracted :: "version_lib \<Rightarrow> Account \<Rightarrow> string set \<Rightarrow> nbPeer \<Rightarrow> relevant \<Rightarrow> NetworkMapComponents \<Rightarrow> bool" where
  "extracted lib a validated peer st c \<longleftrightarrow>
     parts_ok lib a validated st \<and> has_key (rel_peers st) (np_ID peer)
     \<and> (\<forall>g gr. GetGroup a g = Some gr \<longrightarrow> np_ID peer \<in> set (grp_Peers gr) \<longrightarrow> has_key (rel_groups st) g)
     \<and> (\<forall>(p, r) \<in> enabled_rules (acc_Policies a). rule_closed lib a validated peer st p r)
     \<and> c_Peers c = rel_peers st
     \<and> (\<forall>g. GetGroupInfo c g = (if has_key (rel_groups st) g
                                  then Option.bind (GetGroup a g) (filter_group (has_key (rel_peers st))) else None))
     \<and> c_Policies c = filter (policy_concerns lib a validated (np_ID peer)) (acc_Policies a)
     \<and> (\<exists>rp. c_PostureFailedPeers c = filterPostureFailedPeers (rel_failed st) (c_Policies c) rp (rel_peers st))"

lemma ptr_lookup_parts:
  assumes "\<And>p v. (p, v) \<in> set m \<Longrightarrow> v = f p"
  shows "ptr_lookup m p = (if has_key m p then f p else None)"
  using assms by (auto simp: ptr_lookup_def has_key_def dest: map_of_SomeD split: option.split)

lemma GetPeerNetworkMapComponents_extracted:
  assumes ok: "components_ok a validated x" and peer: "GetPeer a x = Some peer"
    and rules: "list_all (\<lambda>(_, ps). list_all (\<lambda>p. pol_Rules p \<noteq> []) ps) resourcePolicies"
  shows "\<exists>c st. GetPeerNetworkMapComponents Fqdn lib ord a x zone zones validated resourcePolicies routers users = Returns (Some c)
    \<and> extracted lib a validated peer st c
    \<and> c_GroupIDToUserIDs c = filterGroupIDToUserIDs users (neededGroupIDs st)
    \<and> c_AllowedUserIDs c = (if needAllowedUserIDs st then Some (getAllowedUserIDs a) else None)"
proof -
  have x: "np_ID peer = x" using ok peer GetPeer_ID by (auto simp: components_ok_def)
  obtain Q st0 where g: "getPeersGroupsPoliciesRoutes lib a x (np_SSHEnabled peer) validated = (Q, st0)" by fastforce
  note P = getPeersGroupsPoliciesRoutes_parts [OF ok peer g]
  define c0 where "c0 = base_components Fqdn lib a peer x zone zones validated users"
  have c0: "c_Peers c0 = rel_peers st0" "c_Groups c0 = rel_groups st0" "c_PostureFailedPeers c0 = rel_failed st0" "c_Policies c0 = Q"
    "c_GroupIDToUserIDs c0 = filterGroupIDToUserIDs users (neededGroupIDs st0)"
    "c_AllowedUserIDs c0 = (if needAllowedUserIDs st0 then Some (getAllowedUserIDs a) else None)"
    using g by (simp_all add: c0_def base_components_def)
  then have v0: "view st0 c0 = st0" by (simp add: view_def)
  obtain c1 where c1: "add_resources lib ord a x validated resourcePolicies routers (acc_NetworkResources a) c0 = Some c1"
      and e1: "extends lib a validated st0 c0 c1"
    using add_resources_extends [OF rules] P(1) v0 by metis
  define st where "st = view st0 c1"
  have st: "parts_ok lib a validated st" "parts_le st0 st"
    using e1 P(1) v0 unfolding extends_def st_def by auto
  have vals: "\<And>g v. (g, v) \<in> set (c_Groups c1) \<Longrightarrow> v = GetGroup a g \<and> v \<noteq> None"
    using st(1) unfolding parts_ok_def st_def view_def by auto
  obtain gs where gs: "filterGroupPeers (c_Groups c1) (c_Peers c1) = Some gs"
      and lookup: "\<forall>g. ptr_lookup gs g = (if has_key (c_Groups c1) g
        then Option.bind (GetGroup a g) (filter_group (has_key (c_Peers c1))) else None)"
    using filterGroupPeers_lookup [OF vals] by metis
  let ?c = "c1\<lparr>c_Groups := gs, c_PostureFailedPeers := filterPostureFailedPeers (c_PostureFailedPeers c1) (c_Policies c1)
      (c_ResourcePoliciesMap c1) (c_Peers c1)\<rparr>"
  have "x \<in> validated" using ok by (simp add: components_ok_def)
  then have "GetPeerNetworkMapComponents Fqdn lib ord a x zone zones validated resourcePolicies routers users = Returns (Some ?c)"
    using peer c1 gs by (simp add: GetPeerNetworkMapComponents_def c0_def)
  moreover have "extracted lib a validated peer st ?c"
    using st(1) P(2-5) rule_closed_mono [OF _ st(2)] st(2) lookup e1 c0(4) x
    unfolding extracted_def by (auto simp: parts_le_def st_def view_def GetGroupInfo_def extends_def)
  moreover have "neededGroupIDs st = neededGroupIDs st0" "needAllowedUserIDs st = needAllowedUserIDs st0"
    by (simp_all add: st_def view_def)
  ultimately show ?thesis
    using e1 c0(5,6) unfolding extends_def by (intro exI [of _ ?c] exI [of _ st]) simp
qed

section \<open>The sides of a rule agree\<close>

lemma extracted_facts:
  assumes "extracted lib a validated peer st c" "components_ok a validated (np_ID peer)"
  shows "GetPeerInfo c p = (if has_key (c_Peers c) p then GetPeer a p else None)"
    "has_key (c_Peers c) p \<Longrightarrow> GetPeer a p = Some q \<Longrightarrow> p \<in> validated"
    "GetGroup a g = Some gr \<Longrightarrow> IsGroupAll gr \<Longrightarrow> np_ID peer \<in> set (grp_Peers gr)"
    "has_key (c_Peers c) (np_ID peer)"
proof -
  have peers: "(p, v) \<in> set (c_Peers c) \<Longrightarrow> v = GetPeer a p \<and> (v = None \<or> p \<in> validated)" for p v
    using assms(1) by (auto simp: extracted_def parts_ok_def)
  show "GetPeerInfo c p = (if has_key (c_Peers c) p then GetPeer a p else None)"
    unfolding GetPeerInfo_def using peers by (intro ptr_lookup_parts) blast
  show "has_key (c_Peers c) p \<Longrightarrow> GetPeer a p = Some q \<Longrightarrow> p \<in> validated"
    using peers by (force simp: has_key_iff)
  show "GetGroup a g = Some gr \<Longrightarrow> IsGroupAll gr \<Longrightarrow> np_ID peer \<in> set (grp_Peers gr)"
    using assms(2) by (auto simp: components_ok_def list_all_iff GetGroup_def dest!: map_of_SomeD)
  show "has_key (c_Peers c) (np_ID peer)" using assms(1) by (simp add: extracted_def)
qed

lemma ids_agree:
  assumes e: "extracted lib a validated peer st c" and ok: "components_ok a validated (np_ID peer)" and ord: "is_order ord"
    and p: "has_key (c_Peers c) p"
    and K: "\<And>g gr. g \<in> set groups \<Longrightarrow> GetGroup a g = Some gr \<Longrightarrow> p \<in> set (grp_Peers gr) \<Longrightarrow> has_key (rel_groups st) g"
  shows "p \<in> set (c_getUniquePeerIDsFromGroupsIDs ord c groups) \<longleftrightarrow> p \<in> set (getUniquePeerIDsFromGroupsIDs id a groups)"
proof -
  have G': "\<And>g. GetGroupInfo c g = (if has_key (rel_groups st) g then Option.bind (GetGroup a g) (filter_group (has_key (c_Peers c))) else None)"
    and own: "\<And>g gr. GetGroup a g = Some gr \<Longrightarrow> np_ID peer \<in> set (grp_Peers gr) \<Longrightarrow> has_key (rel_groups st) g"
    using e by (auto simp: extracted_def)
  have "p \<in> set (collect_group_peers (GetGroupInfo c) (length groups) groups [] id)
      \<longleftrightarrow> p \<in> set (collect_group_peers (GetGroup a) (length groups) groups [] id)"
    by (rule collect_agree [OF G' extracted_facts(4) [OF e ok] own extracted_facts(3) [OF e ok] p]) (use K in auto)
  then show ?thesis
    by (simp add: c_getUniquePeerIDsFromGroupsIDs_def getUniquePeerIDsFromGroupsIDs_def set_collect_group_peers [OF ord])
qed

text \<open>A policy of the components: the recorded failures decide its posture checks.\<close>

lemma c_eligible_iff:
  assumes e: "extracted lib a validated peer st c" and ok: "components_ok a validated (np_ID peer)"
    and p: "has_key (c_Peers c) p"
    and checks: "checkIDs = [] \<or> (\<exists>policy \<in> set (c_Policies c). checkIDs = pol_SourcePostureChecks policy)
        \<and> noted lib a checkIDs validated (rel_failed st) p"
  shows "c_eligible c checkIDs p = Some (p', q) \<longleftrightarrow> p' = p \<and> eligible_peer lib a checkIDs validated p = Some q"
proof (cases "GetPeer a p")
  case None
  then have "c_eligible c checkIDs p = None" "eligible_peer lib a checkIDs validated p = None"
    using extracted_facts(1) [OF e ok, of p] by (simp_all add: c_eligible_def eligible_peer_def)
  then show ?thesis by simp
next
  case (Some q')
  then have val: "p \<in> validated" and info: "GetPeerInfo c p = Some q'"
    using extracted_facts(1,2) [OF e ok, of p] p by simp_all
  obtain rp where pf: "c_PostureFailedPeers c = filterPostureFailedPeers (rel_failed st) (c_Policies c) rp (c_Peers c)"
    using e by (auto simp: extracted_def)
  have sound: "failed_sound lib a (rel_failed st)" using e by (simp add: extracted_def parts_ok_def)
  have "ValidatePostureChecksOnPeer c p checkIDs \<longleftrightarrow> (\<forall>i \<in> set checkIDs. \<not> fails_posture lib a q' i)"
  proof
    assume valid: "ValidatePostureChecksOnPeer c p checkIDs"
    show "\<forall>i \<in> set checkIDs. \<not> fails_posture lib a q' i"
    proof (rule ccontr)
      assume "\<not> (\<forall>i \<in> set checkIDs. \<not> fails_posture lib a q' i)"
      then obtain policy i s where i: "policy \<in> set (c_Policies c)" "checkIDs = pol_SourcePostureChecks policy"
          "i \<in> set checkIDs" "rel_failed st i = Some s" "p \<in> s"
        using checks Some val unfolding noted_def by fastforce
      then have "c_PostureFailedPeers c i = Some {p \<in> s. has_key (c_Peers c) p}"
        using p unfolding pf filterPostureFailedPeers_def by (auto simp: Let_def)
      with valid i(3,5) p show False by (auto simp: ValidatePostureChecksOnPeer_def list_all_iff)
    qed
  next
    assume pass: "\<forall>i \<in> set checkIDs. \<not> fails_posture lib a q' i"
    have "p \<notin> s" if "i \<in> set checkIDs" "c_PostureFailedPeers c i = Some s" for i s
      using that pass sound Some unfolding pf filterPostureFailedPeers_def failed_sound_def fails_known_def
      by (fastforce simp: Let_def split: option.splits if_splits)
    then show "ValidatePostureChecksOnPeer c p checkIDs"
      using p by (auto simp: ValidatePostureChecksOnPeer_def list_all_iff split: option.split)
  qed
  then show ?thesis
    using info Some val eligible_peer_iff [OF ok, of lib checkIDs p q] by (auto simp: c_eligible_def)
qed

lemma c_eligible_key: "c_eligible c checkIDs p = Some (p', q) \<Longrightarrow> p' = p"
  by (simp add: c_eligible_def split: option.splits if_splits)

lemma c_getAllPeersFromGroups_iff:
  "snd (c_getAllPeersFromGroups ord c groups x checkIDs) \<longleftrightarrow>
     x \<in> set (c_getUniquePeerIDsFromGroupsIDs ord c groups) \<and> (\<exists>q. c_eligible c checkIDs x = Some (x, q))"
  "q \<in> set (fst (c_getAllPeersFromGroups ord c groups x checkIDs)) \<longleftrightarrow>
     (\<exists>p \<in> set (c_getUniquePeerIDsFromGroupsIDs ord c groups). c_eligible c checkIDs p = Some (p, q) \<and> p \<noteq> x)"
proof -
  let ?ids = "c_getUniquePeerIDsFromGroupsIDs ord c groups"
  have mem: "(p, q) \<in> set (List.map_filter (c_eligible c checkIDs) ?ids) \<longleftrightarrow> p \<in> set ?ids \<and> c_eligible c checkIDs p = Some (p, q)" for p q
    unfolding set_map_filter using c_eligible_key by blast
  show "snd (c_getAllPeersFromGroups ord c groups x checkIDs) \<longleftrightarrow>
     x \<in> set ?ids \<and> (\<exists>q. c_eligible c checkIDs x = Some (x, q))"
    by (force simp: c_getAllPeersFromGroups_def Let_def list_ex_iff mem)
  show "q \<in> set (fst (c_getAllPeersFromGroups ord c groups x checkIDs)) \<longleftrightarrow>
     (\<exists>p \<in> set ?ids. c_eligible c checkIDs p = Some (p, q) \<and> p \<noteq> x)"
    unfolding c_getAllPeersFromGroups_def Let_def fst_conv set_map set_filter image_iff by (auto simp: mem)
qed

lemma getAllPeersFromGroups_iff:
  assumes ok: "account_ok a"
  shows "snd (getAllPeersFromGroups lib ord a groups x checkIDs validated) \<longleftrightarrow>
     x \<in> set (getUniquePeerIDsFromGroupsIDs ord a groups) \<and> (\<exists>q. eligible_peer lib a checkIDs validated x = Some q)"
    "q \<in> set (fst (getAllPeersFromGroups lib ord a groups x checkIDs validated)) \<longleftrightarrow>
     (\<exists>p \<in> set (getUniquePeerIDsFromGroupsIDs ord a groups). eligible_peer lib a checkIDs validated p = Some q \<and> p \<noteq> x)"
proof -
  let ?ids = "getUniquePeerIDsFromGroupsIDs ord a groups"
  have ID: "eligible_peer lib a checkIDs validated p = Some q \<Longrightarrow> np_ID q = p" for p q
    using GetPeer_ID [OF ok] eligible_peer_GetPeer by blast
  show "snd (getAllPeersFromGroups lib ord a groups x checkIDs validated) \<longleftrightarrow>
     x \<in> set ?ids \<and> (\<exists>q. eligible_peer lib a checkIDs validated x = Some q)"
    unfolding getAllPeersFromGroups_def Let_def snd_conv list_ex_iff set_map_filter using ID by blast
  show "q \<in> set (fst (getAllPeersFromGroups lib ord a groups x checkIDs validated)) \<longleftrightarrow>
     (\<exists>p \<in> set ?ids. eligible_peer lib a checkIDs validated p = Some q \<and> p \<noteq> x)"
    unfolding getAllPeersFromGroups_def Let_def fst_conv set_filter set_map_filter using ID by blast
qed

lemma group_agrees:
  assumes e: "extracted lib a validated peer st c" and ok: "components_ok a validated (np_ID peer)" and ord: "is_order ord"
    and checks: "checkIDs = [] \<or> (\<exists>policy \<in> set (c_Policies c). checkIDs = pol_SourcePostureChecks policy)
        \<and> (\<forall>p \<in> set (getUniquePeerIDsFromGroupsIDs id a groups). noted lib a checkIDs validated (rel_failed st) p)"
  shows "snd (c_getAllPeersFromGroups ord c groups (np_ID peer) checkIDs)
       = snd (getAllPeersFromGroups lib id a groups (np_ID peer) checkIDs validated)" (is ?member)
    and "\<forall>g \<in> set groups. has_key (rel_groups st) g \<Longrightarrow>
      \<forall>q \<in> set (fst (getAllPeersFromGroups lib id a groups (np_ID peer) checkIDs validated)). has_key (c_Peers c) (np_ID q) \<Longrightarrow>
      set (fst (c_getAllPeersFromGroups ord c groups (np_ID peer) checkIDs))
       = set (fst (getAllPeersFromGroups lib id a groups (np_ID peer) checkIDs validated))"
proof -
  let ?x = "np_ID peer" and ?ids = "getUniquePeerIDsFromGroupsIDs id a groups" and ?cids = "c_getUniquePeerIDsFromGroupsIDs ord c groups"
  have acc: "account_ok a" using ok by (simp add: components_ok_def)
  have elig: "c_eligible c checkIDs p = Some (p, q) \<longleftrightarrow> eligible_peer lib a checkIDs validated p = Some q"
    if "has_key (c_Peers c) p" "p \<in> set ?ids" for p q
    using c_eligible_iff [OF e ok that(1), of checkIDs p q] checks that(2) by blast
  have x: "has_key (c_Peers c) ?x" by (rule extracted_facts(4) [OF e ok])
  have "?x \<in> set ?cids \<longleftrightarrow> ?x \<in> set ?ids"
    by (rule ids_agree [OF e ok ord x]) (use e in \<open>auto simp: extracted_def\<close>)
  then show ?member
    unfolding c_getAllPeersFromGroups_iff getAllPeersFromGroups_iff [OF acc] using elig [OF x] by blast
  assume groups: "\<forall>g \<in> set groups. has_key (rel_groups st) g"
    and known: "\<forall>q \<in> set (fst (getAllPeersFromGroups lib id a groups ?x checkIDs validated)). has_key (c_Peers c) (np_ID q)"
  have ids: "p \<in> set ?cids \<longleftrightarrow> p \<in> set ?ids" if "has_key (c_Peers c) p" for p
    by (rule ids_agree [OF e ok ord that]) (use groups in blast)
  have has: "has_key (c_Peers c) p" if "c_eligible c checkIDs p = Some r" for p r
    using extracted_facts(1) [OF e ok, of p] that by (cases "has_key (c_Peers c) p") (simp_all add: c_eligible_def)
  have has': "has_key (c_Peers c) p" if "p \<in> set ?ids" "eligible_peer lib a checkIDs validated p = Some q" "p \<noteq> ?x" for p q
  proof -
    have "q \<in> set (fst (getAllPeersFromGroups lib id a groups ?x checkIDs validated))"
      unfolding getAllPeersFromGroups_iff [OF acc] using that by blast
    moreover have "np_ID q = p" using GetPeer_ID [OF acc eligible_peer_GetPeer [OF that(2)]] .
    ultimately show ?thesis using known by blast
  qed
  show "set (fst (c_getAllPeersFromGroups ord c groups ?x checkIDs)) = set (fst (getAllPeersFromGroups lib id a groups ?x checkIDs validated))"
    unfolding set_eq_iff c_getAllPeersFromGroups_iff getAllPeersFromGroups_iff [OF acc]
    using ids elig has has' by blast
qed

lemma resource_agrees:
  assumes e: "extracted lib a validated peer st c" and ok: "components_ok a validated (np_ID peer)"
    and peer: "GetPeer a (np_ID peer) = Some peer"
  shows "snd (c_getPeerFromResource c resource (np_ID peer)) = snd (getPeerFromResource a resource (np_ID peer))"
    and "\<forall>q \<in> set (fst (getPeerFromResource a resource (np_ID peer))). has_key (c_Peers c) (np_ID q) \<Longrightarrow>
      fst (c_getPeerFromResource c resource (np_ID peer)) = fst (getPeerFromResource a resource (np_ID peer))"
proof -
  note info = extracted_facts(1) [OF e ok, of "res_ID resource"]
  have both: "snd (c_getPeerFromResource c resource (np_ID peer)) = snd (getPeerFromResource a resource (np_ID peer))
      \<and> ((\<forall>q \<in> set (fst (getPeerFromResource a resource (np_ID peer))). has_key (c_Peers c) (np_ID q)) \<longrightarrow>
        fst (c_getPeerFromResource c resource (np_ID peer)) = fst (getPeerFromResource a resource (np_ID peer)))"
  proof (cases "GetPeer a (res_ID resource)")
    case None
    then have "res_ID resource \<noteq> np_ID peer" using peer by auto
    with None info show ?thesis by (simp add: c_getPeerFromResource_def getPeerFromResource_def)
  next
    case (Some q)
    have acc: "account_ok a" using ok by (simp add: components_ok_def)
    from GetPeer_ID [OF this Some] Some info show ?thesis by (simp add: c_getPeerFromResource_def getPeerFromResource_def)
  qed
  then show "snd (c_getPeerFromResource c resource (np_ID peer)) = snd (getPeerFromResource a resource (np_ID peer))" by blast
  show "fst (c_getPeerFromResource c resource (np_ID peer)) = fst (getPeerFromResource a resource (np_ID peer))"
    if "\<forall>q \<in> set (fst (getPeerFromResource a resource (np_ID peer))). has_key (c_Peers c) (np_ID q)"
    using both that by blast
qed

lemma rule_agrees:
  assumes e: "extracted lib a validated peer st c" and ok: "components_ok a validated (np_ID peer)"
    and peer: "GetPeer a (np_ID peer) = Some peer" and ord: "is_order ord"
    and r: "(policy, rule) \<in> enabled_rules (acc_Policies a)" and p: "policy \<in> set (c_Policies c)"
  shows "snd (c_rule_sources ord c (np_ID peer) policy rule) = snd (rule_sources lib id a validated (np_ID peer) policy rule)"
    and "snd (c_rule_destinations ord c (np_ID peer) policy rule) = snd (rule_destinations lib id a validated (np_ID peer) policy rule)"
    and "snd (rule_sources lib id a validated (np_ID peer) policy rule) \<Longrightarrow>
      set (fst (c_rule_destinations ord c (np_ID peer) policy rule)) = set (fst (rule_destinations lib id a validated (np_ID peer) policy rule))"
    and "snd (rule_destinations lib id a validated (np_ID peer) policy rule) \<Longrightarrow>
      set (fst (c_rule_sources ord c (np_ID peer) policy rule)) = set (fst (rule_sources lib id a validated (np_ID peer) policy rule))"
proof -
  have closed: "rule_closed lib a validated peer st policy rule" and peers: "c_Peers c = rel_peers st"
    using e r by (auto simp: extracted_def)
  let ?checks = "pol_SourcePostureChecks policy"
  have S: "\<not> is_peer_resource (pr_SourceResource rule) \<Longrightarrow> ?checks = [] \<or> (\<exists>policy \<in> set (c_Policies c). ?checks = pol_SourcePostureChecks policy)
        \<and> (\<forall>p \<in> set (getUniquePeerIDsFromGroupsIDs id a (pr_Sources rule)). noted lib a ?checks validated (rel_failed st) p)"
    using closed p unfolding rule_closed_def Let_def by blast
  note gS = group_agrees [OF e ok ord S] and gD = group_agrees [OF e ok ord disjI1 [OF refl]] and res = resource_agrees [OF e ok peer]
  show "snd (c_rule_sources ord c (np_ID peer) policy rule) = snd (rule_sources lib id a validated (np_ID peer) policy rule)"
    unfolding c_rule_sources_def rule_sources_def using res(1) gS(1) by simp
  show "snd (c_rule_destinations ord c (np_ID peer) policy rule) = snd (rule_destinations lib id a validated (np_ID peer) policy rule)"
    unfolding c_rule_destinations_def rule_destinations_def using res(1) gD(1) by simp
  show "set (fst (c_rule_destinations ord c (np_ID peer) policy rule)) = set (fst (rule_destinations lib id a validated (np_ID peer) policy rule))"
    if "snd (rule_sources lib id a validated (np_ID peer) policy rule)"
  proof -
    have k: "\<forall>q \<in> set (fst (rule_destinations lib id a validated (np_ID peer) policy rule)). has_key (c_Peers c) (np_ID q)"
      "\<forall>g \<in> set (pr_Destinations rule). has_key (rel_groups st) g"
      using closed that unfolding rule_closed_def Let_def peers by blast+
    then show ?thesis
      unfolding c_rule_destinations_def rule_destinations_def using res(2) gD(2) by (simp split: if_splits)
  qed
  show "set (fst (c_rule_sources ord c (np_ID peer) policy rule)) = set (fst (rule_sources lib id a validated (np_ID peer) policy rule))"
    if "snd (rule_destinations lib id a validated (np_ID peer) policy rule)"
  proof -
    have k: "\<forall>q \<in> set (fst (rule_sources lib id a validated (np_ID peer) policy rule)). has_key (c_Peers c) (np_ID q)"
      "\<forall>g \<in> set (pr_Sources rule). has_key (rel_groups st) g"
      using closed that unfolding rule_closed_def Let_def peers by blast+
    then show ?thesis
      unfolding c_rule_sources_def rule_sources_def using res(2) gS(2) by (simp split: if_splits)
  qed
qed

lemma grants_agree:
  assumes e: "extracted lib a validated peer st c" and ok: "components_ok a validated (np_ID peer)"
    and peer: "GetPeer a (np_ID peer) = Some peer" and ord: "is_order ord"
  shows "all_grants (c_rule_sources ord c (np_ID peer)) (c_rule_destinations ord c (np_ID peer)) (c_Policies c)
     = account_grants lib id a validated (np_ID peer)"
proof -
  let ?x = "np_ID peer"
  have Q: "c_Policies c = filter (policy_concerns lib a validated ?x) (acc_Policies a)" using e by (simp add: extracted_def)
  have enabled: "(p, r) \<in> enabled_rules (c_Policies c) \<longleftrightarrow> (p, r) \<in> enabled_rules (acc_Policies a) \<and> policy_concerns lib a validated ?x p" for p r
    unfolding Q by (auto simp: enabled_rules_def)
  have same: "g \<in> rule_grants r (c_rule_sources ord c ?x p r) (c_rule_destinations ord c ?x p r)
      \<longleftrightarrow> g \<in> rule_grants r (rule_sources lib id a validated ?x p r) (rule_destinations lib id a validated ?x p r)"
    if "(p, r) \<in> enabled_rules (acc_Policies a)" "policy_concerns lib a validated ?x p" for p r g
  proof -
    have "p \<in> set (c_Policies c)" using that unfolding Q by (auto simp: enabled_rules_def)
    note agree = rule_agrees [OF e ok peer ord that(1) this]
    show ?thesis
      by (cases g) (auto simp: mem_rule_grants agree(1,2) rule_admits_def agree(3,4))
  qed
  have none: "rule_grants r (rule_sources lib id a validated ?x p r) (rule_destinations lib id a validated ?x p r) = {}"
    if "(p, r) \<in> enabled_rules (acc_Policies a)" "\<not> policy_concerns lib a validated ?x p" for p r
  proof -
    have "\<not> snd (rule_sources lib id a validated ?x p r)" "\<not> snd (rule_destinations lib id a validated ?x p r)"
      using that by (auto simp: enabled_rules_def policy_concerns_def rule_concerns_def)
    then show ?thesis by (auto simp: mem_rule_grants rule_admits_def)
  qed
  show ?thesis
    unfolding account_grants_def set_eq_iff mem_all_grants enabled using same none by blast
qed

section \<open>Authorized users\<close>

definition authorize_policy ::
    "(string \<rightharpoonup> string list) \<Rightarrow> string set \<Rightarrow> nbPeer \<Rightarrow> (Policy \<Rightarrow> PolicyRule \<Rightarrow> bool) \<Rightarrow> Policy \<Rightarrow> authorized \<times> bool \<Rightarrow> authorized \<times> bool" where
  "authorize_policy users allowed peer inD policy au =
     (if \<not> pol_Enabled policy then au
      else fold (\<lambda>r au. if pr_Enabled r \<and> inD policy r then ssh_step users allowed peer r au else au) (pol_Rules policy) au)"

lemma snd_policy_step:
  "snd (policy_step lib users allowed peer srcs dsts policy st) = authorize_policy users allowed peer (\<lambda>p r. snd (dsts p r)) policy (snd st)"
proof -
  have step: "snd (rule_step lib users allowed peer r s d st) = (if snd d then ssh_step users allowed peer r (snd st) else snd st)" for r s d st
    by (simp add: rule_step_def Let_def case_prod_beta)
  have "snd (fold (\<lambda>rule st. if \<not> pr_Enabled rule then st else rule_step lib users allowed peer rule (srcs policy rule) (dsts policy rule) st) rules st)
      = fold (\<lambda>r au. if pr_Enabled r \<and> snd (dsts policy r) then ssh_step users allowed peer r au else au) rules (snd st)" for rules
    by (induction rules arbitrary: st) (simp_all add: step)
  then show ?thesis by (simp add: policy_step_def authorize_policy_def)
qed

lemma snd_policies: "snd (fold (policy_step lib users allowed peer srcs dsts) ps st)
    = fold (authorize_policy users allowed peer (\<lambda>p r. snd (dsts p r))) ps (snd st)"
  by (induction ps arbitrary: st) (simp_all add: snd_policy_step)

lemma ssh_step_covered:
  assumes "ssh_covered peer rule st"
  shows "ssh_step (filterGroupIDToUserIDs users (neededGroupIDs st)) (if needAllowedUserIDs st then allowed else {}) peer rule au
     = ssh_step users allowed peer rule au"
proof -
  have "fold (authorize_group (filterGroupIDToUserIDs users (neededGroupIDs st))) gs m = fold (authorize_group users) gs m"
    if "fst ` set gs \<subseteq> neededGroupIDs st" for gs m
    using that by (induction gs arbitrary: m) (auto simp: authorize_group_def filterGroupIDToUserIDs_def)
  then show ?thesis
    using assms by (cases au) (auto simp: ssh_covered_def ssh_step_def split: if_splits)
qed

lemma authorize_policies_agree:
  assumes e: "extracted lib a validated peer st c" and ok: "components_ok a validated (np_ID peer)"
    and peer: "GetPeer a (np_ID peer) = Some peer" and ord: "is_order ord"
  shows "set ps \<subseteq> set (acc_Policies a) \<Longrightarrow>
    fold (authorize_policy (filterGroupIDToUserIDs users (neededGroupIDs st)) (if needAllowedUserIDs st then allowed else {}) peer
            (\<lambda>p r. snd (c_rule_destinations ord c (np_ID peer) p r))) (filter (policy_concerns lib a validated (np_ID peer)) ps) au
    = fold (authorize_policy users allowed peer (\<lambda>p r. snd (rule_destinations lib id a validated (np_ID peer) p r))) ps au"
proof (induction ps arbitrary: au)
  case (Cons p ps)
  let ?x = "np_ID peer"
  let ?U = "filterGroupIDToUserIDs users (neededGroupIDs st)" and ?A = "if needAllowedUserIDs st then allowed else {}"
  let ?f = "\<lambda>U A inD r au. if pr_Enabled r \<and> inD p r then ssh_step U A peer r au else au"
  have p: "p \<in> set (acc_Policies a)" using Cons.prems by simp
  show ?case
  proof (cases "policy_concerns lib a validated ?x p")
    case True
    then have Q: "p \<in> set (c_Policies c)" using p e by (auto simp: extracted_def)
    have step: "?f ?U ?A (\<lambda>p r. snd (c_rule_destinations ord c ?x p r)) r au
        = ?f users allowed (\<lambda>p r. snd (rule_destinations lib id a validated ?x p r)) r au" if "r \<in> set (pol_Rules p)" for r au
    proof (cases "pr_Enabled r")
      case True
      then have r: "(p, r) \<in> enabled_rules (acc_Policies a)"
        using p that \<open>policy_concerns lib a validated ?x p\<close> by (auto simp: enabled_rules_def policy_concerns_def)
      then have "rule_closed lib a validated peer st p r" using e by (auto simp: extracted_def)
      then have "snd (rule_destinations lib id a validated ?x p r) \<Longrightarrow> ssh_covered peer r st"
        unfolding rule_closed_def Let_def by blast
      then show ?thesis using rule_agrees(2) [OF e ok peer ord r Q] ssh_step_covered by simp
    qed simp
    have "authorize_policy ?U ?A peer (\<lambda>p r. snd (c_rule_destinations ord c ?x p r)) p au
        = authorize_policy users allowed peer (\<lambda>p r. snd (rule_destinations lib id a validated ?x p r)) p au"
      unfolding authorize_policy_def by (simp only: fold_cong [OF refl refl ext [OF step]])
    with Cons.IH Cons.prems True show ?thesis by (simp only: filter.simps if_True fold_simps list.set insert_subset)
  next
    case False
    then have "\<not> snd (rule_destinations lib id a validated ?x p r)" if "pol_Enabled p" "r \<in> set (pol_Rules p)" "pr_Enabled r" for r
      using that by (auto simp: policy_concerns_def rule_concerns_def)
    then have "authorize_policy users allowed peer (\<lambda>p r. snd (rule_destinations lib id a validated ?x p r)) p au = au"
      unfolding authorize_policy_def
      by (auto intro!: fold_invariant [where Q = "\<lambda>r. r \<in> set (pol_Rules p)" and P = "\<lambda>b. b = au"])
    with Cons.IH Cons.prems False show ?thesis by (simp only: filter.simps if_False fold_simps list.set insert_subset)
  qed
qed simp

section \<open>The components as a provider\<close>

definition components_wf :: "NetworkMapComponents \<Rightarrow> bool" where
  "components_wf c \<longleftrightarrow>
     list_all (\<lambda>(k, v). case v of None \<Rightarrow> True | Some q \<Rightarrow> np_ID q = k) (c_Peers c)
     \<and> (let rs = concat (map pol_Rules (c_Policies c))
        in list_all (\<lambda>r. list_all (\<lambda>r'. length (pr_ID r) = length (pr_ID r') \<and> (pr_ID r = pr_ID r' \<longrightarrow> r = r')) rs) rs)"

lemma GetPeerInfo_ID: "components_wf c \<Longrightarrow> GetPeerInfo c p = Some q \<Longrightarrow> np_ID q = p"
  by (auto simp: components_wf_def GetPeerInfo_def ptr_lookup_def list_all_iff dest!: map_of_SomeD split: option.splits)

lemma GetPeerInfo_inj:
  assumes "components_wf c"
  shows "inj_on np_ID (ran (GetPeerInfo c))"
proof (rule inj_onI)
  fix p q assume pq: "p \<in> ran (GetPeerInfo c)" "q \<in> ran (GetPeerInfo c)" "np_ID p = np_ID q"
  then obtain i j where i: "GetPeerInfo c i = Some p" "GetPeerInfo c j = Some q" by (auto simp: ran_def)
  then have "i = j" using GetPeerInfo_ID [OF assms i(1)] GetPeerInfo_ID [OF assms i(2)] pq(3) by simp
  with i show "p = q" by simp
qed

lemma c_sides_known:
  "set (fst (c_rule_sources ord c x p r)) \<subseteq> ran (GetPeerInfo c)"
  "set (fst (c_rule_destinations ord c x p r)) \<subseteq> ran (GetPeerInfo c)"
proof -
  have "q \<in> ran (GetPeerInfo c)" if "c_eligible c checkIDs i = Some (i, q)" for checkIDs i q
    using that by (auto simp: c_eligible_def ran_def split: option.splits if_splits)
  then have "set (fst (c_getAllPeersFromGroups ord c groups x checkIDs)) \<subseteq> ran (GetPeerInfo c)" for groups checkIDs
    unfolding subset_iff c_getAllPeersFromGroups_iff by blast
  moreover have "set (fst (c_getPeerFromResource c res x)) \<subseteq> ran (GetPeerInfo c)" for res
    by (auto simp: c_getPeerFromResource_def ran_def split: option.split)
  ultimately show "set (fst (c_rule_sources ord c x p r)) \<subseteq> ran (GetPeerInfo c)"
    "set (fst (c_rule_destinations ord c x p r)) \<subseteq> ran (GetPeerInfo c)"
    by (simp_all add: c_rule_sources_def c_rule_destinations_def)
qed

lemma components_rule_ids:
  assumes "components_wf c" "(p, r) \<in> enabled_rules (c_Policies c)" "(p', r') \<in> enabled_rules (c_Policies c)"
  shows "length (pr_ID r) = length (pr_ID r') \<and> (pr_ID r = pr_ID r' \<longrightarrow> r = r')"
proof -
  have "r \<in> set (concat (map pol_Rules (c_Policies c)))" "r' \<in> set (concat (map pol_Rules (c_Policies c)))"
    using assms(2,3) by (auto simp: enabled_rules_def)
  with assms(1) show ?thesis unfolding components_wf_def Let_def list_all_iff by blast
qed

interpretation components_acl: acl_provider "\<lambda>(ord, c, x). components_wf c" "\<lambda>(ord, c, x). ran (GetPeerInfo c)"
  "\<lambda>(ord, c, x). c_Policies c" "\<lambda>(ord, c, x). c_rule_sources ord c x" "\<lambda>(ord, c, x). c_rule_destinations ord c x"
proof (unfold_locales, goal_cases)
  case (1 s p r)
  then show ?case using c_sides_known(1) by (simp only: case_prod_beta)
next
  case (2 s p r)
  then show ?case using c_sides_known(2) by (simp only: case_prod_beta)
next
  case (3 s)
  then show ?case using GetPeerInfo_inj by (simp only: case_prod_beta)
next
  case (4 s p r p' r')
  then show ?case unfolding case_prod_beta by (rule components_rule_ids)
qed

lemma extracted_wf:
  assumes e: "extracted lib a validated peer st c" and ok: "account_ok a"
  shows "components_wf c"
proof -
  have peers: "case v of None \<Rightarrow> True | Some q \<Rightarrow> np_ID q = k" if "(k, v) \<in> set (c_Peers c)" for k v
  proof -
    have "v = GetPeer a k" using e that by (simp add: extracted_def parts_ok_def)
    then show ?thesis using GetPeer_ID [OF ok, of k] by (simp split: option.split)
  qed
  have sub: "set (concat (map pol_Rules (c_Policies c))) \<subseteq> set (account_rules a)"
    using e by (auto simp: extracted_def account_rules_def)
  have "length (pr_ID r) = length (pr_ID r') \<and> (pr_ID r = pr_ID r' \<longrightarrow> r = r')"
    if "r \<in> set (account_rules a)" "r' \<in> set (account_rules a)" for r r'
    using ok that by (auto simp: account_ok_def list_all_iff distinct_map inj_on_def)
  then show ?thesis
    unfolding components_wf_def Let_def list_all_iff using peers subsetD [OF sub] by blast
qed

lemma rule_destinations_member:
  "is_order ord \<Longrightarrow> snd (rule_destinations lib ord a validated x p r) = snd (rule_destinations lib id a validated x p r)"
  by (simp add: rule_destinations_split split_side_def list_ex_iff set_sides)

lemma GetPeerConnectionResources_authorized:
  assumes ord: "is_order ord" and R: "GetPeerConnectionResources lib ord a peer validated users = (ps, rs, au, ssh)"
  shows "fold (authorize_policy users (getAllowedUserIDs a) peer (\<lambda>p r. snd (rule_destinations lib id a validated (np_ID peer) p r)))
     (acc_Policies a) (Map.empty, False) = (au, ssh)"
proof -
  have "snd (fold (policy_step lib users (getAllowedUserIDs a) peer (rule_sources lib ord a validated (np_ID peer))
      (rule_destinations lib ord a validated (np_ID peer))) (acc_Policies a) (acl_start, Map.empty, False)) = (au, ssh)"
    using R unfolding GetPeerConnectionResources_def conn_result_def by (auto split: prod.splits)
  then show ?thesis unfolding snd_policies rule_destinations_member [OF ord] by simp
qed

section \<open>Properties\<close>



section \<open>Missing groups\<close>

lemma nil_group_add_groups:
  "GetGroup a g = None \<Longrightarrow> map_of gs g = Some None \<or> g \<in> set gids \<Longrightarrow> map_of (add_groups a gids gs) g = Some None"
  unfolding add_groups_def
proof (induction gids arbitrary: gs)
  case (Cons h gids)
  have "map_of (AList.update h (GetGroup a h) gs) g = Some None \<or> g \<in> set gids"
    using Cons.prems by (auto simp: update_conv')
  from Cons.IH [OF Cons.prems(1) this] show ?case by simp
qed simp

lemma nil_group_route:
  "GetGroup a g = None \<Longrightarrow> map_of gs g = Some None \<or> g \<in> set (rt_Groups r) \<union> set (rt_PeerGroups r) \<Longrightarrow>
   map_of (route_groups a r gs) g = Some None"
  using nil_group_add_groups by (fastforce simp: route_groups_def Let_def)

lemma nil_group_routes:
  assumes g: "GetGroup a g = None"
  shows "map_of gs g = Some None \<or> (\<exists>(k, r) \<in> set routes. g \<in> set (rt_Groups r) \<union> set (rt_PeerGroups r)) \<Longrightarrow>
    map_of (fold (\<lambda>(_, r). route_groups a r) routes gs) g = Some None"
proof (induction routes arbitrary: gs)
  case (Cons e routes)
  obtain k r where e: "e = (k, r)" by (cases e)
  show ?case
    using Cons.IH [of "route_groups a r gs"] Cons.prems nil_group_route [OF g, of gs r] unfolding e by auto
qed simp

lemma nil_group_rule:
  assumes g: "GetGroup a g = None" and st: "map_of (rel_groups st) g = Some None"
  shows "map_of (rel_groups (snd (relevant_rule lib a validated x b groups policy rule (rel, st)))) g = Some None"
proof -
  have ssh: "rel_groups (ssh_needs b rule st) = rel_groups st" for st by (simp add: ssh_needs_def)
  show ?thesis
    using nil_group_add_groups [OF g] st by (simp add: relevant_rule_def Let_def case_prod_beta ssh)
qed

lemma nil_group_policies:
  assumes g: "GetGroup a g = None"
  shows "map_of (rel_groups st) g = Some None \<Longrightarrow>
    map_of (rel_groups (snd (fold (relevant_policy lib a validated x b groups) policies (Q, st)))) g = Some None"
proof (induction policies arbitrary: Q st)
  case (Cons p policies)
  have rules: "map_of (rel_groups st) g = Some None \<Longrightarrow>
      map_of (rel_groups (snd (fold (relevant_rule lib a validated x b groups p) rules (rel, st)))) g = Some None" for rules rel st
  proof (induction rules arbitrary: rel st)
    case (Cons r rules)
    from nil_group_rule [OF g Cons.prems] Cons.IH show ?case by (metis fold_simps(2) prod.collapse)
  qed simp
  have "map_of (rel_groups (snd (relevant_policy lib a validated x b groups p (Q, st)))) g = Some None"
    using rules [OF Cons.prems] Cons.prems by (simp add: relevant_policy_def Let_def case_prod_beta)
  with Cons.IH show ?case by (metis fold_simps(2) prod.collapse)
qed simp

lemma nil_group_missing: "GetGroup a g = None \<Longrightarrow> map_of gs g = Some None \<Longrightarrow> map_of (add_missing_groups a gids gs) g = Some None"
  unfolding add_missing_groups_def
proof (induction gids arbitrary: gs)
  case (Cons h gids)
  have "map_of (case GetGroup a h of None \<Rightarrow> gs | Some g \<Rightarrow> add_missing h (Some g) gs) g = Some None"
    using Cons.prems by (auto simp: add_missing_def update_conv' split: option.split)
  from Cons.IH [OF Cons.prems(1) this] show ?case by simp
qed simp

lemma nil_group_resource_policy:
  assumes g: "GetGroup a g = None" and c: "map_of (c_Groups c) g = Some None"
    and r: "resource_policy lib ord a x validated i policies policy (c, b) = Some (c', b')"
  shows "map_of (c_Groups c') g = Some None"
proof -
  have fold: "map_of gs g = Some None \<Longrightarrow> map_of (fold (\<lambda>rule gs. add_missing_groups a (pr_Destinations rule)
      (add_missing_groups a (pr_Sources rule) gs)) rules gs) g = Some None" for rules gs
    by (induction rules arbitrary: gs) (simp_all add: nil_group_missing [OF g])
  show ?thesis
    using r c fold by (auto simp: resource_policy_def Let_def simp del: fold.simps split: list.splits if_splits prod.splits)
qed

lemma nil_group_resource_policies:
  assumes g: "GetGroup a g = None"
  shows "map_of (c_Groups c) g = Some None \<Longrightarrow> resource_policies lib ord a x validated i policies ps (c, b) = Some (c', b') \<Longrightarrow>
    map_of (c_Groups c') g = Some None"
proof (induction ps arbitrary: c b)
  case (Cons p ps)
  from Cons.prems(2) obtain c1 b1 where c1: "resource_policy lib ord a x validated i policies p (c, b) = Some (c1, b1)"
      "resource_policies lib ord a x validated i policies ps (c1, b1) = Some (c', b')"
    by (auto split: option.splits)
  from Cons.IH [OF nil_group_resource_policy [OF g Cons.prems(1) c1(1)] c1(2)] show ?case .
qed simp

lemma nil_group_resource:
  assumes g: "GetGroup a g = None" and c: "map_of (c_Groups c) g = Some None"
    and r: "add_resource lib ord a x validated resourcePolicies routers resource c = Some c'"
  shows "map_of (c_Groups c') g = Some None"
proof -
  have router: "c_Groups (fold (\<lambda>(k, _). add_router_peer a validated k) rs c) = c_Groups c" for rs c
    by (induction rs arbitrary: c) (auto simp: add_router_peer_def split: option.split)
  show ?thesis
    using r c nil_group_resource_policies [OF g c]
    by (auto simp: add_resource_def Let_def router split: if_splits option.splits prod.splits)
qed

lemma nil_group_resources:
  assumes g: "GetGroup a g = None"
  shows "map_of (c_Groups c) g = Some None \<Longrightarrow> add_resources lib ord a x validated resourcePolicies routers rs c = Some c' \<Longrightarrow>
    map_of (c_Groups c') g = Some None"
proof (induction rs arbitrary: c)
  case (Cons r rs)
  from Cons.prems(2) obtain c1 where c1: "add_resource lib ord a x validated resourcePolicies routers r c = Some c1"
      "add_resources lib ord a x validated resourcePolicies routers rs c1 = Some c'"
    by (auto split: option.splits)
  from Cons.IH [OF nil_group_resource [OF g Cons.prems(1) c1(1)] c1(2)] show ?case .
qed simp

text \<open>C39: One route that names a deleted group stops the components of every peer. If a route of the account has a
  distribution or routing group that no longer exists, the extraction dereferences the nil group it stored and
  panics for every validated peer. The computation from the account skips such groups: it returns for the same
  account.\<close>

theorem missing_group_panics:
  assumes route: "(k, r) \<in> set (acc_Routes a)" "g \<in> set (rt_Groups r) \<union> set (rt_PeerGroups r)" and g: "GetGroup a g = None"
    and peer: "GetPeer a x = Some peer" "x \<in> validated"
  shows "GetPeerNetworkMapComponents Fqdn lib ord a x zone zones validated resourcePolicies routers users = Panics"
proof -
  let ?c = "base_components Fqdn lib a peer x zone zones validated users"
  have "map_of (fold (\<lambda>(_, r). route_groups a r) (acc_Routes a) (own_groups a x)) g = Some None"
    by (rule nil_group_routes [OF g]) (use route in blast)
  then have "map_of (rel_groups (snd (getPeersGroupsPoliciesRoutes lib a x (np_SSHEnabled peer) validated))) g = Some None"
    unfolding getPeersGroupsPoliciesRoutes_def by (intro nil_group_policies [OF g]) simp
  then have base: "map_of (c_Groups ?c) g = Some None"
    by (simp add: base_components_def case_prod_beta)
  show ?thesis
  proof (cases "add_resources lib ord a x validated resourcePolicies routers (acc_NetworkResources a) ?c")
    case None
    with peer show ?thesis by (simp add: GetPeerNetworkMapComponents_def)
  next
    case (Some c)
    from nil_group_resources [OF g base Some] have "(g, None) \<in> set (c_Groups c)" by (rule map_of_SomeD)
    then have "filterGroupPeers (c_Groups c) (c_Peers c) = None" by (auto simp: filterGroupPeers_def list_ex_iff)
    with Some peer show ?thesis by (simp add: GetPeerNetworkMapComponents_def)
  qed
qed

lemma missing_group_panics_witness:
  "let a = example_account\<lparr>acc_Routes := [(''r'', example_route\<lparr>rt_Groups := [''gone'']\<rparr>)]\<rparr>;
       zone = \<lparr>cz_Domain = ''nb.'', cz_Records = [], cz_SearchDomainDisabled = False, cz_NonAuthoritative = False\<rparr>
   in GetPeerNetworkMapComponents id example_lib id a ''pc'' zone [] {''pc'', ''dc''} [] [] Map.empty = Panics
      \<and> map np_ID (fst (GetPeerConnectionResources example_lib id a (example_peer ''pc'' ''100.64.0.1'') {''pc'', ''dc''} Map.empty)) = [''dc'']"
proof -
  let ?a = "example_account\<lparr>acc_Routes := [(''r'', example_route\<lparr>rt_Groups := [''gone'']\<rparr>)]\<rparr>"
  have "GetGroup ?a ''gone'' = None" "GetPeer ?a ''pc'' = Some (example_peer ''pc'' ''100.64.0.1'')"
    "map np_ID (fst (GetPeerConnectionResources example_lib id ?a (example_peer ''pc'' ''100.64.0.1'') {''pc'', ''dc''} Map.empty)) = [''dc'']"
    by code_simp+
  then show ?thesis
    using missing_group_panics [of "''r''" "example_route\<lparr>rt_Groups := [''gone'']\<rparr>" ?a "''gone''" "''pc''"] by (simp add: Let_def)
qed

end
