(* ===== verification/IpAlloc.thy ===== *)
theory IpAlloc
  imports Prelude
begin

text \<open>
  The allocation of peer addresses (\<open>management/server/types/network.go\<close>: \<open>AllocatePeerIP\<close>,
  \<open>AllocateRandomPeerIP\<close>, \<open>ipToUint32\<close>, \<open>uint32ToIP\<close>) and what it uses of Go's \<open>net\<close> package.
  The random draws are an argument: the \<open>i\<close>-th call of \<open>rng.Intn n\<close> returns \<open>rnd i mod n\<close>, which
  ranges over every possible outcome.
\<close>

unbundle bit_operations_syntax

section \<open>Addresses and masks\<close>

type_synonym IP = bytes
type_synonym IPMask = bytes

record IPNet =
  net_IP :: IP
  net_Mask :: IPMask

text \<open>\<open>net.IP.To4\<close>; nil is the empty list.\<close>

definition v4InV6Prefix :: bytes where
  "v4InV6Prefix = replicate 10 0 @ [255, 255]"

definition To4 :: "IP \<Rightarrow> IP" where
  "To4 ip =
     (if length ip = 4 then ip
      else if length ip = 16 \<and> take 12 ip = v4InV6Prefix then drop 12 ip
      else [])"

text \<open>\<open>net.IP.Mask\<close>.\<close>

definition ip_Mask :: "IP \<Rightarrow> IPMask \<Rightarrow> IP" where
  "ip_Mask ip msk =
     (let msk = (if length msk = 16 \<and> length ip = 4 \<and> list_all (\<lambda>b. b = 255) (take 12 msk) then drop 12 msk else msk);
          ip = (if length msk = 4 \<and> length ip = 16 \<and> take 12 ip = v4InV6Prefix then drop 12 ip else ip)
      in if length ip \<noteq> length msk then [] else map2 (AND) ip msk)"

text \<open>\<open>net.simpleMaskLength\<close> (None is its -1) and \<open>net.IPMask.Size\<close>.\<close>

fun leading_ones :: "nat \<Rightarrow> byte \<Rightarrow> nat" where
  "leading_ones 0 v = 0"
| "leading_ones (Suc k) v = (if bit v 7 then Suc (leading_ones k (push_bit 1 v)) else 0)"

fun simpleMaskLength :: "IPMask \<Rightarrow> nat option" where
  "simpleMaskLength [] = Some 0"
| "simpleMaskLength (v # msk) =
     (if v = 255 then map_option (\<lambda>n. n + 8) (simpleMaskLength msk)
      else (let k = leading_ones 8 v
            in if push_bit k v \<noteq> 0 then None
               else if list_all (\<lambda>b. b = 0) msk then Some k else None))"

definition mask_Size :: "IPMask \<Rightarrow> nat \<times> nat" where
  "mask_Size m = (case simpleMaskLength m of None \<Rightarrow> (0, 0) | Some ones \<Rightarrow> (ones, length m * 8))"

text \<open>\<open>binary.BigEndian\<close>.\<close>

definition be_Uint32 :: "bytes \<Rightarrow> uint32" where
  "be_Uint32 b = push_bit 24 (ucast (b ! 0)) OR push_bit 16 (ucast (b ! 1)) OR push_bit 8 (ucast (b ! 2)) OR ucast (b ! 3)"

definition ipToUint32 :: "IP \<Rightarrow> uint32" where
  "ipToUint32 ip = (let ip = To4 ip in if length ip < 4 then 0 else be_Uint32 ip)"

definition uint32ToIP :: "uint32 \<Rightarrow> IP" where
  "uint32ToIP n = [ucast (drop_bit 24 n), ucast (drop_bit 16 n), ucast (drop_bit 8 n), ucast n]"

section \<open>Allocation\<close>

lemma unat_succ:
  assumes "(a :: uint32) < b"
  shows "unat (a + 1) = unat a + 1"
proof -
  have "unat a < unat b" "unat b < 2 ^ 32"
    using assms unsigned_less [of b] by (simp_all add: word_less_nat_alt)
  then show ?thesis
    by (simp add: unat_word_ariths)
qed

datatype alloc_error = OutOfIPs

text \<open>\<open>rng.Intn(int(n))\<close> for a \<open>uint32\<close>: it panics on 0.\<close>

definition Intn :: "nat \<Rightarrow> uint32 \<Rightarrow> uint32 option" where
  "Intn r n = (if n = 0 then None else Some (of_nat (r mod unat n)))"

text \<open>The attempts with a random offset. The inner option says whether an address was found; None is the panic.\<close>

fun random_attempts :: "(nat \<Rightarrow> nat) \<Rightarrow> nat \<Rightarrow> nat \<Rightarrow> uint32 \<Rightarrow> uint32 \<Rightarrow> uint32 set \<Rightarrow> uint32 option option" where
  "random_attempts rnd i 0 totalIPs baseIP taken = Some None"
| "random_attempts rnd i (Suc n) totalIPs baseIP taken =
     (case Intn (rnd i) (totalIPs - 2) of
        None \<Rightarrow> None
      | Some r \<Rightarrow>
          (let offset = r + 1; candidate = baseIP + offset
           in if candidate \<notin> taken then Some (Some candidate)
              else random_attempts rnd (Suc i) n totalIPs baseIP taken))"

text \<open>The scan of all offsets below \<open>limit\<close>.\<close>

function scan_offsets :: "uint32 \<Rightarrow> uint32 \<Rightarrow> uint32 \<Rightarrow> uint32 set \<Rightarrow> uint32 option" where
  "scan_offsets offset limit baseIP taken =
     (if offset < limit
      then (let candidate = baseIP + offset
            in if candidate \<notin> taken then Some candidate
               else scan_offsets (offset + 1) limit baseIP taken)
      else None)"
  by pat_completeness auto
termination
proof (relation "measure (\<lambda>(offset, limit, _). unat limit - unat offset)", goal_cases)
  case (2 offset limit baseIP taken)
  then show ?case
    by (simp add: unat_succ word_less_nat_alt)
qed simp

declare scan_offsets.simps [simp del]

definition AllocatePeerIP :: "(nat \<Rightarrow> nat) \<Rightarrow> IPNet \<Rightarrow> IP list \<Rightarrow> (alloc_error, IP) outcome" where
  "AllocatePeerIP rnd ipNet takenIps =
     (let baseIP = ipToUint32 (ip_Mask (net_IP ipNet) (net_Mask ipNet));
          (ones, bits) = mask_Size (net_Mask ipNet);
          hostBits = bits - ones;
          totalIPs = push_bit hostBits 1;
          taken = {baseIP, baseIP + totalIPs - 1} \<union> set (map ipToUint32 takenIps);
          maxAttempts = (unat totalIPs - card taken) div 100
      in case random_attempts rnd 0 maxAttempts totalIPs baseIP taken of
           None \<Rightarrow> Panics
         | Some (Some candidate) \<Rightarrow> Returns (uint32ToIP candidate)
         | Some None \<Rightarrow>
             (case scan_offsets 1 (totalIPs - 1) baseIP taken of
                Some candidate \<Rightarrow> Returns (uint32ToIP candidate)
              | None \<Rightarrow> Fails OutOfIPs))"

definition AllocateRandomPeerIP :: "(nat \<Rightarrow> nat) \<Rightarrow> IPNet \<Rightarrow> (alloc_error, IP) outcome" where
  "AllocateRandomPeerIP rnd ipNet =
     (let baseIP = ipToUint32 (ip_Mask (net_IP ipNet) (net_Mask ipNet));
          (ones, bits) = mask_Size (net_Mask ipNet);
          hostBits = bits - ones;
          totalIPs = push_bit hostBits 1
      in case Intn (rnd 0) (totalIPs - 2) of
           None \<Rightarrow> Panics
         | Some r \<Rightarrow> Returns (uint32ToIP (baseIP + (r + 1))))"

section \<open>Networks and hosts\<close>

text \<open>An IPv4 network: a four byte address (or its IPv6 form) and the mask of a prefix length.\<close>

definition CIDRMask :: "nat \<Rightarrow> IPMask" where
  "CIDRMask ones = uint32ToIP (NOT (mask (32 - ones)))"

definition ipv4_net :: "IPNet \<Rightarrow> nat \<Rightarrow> bool" where
  "ipv4_net n ones \<longleftrightarrow> To4 (net_IP n) \<noteq> [] \<and> net_Mask n = CIDRMask ones \<and> ones \<le> 32"

definition net_base :: "IPNet \<Rightarrow> uint32" where
  "net_base n = ipToUint32 (net_IP n) AND ipToUint32 (net_Mask n)"

text \<open>\<open>net.IPNet.Contains\<close> for an IPv4 address.\<close>

definition net_contains :: "IPNet \<Rightarrow> uint32 \<Rightarrow> bool" where
  "net_contains n a \<longleftrightarrow> a AND ipToUint32 (net_Mask n) = net_base n"

text \<open>The addresses of the network except the first and the last.\<close>

definition net_hosts :: "IPNet \<Rightarrow> nat \<Rightarrow> uint32 set" where
  "net_hosts n ones = {a. net_contains n a} - {net_base n, net_base n + mask (32 - ones)}"

lemma uint32_bytes_bits:
  "be_Uint32 (uint32ToIP n) = n"
proof (rule bit_word_eqI)
  fix i :: nat
  assume "i < LENGTH(32)"
  then have "i < 8 \<or> (8 \<le> i \<and> i < 16) \<or> (16 \<le> i \<and> i < 24) \<or> (24 \<le> i \<and> i < 32)"
    by auto
  then show "bit (be_Uint32 (uint32ToIP n)) i \<longleftrightarrow> bit n i"
    by (elim disjE) (auto simp: be_Uint32_def uint32ToIP_def bit_simps)
qed

lemma length_uint32ToIP [simp]: "length (uint32ToIP n) = 4"
  by (simp add: uint32ToIP_def)

lemma ipToUint32_uint32ToIP [simp]: "ipToUint32 (uint32ToIP n) = n"
  by (simp add: ipToUint32_def To4_def uint32_bytes_bits)

text \<open>The masks of all prefix lengths are canonical.\<close>

lemma mask_Size_table: "list_all (\<lambda>k. mask_Size (CIDRMask k) = (k, 32)) [0..<33]"
  by code_simp

lemma mask_Size_CIDRMask: "ones \<le> 32 \<Longrightarrow> mask_Size (CIDRMask ones) = (ones, 32)"
  using mask_Size_table by (simp add: list_all_iff)

lemma bit_be_Uint32:
  assumes "i < 32"
  shows "bit (be_Uint32 [a0, a1, a2, a3]) i \<longleftrightarrow>
     (if i < 8 then bit a3 i else if i < 16 then bit a2 (i - 8) else if i < 24 then bit a1 (i - 16) else bit a0 (i - 24))"
  using assms bit_imp_le_length [of a1 "i - 16"] bit_imp_le_length [of a2 "i - 8"] bit_imp_le_length [of a3 i]
  by (auto simp: be_Uint32_def bit_simps)

lemma be_Uint32_and:
  "be_Uint32 [a0 AND b0, a1 AND b1, a2 AND b2, a3 AND b3] = be_Uint32 [a0, a1, a2, a3] AND be_Uint32 [b0, b1, b2, b3]"
  by (rule bit_word_eqI) (simp add: bit_and_iff bit_be_Uint32)

lemma length4E:
  assumes "length xs = 4"
  obtains a b c d where "xs = [a, b, c, d]"
  using assms by (auto simp: numeral_eq_Suc length_Suc_conv)

lemma be_Uint32_map2_and:
  assumes "length a = 4" "length b = 4"
  shows "be_Uint32 (map2 (AND) a b) = be_Uint32 a AND be_Uint32 b"
  using assms by (elim length4E) (simp add: be_Uint32_and)

lemma length_CIDRMask [simp]: "length (CIDRMask k) = 4"
  by (simp add: CIDRMask_def uint32ToIP_def)

lemma ipToUint32_CIDRMask [simp]: "ipToUint32 (CIDRMask k) = NOT (mask (32 - k))"
  by (simp add: CIDRMask_def)

lemma ip_Mask_CIDRMask:
  assumes "To4 ip \<noteq> []"
  shows "ipToUint32 (ip_Mask ip (CIDRMask k)) = ipToUint32 ip AND NOT (mask (32 - k))"
proof -
  let ?v = "if length ip = 16 \<and> take 12 ip = v4InV6Prefix then drop 12 ip else ip"
  have l: "length ?v = 4" and t: "To4 ip = ?v"
    using assms by (auto simp: To4_def split: if_splits)
  have "ip_Mask ip (CIDRMask k) = map2 (AND) ?v (CIDRMask k)"
    using l by (auto simp: ip_Mask_def Let_def)
  moreover have "be_Uint32 (CIDRMask k) = NOT (mask (32 - k))"
    by (simp add: CIDRMask_def uint32_bytes_bits)
  ultimately show ?thesis
    using l t be_Uint32_map2_and [OF l, of "CIDRMask k"] by (simp add: ipToUint32_def To4_def [of "map2 _ _ _"])
qed

lemma le_mask_iff: "(w :: 'a :: len word) \<le> mask n \<longleftrightarrow> take_bit n w = w"
proof (cases "LENGTH('a) \<le> n")
  case True
  have "take_bit n w = w"
    by (rule bit_word_eqI) (use True in \<open>auto simp: bit_simps\<close>)
  moreover have "mask n = (-1 :: 'a word)"
    by (rule bit_word_eqI) (use True in \<open>auto simp: bit_simps\<close>)
  ultimately show ?thesis by simp
next
  case False
  have "w \<le> mask n \<longleftrightarrow> unat w \<le> unat (mask n :: 'a word)"
    by (simp add: word_le_nat_alt)
  also have "unat (mask n :: 'a word) = 2 ^ n - 1"
  proof -
    have "(2::nat) ^ n - 1 < 2 ^ LENGTH('a)"
      using False by (meson less_imp_diff_less nat_le_linear not_less one_less_numeral_iff power_strict_increasing semiring_norm(76))
    moreover have "mask n = (of_nat (2 ^ n - 1) :: 'a word)"
      by (simp add: of_nat_diff mask_eq_exp_minus_1)
    ultimately show ?thesis
      by (simp only: unat_of_nat mod_less)
  qed
  also have "unat w \<le> 2 ^ n - 1 \<longleftrightarrow> unat w < 2 ^ n"
    using zero_less_power [of "2::nat" n] by linarith
  also have "\<dots> \<longleftrightarrow> unat (take_bit n w) = unat w"
    using False by (simp add: unsigned_take_bit_eq take_bit_nat_eq_self_iff)
  finally show ?thesis
    by (simp add: word_unat_eq_iff)
qed

text \<open>A network is its base plus the offsets below its size.\<close>

lemma base_plus_offset:
  fixes base off :: uint32
  assumes "base AND mask h = 0" "off \<le> mask h"
  shows "(base + off) AND NOT (mask h) = base"
proof -
  have o: "take_bit h off = off"
    using assms(2) by (simp add: le_mask_iff)
  have b: "take_bit h base = 0"
    using assms(1) by (simp add: take_bit_eq_mask)
  have "bit base i \<longrightarrow> \<not> bit off i" for i
    using o b by (metis bit_take_bit_iff bit_0_eq bot_apply bot_bool_def)
  then have plus: "base + off = base OR off"
    by (intro disjunctive_add) blast
  have "bit ((base + off) AND NOT (mask h)) i \<longleftrightarrow> bit base i" if "i < LENGTH(32)" for i
    unfolding plus using that o b
    by (auto simp: bit_simps) (metis bit_take_bit_iff bit_0_eq bot_apply bot_bool_def)+
  then show ?thesis
    by (intro bit_word_eqI) blast
qed

lemma split_base_offset:
  fixes a :: uint32
  shows "a = (a AND NOT (mask h)) + (a AND mask h)"
proof -
  have "(a AND NOT (mask h)) + (a AND mask h) = (a AND NOT (mask h)) OR (a AND mask h)"
    by (intro disjunctive_add) (simp add: bit_simps)
  also have "\<dots> = a"
    by (rule bit_word_eqI) (auto simp: bit_simps)
  finally show ?thesis ..
qed

lemma and_mask_le: "(a :: uint32) AND mask h \<le> mask h"
  by (simp add: le_mask_iff flip: take_bit_eq_mask)

lemma net_base_eq:
  assumes "ipv4_net n ones"
  shows "ipToUint32 (ip_Mask (net_IP n) (net_Mask n)) = net_base n" and "net_base n AND mask (32 - ones) = 0"
proof -
  show "ipToUint32 (ip_Mask (net_IP n) (net_Mask n)) = net_base n"
    using assms by (simp add: ipv4_net_def net_base_def ip_Mask_CIDRMask)
  show "net_base n AND mask (32 - ones) = 0"
    using assms by (simp add: ipv4_net_def net_base_def and.assoc)
qed

lemma net_contains_iff:
  assumes "ipv4_net n ones"
  shows "net_contains n a \<longleftrightarrow> (\<exists>off \<le> mask (32 - ones). a = net_base n + off)"
proof
  assume "net_contains n a"
  then have "a AND NOT (mask (32 - ones)) = net_base n"
    using assms by (simp add: net_contains_def ipv4_net_def)
  then have "a = net_base n + (a AND mask (32 - ones))"
    using split_base_offset [of a "32 - ones"] by simp
  then show "\<exists>off \<le> mask (32 - ones). a = net_base n + off"
    using and_mask_le by blast
next
  assume "\<exists>off \<le> mask (32 - ones). a = net_base n + off"
  then show "net_contains n a"
    using assms base_plus_offset [OF net_base_eq(2) [OF assms]] by (auto simp: net_contains_def ipv4_net_def)
qed

lemma net_hosts_eq:
  assumes "ipv4_net n ones"
  shows "net_hosts n ones = {net_base n + off | off. 0 < off \<and> off < mask (32 - ones)}"
proof -
  have "{a. net_contains n a} = (+) (net_base n) ` {..mask (32 - ones)}"
    by (simp add: net_contains_iff [OF assms] image_def Bex_def)
  then have "net_hosts n ones = (+) (net_base n) ` ({..mask (32 - ones)} - {0, mask (32 - ones)})"
    by (simp add: net_hosts_def image_set_diff)
  also have "{..mask (32 - ones)} - {0, mask (32 - ones)} = {off :: uint32. 0 < off \<and> off < mask (32 - ones)}"
  proof (rule set_eqI)
    fix off :: uint32
    show "off \<in> {..mask (32 - ones)} - {0, mask (32 - ones)} \<longleftrightarrow> off \<in> {off. 0 < off \<and> off < mask (32 - ones)}"
      using word_gt_0 [of off] order.strict_iff_order [of off "mask (32 - ones)"] by blast
  qed
  finally show ?thesis
    by (simp only: image_Collect)
qed

text \<open>What the two searches find.\<close>

lemma scan_offsets_Some:
  "scan_offsets offset limit base taken = Some c \<Longrightarrow> \<exists>off. offset \<le> off \<and> off < limit \<and> c = base + off \<and> c \<notin> taken"
proof (induction offset limit base taken rule: scan_offsets.induct)
  case (1 offset limit base taken)
  show ?case
  proof (cases "offset < limit \<and> base + offset \<in> taken")
    case True
    then have "scan_offsets (offset + 1) limit base taken = Some c"
      using "1.prems" by (simp add: scan_offsets.simps [of offset])
    then obtain off where "offset + 1 \<le> off" "off < limit" "c = base + off" "c \<notin> taken"
      using "1.IH" True by auto
    moreover have "offset \<le> offset + 1"
      using True unat_succ [of offset limit] by (simp add: word_le_nat_alt)
    ultimately show ?thesis
      by (intro exI [of _ off] conjI) (rule order.trans)
  next
    case False
    then show ?thesis
      using "1.prems" by (auto simp: scan_offsets.simps [of offset] Let_def split: if_splits)
  qed
qed

lemma scan_offsets_None:
  "scan_offsets offset limit base taken = None \<Longrightarrow> offset \<le> off \<Longrightarrow> off < limit \<Longrightarrow> base + off \<in> taken"
proof (induction offset limit base taken rule: scan_offsets.induct)
  case (1 offset limit base taken)
  have less: "offset < limit"
    using "1.prems"(2,3) by (rule order.strict_trans1)
  have t: "base + offset \<in> taken"
    using "1.prems"(1) less by (subst (asm) scan_offsets.simps) (simp add: Let_def split: if_splits)
  have r: "scan_offsets (offset + 1) limit base taken = None"
    using "1.prems"(1) less t by (subst (asm) scan_offsets.simps) simp
  show ?case
  proof (cases "offset = off")
    case False
    then have "offset + 1 \<le> off"
      using "1.prems"(2) by (simp add: inc_le)
    then show ?thesis
      using "1.IH" [OF less refl _ r] t "1.prems"(3) by blast
  qed (use t in simp)
qed

lemma of_nat_less_word: "n < unat (w :: uint32) \<Longrightarrow> of_nat n < w"
  using unsigned_less [of w] by (simp add: word_less_nat_alt unat_of_nat)

lemma Intn_less:
  assumes "n \<noteq> 0"
  obtains r where "Intn x n = Some r" "r < n"
proof
  show "Intn x n = Some (of_nat (x mod unat n))"
    using assms by (simp add: Intn_def)
  show "of_nat (x mod unat n) < n"
    using assms by (intro of_nat_less_word) (simp add: unat_gt_0)
qed

lemma Intn_offset:
  assumes "t \<noteq> 2" "t \<noteq> 1"
  shows "\<exists>r. Intn x (t - 2) = Some r \<and> 0 < r + 1 \<and> r + 1 < t - 1"
proof -
  have lim: "t - 2 \<noteq> 0" "t - 1 \<noteq> 0"
    using assms by auto
  obtain r where r: "Intn x (t - 2) = Some r" "r < t - 2"
    using Intn_less [OF lim(1)] .
  have "0 < unat (r + 1)" "unat (r + 1) < unat (t - 1)"
    using r(2) unat_succ [OF r(2)] unat_minus_one [OF lim(2)] by (simp_all add: word_less_nat_alt)
  with r(1) show ?thesis
    by (auto simp only: word_less_nat_alt unat_0)
qed

lemma random_attempts_cases:
  assumes "totalIPs \<noteq> 2 \<or> k = 0" "totalIPs \<noteq> 1 \<or> k = 0"
  shows "random_attempts rnd i k totalIPs base taken = Some None \<or>
    (\<exists>off. random_attempts rnd i k totalIPs base taken = Some (Some (base + off)) \<and> base + off \<notin> taken
       \<and> 0 < off \<and> off < totalIPs - 1)"
  using assms
proof (induction k arbitrary: i)
  case (Suc k)
  have "totalIPs \<noteq> 2" "totalIPs \<noteq> 1"
    using Suc.prems by auto
  from Intn_offset [OF this] obtain r where
    r: "Intn (rnd i) (totalIPs - 2) = Some r" "0 < r + 1" "r + 1 < totalIPs - 1"
    by blast
  show ?case
  proof (cases "base + (r + 1) \<in> taken")
    case True
    then have "random_attempts rnd i (Suc k) totalIPs base taken = random_attempts rnd (Suc i) k totalIPs base taken"
      by (simp add: r(1) Let_def)
    moreover have "totalIPs \<noteq> 2 \<or> k = 0" "totalIPs \<noteq> 1 \<or> k = 0"
      using Suc.prems by auto
    ultimately show ?thesis
      using Suc.IH [of "Suc i"] by (simp only:)
  next
    case False
    then have "random_attempts rnd i (Suc k) totalIPs base taken = Some (Some (base + (r + 1)))"
      by (simp add: r(1) Let_def)
    with False r(2,3) show ?thesis
      by blast
  qed
qed simp

lemma push_bit_sizes:
  assumes "h \<le> 32"
  shows "(push_bit h 1 :: uint32) - 1 = mask h" "push_bit h 1 = (2 :: uint32) \<longleftrightarrow> h = 1"
    "push_bit h 1 = (1 :: uint32) \<longleftrightarrow> h = 0"
proof -
  show "(push_bit h 1 :: uint32) - 1 = mask h"
    by (simp add: mask_eq_exp_minus_1 push_bit_eq_mult)
  have "list_all (\<lambda>h. (push_bit h 1 = (2 :: uint32) \<longleftrightarrow> h = 1) \<and> (push_bit h 1 = (1 :: uint32) \<longleftrightarrow> h = 0)) [0..<33]"
    by code_simp
  then show "push_bit h 1 = (2 :: uint32) \<longleftrightarrow> h = 1" "push_bit h 1 = (1 :: uint32) \<longleftrightarrow> h = 0"
    using assms by (auto simp: list_all_iff)
qed

lemma attempts_need_size: "(unat (push_bit h (1 :: uint32)) - k) div 100 = 0" if "h \<le> 1"
  using that by (cases h) auto

text \<open>The free addresses, in the terms of the two searches.\<close>

lemma free_addresses_eq:
  assumes "ipv4_net n ones"
  shows "net_hosts n ones - T = {net_base n + off | off. 1 \<le> off \<and> off < push_bit (32 - ones) 1 - 1
    \<and> net_base n + off \<notin> {net_base n, net_base n + push_bit (32 - ones) 1 - 1} \<union> T}"
proof -
  have lim: "push_bit (32 - ones) 1 - 1 = (mask (32 - ones) :: uint32)"
    by (rule push_bit_sizes(1)) simp
  have "net_base n + push_bit (32 - ones) 1 - 1 = net_base n + mask (32 - ones)"
    by (simp only: lim [symmetric] add_diff_eq)
  moreover have "0 < off \<longleftrightarrow> 1 \<le> off" for off :: uint32
    by (simp add: word_le_nat_alt word_less_nat_alt Suc_le_eq)
  ultimately show ?thesis
    unfolding net_hosts_eq [OF assms] lim by auto
qed

section \<open>Properties\<close>

text \<open>C40: \<open>AllocatePeerIP\<close> finds an address whenever there is one: on every IPv4 network, whatever is
  taken and whatever the random source draws, it returns an address of the network that is neither
  the first nor the last nor taken if such an address exists, and reports that the network is out of
  addresses exactly otherwise; it never panics and both its loops end.\<close>

theorem allocate_finds_free_address:
  assumes "ipv4_net n ones"
  shows "let free = net_hosts n ones - set (map ipToUint32 takenIps)
    in if free = {} then AllocatePeerIP rnd n takenIps = Fails OutOfIPs
       else \<exists>ip. AllocatePeerIP rnd n takenIps = Returns ip \<and> length ip = 4 \<and> ipToUint32 ip \<in> free"
proof -
  let ?h = "32 - ones" and ?base = "net_base n"
  let ?total = "push_bit ?h 1 :: uint32"
  let ?taken = "{?base, ?base + ?total - 1} \<union> set (map ipToUint32 takenIps)"
  let ?free = "net_hosts n ones - set (map ipToUint32 takenIps)"
  let ?k = "(unat ?total - card ?taken) div 100"
  let ?rand = "random_attempts rnd 0 ?k ?total ?base ?taken" and ?scan = "scan_offsets 1 (?total - 1) ?base ?taken"
  have size: "mask_Size (net_Mask n) = (ones, 32)"
    using assms by (simp add: ipv4_net_def mask_Size_CIDRMask)
  have alloc: "AllocatePeerIP rnd n takenIps =
     (case ?rand of None \<Rightarrow> Panics | Some (Some c) \<Rightarrow> Returns (uint32ToIP c)
      | Some None \<Rightarrow> (case ?scan of Some c \<Rightarrow> Returns (uint32ToIP c) | None \<Rightarrow> Fails OutOfIPs))"
    by (simp only: AllocatePeerIP_def Let_def size net_base_eq(1) [OF assms] prod.case)
  have found: ?thesis if "AllocatePeerIP rnd n takenIps = Returns (uint32ToIP c)" "c \<in> ?free" for c
    using that unfolding Let_def by (auto simp del: Diff_iff)
  have rand: "?rand = Some None \<or>
      (\<exists>off. ?rand = Some (Some (?base + off)) \<and> ?base + off \<notin> ?taken \<and> 0 < off \<and> off < ?total - 1)"
    using attempts_need_size [of ?h "card ?taken"] push_bit_sizes(2,3) [of ?h]
    by (intro random_attempts_cases) auto
  show ?thesis
  proof (cases "?rand = Some None")
    case False
    with rand obtain off where "?rand = Some (Some (?base + off))" "?base + off \<notin> ?taken" "1 \<le> off" "off < ?total - 1"
      by (metis word_gt_0 inc_le add_0)
    then show ?thesis
      by (intro found [of "?base + off"]) (simp only: alloc option.case, simp only: free_addresses_eq [OF assms], blast)
  next
    case True
    show ?thesis
    proof (cases ?scan)
      case None
      then have "?free = {}"
        unfolding free_addresses_eq [OF assms] using scan_offsets_None [OF None] by blast
      then show ?thesis
        by (simp only: alloc True None option.case Let_def simp_thms if_True)
    next
      case (Some c)
      then have "c \<in> ?free"
        unfolding free_addresses_eq [OF assms] using scan_offsets_Some [OF Some] by blast
      then show ?thesis
        by (intro found [of c]) (simp only: alloc True Some option.case)
    qed
  qed
qed

theorem allocate_finds_free_address_witness:
  "let n = \<lparr>net_IP = [10, 0, 0, 0], net_Mask = [255, 255, 255, 252]\<rparr>;
       free = net_hosts n 30 - set (map ipToUint32 [[10, 0, 0, 1]])
   in if free = {} then AllocatePeerIP (\<lambda>i. i) n [[10, 0, 0, 1]] = Fails OutOfIPs
      else \<exists>ip. AllocatePeerIP (\<lambda>i. i) n [[10, 0, 0, 1]] = Returns ip \<and> length ip = 4 \<and> ipToUint32 ip \<in> free"
  unfolding Let_def [of "\<lparr>net_IP = _, net_Mask = _\<rparr>"]
  by (rule allocate_finds_free_address) code_simp

text \<open>\<open>AllocateRandomPeerIP\<close> is safe exactly on networks with a host address. Up to prefix length 30
  every draw gives an address of the network other than the first and the last; on a /31 the random
  source is asked for a number below 0 and panics; on a /32 the count of hosts wraps around and every
  draw gives an address outside the network.\<close>

lemma random_address_needs_hosts:
  assumes "ipv4_net n ones"
  shows "(ones \<le> 30 \<longrightarrow> (\<exists>ip. AllocateRandomPeerIP rnd n = Returns ip \<and> ipToUint32 ip \<in> net_hosts n ones))
    \<and> (ones = 31 \<longrightarrow> AllocateRandomPeerIP rnd n = Panics)
    \<and> (ones = 32 \<longrightarrow> (\<exists>ip. AllocateRandomPeerIP rnd n = Returns ip \<and> \<not> net_contains n (ipToUint32 ip)))"
proof -
  let ?total = "push_bit (32 - ones) 1 :: uint32" and ?base = "net_base n"
  have size: "mask_Size (net_Mask n) = (ones, 32)" and ones: "ones \<le> 32"
    using assms by (simp_all add: ipv4_net_def mask_Size_CIDRMask)
  have alloc: "AllocateRandomPeerIP rnd n =
     (case Intn (rnd 0) (?total - 2) of None \<Rightarrow> Panics | Some r \<Rightarrow> Returns (uint32ToIP (?base + (r + 1))))"
    by (simp only: AllocateRandomPeerIP_def Let_def size net_base_eq(1) [OF assms] prod.case)
  have host: "\<exists>ip. AllocateRandomPeerIP rnd n = Returns ip \<and> ipToUint32 ip \<in> net_hosts n ones" if "ones \<le> 30"
  proof -
    have "?total \<noteq> 2" "?total \<noteq> 1"
      using that push_bit_sizes(2,3) [of "32 - ones"] by auto
    from Intn_offset [OF this] obtain r where r: "Intn (rnd 0) (?total - 2) = Some r" "0 < r + 1" "r + 1 < ?total - 1"
      by blast
    then have "?base + (r + 1) \<in> net_hosts n ones"
      unfolding net_hosts_eq [OF assms] using push_bit_sizes(1) [of "32 - ones"] by auto
    then show ?thesis
      unfolding alloc r(1) by simp
  qed
  have "AllocateRandomPeerIP rnd n = Panics" if "ones = 31"
    using that by (simp add: alloc Intn_def)
  moreover have "\<exists>ip. AllocateRandomPeerIP rnd n = Returns ip \<and> \<not> net_contains n (ipToUint32 ip)" if "ones = 32"
  proof -
    obtain r where r: "Intn (rnd 0) (1 - 2) = Some r" "r < 1 - (2 :: uint32)"
      by (rule Intn_less [of "1 - 2"]) simp_all
    have "unat (r + 1) \<noteq> 0"
      using unat_succ [OF r(2)] by simp
    then have "?base + (r + 1) \<noteq> ?base"
      by auto
    then have "\<not> net_contains n (?base + (r + 1))"
      using that by (auto simp: net_contains_iff [OF assms])
    then show ?thesis
      using r(1) that by (simp add: alloc)
  qed
  ultimately show ?thesis
    using host by blast
qed

end
