(* ===== verification/PeerStore.thy ===== *)
theory PeerStore
  imports Account IpAlloc
begin

text \<open>
  Setup keys (\<open>management/server/types/setupkey.go\<close>) and the part of the management store
  (\<open>management/server/store/sql_store.go\<close>) that the registration and the login of peers use. A table
  is a list of rows; a query returns the first row that satisfies its condition. The unique indexes
  of the peers table are those the migrations create (\<open>store.go\<close>): the key, the address and the DNS
  label within an account, and the primary key. The database itself is taken to answer; what the
  code reports for a missing row or a violated index is a branch of the operations.
\<close>

section \<open>Setup keys\<close>

definition SetupKeyReusable :: string where "SetupKeyReusable = ''reusable''"
definition SetupKeyOneOff :: string where "SetupKeyOneOff = ''one-off''"

record SetupKey =
  sk_Id :: string
  sk_AccountID :: string
  sk_Key :: string
  sk_Name :: string
  sk_Type :: string
  sk_ExpiresAt :: "int option"
  sk_Revoked :: bool
  sk_UsedTimes :: int
  sk_LastUsed :: "int option"
  sk_AutoGroups :: "string list"
  sk_UsageLimit :: int
  sk_Ephemeral :: bool
  sk_AllowExtraDNSLabels :: bool

definition GetExpiresAt :: "SetupKey \<Rightarrow> int" where
  "GetExpiresAt key = (case sk_ExpiresAt key of Some t \<Rightarrow> t | None \<Rightarrow> zero_time)"

definition IsExpired :: "int \<Rightarrow> SetupKey \<Rightarrow> bool" where
  "IsExpired now key = (if GetExpiresAt key = zero_time then False else now > GetExpiresAt key)"

text \<open>The limit \<open>IsOverUsed\<close> applies; 0 is unlimited.\<close>

definition key_limit :: "SetupKey \<Rightarrow> int" where
  "key_limit key = (if sk_Type key = SetupKeyOneOff then 1 else sk_UsageLimit key)"

definition IsOverUsed :: "SetupKey \<Rightarrow> bool" where
  "IsOverUsed key \<longleftrightarrow> key_limit key > 0 \<and> sk_UsedTimes key \<ge> key_limit key"

definition key_IsValid :: "int \<Rightarrow> SetupKey \<Rightarrow> bool" where
  "key_IsValid now key \<longleftrightarrow> \<not> sk_Revoked key \<and> \<not> IsExpired now key \<and> \<not> IsOverUsed key"

section \<open>Tables\<close>

record user_row = User +
  ur_AccountID :: string
  ur_PendingApproval :: bool
  ur_LastLogin :: "int option"

record account_row =
  ar_Settings :: Settings
  ar_Network :: IPNet
  ar_Serial :: uint64
  ar_Groups :: "(string \<times> string) list"
  ar_Policies :: "Policy list"
  ar_PostureChecks :: "Checks list"

text \<open>What the managers tell the network map controller and the event log.\<close>

datatype mgr_event =
    StoredEvent string string string string \<comment> \<open>initiator, target, account, activity\<close>
  | PeersAdded string "string list"
  | PeersUpdated string "string list"
  | TrackEphemeral string
  | ScheduleLoginExpiration string
  | ScheduleInactivityExpiration string

record mgmt =
  mg_peers :: "nbPeer list"
  mg_users :: "user_row list"
  mg_keys :: "SetupKey list"
  mg_accounts :: "string \<rightharpoonup> account_row"
  mg_group_peers :: "(string \<times> string \<times> string) list"
  mg_events :: "mgr_event list"

datatype mgr_error =
    Unauthenticated | AlreadyRegistered | UserNotFound | UserPendingApproval | PermissionDenied
  | PermissionCheckFailed | SetupKeyNotFound | SetupKeyInvalid | ExtraLabelsNotAllowed | InvalidExtraLabels
  | SettingsNotFound | AccountNotFound | NoDNSLabel | AllGroupNotFound | UniqueViolation
  | AddToDatabase mgr_error | AfterAttempts mgr_error | PeerNotFound | AccountLookup | PeerNotRegistered
  | PeerLoginExpired | PeerLoginMismatch | UserBlocked | ValidatorFailed | NotifyFailed | MapFailed
  | SourceGroupMissing | LabelNotFound | InternalLogin

section \<open>Queries\<close>

definition GetPeerByPeerPubKey :: "mgmt \<Rightarrow> string \<Rightarrow> mgr_error + nbPeer" where
  "GetPeerByPeerPubKey s peerKey =
     (case List.find (\<lambda>p. np_Key p = peerKey) (mg_peers s) of None \<Rightarrow> Inl PeerNotFound | Some p \<Rightarrow> Inr p)"

definition GetAccountIDByPeerPubKey :: "mgmt \<Rightarrow> string \<Rightarrow> mgr_error + string" where
  "GetAccountIDByPeerPubKey s peerKey =
     (case List.find (\<lambda>p. np_Key p = peerKey) (mg_peers s) of None \<Rightarrow> Inl AccountLookup | Some p \<Rightarrow> Inr (np_AccountID p))"

definition GetPeerIdByLabel :: "mgmt \<Rightarrow> string \<Rightarrow> string \<Rightarrow> mgr_error + string" where
  "GetPeerIdByLabel s accountID hostname =
     (case List.find (\<lambda>p. np_AccountID p = accountID \<and> np_DNSLabel p = hostname) (mg_peers s) of
        None \<Rightarrow> Inl LabelNotFound
      | Some p \<Rightarrow> if np_ID p = '''' then Inl LabelNotFound else Inr (np_ID p))"

definition GetPeerByID :: "mgmt \<Rightarrow> string \<Rightarrow> string \<Rightarrow> mgr_error + nbPeer" where
  "GetPeerByID s accountID peerID =
     (case List.find (\<lambda>p. np_AccountID p = accountID \<and> np_ID p = peerID) (mg_peers s) of
        None \<Rightarrow> Inl PeerNotFound | Some p \<Rightarrow> Inr p)"

definition GetPeerGroupIDs :: "mgmt \<Rightarrow> string \<Rightarrow> string \<Rightarrow> string list" where
  "GetPeerGroupIDs s accountID peerID =
     map (\<lambda>(_, g, _). g) (filter (\<lambda>(a, _, p). a = accountID \<and> p = peerID) (mg_group_peers s))"

definition GetUserByUserID :: "mgmt \<Rightarrow> string \<Rightarrow> mgr_error + user_row" where
  "GetUserByUserID s userID =
     (case List.find (\<lambda>u. usr_Id u = userID) (mg_users s) of None \<Rightarrow> Inl UserNotFound | Some u \<Rightarrow> Inr u)"

definition GetSetupKeyBySecret :: "mgmt \<Rightarrow> string \<Rightarrow> mgr_error + SetupKey" where
  "GetSetupKeyBySecret s key =
     (case List.find (\<lambda>k. sk_Key k = key) (mg_keys s) of None \<Rightarrow> Inl SetupKeyNotFound | Some k \<Rightarrow> Inr k)"

definition GetAccountSettings :: "mgmt \<Rightarrow> string \<Rightarrow> mgr_error + Settings" where
  "GetAccountSettings s accountID =
     (case mg_accounts s accountID of None \<Rightarrow> Inl SettingsNotFound | Some a \<Rightarrow> Inr (ar_Settings a))"

definition GetAccountNetwork :: "mgmt \<Rightarrow> string \<Rightarrow> mgr_error + IPNet" where
  "GetAccountNetwork s accountID =
     (case mg_accounts s accountID of None \<Rightarrow> Inl AccountNotFound | Some a \<Rightarrow> Inr (ar_Network a))"

section \<open>Updates\<close>

definition unique_violation :: "nbPeer list \<Rightarrow> nbPeer \<Rightarrow> bool" where
  "unique_violation peers p \<longleftrightarrow>
     list_ex (\<lambda>q. np_ID q = np_ID p \<or> np_Key q = np_Key p
       \<or> (np_AccountID q = np_AccountID p \<and> (np_IP q = np_IP p \<or> np_DNSLabel q = np_DNSLabel p))) peers"

definition AddPeerToAccount :: "nbPeer \<Rightarrow> mgmt \<Rightarrow> mgr_error + mgmt" where
  "AddPeerToAccount p s =
     (if unique_violation (mg_peers s) p then Inl UniqueViolation else Inr (s\<lparr>mg_peers := mg_peers s @ [p]\<rparr>))"

text \<open>The insertion into the table of group members; a row that exists is left alone.\<close>

definition AddPeerToGroup :: "string \<Rightarrow> string \<Rightarrow> string \<Rightarrow> mgmt \<Rightarrow> mgmt" where
  "AddPeerToGroup accountID peerID groupID s =
     (if list_ex (\<lambda>(_, g, p). g = groupID \<and> p = peerID) (mg_group_peers s) then s
      else s\<lparr>mg_group_peers := mg_group_peers s @ [(accountID, groupID, peerID)]\<rparr>)"

definition AddPeerToAllGroup :: "string \<Rightarrow> string \<Rightarrow> mgmt \<Rightarrow> mgr_error + mgmt" where
  "AddPeerToAllGroup accountID peerID s =
     (case Option.bind (mg_accounts s accountID) (\<lambda>a. List.find (\<lambda>(_, n). n = ''All'') (ar_Groups a)) of
        None \<Rightarrow> Inl AllGroupNotFound
      | Some (groupID, _) \<Rightarrow>
          if groupID = '''' then Inl AllGroupNotFound else Inr (AddPeerToGroup accountID peerID groupID s))"

definition IncrementNetworkSerial :: "string \<Rightarrow> mgmt \<Rightarrow> mgmt" where
  "IncrementNetworkSerial accountID s =
     s\<lparr>mg_accounts := (mg_accounts s)(accountID := map_option (\<lambda>a. a\<lparr>ar_Serial := ar_Serial a + 1\<rparr>) (mg_accounts s accountID))\<rparr>"

definition IncrementSetupKeyUsage :: "int \<Rightarrow> string \<Rightarrow> mgmt \<Rightarrow> mgr_error + mgmt" where
  "IncrementSetupKeyUsage now setupKeyID s =
     (if list_ex (\<lambda>k. sk_Id k = setupKeyID) (mg_keys s)
      then Inr (s\<lparr>mg_keys := map (\<lambda>k. if sk_Id k = setupKeyID
                                      then k\<lparr>sk_UsedTimes := sk_UsedTimes k + 1, sk_LastUsed := Some now\<rparr> else k) (mg_keys s)\<rparr>)
      else Inl SetupKeyNotFound)"

definition SaveUserLastLogin :: "string \<Rightarrow> string \<Rightarrow> int \<Rightarrow> mgmt \<Rightarrow> mgr_error + mgmt" where
  "SaveUserLastLogin accountID userID lastLogin s =
     (if list_ex (\<lambda>u. ur_AccountID u = accountID \<and> usr_Id u = userID) (mg_users s)
      then Inr (if lastLogin = zero_time then s
                else s\<lparr>mg_users := map (\<lambda>u. if ur_AccountID u = accountID \<and> usr_Id u = userID
                                            then u\<lparr>ur_LastLogin := Some lastLogin\<rparr> else u) (mg_users s)\<rparr>)
      else Inl UserNotFound)"

text \<open>Rows of one peer of an account, replaced by a function of the row.\<close>

definition update_peer_rows :: "string \<Rightarrow> string \<Rightarrow> (nbPeer \<Rightarrow> nbPeer) \<Rightarrow> mgmt \<Rightarrow> mgr_error + mgmt" where
  "update_peer_rows accountID peerID f s =
     (if list_ex (\<lambda>p. np_AccountID p = accountID \<and> np_ID p = peerID) (mg_peers s)
      then Inr (s\<lparr>mg_peers := map (\<lambda>p. if np_AccountID p = accountID \<and> np_ID p = peerID then f p else p) (mg_peers s)\<rparr>)
      else Inl PeerNotFound)"

definition SavePeer :: "string \<Rightarrow> nbPeer \<Rightarrow> mgmt \<Rightarrow> mgr_error + mgmt" where
  "SavePeer accountID peer s =
     (let peerCopy = (Peer_Copy peer)\<lparr>np_AccountID := accountID\<rparr>
      in update_peer_rows accountID (np_ID peer) (\<lambda>_. peerCopy) s)"

definition SavePeerStatus :: "string \<Rightarrow> string \<Rightarrow> PeerStatus \<Rightarrow> mgmt \<Rightarrow> mgr_error + mgmt" where
  "SavePeerStatus accountID peerID status s = update_peer_rows accountID peerID (\<lambda>p. p\<lparr>np_Status := Some status\<rparr>) s"

text \<open>An update from a struct leaves the columns of its zero fields alone.\<close>

definition SavePeerLocation :: "string \<Rightarrow> nbPeer \<Rightarrow> mgmt \<Rightarrow> mgr_error + mgmt" where
  "SavePeerLocation accountID peer s =
     (let new = np_Location peer;
          non_zero = (\<lambda>x old. if x = '''' then old else x)
      in update_peer_rows accountID (np_ID peer)
           (\<lambda>p. let old = np_Location p
                in p\<lparr>np_Location := \<lparr>loc_ConnectionIP = non_zero (loc_ConnectionIP new) (loc_ConnectionIP old),
                                     loc_CountryCode = non_zero (loc_CountryCode new) (loc_CountryCode old),
                                     loc_CityName = non_zero (loc_CityName new) (loc_CityName old),
                                     loc_GeoNameID = (if loc_GeoNameID new = 0 then loc_GeoNameID old else loc_GeoNameID new)\<rparr>\<rparr>) s)"

text \<open>
  \<open>ExecuteInTransaction\<close>: when the operation fails or panics the tables are as before; what was sent
  to the controller or the event log meanwhile stays sent.
\<close>

definition ExecuteInTransaction ::
  "(mgmt \<Rightarrow> (mgr_error, 'a) outcome \<times> mgmt) \<Rightarrow> mgmt \<Rightarrow> (mgr_error, 'a) outcome \<times> mgmt" where
  "ExecuteInTransaction operation s =
     (case operation s of
        (Returns x, s') \<Rightarrow> (Returns x, s')
      | (r, s') \<Rightarrow> (r, s\<lparr>mg_events := mg_events s'\<rparr>))"

definition emit :: "mgr_event \<Rightarrow> mgmt \<Rightarrow> mgmt" where
  "emit e s = s\<lparr>mg_events := mg_events s @ [e]\<rparr>"

end
