(* ===== verification/PeerRegistry.thy ===== *)
theory PeerRegistry
  imports PeerStore MtlsIdentity DnsLabel
begin

text \<open>
  Registration, login and synchronisation of peers in the account manager
  (\<open>management/server/peer.go\<close> and \<open>account.go\<close>: \<open>AddPeer\<close>, \<open>LoginPeer\<close>, \<open>SyncPeer\<close>, \<open>MarkPeerConnected\<close>
  and what they call). An operation takes the tables of the store and returns its result with the
  tables and the notifications it leaves. The collaborators behind Go interfaces and the third-party
  functions are the fields of \<open>mgr_env\<close>; one request reads the clock once.
\<close>

section \<open>The environment\<close>

record 'nm mgr_env =
  me_now :: int
  me_xid :: string
  me_rnd :: "nat \<Rightarrow> nat \<Rightarrow> nat"
  me_hashKey :: "string \<Rightarrow> string"
  me_hmac :: "bytes \<Rightarrow> bytes \<Rightarrow> bytes"
  me_domainRegex :: "string \<Rightarrow> bool"
  me_parsedLabel :: "string \<Rightarrow> string option"
  me_userEmail :: "string \<Rightarrow> string \<Rightarrow> string option"
  me_lookupLocation :: "string \<Rightarrow> (string \<times> string \<times> nat) option"
  me_PreparePeer :: "string \<Rightarrow> nbPeer \<Rightarrow> string list \<Rightarrow> bool \<Rightarrow> nbPeer"
  me_IsNotValidPeer :: "string \<Rightarrow> nbPeer \<Rightarrow> string list \<Rightarrow> (bool \<times> bool) option"
  me_permitted :: "string \<Rightarrow> string \<Rightarrow> bool option"
  me_OnPeersUpdated :: "string \<Rightarrow> string list \<Rightarrow> bool"
  me_validatedMap :: "bool \<Rightarrow> string \<Rightarrow> nbPeer \<Rightarrow> (nbPeer \<times> 'nm \<times> Checks list) option"

text \<open>
  \<open>me_hashKey\<close> is the base64 form of the SHA-256 digest; \<open>me_parsedLabel\<close> is \<open>nbdns.GetParsedDomainLabel\<close>
  over the packages \<open>miekg/dns\<close> and \<open>idna\<close>; \<open>me_userEmail\<close> is the answer of the identity provider, if
  one is configured; \<open>me_lookupLocation\<close> is the geolocation database, None also when there is none;
  \<open>me_PreparePeer\<close> and \<open>me_IsNotValidPeer\<close> are the integrated validator, \<open>me_permitted\<close> the permissions
  manager, the rest the network map controller. None is an error.
\<close>

type_synonym 'nm login_result = "(mgr_error, nbPeer \<times> 'nm \<times> Checks list) outcome \<times> mgmt"

definition to_upper_char :: "char \<Rightarrow> char" where
  "to_upper_char c = (if is_lower c then char_of (code_of c - 32) else c)"

definition ip_string :: "IP \<Rightarrow> string" where
  "ip_string ip = join_char (CHR ''.'') (map (nat_str \<circ> unat) ip)"

section \<open>How a peer is authorised\<close>

record peerAddAuthConfig =
  pac_AccountID :: string
  pac_SetupKeyID :: string
  pac_SetupKeyName :: string
  pac_GroupsToAdd :: "string list"
  pac_AllowExtraDNSLabels :: bool
  pac_Ephemeral :: bool

text \<open>The activity event under construction: initiator, account and activity.\<close>

record op_event =
  op_InitiatorID :: string
  op_AccountID :: string
  op_Activity :: string

definition handleUserAddedPeer ::
  "'nm mgr_env \<Rightarrow> mgmt \<Rightarrow> string \<Rightarrow> string \<Rightarrow> bool \<Rightarrow> op_event \<Rightarrow> peerAddAuthConfig \<Rightarrow> mgr_error + op_event \<times> peerAddAuthConfig" where
  "handleUserAddedPeer env s accountID userID temporary opEvent config =
     (case GetUserByUserID s userID of
        Inl _ \<Rightarrow> Inl UserNotFound
      | Inr user \<Rightarrow>
          if ur_PendingApproval user then Inl UserPendingApproval
          else
            (let done = (\<lambda>config. Inr (opEvent\<lparr>op_InitiatorID := userID, op_Activity := ''PeerAddedByUser''\<rparr>, config))
             in if temporary
                then (case me_permitted env accountID userID of
                        None \<Rightarrow> Inl PermissionCheckFailed
                      | Some allowed \<Rightarrow> if \<not> allowed then Inl PermissionDenied else done config)
                else done (config\<lparr>pac_AccountID := ur_AccountID user, pac_GroupsToAdd := usr_AutoGroups user\<rparr>)))"

definition handleSetupKeyAddedPeer ::
  "'nm mgr_env \<Rightarrow> mgmt \<Rightarrow> string \<Rightarrow> nbPeer \<Rightarrow> op_event \<Rightarrow> peerAddAuthConfig \<Rightarrow> mgr_error + op_event \<times> peerAddAuthConfig" where
  "handleSetupKeyAddedPeer env s encodedHashedKey peer opEvent config =
     (case GetSetupKeyBySecret s encodedHashedKey of
        Inl _ \<Rightarrow> Inl SetupKeyNotFound
      | Inr sk \<Rightarrow>
          if \<not> key_IsValid (me_now env) sk then Inl SetupKeyInvalid
          else if \<not> sk_AllowExtraDNSLabels sk \<and> length (np_ExtraDNSLabels peer) > 0 then Inl ExtraLabelsNotAllowed
          else Inr (opEvent\<lparr>op_InitiatorID := sk_Id sk, op_Activity := ''PeerAddedWithSetupKey''\<rparr>,
                    config\<lparr>pac_GroupsToAdd := sk_AutoGroups sk, pac_Ephemeral := sk_Ephemeral sk,
                           pac_SetupKeyID := sk_Id sk, pac_SetupKeyName := sk_Name sk,
                           pac_AllowExtraDNSLabels := sk_AllowExtraDNSLabels sk, pac_AccountID := sk_AccountID sk\<rparr>))"

definition processPeerAddAuth ::
  "'nm mgr_env \<Rightarrow> mgmt \<Rightarrow> string \<Rightarrow> string \<Rightarrow> string \<Rightarrow> nbPeer \<Rightarrow> bool \<Rightarrow> bool \<Rightarrow> bool \<Rightarrow> op_event
   \<Rightarrow> mgr_error + op_event \<times> peerAddAuthConfig" where
  "processPeerAddAuth env s accountID userID encodedHashedKey peer temporary addedByUser addedBySetupKey opEvent =
     (let config = \<lparr>pac_AccountID = accountID, pac_SetupKeyID = '''', pac_SetupKeyName = '''', pac_GroupsToAdd = [],
                    pac_AllowExtraDNSLabels = False, pac_Ephemeral = np_Ephemeral peer\<rparr>
      in case (if addedByUser then handleUserAddedPeer env s accountID userID temporary opEvent config
               else if addedBySetupKey then handleSetupKeyAddedPeer env s encodedHashedKey peer opEvent config
               else Inr (opEvent, config)) of
           Inl e \<Rightarrow> Inl e
         | Inr (opEvent, config) \<Rightarrow>
             Inr (opEvent\<lparr>op_AccountID := pac_AccountID config\<rparr>,
                  if temporary then config\<lparr>pac_Ephemeral := True\<rparr> else config))"

section \<open>Adding a peer\<close>

definition maxDomains :: nat where "maxDomains = 32"

definition ValidateDomainsList :: "(string \<Rightarrow> bool) \<Rightarrow> string list \<Rightarrow> bool" where
  "ValidateDomainsList domainRegex domains \<longleftrightarrow>
     length domains = 0 \<or> (length domains \<le> maxDomains \<and> list_all (\<lambda>d. domainRegex (to_lower d)) domains)"

definition getPeerIPDNSLabel :: "'nm mgr_env \<Rightarrow> IP \<Rightarrow> string \<Rightarrow> string option" where
  "getPeerIPDNSLabel env ip peerHostName =
     (let ip = To4 ip
      in map_option (\<lambda>dnsName. dnsName @ ''-'' @ nat_str (unat (ip ! 2)) @ ''-'' @ nat_str (unat (ip ! 3)))
           (me_parsedLabel env peerHostName))"

text \<open>The label of one attempt.\<close>

definition attempt_label :: "'nm mgr_env \<Rightarrow> PeerSystemMeta \<Rightarrow> bool \<Rightarrow> nat \<Rightarrow> IP \<Rightarrow> string option" where
  "attempt_label env meta ephemeral attempt freeIP =
     (if pm_CertDNSName meta \<noteq> '''' \<and> pm_CertDomain meta \<noteq> ''''
      then (let freeLabel = GenerateUniqueDNSLabel (me_hmac env) (pm_Hostname meta) (pm_CertDomain meta)
            in case ValidateDNSLabel freeLabel of
                 Inr _ \<Rightarrow> Some freeLabel
               | Inl _ \<Rightarrow> getPeerIPDNSLabel env freeIP (pm_Hostname meta))
      else if ephemeral \<or> attempt > 1 then getPeerIPDNSLabel env freeIP (pm_Hostname meta)
      else me_parsedLabel env (pm_Hostname meta))"

text \<open>The transaction of one attempt.\<close>

definition add_transaction ::
  "'nm mgr_env \<Rightarrow> peerAddAuthConfig \<Rightarrow> bool \<Rightarrow> bool \<Rightarrow> bool \<Rightarrow> bool \<Rightarrow> string \<Rightarrow> string \<Rightarrow> nbPeer \<Rightarrow> mgmt
   \<Rightarrow> (mgr_error, unit) outcome \<times> mgmt" where
  "add_transaction env config embedded addedByUser addedByMTLS addedBySetupKey encodedHashedKey userID newPeer s =
     (let accountID = pac_AccountID config;
          finish = (\<lambda>s. let s = IncrementNetworkSerial accountID s
                        in (Returns (), if pac_Ephemeral config then emit (TrackEphemeral (np_ID newPeer)) s else s))
      in case AddPeerToAccount newPeer s of
           Inl e \<Rightarrow> (Fails e, s)
         | Inr s \<Rightarrow>
             (let s = fold (AddPeerToGroup (np_AccountID newPeer) (np_ID newPeer)) (pac_GroupsToAdd config) s
              in case (if \<not> embedded then AddPeerToAllGroup accountID (np_ID newPeer) s else Inr s) of
                   Inl e \<Rightarrow> (Fails e, s)
                 | Inr s \<Rightarrow>
                     if addedByUser
                     then finish (case SaveUserLastLogin accountID userID (GetLastLogin newPeer) s of Inl _ \<Rightarrow> s | Inr s \<Rightarrow> s)
                     else if addedByMTLS then finish s
                     else if addedBySetupKey
                     then (case GetSetupKeyBySecret s encodedHashedKey of
                             Inl e \<Rightarrow> (Fails e, s)
                           | Inr sk \<Rightarrow>
                               if \<not> key_IsValid (me_now env) sk then (Fails SetupKeyInvalid, s)
                               else (case IncrementSetupKeyUsage (me_now env) (pac_SetupKeyID config) s of
                                       Inl e \<Rightarrow> (Fails e, s) | Inr s \<Rightarrow> finish s))
                     else finish s))"

text \<open>The loop over the attempts; \<open>lastErr\<close> is the error of the one before.\<close>

fun add_attempts ::
  "'nm mgr_env \<Rightarrow> IPNet \<Rightarrow> PeerSystemMeta \<Rightarrow> bool \<Rightarrow> (nbPeer \<Rightarrow> mgmt \<Rightarrow> (mgr_error, unit) outcome \<times> mgmt)
   \<Rightarrow> nat \<Rightarrow> nat \<Rightarrow> mgr_error \<Rightarrow> nbPeer \<Rightarrow> mgmt \<Rightarrow> (mgr_error, nbPeer) outcome \<times> mgmt" where
  "add_attempts env net meta ephemeral tx attempt 0 lastErr newPeer s = (Fails (AfterAttempts lastErr), s)"
| "add_attempts env net meta ephemeral tx attempt (Suc n) lastErr newPeer s =
     (case AllocateRandomPeerIP (me_rnd env attempt) net of
        Panics \<Rightarrow> (Panics, s)
      | Fails _ \<Rightarrow> (Fails InternalLogin, s)
      | Returns freeIP \<Rightarrow>
          (case attempt_label env meta ephemeral attempt freeIP of
             None \<Rightarrow> (Fails NoDNSLabel, s)
           | Some freeLabel \<Rightarrow>
               (let newPeer = newPeer\<lparr>np_DNSLabel := freeLabel, np_IP := ip_string freeIP\<rparr>
                in case ExecuteInTransaction (tx newPeer) s of
                     (Returns _, s) \<Rightarrow> (Returns newPeer, s)
                   | (Panics, s) \<Rightarrow> (Panics, s)
                   | (Fails e, s) \<Rightarrow>
                       if e = UniqueViolation then add_attempts env net meta ephemeral tx (attempt + 1) n e newPeer s
                       else (Fails (AddToDatabase e), s))))"

definition maxAttempts :: nat where "maxAttempts = 10"

text \<open>The record a new peer starts from.\<close>

definition fresh_peer :: "'nm mgr_env \<Rightarrow> string \<Rightarrow> bool \<Rightarrow> bool \<Rightarrow> string \<Rightarrow> peerAddAuthConfig \<Rightarrow> nbPeer \<Rightarrow> nbPeer" where
  "fresh_peer env accountID addedByUser temporary userID config peer =
     \<lparr>np_ID = me_xid env, np_AccountID = accountID, np_Key = np_Key peer, np_IP = '''', np_Meta = np_Meta peer,
      np_ProxyMeta = np_ProxyMeta peer, np_Name = pm_Hostname (np_Meta peer), np_DNSLabel = '''',
      np_Status = Some \<lparr>ps_LastSeen = me_now env, ps_Connected = False, ps_LoginExpired = False, ps_RequiresApproval = False\<rparr>,
      np_UserID = userID, np_SSHKey = np_SSHKey peer, np_SSHEnabled = False,
      np_LoginExpirationEnabled = addedByUser \<and> \<not> temporary,
      np_InactivityExpirationEnabled = addedByUser \<and> \<not> temporary,
      np_LastLogin = Some (me_now env), np_CreatedAt = me_now env, np_Ephemeral = pac_Ephemeral config,
      np_Location = np_Location peer, np_ExtraDNSLabels = np_ExtraDNSLabels peer,
      np_AllowExtraDNSLabels = pac_AllowExtraDNSLabels config\<rparr>"

definition locate :: "'nm mgr_env \<Rightarrow> string \<Rightarrow> Location \<Rightarrow> Location" where
  "locate env connectionIP loc =
     (case me_lookupLocation env connectionIP of
        None \<Rightarrow> loc
      | Some (country, city, geoname) \<Rightarrow> loc\<lparr>loc_CountryCode := country, loc_CityName := city, loc_GeoNameID := geoname\<rparr>)"

text \<open>Who the peer is added for: the machine certificate, a user or a setup key.\<close>

definition add_authorisation ::
  "'nm mgr_env \<Rightarrow> request_context \<Rightarrow> string \<Rightarrow> string \<Rightarrow> string \<Rightarrow> nbPeer \<Rightarrow> bool \<Rightarrow> mgmt
   \<Rightarrow> mgr_error + op_event \<times> peerAddAuthConfig" where
  "add_authorisation env ctx accountID setupKey userID peer temporary s =
     (let other = processPeerAddAuth env s accountID userID (me_hashKey env (map to_upper_char setupKey)) peer temporary
                    (length userID > 0) (length setupKey > 0)
                    \<lparr>op_InitiatorID = '''', op_AccountID = '''', op_Activity = ''''\<rparr>
      in case GetIdentity ctx of
           None \<Rightarrow> other
         | Some identity \<Rightarrow>
             if setupKey = '''' \<and> userID = ''''
             then Inr (\<lparr>op_InitiatorID = DNSName identity, op_AccountID = AccountID identity,
                        op_Activity = ''PeerAddedWithMTLS''\<rparr>,
                       \<lparr>pac_AccountID = AccountID identity, pac_SetupKeyID = '''', pac_SetupKeyName = '''',
                        pac_GroupsToAdd = [], pac_AllowExtraDNSLabels = False, pac_Ephemeral = False\<rparr>)
             else other)"

text \<open>Mobile devices report only their kind; their host name is completed from the address of the user.\<close>

definition rename_mobile :: "'nm mgr_env \<Rightarrow> string \<Rightarrow> string \<Rightarrow> nbPeer \<Rightarrow> nbPeer" where
  "rename_mobile env userID accountID peer =
     (let hostname = pm_Hostname (np_Meta peer)
      in if to_lower hostname \<in> {''iphone'', ''ipad''} \<and> userID \<noteq> ''''
         then (case me_userEmail env userID accountID of
                 None \<Rightarrow> peer
               | Some email \<Rightarrow> peer\<lparr>np_Meta := (np_Meta peer)
                   \<lparr>pm_Hostname := hostname @ ''-'' @ hd (split_char (CHR ''@'') email)\<rparr>\<rparr>)
         else peer)"

definition prepare_peer :: "'nm mgr_env \<Rightarrow> bool \<Rightarrow> string \<Rightarrow> peerAddAuthConfig \<Rightarrow> nbPeer \<Rightarrow> nbPeer" where
  "prepare_peer env temporary userID config peer =
     (let accountID = pac_AccountID config;
          newPeer = fresh_peer env accountID (length userID > 0) temporary userID config peer;
          newPeer = (if loc_ConnectionIP (np_Location newPeer) \<noteq> ''''
                     then newPeer\<lparr>np_Location := locate env (loc_ConnectionIP (np_Location newPeer)) (np_Location newPeer)\<rparr>
                     else newPeer)
      in me_PreparePeer env accountID newPeer (pac_GroupsToAdd config) temporary)"

text \<open>What follows the stored peer: the event for the account, the announcement, the map for the new peer.\<close>

definition finish_add ::
  "'nm mgr_env \<Rightarrow> op_event \<Rightarrow> string \<Rightarrow> bool \<Rightarrow> (mgr_error, nbPeer) outcome \<times> mgmt \<Rightarrow> 'nm login_result" where
  "finish_add env opEvent accountID temporary run =
     (case run of
        (Panics, s) \<Rightarrow> (Panics, s)
      | (Fails e, s) \<Rightarrow> (Fails e, s)
      | (Returns newPeer, s) \<Rightarrow>
          (let s = (if temporary then s
                    else emit (StoredEvent (op_InitiatorID opEvent) (np_ID newPeer) (op_AccountID opEvent)
                                 (op_Activity opEvent)) s);
               s = emit (PeersAdded accountID [np_ID newPeer]) s
           in case me_validatedMap env False accountID newPeer of
                None \<Rightarrow> (Fails MapFailed, s)
              | Some r \<Rightarrow> (Returns r, s)))"

definition AddPeer ::
  "'nm mgr_env \<Rightarrow> request_context \<Rightarrow> string \<Rightarrow> string \<Rightarrow> string \<Rightarrow> nbPeer \<Rightarrow> bool \<Rightarrow> mgmt \<Rightarrow> 'nm login_result" where
  "AddPeer env ctx accountID setupKey userID peer temporary s =
     (let addedByMTLS = (GetIdentity ctx \<noteq> None \<and> setupKey = '''' \<and> userID = '''');
          embedded = proxy_Embedded (np_ProxyMeta peer);
          encodedHashedKey = me_hashKey env (map to_upper_char setupKey);
          addedByUser = (length userID > 0);
          addedBySetupKey = (length setupKey > 0)
      in if setupKey = '''' \<and> userID = '''' \<and> \<not> addedByMTLS \<and> \<not> embedded then (Fails Unauthenticated, s)
         else case GetPeerByPeerPubKey s (np_Key peer) of
           Inr _ \<Rightarrow> (Fails AlreadyRegistered, s)
         | Inl _ \<Rightarrow>
        (case add_authorisation env ctx accountID setupKey userID peer temporary s of
           Inl e \<Rightarrow> (Fails e, s)
         | Inr (opEvent, config) \<Rightarrow>
        (let accountID = pac_AccountID config;
             peer = rename_mobile env userID accountID peer
         in if \<not> ValidateDomainsList (me_domainRegex env) (np_ExtraDNSLabels peer) then (Fails InvalidExtraLabels, s)
            else case GetAccountSettings s accountID of
              Inl e \<Rightarrow> (Fails e, s)
            | Inr _ \<Rightarrow>
           (case GetAccountNetwork s accountID of
              Inl e \<Rightarrow> (Fails e, s)
            | Inr network \<Rightarrow>
                finish_add env opEvent accountID temporary
                  (add_attempts env network (np_Meta peer) (pac_Ephemeral config)
                     (add_transaction env config embedded addedByUser addedByMTLS addedBySetupKey encodedHashedKey userID)
                     1 maxAttempts InternalLogin (prepare_peer env temporary userID config peer) s)))))"

section \<open>Login\<close>

text \<open>Reading the status of a peer without one dereferences nil: None.\<close>

definition peerLoginExpired :: "int \<Rightarrow> nbPeer \<Rightarrow> Settings \<Rightarrow> bool option" where
  "peerLoginExpired now peer settings =
     (let (expired, _) = LoginExpired now peer (PeerLoginExpiration settings);
          expired = (PeerLoginExpirationEnabled settings \<and> expired)
      in if expired then Some True else map_option ps_LoginExpired (np_Status peer))"

definition checkIFPeerNeedsLoginWithoutLock ::
  "'nm mgr_env \<Rightarrow> mgmt \<Rightarrow> string \<Rightarrow> string \<Rightarrow> (mgr_error, unit) outcome" where
  "checkIFPeerNeedsLoginWithoutLock env s accountID peerKey =
     (case GetPeerByPeerPubKey s peerKey of
        Inl e \<Rightarrow> Fails e
      | Inr peer \<Rightarrow>
          if \<not> AddedWithSSOLogin peer then Returns ()
          else (case GetAccountSettings s accountID of
                  Inl e \<Rightarrow> Fails e
                | Inr settings \<Rightarrow>
                    (case peerLoginExpired (me_now env) peer settings of
                       None \<Rightarrow> Panics
                     | Some expired \<Rightarrow> if expired then Fails PeerLoginExpired else Returns ())))"

definition checkIfPeerOwnerIsBlocked :: "nbPeer \<Rightarrow> user_row \<Rightarrow> bool" where
  "checkIfPeerOwnerIsBlocked peer user \<longleftrightarrow> AddedWithSSOLogin peer \<and> usr_Blocked user"

definition checkAuth :: "string \<Rightarrow> nbPeer \<Rightarrow> mgr_error + unit" where
  "checkAuth loginUserID peer =
     (if loginUserID = '''' then Inl PeerLoginExpired
      else if np_UserID peer \<noteq> loginUserID then Inl PeerLoginMismatch else Inr ())"

text \<open>The renewed peer is the one of the caller, which holds the same pointer.\<close>

definition handleExpiredPeer :: "'nm mgr_env \<Rightarrow> user_row \<Rightarrow> nbPeer \<Rightarrow> mgmt \<Rightarrow> (mgr_error, nbPeer) outcome \<times> mgmt" where
  "handleExpiredPeer env user peer s =
     (case checkAuth (usr_Id user) peer of
        Inl e \<Rightarrow> (Fails e, s)
      | Inr _ \<Rightarrow>
          (case UpdateLastLogin (me_now env) peer of
             None \<Rightarrow> (Panics, s)
           | Some peer \<Rightarrow>
               (case SavePeer (np_AccountID peer) peer s of
                  Inl e \<Rightarrow> (Fails e, s)
                | Inr s \<Rightarrow>
                    (let s = (case SaveUserLastLogin (ur_AccountID user) (usr_Id user) (GetLastLogin peer) s of
                                Inl _ \<Rightarrow> s | Inr s \<Rightarrow> s)
                     in case GetAccountSettings s (np_AccountID peer) of
                          Inl e \<Rightarrow> (Fails e, s)
                        | Inr _ \<Rightarrow> (Returns peer, emit (StoredEvent (usr_Id user) (np_ID peer) (ur_AccountID user)
                                                             ''UserLoggedInPeer'') s)))))"

definition handleUserPeer ::
  "'nm mgr_env \<Rightarrow> nbPeer \<Rightarrow> Settings \<Rightarrow> mgmt \<Rightarrow> (mgr_error, nbPeer \<times> bool) outcome \<times> mgmt" where
  "handleUserPeer env peer settings s =
     (case GetUserByUserID s (np_UserID peer) of
        Inl e \<Rightarrow> (Fails e, s)
      | Inr user \<Rightarrow>
          if checkIfPeerOwnerIsBlocked peer user then (Fails UserBlocked, s)
          else (case peerLoginExpired (me_now env) peer settings of
                  None \<Rightarrow> (Panics, s)
                | Some expired \<Rightarrow>
                    if expired
                    then (case handleExpiredPeer env user peer s of
                            (Returns peer, s) \<Rightarrow> (Returns (peer, True), s)
                          | (Fails e, s) \<Rightarrow> (Fails e, s)
                          | (Panics, s) \<Rightarrow> (Panics, s))
                    else (Returns (peer, False), s)))"

text \<open>Whether the peer is a source of the rule: the first source group that has it ends the search.\<close>

fun in_source_groups :: "mgmt \<Rightarrow> account_row \<Rightarrow> string \<Rightarrow> string list \<Rightarrow> mgr_error + bool" where
  "in_source_groups s a peerID [] = Inr False"
| "in_source_groups s a peerID (g # gs) =
     (if \<not> list_ex (\<lambda>(i, _). i = g) (ar_Groups a) then Inl SourceGroupMissing
      else if list_ex (\<lambda>(_, i, p). i = g \<and> p = peerID) (mg_group_peers s) then Inr True
      else in_source_groups s a peerID gs)"

fun processPeerPostureChecks :: "mgmt \<Rightarrow> account_row \<Rightarrow> string \<Rightarrow> PolicyRule list \<Rightarrow> mgr_error + bool" where
  "processPeerPostureChecks s a peerID [] = Inr False"
| "processPeerPostureChecks s a peerID (rule # rules) =
     (if \<not> pr_Enabled rule then processPeerPostureChecks s a peerID rules
      else case in_source_groups s a peerID (pr_Sources rule) of
             Inl e \<Rightarrow> Inl e
           | Inr found \<Rightarrow> if found then Inr True else processPeerPostureChecks s a peerID rules)"

fun posture_ids :: "mgmt \<Rightarrow> account_row \<Rightarrow> string \<Rightarrow> Policy list \<Rightarrow> mgr_error + string list" where
  "posture_ids s a peerID [] = Inr []"
| "posture_ids s a peerID (policy # policies) =
     (if \<not> pol_Enabled policy \<or> length (pol_SourcePostureChecks policy) = 0 then posture_ids s a peerID policies
      else case processPeerPostureChecks s a peerID (pol_Rules policy) of
             Inl e \<Rightarrow> Inl e
           | Inr found \<Rightarrow>
               (case posture_ids s a peerID policies of
                  Inl e \<Rightarrow> Inl e
                | Inr ids \<Rightarrow> Inr ((if found then pol_SourcePostureChecks policy else []) @ ids)))"

definition getPeerPostureChecks :: "mgmt \<Rightarrow> string \<Rightarrow> string \<Rightarrow> mgr_error + Checks list" where
  "getPeerPostureChecks s accountID peerID =
     (case mg_accounts s accountID of
        None \<Rightarrow> Inr []
      | Some a \<Rightarrow>
          if length (ar_Policies a) = 0 then Inr []
          else (case posture_ids s a peerID (ar_Policies a) of
                  Inl e \<Rightarrow> Inl e
                | Inr ids \<Rightarrow> Inr (filter (\<lambda>c. pc_ID c \<in> set ids) (ar_PostureChecks a))))"

record PeerLogin =
  pl_WireGuardPubKey :: string
  pl_SSHKey :: string
  pl_Meta :: PeerSystemMeta
  pl_UserID :: string
  pl_SetupKey :: string
  pl_ConnectionIP :: string
  pl_ExtraDNSLabels :: "string list"

text \<open>
  The transaction of \<open>LoginPeer\<close>: the peer, its groups, whether its metadata was replaced, the posture
  checks that apply to it, and whether the other peers have to be told.
\<close>

definition login_transaction ::
  "'nm mgr_env \<Rightarrow> string \<Rightarrow> Settings \<Rightarrow> PeerLogin \<Rightarrow> mgmt
   \<Rightarrow> (mgr_error, nbPeer \<times> string list \<times> bool \<times> Checks list \<times> bool) outcome \<times> mgmt" where
  "login_transaction env accountID settings login s =
     (case GetPeerByPeerPubKey s (pl_WireGuardPubKey login) of
        Inl e \<Rightarrow> (Fails e, s)
      | Inr peer \<Rightarrow>
          (case (if pl_UserID login \<noteq> ''''
                 then (if np_UserID peer \<noteq> pl_UserID login then (Fails PeerLoginMismatch, s)
                       else handleUserPeer env peer settings s)
                 else (Returns (peer, False), s)) of
             (Panics, s) \<Rightarrow> (Panics, s)
           | (Fails e, s) \<Rightarrow> (Fails e, s)
           | (Returns (peer, changed), s) \<Rightarrow>
               (let peerGroupIDs = GetPeerGroupIDs s accountID (np_ID peer);
                    (peer, isPeerUpdated, _) = UpdateMetaIfNew peer (pl_Meta login)
                in case (if isPeerUpdated then getPeerPostureChecks s accountID (np_ID peer) else Inr []) of
                     Inl e \<Rightarrow> (Fails e, s)
                   | Inr postureChecks \<Rightarrow>
                       (let sshChanged = (np_SSHKey peer \<noteq> pl_SSHKey login);
                            peer = (if sshChanged then peer\<lparr>np_SSHKey := pl_SSHKey login\<rparr> else peer);
                            result = Returns (peer, peerGroupIDs, isPeerUpdated, postureChecks, changed \<or> sshChanged)
                        in if \<not> np_AllowExtraDNSLabels peer \<and> length (pl_ExtraDNSLabels login) > 0
                           then (Fails ExtraLabelsNotAllowed, s)
                           else if changed \<or> isPeerUpdated \<or> sshChanged
                           then (case SavePeer accountID peer s of Inl e \<Rightarrow> (Fails e, s) | Inr s \<Rightarrow> (result, s))
                           else (result, s)))))"

text \<open>The end of \<open>LoginPeer\<close> and \<open>SyncPeer\<close>: validation, notification and the network map.\<close>

definition finish_login ::
  "'nm mgr_env \<Rightarrow> string \<Rightarrow> nbPeer \<Rightarrow> string list \<Rightarrow> (bool \<Rightarrow> bool) \<Rightarrow> mgmt \<Rightarrow> 'nm login_result" where
  "finish_login env accountID peer peerGroupIDs tell s =
     (case me_IsNotValidPeer env accountID peer peerGroupIDs of
        None \<Rightarrow> (Fails ValidatorFailed, s)
      | Some (notValid, isStatusChanged) \<Rightarrow>
          (let told = tell isStatusChanged;
               s = (if told then emit (PeersUpdated accountID [np_ID peer]) s else s)
           in if told \<and> \<not> me_OnPeersUpdated env accountID [np_ID peer] then (Fails NotifyFailed, s)
              else (case me_validatedMap env notValid accountID peer of
                      None \<Rightarrow> (Fails MapFailed, s) | Some r \<Rightarrow> (Returns r, s))))"

definition handlePeerLoginNotFound :: "'nm mgr_env \<Rightarrow> request_context \<Rightarrow> PeerLogin \<Rightarrow> mgr_error \<Rightarrow> mgmt \<Rightarrow> 'nm login_result" where
  "handlePeerLoginNotFound env ctx login err s =
     (if err = AccountLookup
      then (let newPeer = \<lparr>np_ID = '''', np_AccountID = '''', np_Key = pl_WireGuardPubKey login, np_IP = '''',
                           np_Meta = pl_Meta login, np_ProxyMeta = \<lparr>proxy_Embedded = False, proxy_Cluster = ''''\<rparr>,
                           np_Name = '''', np_DNSLabel = '''', np_Status = None, np_UserID = '''',
                           np_SSHKey = pl_SSHKey login, np_SSHEnabled = False, np_LoginExpirationEnabled = False,
                           np_InactivityExpirationEnabled = False, np_LastLogin = None, np_CreatedAt = zero_time,
                           np_Ephemeral = False,
                           np_Location = \<lparr>loc_ConnectionIP = pl_ConnectionIP login, loc_CountryCode = '''',
                                          loc_CityName = '''', loc_GeoNameID = 0\<rparr>,
                           np_ExtraDNSLabels = pl_ExtraDNSLabels login, np_AllowExtraDNSLabels = False\<rparr>
            in AddPeer env ctx '''' (pl_SetupKey login) (pl_UserID login) newPeer False s)
      else (Fails InternalLogin, s))"

definition LoginPeer :: "'nm mgr_env \<Rightarrow> request_context \<Rightarrow> PeerLogin \<Rightarrow> mgmt \<Rightarrow> 'nm login_result" where
  "LoginPeer env ctx login s =
     (case GetAccountIDByPeerPubKey s (pl_WireGuardPubKey login) of
        Inl err \<Rightarrow> handlePeerLoginNotFound env ctx login err s
      | Inr accountID \<Rightarrow>
          (case (if pl_UserID login = '''' then checkIFPeerNeedsLoginWithoutLock env s accountID (pl_WireGuardPubKey login)
                 else Returns ()) of
             Panics \<Rightarrow> (Panics, s)
           | Fails e \<Rightarrow> (Fails e, s)
           | Returns _ \<Rightarrow>
               (case GetAccountSettings s accountID of
                  Inl e \<Rightarrow> (Fails e, s)
                | Inr settings \<Rightarrow>
                    (case ExecuteInTransaction (login_transaction env accountID settings login) s of
                       (Panics, s) \<Rightarrow> (Panics, s)
                     | (Fails e, s) \<Rightarrow> (Fails e, s)
                     | (Returns (peer, peerGroupIDs, isPeerUpdated, postureChecks, updateRemotePeers), s) \<Rightarrow>
                         finish_login env accountID peer peerGroupIDs
                           (\<lambda>isStatusChanged. updateRemotePeers \<or> isStatusChanged \<or> (isPeerUpdated \<and> length postureChecks > 0)) s))))"

section \<open>Synchronisation and connection state\<close>

record PeerSync =
  sy_WireGuardPubKey :: string
  sy_Meta :: PeerSystemMeta
  sy_UpdateAccountPeers :: bool

definition sync_transaction ::
  "'nm mgr_env \<Rightarrow> string \<Rightarrow> Settings \<Rightarrow> PeerSync \<Rightarrow> mgmt
   \<Rightarrow> (mgr_error, nbPeer \<times> string list \<times> bool \<times> bool \<times> Checks list) outcome \<times> mgmt" where
  "sync_transaction env accountID settings sync s =
     (case GetPeerByPeerPubKey s (sy_WireGuardPubKey sync) of
        Inl _ \<Rightarrow> (Fails PeerNotRegistered, s)
      | Inr peer \<Rightarrow>
          (case (if np_UserID peer \<noteq> ''''
                 then (case GetUserByUserID s (np_UserID peer) of
                         Inl e \<Rightarrow> Fails e
                       | Inr user \<Rightarrow> if checkIfPeerOwnerIsBlocked peer user then Fails UserBlocked else Returns ())
                 else Returns ()) of
             Panics \<Rightarrow> (Panics, s)
           | Fails e \<Rightarrow> (Fails e, s)
           | Returns _ \<Rightarrow>
               (case peerLoginExpired (me_now env) peer settings of
                  None \<Rightarrow> (Panics, s)
                | Some True \<Rightarrow> (Fails PeerLoginExpired, s)
                | Some False \<Rightarrow>
                    (let peerGroupIDs = GetPeerGroupIDs s accountID (np_ID peer);
                         (peer, updated, versionChanged) = UpdateMetaIfNew peer (sy_Meta sync)
                     in if updated
                        then (case SavePeer accountID peer s of
                                Inl e \<Rightarrow> (Fails e, s)
                              | Inr s \<Rightarrow>
                                  (case getPeerPostureChecks s accountID (np_ID peer) of
                                     Inl e \<Rightarrow> (Fails e, s)
                                   | Inr checks \<Rightarrow> (Returns (peer, peerGroupIDs, updated, versionChanged, checks), s)))
                        else (Returns (peer, peerGroupIDs, updated, versionChanged, []), s)))))"

definition SyncPeer :: "'nm mgr_env \<Rightarrow> PeerSync \<Rightarrow> string \<Rightarrow> mgmt \<Rightarrow> 'nm login_result" where
  "SyncPeer env sync accountID s =
     (case GetAccountSettings s accountID of
        Inl e \<Rightarrow> (Fails e, s)
      | Inr settings \<Rightarrow>
          (case ExecuteInTransaction (sync_transaction env accountID settings sync) s of
             (Panics, s) \<Rightarrow> (Panics, s)
           | (Fails e, s) \<Rightarrow> (Fails e, s)
           | (Returns (peer, peerGroupIDs, updated, versionChanged, postureChecks), s) \<Rightarrow>
               finish_login env accountID peer peerGroupIDs
                 (\<lambda>isStatusChanged. isStatusChanged \<or> sy_UpdateAccountPeers sync
                    \<or> (updated \<and> (length postureChecks > 0 \<or> versionChanged))) s))"

text \<open>
  \<open>updatePeerStatusAndLocation\<close>: \<open>newStatus := oldStatus\<close> copies a pointer, so the status that is
  changed and the old status whose expiry is returned are one object.
\<close>

definition updatePeerStatusAndLocation ::
  "'nm mgr_env \<Rightarrow> nbPeer \<Rightarrow> bool \<Rightarrow> string \<Rightarrow> string \<Rightarrow> int \<Rightarrow> mgmt \<Rightarrow> (mgr_error, bool) outcome \<times> mgmt" where
  "updatePeerStatusAndLocation env peer connected realIP accountID syncTime s =
     (case np_Status peer of
        None \<Rightarrow> (Panics, s)
      | Some st \<Rightarrow>
          (let status = (Status_Copy st)\<lparr>ps_LastSeen := syncTime, ps_Connected := connected\<rparr>;
               status = (if ps_Connected status then status\<lparr>ps_LoginExpired := False\<rparr> else status);
               s = (if realIP = '''' then s
                    else case me_lookupLocation env realIP of
                           None \<Rightarrow> s
                         | Some (country, city, geoname) \<Rightarrow>
                             (case SavePeerLocation accountID
                                     (peer\<lparr>np_Location := \<lparr>loc_ConnectionIP = realIP, loc_CountryCode = country,
                                                           loc_CityName = city, loc_GeoNameID = geoname\<rparr>\<rparr>) s of
                                Inl _ \<Rightarrow> s | Inr s \<Rightarrow> s))
           in case SavePeerStatus accountID (np_ID peer) status s of
                Inl e \<Rightarrow> (Fails e, s)
              | Inr s \<Rightarrow> (Returns (ps_LoginExpired status), s)))"

text \<open>The transaction of \<open>MarkPeerConnected\<close>; None says that the update was skipped as stale.\<close>

definition mark_transaction ::
  "'nm mgr_env \<Rightarrow> string \<Rightarrow> bool \<Rightarrow> string \<Rightarrow> string \<Rightarrow> int \<Rightarrow> mgmt \<Rightarrow> (mgr_error, (nbPeer \<times> bool) option) outcome \<times> mgmt" where
  "mark_transaction env peerPubKey connected realIP accountID syncTime s =
     (case GetPeerByPeerPubKey s peerPubKey of
        Inl e \<Rightarrow> (Fails e, s)
      | Inr peer \<Rightarrow>
          (case np_Status peer of
             None \<Rightarrow> (Panics, s)
           | Some st \<Rightarrow>
               if connected \<and> \<not> syncTime > ps_LastSeen st then (Returns None, s)
               else (case updatePeerStatusAndLocation env peer connected realIP accountID syncTime s of
                       (Panics, s) \<Rightarrow> (Panics, s)
                     | (Fails e, s) \<Rightarrow> (Fails e, s)
                     | (Returns expired, s) \<Rightarrow> (Returns (Some (peer, expired)), s))))"

definition MarkPeerConnected ::
  "'nm mgr_env \<Rightarrow> string \<Rightarrow> bool \<Rightarrow> string \<Rightarrow> string \<Rightarrow> int \<Rightarrow> mgmt \<Rightarrow> (mgr_error, unit) outcome \<times> mgmt" where
  "MarkPeerConnected env peerPubKey connected realIP accountID syncTime s =
     (case ExecuteInTransaction (mark_transaction env peerPubKey connected realIP accountID syncTime) s of
        (Panics, s) \<Rightarrow> (Panics, s)
      | (Fails e, s) \<Rightarrow> (Fails e, s)
      | (Returns None, s) \<Rightarrow> (Returns (), s)
      | (Returns (Some (peer, expired)), s) \<Rightarrow>
          (case (if AddedWithSSOLogin peer
                 then (case GetAccountSettings s accountID of
                         Inl e \<Rightarrow> Inl e
                       | Inr settings \<Rightarrow>
                           (let s = (if np_LoginExpirationEnabled peer \<and> PeerLoginExpirationEnabled settings
                                     then emit (ScheduleLoginExpiration accountID) s else s);
                                s = (if np_InactivityExpirationEnabled peer \<and> PeerInactivityExpirationEnabled settings
                                     then emit (ScheduleInactivityExpiration accountID) s else s)
                            in Inr s))
                 else Inr s) of
             Inl e \<Rightarrow> (Fails e, s)
           | Inr s \<Rightarrow>
               if expired
               then (let s = emit (PeersUpdated accountID [np_ID peer]) s
                     in if me_OnPeersUpdated env accountID [np_ID peer] then (Returns (), s) else (Fails NotifyFailed, s))
               else (Returns (), s)))"

definition SyncAndMarkPeer ::
  "'nm mgr_env \<Rightarrow> string \<Rightarrow> string \<Rightarrow> PeerSystemMeta \<Rightarrow> string \<Rightarrow> int \<Rightarrow> mgmt \<Rightarrow> 'nm login_result" where
  "SyncAndMarkPeer env accountID peerPubKey meta realIP syncTime s =
     (case SyncPeer env \<lparr>sy_WireGuardPubKey = peerPubKey, sy_Meta = meta, sy_UpdateAccountPeers = False\<rparr> accountID s of
        (Panics, s) \<Rightarrow> (Panics, s)
      | (Fails e, s) \<Rightarrow> (Fails e, s)
      | (Returns r, s) \<Rightarrow>
          (case MarkPeerConnected env peerPubKey True realIP accountID syncTime s of
             (Panics, s) \<Rightarrow> (Panics, s)
           | (_, s) \<Rightarrow> (Returns r, s)))"

definition OnPeerDisconnected :: "'nm mgr_env \<Rightarrow> string \<Rightarrow> string \<Rightarrow> int \<Rightarrow> mgmt \<Rightarrow> (mgr_error, unit) outcome \<times> mgmt" where
  "OnPeerDisconnected env accountID peerPubKey streamStartTime s =
     (case GetPeerByPeerPubKey s peerPubKey of
        Inl _ \<Rightarrow> (Returns (), s)
      | Inr peer \<Rightarrow>
          (case np_Status peer of
             None \<Rightarrow> (Panics, s)
           | Some st \<Rightarrow>
               if ps_LastSeen st > streamStartTime then (Returns (), s)
               else (case MarkPeerConnected env peerPubKey False '''' accountID (me_now env) s of
                       (Panics, s) \<Rightarrow> (Panics, s)
                     | (_, s) \<Rightarrow> (Returns (), s))))"

end
