(* ===== verification/MachineTunnel.thy ===== *)
theory MachineTunnel
  imports PeerRegistry
begin

text \<open>
  The handlers of machine peers, \<open>management/internals/shared/grpc/machine_tunnel.go\<close>, over the account
  manager of \<open>PeerRegistry\<close>. The lock of a peer is part of the state: acquiring a lock that is held
  blocks, and a request that blocks on a lock it holds itself never returns. The update stream of a
  peer is the sequence of events its loop sees.
\<close>

section \<open>Data\<close>

record NetworkMap =
  nm_Peers :: "nbPeer list"
  nm_Network :: "uint64 option"
  nm_Routes :: "Route list"
  nm_OfflinePeers :: "nbPeer list"
  nm_EnableSSH :: bool

text \<open>The parts of a protobuf \<open>PeerSystemMeta\<close>.\<close>

record proto_meta =
  rm_Hostname :: string
  rm_GoOS :: string
  rm_Kernel :: string
  rm_Core :: string
  rm_Platform :: string
  rm_OS :: string
  rm_OSVersion :: string
  rm_NetbirdVersion :: string
  rm_UiVersion :: string
  rm_KernelVersion :: string
  rm_NetworkAddresses :: "(string \<times> string) list"
  rm_SysSerialNumber :: string
  rm_SysProductName :: string
  rm_SysManufacturer :: string
  rm_Environment :: Environment
  rm_Flags :: Flags
  rm_Files :: "File list"

text \<open>A network map on the wire: its serial and the rest.\<close>

record 'm proto_map =
  pmap_Serial :: uint64
  pmap_body :: 'm

record 'm MachineSyncResponse =
  msr_NetworkMap :: "'m proto_map option"
  msr_Serial :: uint64

record proto_route =
  prt_ID :: string
  prt_Network :: string
  prt_NetID :: string
  prt_Peer :: string
  prt_Metric :: int
  prt_Masquerade :: bool
  prt_NetworkType :: NetworkType

record RemotePeerConfig =
  rpc_WgPubKey :: string
  rpc_Fqdn :: string
  rpc_AllowedIps :: "string list"

record MachineRoutesResponse =
  mrr_Routes :: "proto_route list"
  mrr_DcNetworks :: "string list"
  mrr_RouterPeers :: "RemotePeerConfig list"

datatype rpc_code = CodeUnauthenticated | CodeFailedPrecondition | CodePermissionDenied | CodeInvalidArgument
  | CodeInternal | CodeNotFound | CodeStream

text \<open>How a request ends: \<open>Blocked\<close> never returns, \<open>Streaming\<close> is still waiting for updates.\<close>

datatype 'a rpc = Reply 'a | RpcError rpc_code | RpcPanic | Blocked | Streaming

record ('cfg, 'm) srv_env =
  se_mgr :: "NetworkMap option mgr_env"
  se_validator :: "ValidatorConfig option"
  se_keyString :: "bytes \<Rightarrow> string"
  se_parseKey :: "bytes \<Rightarrow> string option"
  se_parsePrefix :: "string \<Rightarrow> netip_Prefix option"
  se_formatTime :: "int \<Rightarrow> string"
  se_dnsDomain :: "string \<Rightarrow> string option"
  se_peerConfig :: "nbPeer \<Rightarrow> uint64 option \<Rightarrow> string \<Rightarrow> bool \<Rightarrow> Checks list \<Rightarrow> 'cfg"
  se_mapBody :: "nbPeer \<Rightarrow> NetworkMap \<Rightarrow> string \<Rightarrow> Checks list \<Rightarrow> string list \<Rightarrow> 'm"
  se_send :: "nat \<Rightarrow> bool"
  se_onPeerConnected :: "string \<Rightarrow> string \<Rightarrow> bool"
  se_realIP :: string

text \<open>
  \<open>se_keyString\<close> and \<open>se_parseKey\<close> are the WireGuard keys of \<open>wgtypes\<close>; \<open>se_dnsDomain\<close> is the DNS domain
  of the settings the settings manager returns for an account, None its error; \<open>se_peerConfig\<close> and
  \<open>se_mapBody\<close> are the conversions to protobuf; \<open>se_send i\<close> says whether the \<open>i\<close>-th message can be sent.
\<close>

datatype ctl_event = CtlPeerConnected string string | CtlPeerDisconnected string string
  | CtlSetupRefresh string string | CtlCancelRefresh string

record 'm server =
  sv_mgmt :: mgmt
  sv_locks :: "string set"
  sv_sent :: "'m MachineSyncResponse list"
  sv_ctl :: "ctl_event list"

section \<open>Metadata\<close>

definition empty_meta :: PeerSystemMeta where
  "empty_meta =
     \<lparr>pm_Hostname = '''', pm_GoOS = '''', pm_Kernel = '''', pm_Core = '''', pm_Platform = '''', pm_OS = '''',
      pm_OSVersion = '''', pm_WtVersion = '''', pm_UIVersion = '''', pm_KernelVersion = '''', pm_NetworkAddresses = [],
      pm_SystemSerialNumber = '''', pm_SystemProductName = '''', pm_SystemManufacturer = '''',
      pm_Environment = \<lparr>env_Cloud = '''', env_Platform = ''''\<rparr>,
      pm_Flags = \<lparr>RosenpassEnabled = False, RosenpassPermissive = False, ServerSSHAllowed = False,
                  DisableClientRoutes = False, DisableServerRoutes = False, DisableDNS = False, DisableFirewall = False,
                  BlockLANAccess = False, BlockInbound = False, LazyConnectionEnabled = False\<rparr>,
      pm_Files = [], pm_PeerType = '''', pm_AuthMethod = '''', pm_CertDNSName = '''', pm_CertDomain = '''',
      pm_CertIssuerFP = '''', pm_CertSerial = '''', pm_CertTemplate = '''', pm_FirstAuthTime = '''',
      pm_LastCertAuthTime = ''''\<rparr>"

definition extractPeerMeta :: "('cfg, 'm) srv_env \<Rightarrow> proto_meta option \<Rightarrow> PeerSystemMeta" where
  "extractPeerMeta env meta =
     (case meta of
        None \<Rightarrow> empty_meta
      | Some meta \<Rightarrow>
          (let osVersion = (if rm_OSVersion meta = '''' then rm_Core meta else rm_OSVersion meta);
               networkAddresses = List.map_filter
                 (\<lambda>(netIP, mac). map_option (\<lambda>p. \<lparr>na_NetIP = p, na_Mac = mac\<rparr>) (se_parsePrefix env netIP))
                 (rm_NetworkAddresses meta)
           in empty_meta\<lparr>pm_Hostname := rm_Hostname meta, pm_GoOS := rm_GoOS meta, pm_Kernel := rm_Kernel meta,
                pm_Platform := rm_Platform meta, pm_OS := rm_OS meta, pm_OSVersion := osVersion,
                pm_WtVersion := rm_NetbirdVersion meta, pm_UIVersion := rm_UiVersion meta,
                pm_KernelVersion := rm_KernelVersion meta, pm_NetworkAddresses := networkAddresses,
                pm_SystemSerialNumber := rm_SysSerialNumber meta, pm_SystemProductName := rm_SysProductName meta,
                pm_SystemManufacturer := rm_SysManufacturer meta, pm_Environment := rm_Environment meta,
                pm_Flags := rm_Flags meta, pm_Files := rm_Files meta\<rparr>))"

definition extractMachinePeerMeta :: "('cfg, 'm) srv_env \<Rightarrow> proto_meta option \<Rightarrow> Identity \<Rightarrow> PeerSystemMeta" where
  "extractMachinePeerMeta env reqMeta identity =
     (let meta = extractPeerMeta env reqMeta;
          now = se_formatTime env (me_now (se_mgr env))
      in meta\<lparr>pm_PeerType := (if PeerType identity = '''' then ''machine'' else PeerType identity),
              pm_AuthMethod := ''mtls'', pm_CertDNSName := DNSName identity, pm_CertDomain := Domain identity,
              pm_CertIssuerFP := IssuerFingerprint identity, pm_CertSerial := SerialNumber identity,
              pm_CertTemplate := (if TemplateName identity = '''' then TemplateOID identity else TemplateName identity),
              pm_FirstAuthTime := now, pm_LastCertAuthTime := now\<rparr>)"

section \<open>Registration\<close>

definition KeyLen :: nat where "KeyLen = 32"

text \<open>\<open>prepareLoginResponse\<close>: it reads the network of the map it is given.\<close>

definition prepareLoginResponse ::
  "('cfg, 'm) srv_env \<Rightarrow> nbPeer \<Rightarrow> NetworkMap option \<Rightarrow> Checks list \<Rightarrow> (unit, 'cfg) outcome" where
  "prepareLoginResponse env peer netMap postureChecks =
     (case se_dnsDomain env (np_AccountID peer) of
        None \<Rightarrow> Fails ()
      | Some dnsDomain \<Rightarrow>
          (case netMap of
             None \<Rightarrow> Panics
           | Some nm \<Rightarrow> Returns (se_peerConfig env peer (nm_Network nm) dnsDomain (nm_EnableSSH nm) postureChecks)))"

definition RegisterMachinePeer ::
  "('cfg, 'm) srv_env \<Rightarrow> request_context \<Rightarrow> bytes \<Rightarrow> proto_meta option \<Rightarrow> 'm server \<Rightarrow> ('cfg \<times> Identity) rpc \<times> 'm server" where
  "RegisterMachinePeer env ctx wgPubKey reqMeta s =
     (case GetIdentity ctx of
        None \<Rightarrow> (RpcError CodeUnauthenticated, s)
      | Some identity \<Rightarrow>
          (let accountID = AccountID identity
           in if accountID = '''' then (RpcError CodeFailedPrecondition, s)
              else case mtls_ValidateIssuerCA (se_validator env) accountID (IssuerFingerprint identity) of
                Inl _ \<Rightarrow> (RpcError CodePermissionDenied, s)
              | Inr _ \<Rightarrow>
                  if length wgPubKey = 0 then (RpcError CodeInvalidArgument, s)
                  else (case (if length wgPubKey = KeyLen then Some (se_keyString env wgPubKey) else se_parseKey env wgPubKey) of
                          None \<Rightarrow> (RpcError CodeInvalidArgument, s)
                        | Some peerKey \<Rightarrow>
                            (let peerMeta = extractMachinePeerMeta env reqMeta identity
                             in case LoginPeer (se_mgr env) ctx
                                       \<lparr>pl_WireGuardPubKey = peerKey, pl_SSHKey = '''', pl_Meta = peerMeta, pl_UserID = '''',
                                        pl_SetupKey = '''', pl_ConnectionIP = '''', pl_ExtraDNSLabels = []\<rparr> (sv_mgmt s) of
                                  (Panics, m) \<Rightarrow> (RpcPanic, s\<lparr>sv_mgmt := m\<rparr>)
                                | (Fails _, m) \<Rightarrow> (RpcError CodeInternal, s\<lparr>sv_mgmt := m\<rparr>)
                                | (Returns (peer, netMap, postureChecks), m) \<Rightarrow>
                                    (let s = s\<lparr>sv_mgmt := m\<rparr>
                                     in case prepareLoginResponse env peer netMap postureChecks of
                                          Panics \<Rightarrow> (RpcPanic, s)
                                        | Fails _ \<Rightarrow> (RpcError CodeInternal, s)
                                        | Returns cfg \<Rightarrow> (Reply (cfg, identity), s))))))"

text \<open>\<open>findMachinePeer\<close>.\<close>

definition findMachinePeer :: "('cfg, 'm) srv_env \<Rightarrow> Identity \<Rightarrow> mgmt \<Rightarrow> mgr_error + nbPeer" where
  "findMachinePeer env identity m =
     (let dnsLabel = GenerateUniqueDNSLabel (me_hmac (se_mgr env)) (Hostname identity) (Domain identity)
      in case GetPeerIdByLabel m (AccountID identity) dnsLabel of
           Inl e \<Rightarrow> Inl e
         | Inr peerID \<Rightarrow> GetPeerByID m (AccountID identity) peerID)"

section \<open>Locks and disconnection\<close>

text \<open>None: the lock is held, the caller waits.\<close>

definition acquirePeerLockByUID :: "string \<Rightarrow> 'm server \<Rightarrow> 'm server option" where
  "acquirePeerLockByUID uid s = (if uid \<in> sv_locks s then None else Some (s\<lparr>sv_locks := insert uid (sv_locks s)\<rparr>))"

definition releasePeerLock :: "string \<Rightarrow> 'm server \<Rightarrow> 'm server" where
  "releasePeerLock uid s = s\<lparr>sv_locks := sv_locks s - {uid}\<rparr>"

text \<open>The flag says whether the account manager panicked.\<close>

definition cancelPeerRoutinesWithoutLock ::
  "('cfg, 'm) srv_env \<Rightarrow> string \<Rightarrow> nbPeer \<Rightarrow> int \<Rightarrow> 'm server \<Rightarrow> bool \<times> 'm server" where
  "cancelPeerRoutinesWithoutLock env accountID peer streamStartTime s =
     (case OnPeerDisconnected (se_mgr env) accountID (np_Key peer) streamStartTime (sv_mgmt s) of
        (Panics, m) \<Rightarrow> (True, s\<lparr>sv_mgmt := m\<rparr>)
      | (_, m) \<Rightarrow> (False, s\<lparr>sv_mgmt := m,
                         sv_ctl := sv_ctl s @ [CtlPeerDisconnected accountID (np_ID peer), CtlCancelRefresh (np_ID peer)]\<rparr>))"

text \<open>\<open>cancelPeerRoutines\<close> and then the end of the stream with the given result.\<close>

definition cancelPeerRoutines ::
  "('cfg, 'm) srv_env \<Rightarrow> string \<Rightarrow> nbPeer \<Rightarrow> int \<Rightarrow> unit rpc \<Rightarrow> 'm server \<Rightarrow> unit rpc \<times> 'm server" where
  "cancelPeerRoutines env accountID peer streamStartTime result s =
     (case acquirePeerLockByUID (np_Key peer) s of
        None \<Rightarrow> (Blocked, s)
      | Some s \<Rightarrow>
          (let (panicked, s) = cancelPeerRoutinesWithoutLock env accountID peer streamStartTime s;
               s = releasePeerLock (np_Key peer) s
           in (if panicked then RpcPanic else result, s)))"

section \<open>Synchronisation\<close>

definition toMachineSyncResponse :: "'m proto_map option \<Rightarrow> uint64 \<Rightarrow> 'm MachineSyncResponse" where
  "toMachineSyncResponse networkMap serial =
     (case networkMap of
        None \<Rightarrow> \<lparr>msr_NetworkMap = None, msr_Serial = serial\<rparr>
      | Some m \<Rightarrow> \<lparr>msr_NetworkMap = Some m, msr_Serial = (if serial = 0 then pmap_Serial m else serial)\<rparr>)"

definition send :: "('cfg, 'm) srv_env \<Rightarrow> 'm MachineSyncResponse \<Rightarrow> 'm server \<Rightarrow> bool \<times> 'm server" where
  "send env msg s = (if se_send env (length (sv_sent s)) then (True, s\<lparr>sv_sent := sv_sent s @ [msg]\<rparr>) else (False, s))"

text \<open>\<open>ToSyncResponse\<close> reads the network of the map before the handler looks whether there is one.\<close>

definition sendInitialMachineSync ::
  "('cfg, 'm) srv_env \<Rightarrow> nbPeer \<Rightarrow> NetworkMap option \<Rightarrow> Checks list \<Rightarrow> 'm server \<Rightarrow> (rpc_code, unit) outcome \<times> 'm server" where
  "sendInitialMachineSync env peer netMap postureChecks s =
     (case se_dnsDomain env (np_AccountID peer) of
        None \<Rightarrow> (Fails CodeInternal, s)
      | Some dnsDomain \<Rightarrow>
          (let peerGroups = GetPeerGroupIDs (sv_mgmt s) (np_AccountID peer) (np_ID peer)
           in case netMap of
                None \<Rightarrow> (Panics, s)
              | Some nm \<Rightarrow>
                  (case nm_Network nm of
                     None \<Rightarrow> (Panics, s)
                   | Some serial \<Rightarrow>
                       (let networkMap = \<lparr>pmap_Serial = serial, pmap_body = se_mapBody env peer nm dnsDomain postureChecks peerGroups\<rparr>;
                            (ok, s) = send env (toMachineSyncResponse (Some networkMap) serial) s
                        in if ok then (Returns (), s) else (Fails CodeInternal, s)))))"

datatype 'm stream_event = Update "'m proto_map option" | UpdatesClosed | StreamDone

fun handleMachineUpdates ::
  "('cfg, 'm) srv_env \<Rightarrow> string \<Rightarrow> nbPeer \<Rightarrow> int \<Rightarrow> 'm stream_event list \<Rightarrow> 'm server \<Rightarrow> unit rpc \<times> 'm server" where
  "handleMachineUpdates env accountID peer start [] s = (Streaming, s)"
| "handleMachineUpdates env accountID peer start (UpdatesClosed # es) s =
     cancelPeerRoutines env accountID peer start (Reply ()) s"
| "handleMachineUpdates env accountID peer start (StreamDone # es) s =
     cancelPeerRoutines env accountID peer start (RpcError CodeStream) s"
| "handleMachineUpdates env accountID peer start (Update m # es) s =
     (let (ok, s) = send env (toMachineSyncResponse m 0) s
      in if ok then handleMachineUpdates env accountID peer start es s
         else cancelPeerRoutines env accountID peer start (RpcError CodeStream) s)"

text \<open>The rest of \<open>SyncMachinePeer\<close> once the peer is found and its lock is taken;
  the deferred function releases the lock unless it was released before.\<close>

definition sync_locked ::
  "('cfg, 'm) srv_env \<Rightarrow> string \<Rightarrow> string \<Rightarrow> proto_meta option \<Rightarrow> 'm stream_event list \<Rightarrow> 'm server \<Rightarrow> unit rpc \<times> 'm server" where
  "sync_locked env accountID key reqMeta events s =
     (case SyncAndMarkPeer (se_mgr env) accountID key (extractPeerMeta env reqMeta) (se_realIP env) (me_now (se_mgr env)) (sv_mgmt s) of
        (Panics, m) \<Rightarrow> (RpcPanic, releasePeerLock key (s\<lparr>sv_mgmt := m\<rparr>))
      | (Fails _, m) \<Rightarrow> (RpcError CodeInternal, releasePeerLock key (s\<lparr>sv_mgmt := m\<rparr>))
      | (Returns (peer, netMap, postureChecks), m) \<Rightarrow>
          (case sendInitialMachineSync env peer netMap postureChecks (s\<lparr>sv_mgmt := m\<rparr>) of
             (Panics, s) \<Rightarrow> (RpcPanic, releasePeerLock key s)
           | (Fails c, s) \<Rightarrow> (RpcError c, releasePeerLock key s)
           | (Returns _, s) \<Rightarrow>
               if \<not> se_onPeerConnected env accountID (np_ID peer)
               then (case cancelPeerRoutines env accountID peer (me_now (se_mgr env)) (RpcError CodeInternal) s of
                       (Blocked, s) \<Rightarrow> (Blocked, s)
                     | (r, s) \<Rightarrow> (r, releasePeerLock key s))
               else
                 handleMachineUpdates env accountID peer (me_now (se_mgr env)) events
                   (releasePeerLock key (s\<lparr>sv_ctl := sv_ctl s @ [CtlPeerConnected accountID (np_ID peer),
                                                               CtlSetupRefresh accountID (np_ID peer)]\<rparr>))))"

definition SyncMachinePeer ::
  "('cfg, 'm) srv_env \<Rightarrow> request_context \<Rightarrow> proto_meta option \<Rightarrow> 'm stream_event list \<Rightarrow> 'm server \<Rightarrow> unit rpc \<times> 'm server" where
  "SyncMachinePeer env ctx reqMeta events s =
     (case GetIdentity ctx of
        None \<Rightarrow> (RpcError CodeUnauthenticated, s)
      | Some identity \<Rightarrow>
          (case mtls_ValidateIssuerCA (se_validator env) (AccountID identity) (IssuerFingerprint identity) of
             Inl _ \<Rightarrow> (RpcError CodePermissionDenied, s)
           | Inr _ \<Rightarrow>
               (case findMachinePeer env identity (sv_mgmt s) of
                  Inl _ \<Rightarrow> (RpcError CodeNotFound, s)
                | Inr peer \<Rightarrow>
                    (case acquirePeerLockByUID (np_Key peer) s of
                       None \<Rightarrow> (Blocked, s)
                     | Some s \<Rightarrow> sync_locked env (AccountID identity) (np_Key peer) reqMeta events s))))"

section \<open>Routes and status\<close>

text \<open>The routes of the response and the peers they name.\<close>

definition machine_route :: "Route \<Rightarrow> proto_route" where
  "machine_route r = \<lparr>prt_ID = rt_ID r, prt_Network = rt_Network r, prt_NetID = rt_NetID r, prt_Peer = rt_Peer r,
     prt_Metric = rt_Metric r, prt_Masquerade = rt_Masquerade r, prt_NetworkType = rt_NetworkType r\<rparr>"

definition machine_routes :: "NetworkMap \<Rightarrow> string \<Rightarrow> MachineRoutesResponse" where
  "machine_routes nm dnsDomain =
     (let enabled = filter rt_Enabled (nm_Routes nm);
          routerPeerIDs = set (filter (\<lambda>k. k \<noteq> '''') (map rt_Peer enabled))
      in \<lparr>mrr_Routes = map machine_route enabled, mrr_DcNetworks = map rt_Network enabled,
          mrr_RouterPeers = map (\<lambda>p. \<lparr>rpc_WgPubKey = np_Key p, rpc_Fqdn = np_DNSLabel p @ ''.'' @ dnsDomain,
                                      rpc_AllowedIps = [np_IP p @ ''/32'']\<rparr>)
                              (filter (\<lambda>p. np_ID p \<in> routerPeerIDs) (nm_Peers nm))\<rparr>)"

definition GetMachineRoutes ::
  "('cfg, 'm) srv_env \<Rightarrow> request_context \<Rightarrow> 'm server \<Rightarrow> MachineRoutesResponse rpc \<times> 'm server" where
  "GetMachineRoutes env ctx s =
     (case GetIdentity ctx of
        None \<Rightarrow> (RpcError CodeUnauthenticated, s)
      | Some identity \<Rightarrow>
          (case mtls_ValidateIssuerCA (se_validator env) (AccountID identity) (IssuerFingerprint identity) of
             Inl _ \<Rightarrow> (RpcError CodePermissionDenied, s)
           | Inr _ \<Rightarrow>
               (case findMachinePeer env identity (sv_mgmt s) of
                  Inl _ \<Rightarrow> (RpcError CodeNotFound, s)
                | Inr peer \<Rightarrow>
                    (case SyncPeer (se_mgr env) \<lparr>sy_WireGuardPubKey = np_Key peer, sy_Meta = empty_meta, sy_UpdateAccountPeers = False\<rparr>
                            (AccountID identity) (sv_mgmt s) of
                       (Panics, m) \<Rightarrow> (RpcPanic, s\<lparr>sv_mgmt := m\<rparr>)
                     | (Fails _, m) \<Rightarrow> (RpcError CodeInternal, s\<lparr>sv_mgmt := m\<rparr>)
                     | (Returns (_, netMap, _), m) \<Rightarrow>
                         (case se_dnsDomain env (AccountID identity) of
                            None \<Rightarrow> (RpcError CodeInternal, s\<lparr>sv_mgmt := m\<rparr>)
                          | Some dnsDomain \<Rightarrow>
                              (Reply (case netMap of
                                        None \<Rightarrow> \<lparr>mrr_Routes = [], mrr_DcNetworks = [], mrr_RouterPeers = []\<rparr>
                                      | Some nm \<Rightarrow> machine_routes nm dnsDomain), s\<lparr>sv_mgmt := m\<rparr>))))))"

definition ReportMachineStatus ::
  "('cfg, 'm) srv_env \<Rightarrow> request_context \<Rightarrow> bool \<Rightarrow> 'm server \<Rightarrow> unit rpc \<times> 'm server" where
  "ReportMachineStatus env ctx tunnelUp s =
     (case GetIdentity ctx of
        None \<Rightarrow> (RpcError CodeUnauthenticated, s)
      | Some identity \<Rightarrow>
          (case findMachinePeer env identity (sv_mgmt s) of
             Inl _ \<Rightarrow> (RpcError CodeNotFound, s)
           | Inr peer \<Rightarrow>
               (case MarkPeerConnected (se_mgr env) (np_Key peer) tunnelUp (se_realIP env) (AccountID identity)
                       (me_now (se_mgr env)) (sv_mgmt s) of
                  (Panics, m) \<Rightarrow> (RpcPanic, s\<lparr>sv_mgmt := m\<rparr>)
                | (_, m) \<Rightarrow> (Reply (), s\<lparr>sv_mgmt := m\<rparr>))))"

end
