(* ===== verification/RegistryProps.thy ===== *)
theory RegistryProps
  imports MachineTunnel
begin

text \<open>
  What registration, login and synchronisation keep: the unique columns of the peers table, the limits
  of the setup keys, and the rows of the accounts a request is not about.
\<close>

section \<open>Invariants of the tables\<close>

definition row_keys :: "nbPeer \<Rightarrow> string \<times> string \<times> string \<times> string \<times> string" where
  "row_keys p = (np_ID p, np_AccountID p, np_Key p, np_IP p, np_DNSLabel p)"

definition peers_unique :: "nbPeer list \<Rightarrow> bool" where
  "peers_unique ps \<longleftrightarrow> distinct (map np_ID ps) \<and> distinct (map np_Key ps)
     \<and> distinct (map (\<lambda>p. (np_AccountID p, np_IP p)) ps) \<and> distinct (map (\<lambda>p. (np_AccountID p, np_DNSLabel p)) ps)"

definition keys_within_limit :: "SetupKey list \<Rightarrow> bool" where
  "keys_within_limit ks \<longleftrightarrow> distinct (map sk_Id ks) \<and> (\<forall>k \<in> set ks. key_limit k > 0 \<longrightarrow> sk_UsedTimes k \<le> key_limit k)"

definition registry_inv :: "mgmt \<Rightarrow> bool" where
  "registry_inv m \<longleftrightarrow> peers_unique (mg_peers m) \<and> keys_within_limit (mg_keys m)"

text \<open>
  An update within one account: the rows of the other accounts are as before, and so are the
  identifying columns of every row, the setup keys, the accounts and the groups.
\<close>

definition row_update :: "string \<Rightarrow> nbPeer \<Rightarrow> nbPeer \<Rightarrow> bool" where
  "row_update a p q \<longleftrightarrow> row_keys q = row_keys p \<and> (np_AccountID p \<noteq> a \<longrightarrow> q = p)"

definition account_update :: "string \<Rightarrow> mgmt \<Rightarrow> mgmt \<Rightarrow> bool" where
  "account_update a m m' \<longleftrightarrow> list_all2 (row_update a) (mg_peers m) (mg_peers m') \<and> mg_keys m' = mg_keys m
     \<and> mg_accounts m' = mg_accounts m \<and> mg_group_peers m' = mg_group_peers m"

definition tracked :: "mgmt \<Rightarrow> nbPeer \<Rightarrow> bool" where
  "tracked m p \<longleftrightarrow> row_keys p \<in> row_keys ` set (mg_peers m)"

lemma account_update_refl [simp]: "account_update a m m"
  by (simp add: account_update_def row_update_def list_all2_same)

lemma row_update_trans: "row_update a p q \<Longrightarrow> row_update a q r \<Longrightarrow> row_update a p r"
  by (auto simp: row_update_def row_keys_def)

lemma account_update_trans [trans]: "account_update a l m \<Longrightarrow> account_update a m n \<Longrightarrow> account_update a l n"
  unfolding account_update_def by (auto intro: list_all2_trans [OF row_update_trans])

lemma account_update_row_keys: "account_update a m m' \<Longrightarrow> map row_keys (mg_peers m') = map row_keys (mg_peers m)"
  by (auto simp: account_update_def row_update_def list_all2_conv_all_nth intro!: nth_equalityI)

lemma account_update_others:
  assumes "account_update a m m'"
  shows "filter (\<lambda>p. np_AccountID p \<noteq> a) (mg_peers m') = filter (\<lambda>p. np_AccountID p \<noteq> a) (mg_peers m)"
proof -
  have "filter (\<lambda>p. np_AccountID p \<noteq> a) qs = filter (\<lambda>p. np_AccountID p \<noteq> a) ps" if "list_all2 (row_update a) ps qs" for ps qs
    using that by (induction rule: list_all2_induct) (auto simp: row_update_def row_keys_def)
  with assms show ?thesis
    by (simp add: account_update_def)
qed

lemma peers_unique_cong:
  assumes "map row_keys ps = map row_keys qs"
  shows "peers_unique ps \<longleftrightarrow> peers_unique qs"
proof -
  have cols: "map np_ID xs = map fst (map row_keys xs)" "map np_Key xs = map (fst \<circ> snd \<circ> snd) (map row_keys xs)"
    "map (\<lambda>p. (np_AccountID p, np_IP p)) xs = map (\<lambda>r. (fst (snd r), fst (snd (snd (snd r))))) (map row_keys xs)"
    "map (\<lambda>p. (np_AccountID p, np_DNSLabel p)) xs = map (\<lambda>r. (fst (snd r), snd (snd (snd (snd r))))) (map row_keys xs)" for xs
    by (simp_all add: row_keys_def)
  show ?thesis
    unfolding peers_unique_def cols assms ..
qed

lemma registry_inv_account_update: "account_update a m m' \<Longrightarrow> registry_inv m \<Longrightarrow> registry_inv m'"
  unfolding registry_inv_def using account_update_row_keys peers_unique_cong by (metis account_update_def)

lemma tracked_account_update: "account_update a m m' \<Longrightarrow> tracked m p \<Longrightarrow> tracked m' p"
  unfolding tracked_def by (drule account_update_row_keys) (metis set_map)

lemma tracked_cong: "row_keys p = row_keys q \<Longrightarrow> tracked m p \<longleftrightarrow> tracked m q"
  by (simp add: tracked_def)

lemma emit_fields [simp]:
  "mg_peers (emit e m) = mg_peers m" "mg_keys (emit e m) = mg_keys m" "mg_accounts (emit e m) = mg_accounts m"
  "mg_users (emit e m) = mg_users m" "mg_group_peers (emit e m) = mg_group_peers m"
  "mg_events (emit e m) = mg_events m @ [e]"
  by (simp_all add: emit_def)

lemma account_update_emit [simp]: "account_update a m (emit e m') \<longleftrightarrow> account_update a m m'"
  by (simp add: account_update_def)

lemma account_update_events [simp]: "account_update a m (m'\<lparr>mg_events := es\<rparr>) \<longleftrightarrow> account_update a m m'"
  by (simp add: account_update_def)

section \<open>Updates of rows\<close>

lemma update_peer_rows_account_update:
  assumes "update_peer_rows a i f m = Inr m'"
    and "\<And>p. p \<in> set (mg_peers m) \<Longrightarrow> np_AccountID p = a \<Longrightarrow> np_ID p = i \<Longrightarrow> row_keys (f p) = row_keys p"
  shows "account_update a m m'"
  using assms
  by (auto simp: update_peer_rows_def account_update_def row_update_def list.rel_map list_all2_same split: if_splits)

lemma row_keys_copy [simp]: "row_keys (Peer_Copy p) = row_keys p"
  by (simp add: row_keys_def Peer_Copy_def)

lemma SavePeer_account_update:
  assumes "SavePeer a peer m = Inr m'" "registry_inv m" "tracked m peer"
  shows "account_update a m m'"
proof (rule update_peer_rows_account_update)
  show "update_peer_rows a (np_ID peer) (\<lambda>_. (Peer_Copy peer)\<lparr>np_AccountID := a\<rparr>) m = Inr m'"
    using assms(1) by (simp add: SavePeer_def Let_def)
  fix p
  assume p: "p \<in> set (mg_peers m)" "np_AccountID p = a" "np_ID p = np_ID peer"
  obtain q where q: "q \<in> set (mg_peers m)" "row_keys q = row_keys peer"
    using assms(3) by (auto simp: tracked_def)
  have "distinct (map np_ID (mg_peers m))"
    using assms(2) by (simp add: registry_inv_def peers_unique_def)
  moreover have "np_ID q = np_ID p"
    using q(2) p(3) by (simp add: row_keys_def)
  ultimately have "q = p"
    using p(1) q(1) by (auto simp: distinct_map dest: inj_onD)
  then show "row_keys ((Peer_Copy peer)\<lparr>np_AccountID := a\<rparr>) = row_keys p"
    using q(2) p(2) by (auto simp: row_keys_def Peer_Copy_def)
qed

lemma SavePeerStatus_account_update: "SavePeerStatus a i st m = Inr m' \<Longrightarrow> account_update a m m'"
  unfolding SavePeerStatus_def by (erule update_peer_rows_account_update) (simp_all add: row_keys_def)

lemma SavePeerLocation_account_update: "SavePeerLocation a p m = Inr m' \<Longrightarrow> account_update a m m'"
  unfolding SavePeerLocation_def Let_def by (erule update_peer_rows_account_update) (simp_all add: row_keys_def)

lemma SaveUserLastLogin_account_update: "SaveUserLastLogin b u t m = Inr m' \<Longrightarrow> account_update a m m'"
  by (auto simp: SaveUserLastLogin_def account_update_def row_update_def list_all2_same split: if_splits)

lemma GetPeerByPeerPubKey_Inr:
  assumes "GetPeerByPeerPubKey m k = Inr p"
  shows "p \<in> set (mg_peers m)" "np_Key p = k" "tracked m p"
proof -
  have "List.find (\<lambda>p. np_Key p = k) (mg_peers m) = Some p"
    using assms by (auto simp: GetPeerByPeerPubKey_def split: option.splits)
  then show "p \<in> set (mg_peers m)" "np_Key p = k"
    by (auto simp: find_Some_iff)
  then show "tracked m p"
    by (simp add: tracked_def)
qed

lemma meta_keeps_row_keys [simp]: "row_keys (p\<lparr>np_Meta := x\<rparr>) = row_keys p" "row_keys (p\<lparr>np_SSHKey := k\<rparr>) = row_keys p"
  by (simp_all add: row_keys_def)

lemma UpdateMetaIfNew_row_keys: "UpdateMetaIfNew p meta = (p', u, v) \<Longrightarrow> row_keys p' = row_keys p"
  unfolding UpdateMetaIfNew_def Let_def
  by (cases "meta_isEqual (np_Meta p) (if pm_UIVersion meta = '''' then meta\<lparr>pm_UIVersion := pm_UIVersion (np_Meta p)\<rparr> else meta)")
    (auto split: if_splits)

lemma UpdateLastLogin_row_keys: "UpdateLastLogin now p = Some p' \<Longrightarrow> row_keys p' = row_keys p"
  by (auto simp: UpdateLastLogin_def row_keys_def split: option.splits)

lemma ExecuteInTransaction_account_update:
  assumes "ExecuteInTransaction op m = (r, m')" and "\<And>x m''. op m = (Returns x, m'') \<Longrightarrow> account_update a m m''"
  shows "account_update a m m'"
  using assms by (auto simp: ExecuteInTransaction_def split: prod.splits outcome.splits)

section \<open>Login, synchronisation and connection state\<close>

lemma handleExpiredPeer_row_keys:
  "handleExpiredPeer env user peer m = (Returns peer', m') \<Longrightarrow> row_keys peer' = row_keys peer"
  by (auto simp: handleExpiredPeer_def Let_def split: sum.splits option.splits dest: UpdateLastLogin_row_keys)

lemma handleExpiredPeer_account_update:
  assumes "handleExpiredPeer env user peer m = (r, m')" "registry_inv m" "tracked m peer"
  shows "account_update (np_AccountID peer) m m'"
proof (cases "UpdateLastLogin (me_now env) peer")
  case (Some p)
  have t: "tracked m p"
    using assms(3) UpdateLastLogin_row_keys [OF Some] tracked_cong by blast
  show ?thesis
  proof (cases "SavePeer (np_AccountID p) p m")
    case (Inr m1)
    have m1: "account_update (np_AccountID peer) m m1"
      using SavePeer_account_update [OF Inr assms(2) t] UpdateLastLogin_row_keys [OF Some] by (simp add: row_keys_def)
    let ?m2 = "case SaveUserLastLogin (ur_AccountID user) (usr_Id user) (GetLastLogin p) m1 of Inl _ \<Rightarrow> m1 | Inr s \<Rightarrow> s"
    have "account_update (np_AccountID peer) m1 ?m2"
      by (auto split: sum.splits dest: SaveUserLastLogin_account_update)
    with m1 have "account_update (np_AccountID peer) m ?m2"
      by (rule account_update_trans)
    then show ?thesis
      using assms(1) Some Inr by (auto simp: handleExpiredPeer_def Let_def split: sum.splits)
  qed (use assms(1) Some in \<open>auto simp: handleExpiredPeer_def split: sum.splits\<close>)
qed (use assms(1) in \<open>auto simp: handleExpiredPeer_def split: sum.splits\<close>)

lemma handleUserPeer_row_keys:
  "handleUserPeer env peer settings m = (Returns (peer', c), m') \<Longrightarrow> row_keys peer' = row_keys peer"
  by (auto simp: handleUserPeer_def split: sum.splits if_splits option.splits prod.splits outcome.splits
      dest: handleExpiredPeer_row_keys)

lemma handleUserPeer_account_update:
  assumes "handleUserPeer env peer settings m = (r, m')" "registry_inv m" "tracked m peer"
  shows "account_update (np_AccountID peer) m m'"
  using assms(1) handleExpiredPeer_account_update [OF _ assms(2,3)]
  by (auto simp: handleUserPeer_def split: sum.splits if_splits option.splits prod.splits outcome.splits)

lemma login_transaction_account_update:
  assumes tx: "login_transaction env a settings login m = (Returns x, m')" and inv: "registry_inv m"
    and acc: "GetAccountIDByPeerPubKey m (pl_WireGuardPubKey login) = Inr a"
  shows "account_update a m m'"
proof -
  obtain p where p: "GetPeerByPeerPubKey m (pl_WireGuardPubKey login) = Inr p"
    using tx by (auto simp: login_transaction_def split: sum.splits)
  have pa: "np_AccountID p = a"
    using p acc by (auto simp: GetPeerByPeerPubKey_def GetAccountIDByPeerPubKey_def split: option.splits)
  let ?user = "if pl_UserID login \<noteq> '''' then (if np_UserID p \<noteq> pl_UserID login then (Fails PeerLoginMismatch, m)
      else handleUserPeer env p settings m) else (Returns (p, False), m)"
  obtain p1 c m1 where u: "?user = (Returns (p1, c), m1)"
    using tx p by (auto simp: login_transaction_def split: prod.splits outcome.splits)
  have m1: "account_update a m m1" and p1: "row_keys p1 = row_keys p"
    using u pa handleUserPeer_account_update [OF _ inv GetPeerByPeerPubKey_Inr(3) [OF p]] handleUserPeer_row_keys
    by (auto split: if_splits)
  obtain p2 upd v where meta: "UpdateMetaIfNew p1 (pl_Meta login) = (p2, upd, v)"
    using prod_cases3 by blast
  let ?p3 = "if np_SSHKey p2 \<noteq> pl_SSHKey login then p2\<lparr>np_SSHKey := pl_SSHKey login\<rparr> else p2"
  have "m' = m1 \<or> SavePeer a ?p3 m1 = Inr m'"
    using tx unfolding login_transaction_def p sum.case u prod.case outcome.case Let_def meta
    by (auto split: sum.splits if_splits)
  moreover have "tracked m1 ?p3"
    using tracked_account_update [OF m1 GetPeerByPeerPubKey_Inr(3) [OF p]] p1 UpdateMetaIfNew_row_keys [OF meta]
    by (simp add: tracked_def)
  ultimately show ?thesis
    using m1 SavePeer_account_update [OF _ registry_inv_account_update [OF m1 inv]] account_update_trans by blast
qed

lemma finish_login_tables:
  "finish_login env a p gs tell m = (r, m') \<Longrightarrow> m' = m \<or> (\<exists>e. m' = emit e m)"
  by (auto simp: finish_login_def Let_def split: option.splits if_splits prod.splits)

lemma finish_login_account_update: "finish_login env a p gs tell m = (r, m') \<Longrightarrow> account_update a m m'"
  using finish_login_tables by fastforce

lemma sync_transaction_account_update:
  assumes tx: "sync_transaction env a settings sync m = (Returns x, m')" and inv: "registry_inv m"
  shows "account_update a m m'"
proof -
  obtain p where p: "GetPeerByPeerPubKey m (sy_WireGuardPubKey sync) = Inr p"
    using tx by (auto simp: sync_transaction_def split: sum.splits)
  obtain p2 upd v where meta: "UpdateMetaIfNew p (sy_Meta sync) = (p2, upd, v)"
    using prod_cases3 by blast
  have "m' = m \<or> SavePeer a p2 m = Inr m'"
    using tx unfolding sync_transaction_def p sum.case Let_def meta prod.case
    by (auto split: sum.splits if_splits option.splits bool.splits outcome.splits)
  moreover have "tracked m p2"
    using GetPeerByPeerPubKey_Inr(3) [OF p] UpdateMetaIfNew_row_keys [OF meta] by (simp add: tracked_def)
  ultimately show ?thesis
    using SavePeer_account_update [OF _ inv] by (metis account_update_refl)
qed

lemma SyncPeer_account_update:
  assumes "SyncPeer env sync a m = (r, m')" "registry_inv m"
  shows "account_update a m m'"
proof (cases "GetAccountSettings m a")
  case (Inr settings)
  obtain r1 m1 where tx: "ExecuteInTransaction (sync_transaction env a settings sync) m = (r1, m1)"
    by fastforce
  have "account_update a m m1"
    using tx sync_transaction_account_update assms(2) by (blast intro: ExecuteInTransaction_account_update)
  then show ?thesis
    using assms(1) Inr tx by (auto simp: SyncPeer_def split: outcome.splits prod.splits
        dest: finish_login_account_update intro: account_update_trans)
qed (use assms(1) in \<open>auto simp: SyncPeer_def\<close>)

lemma mark_transaction_account_update:
  assumes "mark_transaction env k c ip a t m = (Returns x, m')"
  shows "account_update a m m'"
  using assms
  by (auto simp: mark_transaction_def updatePeerStatusAndLocation_def Let_def
      split: sum.splits option.splits if_splits prod.splits
      dest!: SavePeerStatus_account_update SavePeerLocation_account_update intro: account_update_trans)

lemma MarkPeerConnected_account_update:
  assumes "MarkPeerConnected env k c ip a t m = (r, m')"
  shows "account_update a m m'"
proof -
  obtain r1 m1 where tx: "ExecuteInTransaction (mark_transaction env k c ip a t) m = (r1, m1)"
    by fastforce
  have "account_update a m m1"
    using tx mark_transaction_account_update by (blast intro: ExecuteInTransaction_account_update)
  then show ?thesis
    using assms tx by (auto simp: MarkPeerConnected_def Let_def split: outcome.splits prod.splits option.splits
        if_splits sum.splits)
qed

section \<open>Registration\<close>

text \<open>How the loop over the attempts ends: one transaction has committed, or only notifications were sent.\<close>

lemma add_attempts_cases:
  assumes "add_attempts env net meta eph tx att n e newPeer s = (r, s')"
  obtains (added) attempt freeIP label p es where
      "AllocateRandomPeerIP (me_rnd env attempt) net = Returns freeIP" "attempt_label env meta eph attempt freeIP = Some label"
      "p = newPeer\<lparr>np_DNSLabel := label, np_IP := ip_string freeIP\<rparr>" "r = Returns p"
      "tx p (s\<lparr>mg_events := es\<rparr>) = (Returns (), s')"
    | (failed) es where "s' = s\<lparr>mg_events := es\<rparr>" "\<And>p. r \<noteq> Returns p"
  using assms
proof (induction n arbitrary: att e newPeer s thesis)
  case 0
  then show ?case
    by (auto intro: "0.prems"(2) [of "mg_events s"])
next
  case (Suc n)
  note added = Suc.prems(1) and failed = Suc.prems(2)
  show ?case
  proof (cases "AllocateRandomPeerIP (me_rnd env att) net")
    case (Returns freeIP)
    note ip = this
    show ?thesis
    proof (cases "attempt_label env meta eph att freeIP")
      case None
      then show ?thesis
        using Suc.prems(3) ip by (intro failed [of "mg_events s"]) auto
    next
      case (Some label)
      let ?p = "newPeer\<lparr>np_DNSLabel := label, np_IP := ip_string freeIP\<rparr>"
      obtain r1 s1 where tx: "tx ?p s = (r1, s1)"
        by fastforce
      have ev: "s\<lparr>mg_events := mg_events s\<rparr> = s"
        by simp
      show ?thesis
      proof (cases r1)
        case (Returns u)
        then show ?thesis
          using Suc.prems(3) ip Some tx ev
          by (intro added [OF ip Some refl, of "mg_events s"]) (auto simp: ExecuteInTransaction_def Let_def)
      next
        case (Fails err)
        then have ex: "ExecuteInTransaction (tx ?p) s = (Fails err, s\<lparr>mg_events := mg_events s1\<rparr>)"
          using tx by (simp add: ExecuteInTransaction_def)
        show ?thesis
        proof (cases "err = UniqueViolation")
          case True
          then have "add_attempts env net meta eph tx (att + 1) n err ?p (s\<lparr>mg_events := mg_events s1\<rparr>) = (r, s')"
            using Suc.prems(3) ip Some ex by (simp add: Let_def)
          then show ?thesis
          proof (rule Suc.IH [rotated 2])
            fix attempt freeIP label p es
            assume "AllocateRandomPeerIP (me_rnd env attempt) net = Returns freeIP" "attempt_label env meta eph attempt freeIP = Some label"
              "p = ?p\<lparr>np_DNSLabel := label, np_IP := ip_string freeIP\<rparr>" "r = Returns p"
              "tx p (s\<lparr>mg_events := mg_events s1, mg_events := es\<rparr>) = (Returns (), s')"
            then show thesis
              by (intro added [of attempt freeIP label p es]) simp_all
          next
            fix es
            assume "s' = s\<lparr>mg_events := mg_events s1, mg_events := es\<rparr>" "\<And>p. r \<noteq> Returns p"
            then show thesis
              by (intro failed [of es]) simp_all
          qed
        qed (use Suc.prems(3) ip Some ex in \<open>auto simp: Let_def intro: failed\<close>)
      next
        case Panics
        then show ?thesis
          using Suc.prems(3) ip Some tx
          by (intro failed [of "mg_events s1"]) (auto simp: ExecuteInTransaction_def Let_def)
      qed
    qed
  qed (use Suc.prems(3) in \<open>auto intro: failed [of "mg_events s"]\<close>)
qed

lemma AddPeerToGroup_fields [simp]:
  "mg_peers (AddPeerToGroup a i g s) = mg_peers s" "mg_keys (AddPeerToGroup a i g s) = mg_keys s"
  "mg_users (AddPeerToGroup a i g s) = mg_users s" "mg_accounts (AddPeerToGroup a i g s) = mg_accounts s"
  by (simp_all add: AddPeerToGroup_def)

lemma AddPeerToGroups_fields [simp]:
  "mg_peers (fold (AddPeerToGroup a i) gs s) = mg_peers s" "mg_keys (fold (AddPeerToGroup a i) gs s) = mg_keys s"
  by (induction gs arbitrary: s) simp_all

lemma AddPeerToAllGroup_fields:
  "AddPeerToAllGroup a i s = Inr s' \<Longrightarrow> mg_peers s' = mg_peers s \<and> mg_keys s' = mg_keys s"
  by (auto simp: AddPeerToAllGroup_def split: option.splits if_splits)

lemma IncrementNetworkSerial_fields [simp]:
  "mg_peers (IncrementNetworkSerial a s) = mg_peers s" "mg_keys (IncrementNetworkSerial a s) = mg_keys s"
  by (simp_all add: IncrementNetworkSerial_def)

lemma SaveUserLastLogin_fields:
  "SaveUserLastLogin a u t s = Inr s' \<Longrightarrow> mg_peers s' = mg_peers s \<and> mg_keys s' = mg_keys s"
  by (auto simp: SaveUserLastLogin_def split: if_splits)

text \<open>What a committed transaction of \<open>AddPeer\<close> has done.\<close>

definition use_key :: "int \<Rightarrow> string \<Rightarrow> SetupKey list \<Rightarrow> SetupKey list" where
  "use_key now i ks = map (\<lambda>k. if sk_Id k = i then k\<lparr>sk_UsedTimes := sk_UsedTimes k + 1, sk_LastUsed := Some now\<rparr> else k) ks"

lemma add_transaction_Returns:
  assumes "add_transaction env config embedded byUser byMTLS byKey h userID p s = (Returns (), s')"
  shows "\<not> unique_violation (mg_peers s) p" "mg_peers s' = mg_peers s @ [p]"
    "byUser \<or> byMTLS \<or> \<not> byKey \<Longrightarrow> mg_keys s' = mg_keys s"
    "\<not> byUser \<Longrightarrow> \<not> byMTLS \<Longrightarrow> byKey \<Longrightarrow> \<exists>sk. GetSetupKeyBySecret s h = Inr sk \<and> key_IsValid (me_now env) sk
       \<and> mg_keys s' = use_key (me_now env) (pac_SetupKeyID config) (mg_keys s)"
proof -
  obtain s1 where s1: "AddPeerToAccount p s = Inr s1"
    using assms by (auto simp: add_transaction_def Let_def split: sum.splits)
  then show "\<not> unique_violation (mg_peers s) p"
    by (auto simp: AddPeerToAccount_def split: if_splits)
  have f1: "mg_peers s1 = mg_peers s @ [p]" "mg_keys s1 = mg_keys s"
    using s1 by (auto simp: AddPeerToAccount_def split: if_splits)
  let ?s2 = "fold (AddPeerToGroup (np_AccountID p) (np_ID p)) (pac_GroupsToAdd config) s1"
  obtain s3 where s3: "(if \<not> embedded then AddPeerToAllGroup (pac_AccountID config) (np_ID p) ?s2 else Inr ?s2) = Inr s3"
    using assms s1 by (auto simp: add_transaction_def Let_def split: sum.splits if_splits)
  have f3: "mg_peers s3 = mg_peers s @ [p]" "mg_keys s3 = mg_keys s"
    using s3 f1 by (auto split: if_splits dest!: AddPeerToAllGroup_fields)
  have k3: "GetSetupKeyBySecret s3 h = GetSetupKeyBySecret s h"
    using f3(2) by (simp add: GetSetupKeyBySecret_def)
  note rest = assms [unfolded add_transaction_def Let_def s1 sum.case s3]
  show "mg_peers s' = mg_peers s @ [p]"
    using rest f3 by (auto simp: IncrementSetupKeyUsage_def split: if_splits sum.splits dest!: SaveUserLastLogin_fields)
  show "mg_keys s' = mg_keys s" if "byUser \<or> byMTLS \<or> \<not> byKey"
    using rest that f3 by (auto split: if_splits sum.splits dest!: SaveUserLastLogin_fields)
  show "\<exists>sk. GetSetupKeyBySecret s h = Inr sk \<and> key_IsValid (me_now env) sk
       \<and> mg_keys s' = use_key (me_now env) (pac_SetupKeyID config) (mg_keys s)" if "\<not> byUser" "\<not> byMTLS" byKey
    using rest that f3 k3
    by (auto simp: IncrementSetupKeyUsage_def use_key_def split: if_splits sum.splits)
qed

text \<open>How \<open>AddPeer\<close> ends: nothing was stored, or one transaction has stored the new peer.\<close>

lemma AddPeer_passes:
  "(\<exists>e. AddPeer env ctx a key u peer temp s = (Fails e, s)) \<or>
   (\<exists>ev config network. add_authorisation env ctx a key u peer temp s = Inr (ev, config)
      \<and> GetAccountNetwork s (pac_AccountID config) = Inr network
      \<and> AddPeer env ctx a key u peer temp s =
         (let renamed = rename_mobile env u (pac_AccountID config) peer
          in finish_add env ev (pac_AccountID config) temp
               (add_attempts env network (np_Meta renamed) (pac_Ephemeral config)
                 (add_transaction env config (proxy_Embedded (np_ProxyMeta peer)) (length u > 0)
                   (GetIdentity ctx \<noteq> None \<and> key = '''' \<and> u = '''') (length key > 0)
                   (me_hashKey env (map to_upper_char key)) u)
                 1 maxAttempts InternalLogin (prepare_peer env temp u config renamed) s)))"
proof (cases "GetPeerByPeerPubKey s (np_Key peer)")
  case key: (Inl e0)
  show ?thesis
  proof (cases "add_authorisation env ctx a key u peer temp s")
    case (Inl e)
    with key show ?thesis
      by (simp add: AddPeer_def Let_def)
  next
    case auth: (Inr ec)
    obtain ev config where ec: "ec = (ev, config)"
      by (cases ec)
    show ?thesis
    proof (cases "GetAccountSettings s (pac_AccountID config)")
      case (Inl e)
      with key auth ec show ?thesis
        by (simp add: AddPeer_def Let_def)
    next
      case settings: (Inr st)
      show ?thesis
        by (cases "GetAccountNetwork s (pac_AccountID config)")
          (use key auth ec settings in \<open>simp_all add: AddPeer_def Let_def\<close>)
    qed
  qed
qed (simp add: AddPeer_def Let_def)

lemma finish_add_Returns:
  "finish_add env ev a temp (Returns p, s1) =
     (case me_validatedMap env False a p of None \<Rightarrow> Fails MapFailed | Some x \<Rightarrow> Returns x,
      emit (PeersAdded a [np_ID p])
        (if temp then s1 else emit (StoredEvent (op_InitiatorID ev) (np_ID p) (op_AccountID ev) (op_Activity ev)) s1))"
  by (simp add: finish_add_def Let_def split: option.split)

lemma finish_add_tables:
  assumes "finish_add env ev a temp (Returns p, s1) = (r, s')"
  shows "mg_peers s' = mg_peers s1" "mg_keys s' = mg_keys s1" "mg_accounts s' = mg_accounts s1"
    "r = Returns x \<Longrightarrow> me_validatedMap env False a p = Some x"
  using assms by (auto simp: finish_add_Returns split: option.splits)

lemma finish_add_fails:
  assumes fin: "finish_add env ev a temp (r1, s1) = (r, s')" and no: "\<And>p. r1 \<noteq> Returns p"
  shows "s' = s1 \<and> r \<noteq> Returns x"
proof (cases r1)
  case (Returns p)
  with no [of p] show ?thesis
    by contradiction
qed (use fin in \<open>auto simp: finish_add_def\<close>)

lemma AddPeer_cases:
  assumes add: "AddPeer env ctx a key u peer temp s = (r, s')"
  obtains (added) ev config network attempt freeIP label p es s1 where
      "add_authorisation env ctx a key u peer temp s = Inr (ev, config)"
      "GetAccountNetwork s (pac_AccountID config) = Inr network"
      "AllocateRandomPeerIP (me_rnd env attempt) network = Returns freeIP"
      "attempt_label env (np_Meta (rename_mobile env u (pac_AccountID config) peer)) (pac_Ephemeral config) attempt freeIP = Some label"
      "p = (prepare_peer env temp u config (rename_mobile env u (pac_AccountID config) peer))\<lparr>np_DNSLabel := label, np_IP := ip_string freeIP\<rparr>"
      "add_transaction env config (proxy_Embedded (np_ProxyMeta peer)) (length u > 0) (GetIdentity ctx \<noteq> None \<and> key = '''' \<and> u = '''')
         (length key > 0) (me_hashKey env (map to_upper_char key)) u p (s\<lparr>mg_events := es\<rparr>) = (Returns (), s1)"
      "mg_peers s' = mg_peers s1" "mg_keys s' = mg_keys s1" "mg_accounts s' = mg_accounts s1"
      "\<And>x. r = Returns x \<Longrightarrow> me_validatedMap env False (pac_AccountID config) p = Some x"
    | (failed) es where "s' = s\<lparr>mg_events := es\<rparr>" "\<And>x. r \<noteq> Returns x"
  using AddPeer_passes [of env ctx a key u peer temp s]
proof (elim disjE exE conjE)
  fix e
  assume "AddPeer env ctx a key u peer temp s = (Fails e, s)"
  with add show ?thesis
    by (intro failed [of "mg_events s"]) auto
next
  fix ev config network
  assume auth: "add_authorisation env ctx a key u peer temp s = Inr (ev, config)"
    and net: "GetAccountNetwork s (pac_AccountID config) = Inr network"
    and eq: "AddPeer env ctx a key u peer temp s =
         (let renamed = rename_mobile env u (pac_AccountID config) peer
          in finish_add env ev (pac_AccountID config) temp
               (add_attempts env network (np_Meta renamed) (pac_Ephemeral config)
                 (add_transaction env config (proxy_Embedded (np_ProxyMeta peer)) (length u > 0)
                   (GetIdentity ctx \<noteq> None \<and> key = '''' \<and> u = '''') (length key > 0)
                   (me_hashKey env (map to_upper_char key)) u)
                 1 maxAttempts InternalLogin (prepare_peer env temp u config renamed) s))"
  let ?a = "pac_AccountID config"
  let ?peer = "rename_mobile env u ?a peer"
  obtain r1 s1 where run: "add_attempts env network (np_Meta ?peer) (pac_Ephemeral config)
      (add_transaction env config (proxy_Embedded (np_ProxyMeta peer)) (length u > 0)
         (GetIdentity ctx \<noteq> None \<and> key = '''' \<and> u = '''') (length key > 0) (me_hashKey env (map to_upper_char key)) u)
      1 maxAttempts InternalLogin (prepare_peer env temp u config ?peer) s = (r1, s1)"
    by fastforce
  have tail: "finish_add env ev ?a temp (r1, s1) = (r, s')"
    using add unfolding eq Let_def run .
  from run show ?thesis
  proof (cases rule: add_attempts_cases)
    case (added attempt freeIP label p es)
    note tables = finish_add_tables [OF tail [unfolded added(4)]]
    show ?thesis
      by (rule that(1) [OF auth net added(1,2,3,5) tables(1,2,3) tables(4)])
  next
    case (failed es)
    note tables = finish_add_fails [OF tail failed(2)]
    show ?thesis
    proof (rule that(2))
      show "s' = s\<lparr>mg_events := es\<rparr>"
        using tables failed(1) by simp
      show "r \<noteq> Returns x" for x
        using tables by blast
    qed
  qed
qed

lemma peers_unique_append:
  assumes "peers_unique ps" "\<not> unique_violation ps p"
  shows "peers_unique (ps @ [p])"
proof -
  have "np_ID p \<noteq> np_ID q \<and> np_Key p \<noteq> np_Key q
      \<and> (np_AccountID q = np_AccountID p \<longrightarrow> np_IP q \<noteq> np_IP p \<and> np_DNSLabel q \<noteq> np_DNSLabel p)" if "q \<in> set ps" for q
    using assms(2) that by (auto simp: unique_violation_def list_ex_iff)
  then show ?thesis
    using assms(1) by (simp add: peers_unique_def image_iff) metis
qed

lemma keys_within_limit_use_key:
  assumes "keys_within_limit ks" "sk \<in> set ks" "key_IsValid now sk"
  shows "keys_within_limit (use_key now (sk_Id sk) ks)"
proof -
  have ids: "map sk_Id (use_key now (sk_Id sk) ks) = map sk_Id ks"
    by (simp add: use_key_def)
  have "sk_UsedTimes k' \<le> key_limit k'" if k': "k' \<in> set (use_key now (sk_Id sk) ks)" "key_limit k' > 0" for k'
  proof -
    from k'(1) obtain k where k: "k \<in> set ks"
      "k' = (if sk_Id k = sk_Id sk then k\<lparr>sk_UsedTimes := sk_UsedTimes k + 1, sk_LastUsed := Some now\<rparr> else k)"
      by (auto simp: use_key_def)
    have lim: "key_limit k' = key_limit k"
      using k(2) by (simp add: key_limit_def)
    show ?thesis
    proof (cases "sk_Id k = sk_Id sk")
      case True
      then have "k = sk"
        using assms(1,2) k(1) by (auto simp: keys_within_limit_def distinct_map dest: inj_onD)
      with assms(3) k'(2) lim have "sk_UsedTimes k < key_limit k"
        by (auto simp: key_IsValid_def IsOverUsed_def)
      with k(2) True lim show ?thesis
        by simp
    next
      case False
      with assms(1) k k'(2) show ?thesis
        by (auto simp: keys_within_limit_def)
    qed
  qed
  with assms(1) ids show ?thesis
    by (simp add: keys_within_limit_def)
qed

lemma add_authorisation_key:
  assumes "add_authorisation env ctx a key '''' peer temp s = Inr (ev, config)" "key \<noteq> ''''"
  shows "\<exists>sk. GetSetupKeyBySecret s (me_hashKey env (map to_upper_char key)) = Inr sk \<and> pac_SetupKeyID config = sk_Id sk"
  using assms
  by (auto simp: add_authorisation_def processPeerAddAuth_def handleSetupKeyAddedPeer_def Let_def
      split: option.splits sum.splits if_splits)

lemma GetSetupKeyBySecret_Inr: "GetSetupKeyBySecret s h = Inr sk \<Longrightarrow> sk \<in> set (mg_keys s)"
  by (auto simp: GetSetupKeyBySecret_def find_Some_iff split: option.splits)

lemma AddPeer_registry_inv:
  assumes add: "AddPeer env ctx a key u peer temp s = (r, s')" and inv: "registry_inv s"
  shows "registry_inv s'"
  using add
proof (cases rule: AddPeer_cases)
  case (added ev config network attempt freeIP label p es s1)
  let ?h = "me_hashKey env (map to_upper_char key)"
  note tx = add_transaction_Returns [OF added(6)]
  have peers: "peers_unique (mg_peers s')"
    using tx(1,2) inv added(7) by (simp add: registry_inv_def peers_unique_append)
  have "keys_within_limit (mg_keys s')"
  proof (cases "u = '''' \<and> key \<noteq> ''''")
    case True
    then obtain sk where sk: "GetSetupKeyBySecret s ?h = Inr sk" "pac_SetupKeyID config = sk_Id sk"
      using add_authorisation_key [of env ctx a key peer temp s ev config] added(1) by auto
    have "GetSetupKeyBySecret (s\<lparr>mg_events := es\<rparr>) ?h = Inr sk"
      using sk(1) by (simp add: GetSetupKeyBySecret_def)
    then have "key_IsValid (me_now env) sk" "mg_keys s' = use_key (me_now env) (sk_Id sk) (mg_keys s)"
      using tx(4) True sk(2) added(8) by auto
    then show ?thesis
      using inv GetSetupKeyBySecret_Inr [OF sk(1)] keys_within_limit_use_key by (simp add: registry_inv_def)
  next
    case False
    then have "mg_keys s' = mg_keys s"
      using tx(3) added(8) by auto
    then show ?thesis
      using inv by (simp add: registry_inv_def)
  qed
  with peers show ?thesis
    by (simp add: registry_inv_def)
next
  case (failed es)
  then show ?thesis
    using inv by (simp add: registry_inv_def)
qed

lemma LoginPeer_known_account_update:
  assumes login: "LoginPeer env ctx login s = (r, s')" and inv: "registry_inv s"
    and known: "GetAccountIDByPeerPubKey s (pl_WireGuardPubKey login) = Inr a"
  shows "account_update a s s'"
proof (cases "GetAccountSettings s a")
  case (Inl e)
  then show ?thesis
    using login known by (auto simp: LoginPeer_def split: outcome.splits if_splits)
next
  case (Inr settings)
  obtain r1 s1 where tx: "ExecuteInTransaction (login_transaction env a settings login) s = (r1, s1)"
    by fastforce
  have s1: "account_update a s s1"
    using tx login_transaction_account_update [OF _ inv known] by (blast intro: ExecuteInTransaction_account_update)
  have "s' = s \<or> s' = s1 \<or> account_update a s1 s'"
    using login known Inr tx
    by (auto simp: LoginPeer_def split: outcome.splits if_splits prod.splits dest: finish_login_account_update)
  then show ?thesis
    using s1 account_update_trans by auto
qed

lemma LoginPeer_registry_inv:
  assumes login: "LoginPeer env ctx login s = (r, s')" and inv: "registry_inv s"
  shows "registry_inv s'"
proof (cases "GetAccountIDByPeerPubKey s (pl_WireGuardPubKey login)")
  case (Inl e)
  then show ?thesis
    using login inv AddPeer_registry_inv
    by (fastforce simp: LoginPeer_def handlePeerLoginNotFound_def Let_def split: if_splits)
next
  case (Inr a)
  then show ?thesis
    using LoginPeer_known_account_update [OF login inv] inv registry_inv_account_update by blast
qed

lemma SyncAndMarkPeer_account_update:
  assumes "SyncAndMarkPeer env a key meta ip t s = (r, s')" "registry_inv s"
  shows "account_update a s s'"
proof -
  let ?sync = "\<lparr>sy_WireGuardPubKey = key, sy_Meta = meta, sy_UpdateAccountPeers = False\<rparr>"
  obtain r1 s1 where sync: "SyncPeer env ?sync a s = (r1, s1)"
    by fastforce
  have s1: "account_update a s s1"
    using sync assms(2) by (rule SyncPeer_account_update)
  moreover have "s' = s1 \<or> (\<exists>r2. MarkPeerConnected env key True ip a t s1 = (r2, s'))"
    using assms(1) sync by (auto simp: SyncAndMarkPeer_def split: outcome.splits prod.splits)
  ultimately show ?thesis
    using MarkPeerConnected_account_update account_update_trans by blast
qed

lemma OnPeerDisconnected_account_update:
  assumes "OnPeerDisconnected env a key t s = (r, s')"
  shows "account_update a s s'"
proof -
  have "s' = s \<or> (\<exists>r2. MarkPeerConnected env key False '''' a (me_now env) s = (r2, s'))"
    using assms by (auto simp: OnPeerDisconnected_def split: outcome.splits prod.splits sum.splits option.splits if_splits)
  then show ?thesis
    using MarkPeerConnected_account_update by auto
qed

end
