(* ===== verification/MachineProps.thy ===== *)
theory MachineProps
  imports RegistryProps
begin

text \<open>
  What the handlers of machine peers guarantee: the registry of peers stays consistent whatever requests
  are served, a machine changes rows of its own account only, the peer a machine registers is the one its
  later requests find, and what becomes of the lock of a peer.
\<close>

section \<open>Requests of machines\<close>

datatype 'm machine_request = ReqRegister bytes "proto_meta option" | ReqSync "proto_meta option" "'m stream_event list"
  | ReqRoutes | ReqStatus bool

primrec serve :: "('cfg, 'm) srv_env \<Rightarrow> request_context \<Rightarrow> 'm machine_request \<Rightarrow> 'm server \<Rightarrow> 'm server" where
  "serve env ctx (ReqRegister key meta) s = snd (RegisterMachinePeer env ctx key meta s)"
| "serve env ctx (ReqSync meta es) s = snd (SyncMachinePeer env ctx meta es s)"
| "serve env ctx ReqRoutes s = snd (GetMachineRoutes env ctx s)"
| "serve env ctx (ReqStatus up) s = snd (ReportMachineStatus env ctx up s)"

text \<open>The WireGuard key of a registration.\<close>

definition wg_key :: "('cfg, 'm) srv_env \<Rightarrow> bytes \<Rightarrow> string option" where
  "wg_key env k = (if length k = KeyLen then Some (se_keyString env k) else se_parseKey env k)"

section \<open>Synchronisation\<close>

lemma send_fields: "send env msg s = (ok, s') \<Longrightarrow> sv_mgmt s' = sv_mgmt s \<and> sv_locks s' = sv_locks s \<and> sv_ctl s' = sv_ctl s"
  by (auto simp: send_def split: if_splits)

lemma sendInitialMachineSync_fields:
  "sendInitialMachineSync env p nm checks s = (r, s') \<Longrightarrow> sv_mgmt s' = sv_mgmt s \<and> sv_locks s' = sv_locks s"
  by (auto simp: sendInitialMachineSync_def Let_def dest: send_fields split: option.splits prod.splits if_splits)

lemma cancelPeerRoutinesWithoutLock_account_update:
  assumes "cancelPeerRoutinesWithoutLock env a p t s = (b, s')"
  shows "account_update a (sv_mgmt s) (sv_mgmt s')" "sv_locks s' = sv_locks s"
proof -
  obtain r m where d: "OnPeerDisconnected (se_mgr env) a (np_Key p) t (sv_mgmt s) = (r, m)"
    by fastforce
  show "account_update a (sv_mgmt s) (sv_mgmt s')" "sv_locks s' = sv_locks s"
    using assms OnPeerDisconnected_account_update [OF d]
    by (cases r; auto simp: cancelPeerRoutinesWithoutLock_def d)+
qed

lemma cancelPeerRoutines_fields:
  assumes "cancelPeerRoutines env a p t result s = (r, s')"
  shows "account_update a (sv_mgmt s) (sv_mgmt s')" "sv_locks s' = sv_locks s"
    "np_Key p \<notin> sv_locks s \<Longrightarrow> r = result \<or> r = RpcPanic" "np_Key p \<in> sv_locks s \<Longrightarrow> r = Blocked"
proof -
  obtain b s1 where c: "cancelPeerRoutinesWithoutLock env a p t (s\<lparr>sv_locks := insert (np_Key p) (sv_locks s)\<rparr>) = (b, s1)"
    by fastforce
  note f = cancelPeerRoutinesWithoutLock_account_update [OF c]
  show "account_update a (sv_mgmt s) (sv_mgmt s')" "sv_locks s' = sv_locks s"
    "np_Key p \<notin> sv_locks s \<Longrightarrow> r = result \<or> r = RpcPanic" "np_Key p \<in> sv_locks s \<Longrightarrow> r = Blocked"
    using assms c f
    by (auto simp: cancelPeerRoutines_def acquirePeerLockByUID_def releasePeerLock_def Let_def split: if_splits)
qed

lemma handleMachineUpdates_fields:
  "handleMachineUpdates env a p t es s = (r, s') \<Longrightarrow>
     account_update a (sv_mgmt s) (sv_mgmt s') \<and> sv_locks s' = sv_locks s \<and> (np_Key p \<notin> sv_locks s \<longrightarrow> r \<noteq> Blocked)"
proof (induction env a p t es s rule: handleMachineUpdates.induct)
  case (2 env a p t es s)
  then show ?case
    using cancelPeerRoutines_fields [of env a p t "Reply ()" s r s'] by auto
next
  case (3 env a p t es s)
  then show ?case
    using cancelPeerRoutines_fields [of env a p t "RpcError CodeStream" s r s'] by auto
next
  case (4 env a p t m es s)
  obtain ok s1 where send: "send env (toMachineSyncResponse m 0) s = (ok, s1)"
    by fastforce
  note f = send_fields [OF send]
  show ?case
  proof (cases ok)
    case True
    then show ?thesis
      using 4 send f by simp
  next
    case False
    then have "cancelPeerRoutines env a p t (RpcError CodeStream) s1 = (r, s')"
      using "4.prems" send by simp
    then show ?thesis
      using cancelPeerRoutines_fields [of env a p t "RpcError CodeStream" s1 r s'] f by auto
  qed
qed simp

lemma releasePeerLock_fields [simp]:
  "sv_mgmt (releasePeerLock k s) = sv_mgmt s" "sv_locks (releasePeerLock k s) = sv_locks s - {k}"
  by (simp_all add: releasePeerLock_def)

lemma sync_locked_account_update:
  assumes sync: "sync_locked env a key meta es s = (r, s')" and inv: "registry_inv (sv_mgmt s)"
  shows "account_update a (sv_mgmt s) (sv_mgmt s')"
proof -
  obtain r1 m where m: "SyncAndMarkPeer (se_mgr env) a key (extractPeerMeta env meta) (se_realIP env) (me_now (se_mgr env))
      (sv_mgmt s) = (r1, m)"
    by fastforce
  have upd: "account_update a (sv_mgmt s) m"
    using m inv by (rule SyncAndMarkPeer_account_update)
  show ?thesis
  proof (cases r1)
    case (Returns x)
    obtain p nm checks where x: "x = (p, nm, checks)"
      by (cases x)
    obtain r2 s2 where init: "sendInitialMachineSync env p nm checks (s\<lparr>sv_mgmt := m\<rparr>) = (r2, s2)"
      by fastforce
    have s2: "sv_mgmt s2 = m"
      using sendInitialMachineSync_fields [OF init] by simp
    show ?thesis
    proof (cases r2)
      case (Returns u)
      obtain r3 s3 where c: "cancelPeerRoutines env a p (me_now (se_mgr env)) (RpcError CodeInternal) s2 = (r3, s3)"
        by fastforce
      obtain r4 s4 where h: "handleMachineUpdates env a p (me_now (se_mgr env)) es
          (releasePeerLock key (s2\<lparr>sv_ctl := sv_ctl s2 @ [CtlPeerConnected a (np_ID p), CtlSetupRefresh a (np_ID p)]\<rparr>)) = (r4, s4)"
        by fastforce
      have "sv_mgmt s' = sv_mgmt (if se_onPeerConnected env a (np_ID p) then s4 else s3)"
        using sync by (cases r3) (auto simp: sync_locked_def m \<open>r1 = Returns x\<close> x init Returns c h split: if_splits)
      moreover have "account_update a m (sv_mgmt s3)"
        using cancelPeerRoutines_fields(1) [OF c] s2 by simp
      moreover have "account_update a m (sv_mgmt s4)"
        using handleMachineUpdates_fields [OF h] s2 by simp
      ultimately show ?thesis
        using upd account_update_trans by (metis (full_types))
    qed (use sync upd in \<open>auto simp: sync_locked_def m \<open>r1 = Returns x\<close> x init s2\<close>)
  qed (use sync upd in \<open>auto simp: sync_locked_def m\<close>)
qed

lemma SyncMachinePeer_account_update:
  assumes "GetIdentity ctx = Some identity" "registry_inv (sv_mgmt s)"
  shows "account_update (AccountID identity) (sv_mgmt s) (sv_mgmt (snd (SyncMachinePeer env ctx meta es s)))"
proof (cases "findMachinePeer env identity (sv_mgmt s)")
  case (Inr p)
  let ?s = "s\<lparr>sv_locks := insert (np_Key p) (sv_locks s)\<rparr>"
  obtain r s' where l: "sync_locked env (AccountID identity) (np_Key p) meta es ?s = (r, s')"
    by fastforce
  have "account_update (AccountID identity) (sv_mgmt s) (sv_mgmt s')"
    using sync_locked_account_update [OF l] assms(2) by simp
  then show ?thesis
    using assms(1) Inr l
    by (auto simp: SyncMachinePeer_def acquirePeerLockByUID_def split: sum.splits)
qed (use assms in \<open>auto simp: SyncMachinePeer_def split: sum.splits\<close>)

lemma GetMachineRoutes_account_update:
  assumes "GetIdentity ctx = Some identity" "registry_inv (sv_mgmt s)"
  shows "account_update (AccountID identity) (sv_mgmt s) (sv_mgmt (snd (GetMachineRoutes env ctx s)))"
proof (cases "findMachinePeer env identity (sv_mgmt s)")
  case (Inr p)
  obtain r m where m: "SyncPeer (se_mgr env) \<lparr>sy_WireGuardPubKey = np_Key p, sy_Meta = empty_meta, sy_UpdateAccountPeers = False\<rparr>
      (AccountID identity) (sv_mgmt s) = (r, m)"
    by fastforce
  then have "account_update (AccountID identity) (sv_mgmt s) m"
    using assms(2) by (rule SyncPeer_account_update)
  then show ?thesis
    using assms(1) Inr m
    by (auto simp: GetMachineRoutes_def split: sum.splits outcome.splits option.splits)
qed (use assms in \<open>auto simp: GetMachineRoutes_def split: sum.splits\<close>)

lemma ReportMachineStatus_account_update:
  assumes "GetIdentity ctx = Some identity"
  shows "account_update (AccountID identity) (sv_mgmt s) (sv_mgmt (snd (ReportMachineStatus env ctx up s)))"
proof (cases "findMachinePeer env identity (sv_mgmt s)")
  case (Inr p)
  obtain r m where m: "MarkPeerConnected (se_mgr env) (np_Key p) up (se_realIP env) (AccountID identity) (me_now (se_mgr env))
      (sv_mgmt s) = (r, m)"
    by fastforce
  then have "account_update (AccountID identity) (sv_mgmt s) m"
    by (rule MarkPeerConnected_account_update)
  then show ?thesis
    using assms Inr m by (cases r) (auto simp: ReportMachineStatus_def)
qed (use assms in \<open>auto simp: ReportMachineStatus_def\<close>)

section \<open>Registration\<close>

definition machine_login :: "('cfg, 'm) srv_env \<Rightarrow> Identity \<Rightarrow> string \<Rightarrow> proto_meta option \<Rightarrow> PeerLogin" where
  "machine_login env identity key meta =
     \<lparr>pl_WireGuardPubKey = key, pl_SSHKey = '''', pl_Meta = extractMachinePeerMeta env meta identity, pl_UserID = '''',
      pl_SetupKey = '''', pl_ConnectionIP = '''', pl_ExtraDNSLabels = []\<rparr>"

lemma RegisterMachinePeer_run:
  assumes "GetIdentity ctx = Some identity" "AccountID identity \<noteq> ''''"
    "mtls_ValidateIssuerCA (se_validator env) (AccountID identity) (IssuerFingerprint identity) = Inr ()"
    "k \<noteq> []" "wg_key env k = Some key"
    and "LoginPeer (se_mgr env) ctx (machine_login env identity key meta) (sv_mgmt s) = (r1, m)"
  shows "RegisterMachinePeer env ctx k meta s =
    (case r1 of Panics \<Rightarrow> (RpcPanic, s\<lparr>sv_mgmt := m\<rparr>) | Fails e \<Rightarrow> (RpcError CodeInternal, s\<lparr>sv_mgmt := m\<rparr>)
     | Returns (p, nm, checks) \<Rightarrow>
         (case prepareLoginResponse env p nm checks of Panics \<Rightarrow> (RpcPanic, s\<lparr>sv_mgmt := m\<rparr>)
          | Fails u \<Rightarrow> (RpcError CodeInternal, s\<lparr>sv_mgmt := m\<rparr>) | Returns cfg \<Rightarrow> (Reply (cfg, identity), s\<lparr>sv_mgmt := m\<rparr>)))"
  using assms by (simp add: RegisterMachinePeer_def wg_key_def machine_login_def Let_def split: outcome.split)

text \<open>A registration is refused, or it is a login with the metadata of the certificate.\<close>

lemma RegisterMachinePeer_cases:
  assumes reg: "RegisterMachinePeer env ctx k meta s = (r, s')"
  obtains (refused) "s' = s" "\<nexists>x. r = Reply x"
    | (served) identity key r1 m where "GetIdentity ctx = Some identity"
      "mtls_ValidateIssuerCA (se_validator env) (AccountID identity) (IssuerFingerprint identity) = Inr ()"
      "wg_key env k = Some key"
      "LoginPeer (se_mgr env) ctx (machine_login env identity key meta) (sv_mgmt s) = (r1, m)"
      "s' = s\<lparr>sv_mgmt := m\<rparr>" "(\<exists>x. r = Reply x) \<Longrightarrow> \<exists>y. r1 = Returns y"
      "\<nexists>y. r1 = Returns y \<Longrightarrow> r = RpcError CodeInternal \<or> r = RpcPanic"
proof (cases "GetIdentity ctx")
  case None
  then show ?thesis
    using reg refused by (auto simp: RegisterMachinePeer_def)
next
  case (Some identity)
  note id = this
  show ?thesis
  proof (cases "AccountID identity = '''' \<or> length k = 0 \<or> wg_key env k = None
      \<or> mtls_ValidateIssuerCA (se_validator env) (AccountID identity) (IssuerFingerprint identity) \<noteq> Inr ()")
    case True
    then show ?thesis
      using reg id
      by (intro refused; cases "mtls_ValidateIssuerCA (se_validator env) (AccountID identity) (IssuerFingerprint identity)")
        (auto simp: RegisterMachinePeer_def wg_key_def Let_def split: if_splits)
  next
    case False
    then obtain key where key: "wg_key env k = Some key" and iss:
      "mtls_ValidateIssuerCA (se_validator env) (AccountID identity) (IssuerFingerprint identity) = Inr ()"
      by auto
    obtain r1 m where login: "LoginPeer (se_mgr env) ctx (machine_login env identity key meta) (sv_mgmt s) = (r1, m)"
      by fastforce
    have run: "AccountID identity \<noteq> ''''" "k \<noteq> []"
      using False by auto
    note run = RegisterMachinePeer_run [OF id run(1) iss run(2) key login]
    show ?thesis
      by (rule served [OF id iss key login]; use reg run in \<open>cases r1; auto split: outcome.splits\<close>)
  qed
qed

text \<open>The validator prepares a peer without touching the columns that identify it.\<close>

definition prepare_keeps :: "'nm mgr_env \<Rightarrow> bool" where
  "prepare_keeps env \<longleftrightarrow> (\<forall>a p gs t. row_keys (me_PreparePeer env a p gs t) = row_keys p)"

lemma prepare_peer_row_keys:
  assumes "prepare_keeps env"
  shows "row_keys (prepare_peer env t u config p) = (me_xid env, pac_AccountID config, np_Key p, '''', '''')"
  using assms by (simp add: prepare_keeps_def prepare_peer_def Let_def row_keys_def fresh_peer_def)

lemma add_authorisation_mtls:
  assumes "GetIdentity ctx = Some identity"
  shows "\<exists>ev config. add_authorisation env ctx a '''' '''' peer temp s = Inr (ev, config)
    \<and> pac_AccountID config = AccountID identity \<and> \<not> pac_Ephemeral config"
  using assms by (simp add: add_authorisation_def Let_def)

lemma machine_login_new_key:
  assumes login: "LoginPeer (se_mgr env) ctx (machine_login env identity key meta) m = (r, m')"
    and id: "GetIdentity ctx = Some identity" and prep: "prepare_keeps (se_mgr env)"
    and new: "\<forall>p \<in> set (mg_peers m). np_Key p \<noteq> key"
  obtains (added) attempt freeIP p where
      "mg_peers m' = mg_peers m @ [p]" "mg_keys m' = mg_keys m" "\<not> unique_violation (mg_peers m) p"
      "np_Key p = key" "np_AccountID p = AccountID identity" "np_ID p = me_xid (se_mgr env)"
      "attempt_label (se_mgr env) (extractMachinePeerMeta env meta identity) False attempt freeIP = Some (np_DNSLabel p)"
    | (failed) "mg_peers m' = mg_peers m" "mg_keys m' = mg_keys m" "\<nexists>x. r = Returns x"
proof -
  have "List.find (\<lambda>p. np_Key p = key) (mg_peers m) = None"
    using new by (auto simp: find_None_iff)
  then obtain peer where add: "AddPeer (se_mgr env) ctx '''' '''' '''' peer False m = (r, m')"
    and peer: "np_Key peer = key" "np_Meta peer = extractMachinePeerMeta env meta identity"
    using login by (fastforce simp: LoginPeer_def GetAccountIDByPeerPubKey_def handlePeerLoginNotFound_def machine_login_def Let_def)
  have ren: "rename_mobile (se_mgr env) '''' b peer = peer" for b
    by (simp add: rename_mobile_def Let_def)
  from add show ?thesis
  proof (cases rule: AddPeer_cases)
    case (added ev config network attempt freeIP label p es s1)
    have c: "pac_AccountID config = AccountID identity" "\<not> pac_Ephemeral config"
      using add_authorisation_mtls [OF id, of "se_mgr env" "''''" peer False m] added(1) by auto
    note tx = add_transaction_Returns [OF added(6)]
    have p: "np_Key p = key" "np_AccountID p = AccountID identity" "np_ID p = me_xid (se_mgr env)" "np_DNSLabel p = label"
      using added(5) prepare_peer_row_keys [OF prep, of False "''''" config peer] c(1) peer(1)
      by (simp_all add: ren row_keys_def)
    show ?thesis
      by (rule that(1) [of p attempt freeIP]) (use added tx p c peer id in \<open>simp_all add: ren\<close>)
  next
    case (failed es)
    then show ?thesis
      by (intro that(2)) auto
  qed
qed

lemma RegisterMachinePeer_registry_inv:
  assumes "registry_inv (sv_mgmt s)"
  shows "registry_inv (sv_mgmt (snd (RegisterMachinePeer env ctx k meta s)))"
proof -
  obtain r s' where reg: "RegisterMachinePeer env ctx k meta s = (r, s')"
    by fastforce
  then have "registry_inv (sv_mgmt s')"
    by (cases rule: RegisterMachinePeer_cases) (use assms in \<open>auto dest: LoginPeer_registry_inv\<close>)
  with reg show ?thesis
    by simp
qed

lemma no_identity_no_effect: "GetIdentity ctx = None \<Longrightarrow> serve env ctx req s = s"
  by (cases req) (simp_all add: RegisterMachinePeer_def SyncMachinePeer_def GetMachineRoutes_def ReportMachineStatus_def)

lemma serve_registry_inv:
  assumes inv: "registry_inv (sv_mgmt s)"
  shows "registry_inv (sv_mgmt (serve env ctx req s))"
proof (cases "GetIdentity ctx")
  case (Some identity)
  show ?thesis
  proof (cases req)
    case (ReqRegister k meta)
    then show ?thesis
      using RegisterMachinePeer_registry_inv [OF inv] by simp
  next
    case (ReqSync meta es)
    then show ?thesis
      using registry_inv_account_update [OF SyncMachinePeer_account_update [OF Some inv] inv] by simp
  next
    case ReqRoutes
    then show ?thesis
      using registry_inv_account_update [OF GetMachineRoutes_account_update [OF Some inv] inv] by simp
  next
    case (ReqStatus up)
    then show ?thesis
      using registry_inv_account_update [OF ReportMachineStatus_account_update [OF Some] inv] by simp
  qed
qed (simp add: no_identity_no_effect inv)

section \<open>The registry stays consistent\<close>

text \<open>
  A management server from its installation on: the requests of machines, and the logins, additions,
  synchronisations and connection changes of every other peer, in any order and environment.
\<close>

definition installation :: "'m server \<Rightarrow> bool" where
  "installation s \<longleftrightarrow> mg_peers (sv_mgmt s) = [] \<and> distinct (map sk_Id (mg_keys (sv_mgmt s)))
     \<and> list_all (\<lambda>k. sk_UsedTimes k = 0) (mg_keys (sv_mgmt s))"

inductive server_step :: "(('cfg, 'm) srv_env \<Rightarrow> bool) \<Rightarrow> 'm server \<Rightarrow> 'm server \<Rightarrow> bool" for envs where
  machine: "envs env \<Longrightarrow> server_step envs s (serve env ctx req s)"
| login: "envs env \<Longrightarrow> LoginPeer (se_mgr env) ctx login (sv_mgmt s) = (r, m) \<Longrightarrow> server_step envs s (s\<lparr>sv_mgmt := m\<rparr>)"
| addition: "envs env \<Longrightarrow> AddPeer (se_mgr env) ctx a key user peer temporary (sv_mgmt s) = (r, m)
    \<Longrightarrow> server_step envs s (s\<lparr>sv_mgmt := m\<rparr>)"
| synchronisation: "envs env \<Longrightarrow> SyncAndMarkPeer (se_mgr env) a key meta ip t (sv_mgmt s) = (r, m)
    \<Longrightarrow> server_step envs s (s\<lparr>sv_mgmt := m\<rparr>)"
| disconnection: "envs env \<Longrightarrow> OnPeerDisconnected (se_mgr env) a key t (sv_mgmt s) = (r, m)
    \<Longrightarrow> server_step envs s (s\<lparr>sv_mgmt := m\<rparr>)"

interpretation registry_system: invariant_system installation "server_step envs" "\<lambda>s. registry_inv (sv_mgmt s)" for envs
proof unfold_locales
  fix s :: "'a server"
  assume "installation s"
  then show "registry_inv (sv_mgmt s)"
    by (auto simp: installation_def registry_inv_def peers_unique_def keys_within_limit_def list_all_iff)
next
  fix s t :: "'a server"
  assume "registry_inv (sv_mgmt s)" "server_step envs s t"
  then show "registry_inv (sv_mgmt t)"
    by (cases rule: server_step.cases [consumes 1, OF \<open>server_step envs s t\<close>])
      (auto simp: serve_registry_inv intro: LoginPeer_registry_inv AddPeer_registry_inv
        dest: SyncAndMarkPeer_account_update OnPeerDisconnected_account_update elim: registry_inv_account_update)
qed

section \<open>A small server\<close>

text \<open>Two tenants with one network each, and a machine certificate of the first; the witnesses run on it.\<close>

definition sample_mgr :: "string \<Rightarrow> NetworkMap option mgr_env" where
  "sample_mgr xid =
     \<lparr>me_now = 100, me_xid = xid, me_rnd = (\<lambda>_ i. i), me_hashKey = (\<lambda>k. k), me_hmac = (\<lambda>_ _. replicate 32 7),
      me_domainRegex = (\<lambda>_. True), me_parsedLabel = Some, me_userEmail = (\<lambda>_ _. None), me_lookupLocation = (\<lambda>_. None),
      me_PreparePeer = (\<lambda>_ p _ _. p), me_IsNotValidPeer = (\<lambda>_ _ _. Some (False, False)), me_permitted = (\<lambda>_ _. Some True),
      me_OnPeersUpdated = (\<lambda>_ _. True),
      me_validatedMap = (\<lambda>_ _ p. Some (p, Some \<lparr>nm_Peers = [], nm_Network = Some 1, nm_Routes = [], nm_OfflinePeers = [], nm_EnableSSH = False\<rparr>, []))\<rparr>"

definition sample_env :: "string \<Rightarrow> bool \<Rightarrow> (string, unit) srv_env" where
  "sample_env xid connects =
     \<lparr>se_mgr = sample_mgr xid, se_validator = None, se_keyString = map (\<lambda>b. char_of (unat b)), se_parseKey = (\<lambda>_. None),
      se_parsePrefix = (\<lambda>_. None), se_formatTime = nat_str \<circ> nat, se_dnsDomain = (\<lambda>_. Some ''netbird.cloud''),
      se_peerConfig = (\<lambda>p _ _ _ _. np_IP p), se_mapBody = (\<lambda>_ _ _ _ _. ()), se_send = (\<lambda>_. True),
      se_onPeerConnected = (\<lambda>_ _. connects), se_realIP = ''''\<rparr>"

definition sample_identity :: "string \<Rightarrow> Identity" where
  "sample_identity host =
     \<lparr>DNSName = host @ ''.corp.local'', Hostname = host, Domain = ''corp.local'', MatchedDomain = ''corp.local'', AccountID = ''A'',
      IssuerFingerprint = ''f0'', SerialNumber = ''1'', TemplateOID = '''', TemplateName = ''Machine'', PeerType = ''machine''\<rparr>"

definition sample_ctx :: "string \<Rightarrow> request_context" where
  "sample_ctx host = \<lparr>ctx_peer = None, ctx_identity = Some (sample_identity host)\<rparr>"

definition sample_meta :: "string \<Rightarrow> proto_meta option" where
  "sample_meta host = Some
     \<lparr>rm_Hostname = host, rm_GoOS = ''windows'', rm_Kernel = '''', rm_Core = '''', rm_Platform = '''', rm_OS = ''Windows'',
      rm_OSVersion = '''', rm_NetbirdVersion = ''1'', rm_UiVersion = '''', rm_KernelVersion = '''', rm_NetworkAddresses = [],
      rm_SysSerialNumber = '''', rm_SysProductName = '''', rm_SysManufacturer = '''',
      rm_Environment = pm_Environment empty_meta, rm_Flags = pm_Flags empty_meta, rm_Files = []\<rparr>"

definition sample_account :: account_row where
  "sample_account =
     \<lparr>ar_Settings = \<lparr>PeerLoginExpirationEnabled = False, PeerLoginExpiration = 0, PeerInactivityExpirationEnabled = False,
                    PeerInactivityExpiration = 0\<rparr>,
      ar_Network = \<lparr>net_IP = [10, 0, 0, 0], net_Mask = [255, 255, 255, 248]\<rparr>, ar_Serial = 0, ar_Groups = [(''all'', ''All'')],
      ar_Policies = [], ar_PostureChecks = []\<rparr>"

definition sample_server :: "unit server" where
  "sample_server =
     \<lparr>sv_mgmt = \<lparr>mg_peers = [], mg_users = [], mg_keys = [], mg_accounts = [''A'' \<mapsto> sample_account, ''B'' \<mapsto> sample_account],
                 mg_group_peers = [], mg_events = []\<rparr>,
      sv_locks = {}, sv_sent = [], sv_ctl = []\<rparr>"

definition sample_key :: "8 word \<Rightarrow> bytes" where
  "sample_key b = replicate 32 b"

definition sample_key_string :: "8 word \<Rightarrow> string" where
  "sample_key_string b = replicate 32 (char_of (unat b))"

text \<open>The server after one machine has registered.\<close>

definition sample_registered :: "unit server" where
  "sample_registered = serve (sample_env ''p1'' True) (sample_ctx ''ws1'') (ReqRegister (sample_key 65) (sample_meta ''ws1'')) sample_server"

text \<open>A server that knows one peer.\<close>

definition sample_known :: "string \<Rightarrow> string \<Rightarrow> unit server" where
  "sample_known a label = sample_server\<lparr>sv_mgmt := (sv_mgmt sample_server)\<lparr>mg_peers :=
     [\<lparr>np_ID = ''f1'', np_AccountID = a, np_Key = sample_key_string 65, np_IP = ''10.0.0.3'', np_Meta = empty_meta,
       np_ProxyMeta = \<lparr>proxy_Embedded = False, proxy_Cluster = ''''\<rparr>, np_Name = ''srv'', np_DNSLabel = label,
       np_Status = Some \<lparr>ps_LastSeen = 0, ps_Connected = False, ps_LoginExpired = False, ps_RequiresApproval = False\<rparr>,
       np_UserID = '''', np_SSHKey = '''', np_SSHEnabled = False, np_LoginExpirationEnabled = False,
       np_InactivityExpirationEnabled = False, np_LastLogin = None, np_CreatedAt = 0, np_Ephemeral = False,
       np_Location = \<lparr>loc_ConnectionIP = '''', loc_CountryCode = '''', loc_CityName = '''', loc_GeoNameID = 0\<rparr>,
       np_ExtraDNSLabels = [], np_AllowExtraDNSLabels = False\<rparr>]\<rparr>\<rparr>"

lemma sample_installation: "installation sample_server"
  by code_simp

lemma sample_registered_reachable: "reachable installation (server_step (\<lambda>e :: (string, unit) srv_env. True)) sample_registered"
  unfolding sample_registered_def
  using reach_start [where start = installation, OF sample_installation]
  by (rule reach_step) (rule server_step.machine, simp)

lemma sample_facts [simp]:
  "prepare_keeps (sample_mgr xid)" "se_mgr (sample_env xid c) = sample_mgr xid" "me_xid (sample_mgr xid) = xid"
  "length (me_hmac (sample_mgr xid) l m) = 32"
  "GetIdentity (sample_ctx host) = Some (sample_identity host)" "DNSName (sample_identity host) = host @ ''.corp.local''"
  "Hostname (sample_identity host) = host" "Domain (sample_identity host) = ''corp.local''" "AccountID (sample_identity host) = ''A''"
  "sample_key b \<noteq> []" "wg_key (sample_env xid c) (sample_key b) = Some (sample_key_string b)"
  "mtls_ValidateIssuerCA (se_validator (sample_env xid c)) a fp = Inr ()"
  "pm_Hostname (extractPeerMeta (sample_env xid c) (sample_meta host)) = host"
  by (simp_all add: prepare_keeps_def sample_mgr_def sample_env_def GetIdentity_def sample_ctx_def sample_identity_def
      sample_key_def sample_key_string_def wg_key_def KeyLen_def mtls_ValidateIssuerCA_def extractPeerMeta_def sample_meta_def Let_def)

lemma sample_known_inv: "registry_inv (sv_mgmt (sample_known a label))"
  by (simp add: registry_inv_def peers_unique_def keys_within_limit_def sample_known_def sample_server_def)

text \<open>C2: From its installation on, whatever requests machines and other peers make in whatever order, the
  registry of a management server has no two peers with one identifier, WireGuard key, or, within an
  account, one address or DNS label, and no setup key has admitted more peers than its limit.\<close>

theorem registry_invariant:
  assumes "reachable installation (server_step envs) s"
  shows "distinct (map np_ID (mg_peers (sv_mgmt s))) \<and> distinct (map np_Key (mg_peers (sv_mgmt s)))
    \<and> distinct (map (\<lambda>p. (np_AccountID p, np_IP p)) (mg_peers (sv_mgmt s)))
    \<and> distinct (map (\<lambda>p. (np_AccountID p, np_DNSLabel p)) (mg_peers (sv_mgmt s)))
    \<and> (\<forall>k \<in> set (mg_keys (sv_mgmt s)). key_limit k > 0 \<longrightarrow> sk_UsedTimes k \<le> key_limit k)"
  using registry_system.reachable_invar [OF assms]
  by (simp add: registry_inv_def peers_unique_def keys_within_limit_def)

theorem registry_invariant_witness:
  "length (mg_peers (sv_mgmt sample_registered)) = 1 \<and> distinct (map np_Key (mg_peers (sv_mgmt sample_registered)))"
proof
  show "length (mg_peers (sv_mgmt sample_registered)) = 1"
    by code_simp
  show "distinct (map np_Key (mg_peers (sv_mgmt sample_registered)))"
    using registry_invariant [OF sample_registered_reachable] by blast
qed

section \<open>Requests stay in the account of the certificate\<close>

definition other_accounts :: "string \<Rightarrow> mgmt \<Rightarrow> nbPeer list" where
  "other_accounts a m = filter (\<lambda>p. np_AccountID p \<noteq> a) (mg_peers m)"

definition machine_keys :: "('cfg, 'm) srv_env \<Rightarrow> 'm machine_request \<Rightarrow> string set" where
  "machine_keys env req = (case req of ReqRegister k meta \<Rightarrow> set_option (wg_key env k) | _ \<Rightarrow> {})"

lemma account_update_frame:
  "account_update a m m' \<Longrightarrow> other_accounts a m' = other_accounts a m \<and> mg_keys m' = mg_keys m"
  using account_update_others by (auto simp: other_accounts_def account_update_def)

lemma RegisterMachinePeer_frame:
  assumes id: "GetIdentity ctx = Some identity" and inv: "registry_inv (sv_mgmt s)" and prep: "prepare_keeps (se_mgr env)"
    and own: "\<forall>key p. wg_key env k = Some key \<longrightarrow> p \<in> set (mg_peers (sv_mgmt s)) \<longrightarrow> np_Key p = key \<longrightarrow> np_AccountID p = AccountID identity"
    and reg: "RegisterMachinePeer env ctx k meta s = (r, s')"
  shows "other_accounts (AccountID identity) (sv_mgmt s') = other_accounts (AccountID identity) (sv_mgmt s)
    \<and> mg_keys (sv_mgmt s') = mg_keys (sv_mgmt s)"
  using reg
proof (cases rule: RegisterMachinePeer_cases)
  case (served identity' key r1 m)
  have i: "identity' = identity"
    using served(1) id by simp
  note login = served(4) [unfolded i]
  show ?thesis
  proof (cases "\<forall>p \<in> set (mg_peers (sv_mgmt s)). np_Key p \<noteq> key")
    case True
    with login id prep show ?thesis
    proof (cases rule: machine_login_new_key)
      case (added attempt freeIP p)
      then show ?thesis
        using served(5) by (simp add: other_accounts_def)
    qed (use served(5) in \<open>simp_all add: other_accounts_def\<close>)
  next
    case False
    then obtain q where "List.find (\<lambda>p. np_Key p = key) (mg_peers (sv_mgmt s)) = Some q"
      by (cases "List.find (\<lambda>p. np_Key p = key) (mg_peers (sv_mgmt s))") (auto simp: find_None_iff)
    moreover from this have "np_AccountID q = AccountID identity"
      using own served(3) by (auto simp: find_Some_iff)
    ultimately have "GetAccountIDByPeerPubKey (sv_mgmt s) key = Inr (AccountID identity)"
      by (simp add: GetAccountIDByPeerPubKey_def)
    then have "account_update (AccountID identity) (sv_mgmt s) m"
      using LoginPeer_known_account_update [OF login inv] by (simp add: machine_login_def)
    then show ?thesis
      using served(5) account_update_frame by simp
  qed
qed simp

text \<open>C3: A request of a machine touches the rows of its own account only. Without a certificate identity
  no request changes anything. With one, the rows of the peers of every other account and the setup
  keys are as before, provided a registration does not use a WireGuard key that another account has.\<close>

theorem machine_requests_stay_in_account:
  assumes inv: "registry_inv (sv_mgmt s)" and prep: "prepare_keeps (se_mgr env)"
  shows "case GetIdentity ctx of
      None \<Rightarrow> serve env ctx req s = s
    | Some identity \<Rightarrow>
        (\<forall>p \<in> set (mg_peers (sv_mgmt s)). np_Key p \<in> machine_keys env req \<longrightarrow> np_AccountID p = AccountID identity) \<longrightarrow>
        other_accounts (AccountID identity) (sv_mgmt (serve env ctx req s)) = other_accounts (AccountID identity) (sv_mgmt s)
        \<and> mg_keys (sv_mgmt (serve env ctx req s)) = mg_keys (sv_mgmt s)"
proof (cases "GetIdentity ctx")
  case None
  then show ?thesis
    by (simp add: no_identity_no_effect)
next
  case (Some identity)
  have "other_accounts (AccountID identity) (sv_mgmt (serve env ctx req s)) = other_accounts (AccountID identity) (sv_mgmt s)
      \<and> mg_keys (sv_mgmt (serve env ctx req s)) = mg_keys (sv_mgmt s)"
    if own: "\<forall>p \<in> set (mg_peers (sv_mgmt s)). np_Key p \<in> machine_keys env req \<longrightarrow> np_AccountID p = AccountID identity"
  proof (cases req)
    case (ReqRegister k meta)
    then have "\<forall>key p. wg_key env k = Some key \<longrightarrow> p \<in> set (mg_peers (sv_mgmt s)) \<longrightarrow> np_Key p = key \<longrightarrow> np_AccountID p = AccountID identity"
      using own by (auto simp: machine_keys_def)
    from RegisterMachinePeer_frame [OF Some inv prep this] ReqRegister show ?thesis
      by (cases "RegisterMachinePeer env ctx k meta s") simp
  qed (use account_update_frame [OF SyncMachinePeer_account_update [OF Some inv]]
        account_update_frame [OF GetMachineRoutes_account_update [OF Some inv]]
        account_update_frame [OF ReportMachineStatus_account_update [OF Some]] in simp_all)
  with Some show ?thesis
    by simp
qed
theorem machine_requests_stay_in_account_witness:
  "other_accounts ''A'' (sv_mgmt (serve (sample_env ''p2'' True) (sample_ctx ''ws1'') (ReqRegister (sample_key 66) (sample_meta ''ws2'')) sample_registered))
     = other_accounts ''A'' (sv_mgmt sample_registered)"
proof -
  have "registry_inv (sv_mgmt sample_registered)"
    by (rule registry_system.reachable_invar [OF sample_registered_reachable])
  note stay = machine_requests_stay_in_account [OF this, of "sample_env ''p2'' True" "sample_ctx ''ws1''" "ReqRegister (sample_key 66) (sample_meta ''ws2'')"]
  have own: "\<forall>p \<in> set (mg_peers (sv_mgmt sample_registered)). np_AccountID p = ''A''"
    by code_simp
  show ?thesis
    using stay own by simp
qed

section \<open>A machine finds the peer it registered\<close>

lemma find_snoc: "List.find P (xs @ [x]) = (case List.find P xs of Some y \<Rightarrow> Some y | None \<Rightarrow> if P x then Some x else None)"
  by (induction xs) simp_all

definition machine_label :: "('cfg, 'm) srv_env \<Rightarrow> string \<Rightarrow> Identity \<Rightarrow> string" where
  "machine_label env hostname identity = GenerateUniqueDNSLabel (me_hmac (se_mgr env)) hostname (Domain identity)"

lemma findMachinePeer_snoc:
  assumes peers: "mg_peers m' = mg_peers m @ [p]" and acc: "np_AccountID p = AccountID identity" and id: "np_ID p \<noteq> ''''"
    and uniq: "\<not> unique_violation (mg_peers m) p"
  shows "findMachinePeer env identity m' =
    (if np_DNSLabel p = machine_label env (Hostname identity) identity then Inr p else findMachinePeer env identity m)"
proof -
  let ?l = "machine_label env (Hostname identity) identity"
  let ?byLabel = "List.find (\<lambda>q. np_AccountID q = AccountID identity \<and> np_DNSLabel q = ?l)"
  let ?byID = "\<lambda>i. List.find (\<lambda>q. np_AccountID q = AccountID identity \<and> np_ID q = i)"
  show ?thesis
  proof (cases "np_DNSLabel p = ?l")
    case True
    then have "?byLabel (mg_peers m) = None" "?byID (np_ID p) (mg_peers m) = None"
      using uniq acc by (auto simp: find_None_iff unique_violation_def list_ex_iff)
    with True acc id peers show ?thesis
      by (simp add: findMachinePeer_def machine_label_def GetPeerIdByLabel_def GetPeerByID_def find_snoc)
  next
    case False
    show ?thesis
    proof (cases "?byLabel (mg_peers m)")
      case None
      with False peers show ?thesis
        by (simp add: findMachinePeer_def machine_label_def GetPeerIdByLabel_def find_snoc)
    next
      case (Some q)
      then have "?byID (np_ID q) (mg_peers m) \<noteq> None"
        by (auto simp: find_None_iff find_Some_iff)
      with False peers Some show ?thesis
        by (auto simp: findMachinePeer_def machine_label_def GetPeerIdByLabel_def GetPeerByID_def find_snoc)
    qed
  qed
qed

text \<open>The label of a machine is the same in every attempt of \<open>AddPeer\<close>.\<close>

lemma machine_attempt_label:
  assumes "\<And>k m. length (me_hmac (se_mgr env) k m) = 32" "DNSName identity \<noteq> ''''" "Domain identity \<noteq> ''''"
  shows "attempt_label (se_mgr env) (extractMachinePeerMeta env meta identity) eph attempt freeIP
    = Some (machine_label env (pm_Hostname (extractPeerMeta env meta)) identity)"
  using assms(2,3) GenerateUniqueDNSLabel_valid [of "me_hmac (se_mgr env)", OF assms(1)]
  by (simp add: attempt_label_def extractMachinePeerMeta_def machine_label_def Let_def)

text \<open>C4: What a machine registers under a new WireGuard key is what its later requests find: when a
  registration succeeds the table has one more peer, with that key and in the account of the
  certificate, and \<open>findMachinePeer\<close> returns it exactly when the host name the client reports gives the
  label of the host name in the certificate; otherwise the lookup answers as before the registration.\<close>

theorem registered_machine_found:
  assumes id: "GetIdentity ctx = Some identity" "DNSName identity \<noteq> ''''" "Domain identity \<noteq> ''''"
    and env: "prepare_keeps (se_mgr env)" "\<And>k m. length (me_hmac (se_mgr env) k m) = 32" "me_xid (se_mgr env) \<noteq> ''''"
    and key: "wg_key env k = Some key" "\<forall>p \<in> set (mg_peers (sv_mgmt s)). np_Key p \<noteq> key"
    and reg: "RegisterMachinePeer env ctx k meta s = (Reply x, s')"
  shows "\<exists>p. mg_peers (sv_mgmt s') = mg_peers (sv_mgmt s) @ [p] \<and> np_Key p = key \<and> np_AccountID p = AccountID identity
    \<and> findMachinePeer env identity (sv_mgmt s') =
        (if machine_label env (pm_Hostname (extractPeerMeta env meta)) identity = machine_label env (Hostname identity) identity
         then Inr p else findMachinePeer env identity (sv_mgmt s))"
  using reg
proof (cases rule: RegisterMachinePeer_cases)
  case (served identity' key' r1 m)
  have i: "identity' = identity" "key' = key"
    using served(1,3) id(1) key(1) by simp_all
  from served(4) [unfolded i] id(1) env(1) key(2) show ?thesis
  proof (cases rule: machine_login_new_key)
    case (added attempt freeIP p)
    have "np_DNSLabel p = machine_label env (pm_Hostname (extractPeerMeta env meta)) identity"
      using added(7) machine_attempt_label [OF env(2) id(2,3)] by simp
    moreover have "np_ID p \<noteq> ''''"
      using added(6) env(3) by simp
    ultimately show ?thesis
      using findMachinePeer_snoc [OF added(1,5) _ added(3), of env] added(1,4,5) served(5) by auto
  qed (use served(6) in blast)
qed blast

theorem registered_machine_found_witness:
  "\<exists>p. findMachinePeer (sample_env ''p1'' True) (sample_identity ''ws1'') (sv_mgmt sample_registered) = Inr p
     \<and> np_AccountID p = ''A''"
proof -
  let ?env = "sample_env ''p1'' True" and ?s = "sample_server" and ?k = "sample_key 65"
  have "case fst (RegisterMachinePeer ?env (sample_ctx ''ws1'') ?k (sample_meta ''ws1'') ?s) of Reply x \<Rightarrow> True | _ \<Rightarrow> False"
    by code_simp
  then obtain x where reg: "RegisterMachinePeer ?env (sample_ctx ''ws1'') ?k (sample_meta ''ws1'') ?s = (Reply x, sample_registered)"
    unfolding sample_registered_def serve.simps by (auto split: rpc.splits simp: prod_eq_iff)
  show ?thesis
    using registered_machine_found [OF _ _ _ _ _ _ _ _ reg, of "sample_identity ''ws1''" "sample_key_string 65"]
    by (auto simp: sample_server_def)
qed

text \<open>C6: A machine that lost its WireGuard key cannot come back: while the account has a peer with the
  label of the machine, a registration with a new key never succeeds and changes neither peers nor
  setup keys, because all ten attempts use that one label.\<close>

theorem rekeyed_machine_refused:
  assumes id: "GetIdentity ctx = Some identity" "DNSName identity \<noteq> ''''" "Domain identity \<noteq> ''''"
    and env: "prepare_keeps (se_mgr env)" "\<And>k m. length (me_hmac (se_mgr env) k m) = 32"
    and key: "wg_key env k = Some key" "\<forall>p \<in> set (mg_peers (sv_mgmt s)). np_Key p \<noteq> key"
    and old: "q \<in> set (mg_peers (sv_mgmt s))" "np_AccountID q = AccountID identity"
      "np_DNSLabel q = machine_label env (pm_Hostname (extractPeerMeta env meta)) identity"
    and reg: "RegisterMachinePeer env ctx k meta s = (r, s')"
  shows "(\<nexists>x. r = Reply x) \<and> mg_peers (sv_mgmt s') = mg_peers (sv_mgmt s) \<and> mg_keys (sv_mgmt s') = mg_keys (sv_mgmt s)"
  using reg
proof (cases rule: RegisterMachinePeer_cases)
  case (served identity' key' r1 m)
  have i: "identity' = identity" "key' = key"
    using served(1,3) id(1) key(1) by simp_all
  from served(4) [unfolded i] id(1) env(1) key(2) show ?thesis
  proof (cases rule: machine_login_new_key)
    case (added attempt freeIP p)
    have "np_DNSLabel p = np_DNSLabel q" "np_AccountID p = np_AccountID q"
      using added(5,7) machine_attempt_label [OF env(2) id(2,3)] old(2,3) by simp_all
    then have "unique_violation (mg_peers (sv_mgmt s)) p"
      using old(1) by (auto simp: unique_violation_def list_ex_iff)
    with added(3) show ?thesis
      by contradiction
  next
    case failed
    with served(5,6) show ?thesis
      by auto
  qed
qed simp

theorem rekeyed_machine_refused_witness:
  "mg_peers (sv_mgmt (snd (RegisterMachinePeer (sample_env ''p2'' True) (sample_ctx ''ws1'') (sample_key 66) (sample_meta ''ws1'') sample_registered)))
     = mg_peers (sv_mgmt sample_registered)"
proof -
  let ?env = "sample_env ''p2'' True" and ?k = "sample_key 66"
  have "case mg_peers (sv_mgmt sample_registered) of [q] \<Rightarrow> np_AccountID q = ''A'' \<and> np_Key q \<noteq> sample_key_string 66
      \<and> np_DNSLabel q = machine_label ?env (pm_Hostname (extractPeerMeta ?env (sample_meta ''ws1''))) (sample_identity ''ws1'') | _ \<Rightarrow> False"
    by code_simp
  then obtain q where q: "mg_peers (sv_mgmt sample_registered) = [q]" "np_AccountID q = ''A''"
    "np_Key q \<noteq> sample_key_string 66"
    "np_DNSLabel q = machine_label ?env (pm_Hostname (extractPeerMeta ?env (sample_meta ''ws1''))) (sample_identity ''ws1'')"
    by (auto split: list.splits)
  show ?thesis
    using rekeyed_machine_refused [OF _ _ _ _ _ _ _ _ _ q(4), of "sample_ctx ''ws1''" ?k "sample_key_string 66" sample_registered] q(1-3)
    by (simp add: prod_eq_iff)
qed

section \<open>Keys of other accounts\<close>

lemma UpdateMetaIfNew_cert:
  assumes "UpdateMetaIfNew p meta = (p', True, v)"
  shows "pm_CertDNSName (np_Meta p') = pm_CertDNSName meta"
  using assms by (auto simp: UpdateMetaIfNew_def meta_isEqual_def Let_def split: if_splits)

lemma SavePeer_stored:
  assumes "q \<in> set (mg_peers m)" "np_ID q = np_ID p" "np_AccountID q = a"
  shows "\<exists>m'. SavePeer a p m = Inr m' \<and> (Peer_Copy p)\<lparr>np_AccountID := a\<rparr> \<in> set (mg_peers m')"
  using assms by (auto simp: SavePeer_def update_peer_rows_def Let_def list_ex_iff image_iff)

lemma registered_key_row:
  assumes "registry_inv m" "q \<in> set (mg_peers m)" "np_Key q = key"
  shows "List.find (\<lambda>p. np_Key p = key) (mg_peers m) = Some q"
proof (cases "List.find (\<lambda>p. np_Key p = key) (mg_peers m)")
  case None
  with assms(2,3) show ?thesis
    by (auto simp: find_None_iff)
next
  case (Some p)
  then have "p \<in> set (mg_peers m)" "np_Key p = np_Key q"
    using assms(3) by (auto simp: find_Some_iff)
  with assms(1,2) have "p = q"
    by (auto simp: registry_inv_def peers_unique_def distinct_map dest: inj_onD)
  with Some show ?thesis
    by simp
qed

lemma machine_login_known_key:
  assumes inv: "registry_inv m" and q: "q \<in> set (mg_peers m)" "np_Key q = key" "np_UserID q = ''''"
    and acc: "mg_accounts m (np_AccountID q) = Some row" "getPeerPostureChecks m (np_AccountID q) (np_ID q) = Inr checks"
    and upd: "UpdateMetaIfNew q (extractMachinePeerMeta env meta identity) = (q1, True, v)"
  shows "\<exists>p m1 tell. (Peer_Copy p)\<lparr>np_AccountID := np_AccountID q\<rparr> \<in> set (mg_peers m1) \<and> np_ID p = np_ID q
    \<and> pm_CertDNSName (np_Meta p) = DNSName identity
    \<and> LoginPeer (se_mgr env) ctx (machine_login env identity key meta) m
        = finish_login (se_mgr env) (np_AccountID q) p (GetPeerGroupIDs m (np_AccountID q) (np_ID q)) tell m1"
proof -
  let ?a = "np_AccountID q"
  note found = registered_key_row [OF inv q(1,2)]
  let ?p = "if np_SSHKey q1 \<noteq> '''' then q1\<lparr>np_SSHKey := ''''\<rparr> else q1"
  have p: "np_ID ?p = np_ID q" "pm_CertDNSName (np_Meta ?p) = DNSName identity"
    using UpdateMetaIfNew_row_keys [OF upd] UpdateMetaIfNew_cert [OF upd] by (auto simp: row_keys_def extractMachinePeerMeta_def Let_def)
  obtain m1 where m1: "SavePeer ?a ?p m = Inr m1" "(Peer_Copy ?p)\<lparr>np_AccountID := ?a\<rparr> \<in> set (mg_peers m1)"
    using SavePeer_stored [of q m ?p ?a] q(1) p(1) by auto
  have tx: "login_transaction (se_mgr env) ?a (ar_Settings row) (machine_login env identity key meta) m
      = (Returns (?p, GetPeerGroupIDs m ?a (np_ID q), True, checks, np_SSHKey q1 \<noteq> ''''), m1)"
    using found acc(2) upd m1(1) UpdateMetaIfNew_row_keys [OF upd]
    by (cases "np_SSHKey q1 = ''''")
      (simp_all add: login_transaction_def machine_login_def GetPeerByPeerPubKey_def Let_def row_keys_def)
  have "checkIFPeerNeedsLoginWithoutLock (se_mgr env) m ?a key = Returns ()"
    using found q(3) by (simp add: checkIFPeerNeedsLoginWithoutLock_def GetPeerByPeerPubKey_def AddedWithSSOLogin_def)
  then have "LoginPeer (se_mgr env) ctx (machine_login env identity key meta) m
      = finish_login (se_mgr env) ?a ?p (GetPeerGroupIDs m ?a (np_ID q))
          (\<lambda>st. np_SSHKey q1 \<noteq> '''' \<or> st \<or> True \<and> length checks > 0) m1"
    using found acc(1) tx
    by (simp add: LoginPeer_def machine_login_def GetAccountIDByPeerPubKey_def GetAccountSettings_def ExecuteInTransaction_def)
  with m1(2) p show ?thesis
    by blast
qed



section \<open>The lock of a peer\<close>

text \<open>The network map controller answers for the peer it is asked about.\<close>

definition map_keeps_key :: "'nm mgr_env \<Rightarrow> bool" where
  "map_keeps_key env \<longleftrightarrow> (\<forall>nv a p p' x. me_validatedMap env nv a p = Some (p', x) \<longrightarrow> np_Key p' = np_Key p)"

lemma finish_login_key:
  assumes "finish_login env a p gs tell m = (Returns (p', x), m')" "map_keeps_key env"
  shows "np_Key p' = np_Key p"
proof -
  obtain nv where "me_validatedMap env nv a p = Some (p', x)"
    using assms(1) by (auto simp: finish_login_def Let_def split: option.splits if_splits)
  with assms(2) show ?thesis
    unfolding map_keeps_key_def by blast
qed

lemma sync_transaction_key:
  assumes tx: "sync_transaction env a settings sync m = (Returns (p, x), m')"
  shows "np_Key p = sy_WireGuardPubKey sync"
proof -
  obtain q where q: "GetPeerByPeerPubKey m (sy_WireGuardPubKey sync) = Inr q"
    using tx by (auto simp: sync_transaction_def split: sum.splits)
  obtain p2 upd v where meta: "UpdateMetaIfNew q (sy_Meta sync) = (p2, upd, v)"
    using prod_cases3 by blast
  have "p = p2"
    using tx unfolding sync_transaction_def q sum.case Let_def meta prod.case
    by (auto split: sum.splits if_splits option.splits bool.splits outcome.splits)
  then show ?thesis
    using UpdateMetaIfNew_row_keys [OF meta] GetPeerByPeerPubKey_Inr(2) [OF q] by (simp add: row_keys_def)
qed

lemma SyncAndMarkPeer_key:
  assumes run: "SyncAndMarkPeer env a key meta ip t m = (Returns (p, x), m')" and keep: "map_keeps_key env"
  shows "np_Key p = key"
proof -
  let ?sync = "\<lparr>sy_WireGuardPubKey = key, sy_Meta = meta, sy_UpdateAccountPeers = False\<rparr>"
  obtain r1 m1 where sync: "SyncPeer env ?sync a m = (r1, m1)"
    by fastforce
  have "r1 = Returns (p, x)"
    using run sync by (cases r1) (auto simp: SyncAndMarkPeer_def split: prod.splits outcome.splits)
  note sync = sync [unfolded this]
  obtain settings where st: "GetAccountSettings m a = Inr settings"
    using sync by (cases "GetAccountSettings m a") (simp_all add: SyncPeer_def)
  obtain r2 m2 where tx: "ExecuteInTransaction (sync_transaction env a settings ?sync) m = (r2, m2)"
    by fastforce
  obtain p1 gs upd vc checks where r2: "r2 = Returns (p1, gs, upd, vc, checks)"
    using sync st tx by (cases r2) (auto simp: SyncPeer_def)
  have "np_Key p1 = key"
    using tx r2 sync_transaction_key [of env a settings ?sync m p1]
    by (auto simp: ExecuteInTransaction_def split: prod.splits outcome.splits)
  moreover have "np_Key p = np_Key p1"
    using sync by (intro finish_login_key [OF _ keep]) (simp add: SyncPeer_def st tx r2)
  ultimately show ?thesis
    by simp
qed

lemma find_cong_map:
  assumes "map f xs = map f ys" "\<And>x. P x \<longleftrightarrow> Q (f x)"
  shows "map_option f (List.find P xs) = map_option f (List.find P ys)"
proof -
  have "map_option f (List.find P zs) = List.find Q (map f zs)" for zs
    by (induction zs) (simp_all add: assms(2))
  with assms(1) show ?thesis
    by simp
qed

lemma find_row_keys:
  assumes "account_update a m m'" "List.find P (mg_peers m) = Some q" "\<And>p. P p \<longleftrightarrow> Q (row_keys p)"
  shows "\<exists>q'. List.find P (mg_peers m') = Some q' \<and> row_keys q' = row_keys q"
  using find_cong_map [OF account_update_row_keys [OF assms(1)], of P Q, OF assms(3)] assms(2)
  by (cases "List.find P (mg_peers m')") simp_all

lemma GetPeerByID_account_update:
  assumes upd: "account_update a m m'" and found: "GetPeerByID m b i = Inr p"
  shows "\<exists>p'. GetPeerByID m' b i = Inr p' \<and> row_keys p' = row_keys p"
proof -
  have "List.find (\<lambda>q. np_AccountID q = b \<and> np_ID q = i) (mg_peers m) = Some p"
    using found by (cases "List.find (\<lambda>q. np_AccountID q = b \<and> np_ID q = i) (mg_peers m)") (simp_all add: GetPeerByID_def)
  from find_row_keys [OF upd this, of "\<lambda>(j, c, r). c = b \<and> j = i"]
  obtain p' where "List.find (\<lambda>q. np_AccountID q = b \<and> np_ID q = i) (mg_peers m') = Some p'" "row_keys p' = row_keys p"
    by (auto simp: row_keys_def)
  then show ?thesis
    by (intro exI [of _ p']) (simp add: GetPeerByID_def)
qed

lemma GetPeerIdByLabel_account_update:
  assumes upd: "account_update a m m'" and found: "GetPeerIdByLabel m b l = Inr i"
  shows "GetPeerIdByLabel m' b l = Inr i"
proof -
  obtain q where q: "List.find (\<lambda>q. np_AccountID q = b \<and> np_DNSLabel q = l) (mg_peers m) = Some q" "np_ID q = i" "i \<noteq> ''''"
    using found
    by (cases "List.find (\<lambda>q. np_AccountID q = b \<and> np_DNSLabel q = l) (mg_peers m)") (auto simp: GetPeerIdByLabel_def split: if_splits)
  from find_row_keys [OF upd q(1), of "\<lambda>(j, c, k, ip, n). c = b \<and> n = l"]
  obtain q' where "List.find (\<lambda>q. np_AccountID q = b \<and> np_DNSLabel q = l) (mg_peers m') = Some q'" "row_keys q' = row_keys q"
    by (auto simp: row_keys_def)
  with q show ?thesis
    by (simp add: GetPeerIdByLabel_def row_keys_def)
qed

lemma findMachinePeer_account_update:
  assumes upd: "account_update a m m'" and found: "findMachinePeer env identity m = Inr p"
  shows "\<exists>p'. findMachinePeer env identity m' = Inr p' \<and> np_Key p' = np_Key p"
proof -
  let ?l = "GenerateUniqueDNSLabel (me_hmac (se_mgr env)) (Hostname identity) (Domain identity)"
  obtain j where j: "GetPeerIdByLabel m (AccountID identity) ?l = Inr j" "GetPeerByID m (AccountID identity) j = Inr p"
    using found by (cases "GetPeerIdByLabel m (AccountID identity) ?l") (simp_all add: findMachinePeer_def Let_def)
  obtain p' where p': "GetPeerByID m' (AccountID identity) j = Inr p'" "row_keys p' = row_keys p"
    using GetPeerByID_account_update [OF upd j(2)] by blast
  show ?thesis
    using GetPeerIdByLabel_account_update [OF upd j(1)] p'
    by (intro exI [of _ p']) (simp add: findMachinePeer_def row_keys_def)
qed

text \<open>The point of no return of a synchronisation: the first map is sent and then the controller refuses the peer.\<close>

definition refused_after_sync :: "('cfg, 'm) srv_env \<Rightarrow> string \<Rightarrow> string \<Rightarrow> proto_meta option \<Rightarrow> 'm server \<Rightarrow> bool" where
  "refused_after_sync env a key meta s =
     (case SyncAndMarkPeer (se_mgr env) a key (extractPeerMeta env meta) (se_realIP env) (me_now (se_mgr env)) (sv_mgmt s) of
        (Returns (p, nm, checks), m) \<Rightarrow>
          fst (sendInitialMachineSync env p nm checks (s\<lparr>sv_mgmt := m\<rparr>)) = Returns () \<and> \<not> se_onPeerConnected env a (np_ID p)
      | _ \<Rightarrow> False)"

lemma refused_after_sync_locks:
  "refused_after_sync env a key meta (s\<lparr>sv_locks := l\<rparr>) = refused_after_sync env a key meta s"
proof -
  have "fst (sendInitialMachineSync env p nm checks (s\<lparr>sv_locks := l, sv_mgmt := m\<rparr>))
      = fst (sendInitialMachineSync env p nm checks (s\<lparr>sv_mgmt := m\<rparr>))" for p nm checks m
    by (simp add: sendInitialMachineSync_def send_def Let_def split: option.split)
  then show ?thesis
    by (simp add: refused_after_sync_def split: prod.split outcome.split)
qed

lemma sync_locked_locks:
  assumes sync: "sync_locked env a key meta es s = (r, s')" and keep: "map_keeps_key (se_mgr env)" and key: "key \<in> sv_locks s"
  shows "if refused_after_sync env a key meta s then r = Blocked \<and> sv_locks s' = sv_locks s
    else r \<noteq> Blocked \<and> sv_locks s' = sv_locks s - {key}"
proof -
  obtain r1 m where m: "SyncAndMarkPeer (se_mgr env) a key (extractPeerMeta env meta) (se_realIP env) (me_now (se_mgr env))
      (sv_mgmt s) = (r1, m)"
    by fastforce
  show ?thesis
  proof (cases r1)
    case (Returns x)
    obtain p nm checks where x: "x = (p, nm, checks)"
      by (cases x)
    have pk: "np_Key p = key"
      by (rule SyncAndMarkPeer_key [OF m [unfolded Returns x] keep])
    obtain r2 s2 where init: "sendInitialMachineSync env p nm checks (s\<lparr>sv_mgmt := m\<rparr>) = (r2, s2)"
      by fastforce
    have s2: "sv_locks s2 = sv_locks s"
      using sendInitialMachineSync_fields [OF init] by simp
    have refused: "refused_after_sync env a key meta s \<longleftrightarrow> r2 = Returns () \<and> \<not> se_onPeerConnected env a (np_ID p)"
      by (simp add: refused_after_sync_def m Returns x init)
    note run = sync [unfolded sync_locked_def m Returns x init prod.case outcome.case]
    show ?thesis
    proof (cases r2)
      case ok: (Returns u)
      show ?thesis
      proof (cases "se_onPeerConnected env a (np_ID p)")
        case True
        then have "handleMachineUpdates env a p (me_now (se_mgr env)) es
          (releasePeerLock key (s2\<lparr>sv_ctl := sv_ctl s2 @ [CtlPeerConnected a (np_ID p), CtlSetupRefresh a (np_ID p)]\<rparr>)) = (r, s')"
          using run ok by simp
        from handleMachineUpdates_fields [OF this] True pk s2 show ?thesis
          by (simp add: refused)
      next
        case False
        obtain r3 s3 where c: "cancelPeerRoutines env a p (me_now (se_mgr env)) (RpcError CodeInternal) s2 = (r3, s3)"
          by fastforce
        have "r3 = Blocked" "sv_locks s3 = sv_locks s"
          using cancelPeerRoutines_fields [OF c] s2 pk key by auto
        with False run ok c show ?thesis
          by (simp add: refused)
      qed
    next
      case (Fails c)
      with run have "r = RpcError c" "s' = releasePeerLock key s2"
        by simp_all
      with Fails s2 show ?thesis
        by (simp add: refused)
    next
      case Panics
      with run have "r = RpcPanic" "s' = releasePeerLock key s2"
        by simp_all
      with Panics s2 show ?thesis
        by (simp add: refused)
    qed
  qed (use sync in \<open>auto simp: sync_locked_def refused_after_sync_def m\<close>)
qed
text \<open>C7: \<open>SyncMachinePeer\<close> and the lock of the peer. Starting with the lock free, the request returns or
  streams with the locks as they were, unless the controller refuses the peer after the first map was
  sent: then the handler waits for the lock it holds itself, never returns, and every later
  synchronisation of that machine waits for ever as well.\<close>

theorem sync_deadlocks_on_refused_connection:
  assumes keep: "map_keeps_key (se_mgr env)" and inv: "registry_inv (sv_mgmt s)"
    and id: "GetIdentity ctx = Some identity"
      "mtls_ValidateIssuerCA (se_validator env) (AccountID identity) (IssuerFingerprint identity) = Inr ()"
    and peer: "findMachinePeer env identity (sv_mgmt s) = Inr peer" "np_Key peer \<notin> sv_locks s"
    and sync: "SyncMachinePeer env ctx meta es s = (r, s')"
  shows "if refused_after_sync env (AccountID identity) (np_Key peer) meta s
    then r = Blocked \<and> sv_locks s' = insert (np_Key peer) (sv_locks s)
      \<and> (\<forall>env' meta' es'. me_hmac (se_mgr env') = me_hmac (se_mgr env) \<and> se_validator env' = se_validator env
           \<longrightarrow> fst (SyncMachinePeer env' ctx meta' es' s') = Blocked)
    else r \<noteq> Blocked \<and> sv_locks s' = sv_locks s"
proof -
  let ?a = "AccountID identity" and ?key = "np_Key peer"
  let ?s = "s\<lparr>sv_locks := insert ?key (sv_locks s)\<rparr>"
  have run: "sync_locked env ?a ?key meta es ?s = (r, s')"
    using sync id peer by (simp add: SyncMachinePeer_def acquirePeerLockByUID_def)
  have same: "refused_after_sync env ?a ?key meta ?s = refused_after_sync env ?a ?key meta s"
    by (rule refused_after_sync_locks)
  note locks = sync_locked_locks [OF run keep, unfolded same]
  have upd: "account_update ?a (sv_mgmt s) (sv_mgmt s')"
    using sync_locked_account_update [OF run] inv by simp
  have later: "fst (SyncMachinePeer env' ctx meta' es' s') = Blocked"
    if "me_hmac (se_mgr env') = me_hmac (se_mgr env)" "se_validator env' = se_validator env" "?key \<in> sv_locks s'" for env' meta' es'
  proof -
    have "findMachinePeer env' identity (sv_mgmt s) = Inr peer"
      using peer(1) that(1) by (simp add: findMachinePeer_def)
    then obtain p' where "findMachinePeer env' identity (sv_mgmt s') = Inr p'" "np_Key p' = ?key"
      using findMachinePeer_account_update [OF upd] by blast
    then show ?thesis
      using id that(2,3) by (simp add: SyncMachinePeer_def acquirePeerLockByUID_def)
  qed
  show ?thesis
  proof (cases "refused_after_sync env ?a ?key meta s")
    case True
    then show ?thesis
      using locks later by auto
  next
    case False
    then show ?thesis
      using locks peer(2) by simp
  qed
qed

theorem sync_deadlocks_on_refused_connection_witness:
  "fst (SyncMachinePeer (sample_env ''p1'' False) (sample_ctx ''ws1'') (sample_meta ''ws1'') []
     (sample_known ''A'' (machine_label (sample_env ''p1'' False) ''ws1'' (sample_identity ''ws1'')))) = Blocked"
proof -
  let ?env = "sample_env ''p1'' False" and ?id = "sample_identity ''ws1''" and ?meta = "sample_meta ''ws1''"
  let ?s = "sample_known ''A'' (machine_label ?env ''ws1'' ?id)"
  have keep: "map_keeps_key (se_mgr ?env)"
    by (simp add: map_keeps_key_def sample_mgr_def)
  have find: "findMachinePeer ?env ?id (sv_mgmt ?s) = Inr (hd (mg_peers (sv_mgmt ?s)))"
    by (simp add: findMachinePeer_def GetPeerIdByLabel_def GetPeerByID_def machine_label_def sample_known_def)
  have key: "np_Key (hd (mg_peers (sv_mgmt ?s))) = sample_key_string 65" "sv_locks ?s = {}"
    by (simp_all add: sample_known_def sample_server_def)
  have "refused_after_sync ?env ''A'' (sample_key_string 65) ?meta ?s"
    by code_simp
  then show ?thesis
    using sync_deadlocks_on_refused_connection [OF keep sample_known_inv _ _ find, of "sample_ctx ''ws1''" ?meta "[]"] key
    by (auto simp: prod_eq_iff)
qed

end
