(* ===== verification/CertDiscovery.thy ===== *)
theory CertDiscovery
  imports MtlsAuth
begin

text \<open>
  How a machine finds its certificate: \<open>client/internal/auth/cert_discovery.go\<close>, its Windows part
  \<open>cert_discovery_windows.go\<close>, \<open>template_parser.go\<close> and \<open>ParseMachineIdentity\<close> of \<open>wincert_signer.go\<close>. The
  certificate store is the list of its contexts in the order of the enumeration; a context holds the
  encoded certificate and the key handle that the system call for its private key gives, if it gives one.
\<close>

section \<open>Data\<close>

datatype public_key = RSAPublicKey | ECDSAPublicKey | OtherPublicKey

record machine_cert = x509_certificate +
  mc_NotBefore :: int
  mc_NotAfter :: int
  mc_PublicKey :: public_key

record MachineCertConfig =
  mcc_Enabled :: bool
  mcc_TemplateOID :: string
  mcc_TemplateName :: string
  mcc_RequiredEKU :: string
  mcc_SANMustMatch :: bool
  mcc_ThumbprintOverride :: string

record CertDiscoveryConfig =
  cd_MachineCert :: MachineCertConfig
  cd_FallbackCertPath :: string
  cd_FallbackKeyPath :: string
  cd_Hostname :: string

record MachineIdentity =
  mi_Hostname :: string
  mi_Domain :: string
  mi_FQDN :: string
  mi_CertThumbprint :: string
  mi_IssuerFingerprint :: string
  mi_TemplateOID :: string
  mi_TemplateName :: string

record WinCertSigner =
  ws_cert :: "machine_cert option"
  ws_identity :: "MachineIdentity option"
  ws_handle :: nat
  ws_closed :: bool

text \<open>\<open>crypto.PrivateKey\<close> is an interface: a signer on a key of the store, or a key read from a file.\<close>

datatype 'k PrivateKey = StoreKey WinCertSigner | FileKey 'k

datatype CertSource = CertSourceWindowsStore | CertSourceFile

record 'k LoadedCertificate =
  lc_Certificate :: machine_cert
  lc_PrivateKey :: "'k PrivateKey"
  lc_Source :: CertSource
  lc_Thumbprint :: string
  lc_TemplateOID :: string
  lc_TemplateName :: string
  lc_Identity :: "MachineIdentity option"

record CERT_CONTEXT =
  cc_encoded :: "bytes option"
  cc_key :: "nat option"

record 'k cert_env =
  ce_now :: int
  ce_sha1 :: "bytes \<Rightarrow> bytes"
  ce_unmarshalTemplate :: "bytes \<Rightarrow> (nat list \<times> int \<times> int \<times> bytes) option"
  ce_unmarshalRaw :: "bytes \<Rightarrow> (nat \<times> bytes \<times> bytes) option"
  ce_store :: "CERT_CONTEXT list option"
  ce_findByHash :: "bytes \<Rightarrow> CERT_CONTEXT option"
  ce_ReadFile :: "string \<Rightarrow> bytes option"
  ce_pemDecode :: "bytes \<Rightarrow> bytes option"
  ce_ParseCertificate :: "bytes \<Rightarrow> machine_cert option"
  ce_ParsePKCS8PrivateKey :: "bytes \<Rightarrow> 'k option"
  ce_ParsePKCS1PrivateKey :: "bytes \<Rightarrow> 'k option"
  ce_ParseECPrivateKey :: "bytes \<Rightarrow> 'k option"

text \<open>
  \<open>ce_unmarshalTemplate\<close> and \<open>ce_unmarshalRaw\<close> are \<open>asn1.Unmarshal\<close> into the two types the parser uses, with
  the bytes that are left; \<open>ce_store\<close> is the certificate store, if it opens, and \<open>ce_findByHash\<close> the search in it.
\<close>

datatype cert_error =
    CertNotEnabled | CertThumbprintNotFound | CertThumbprintInvalid cert_error | NoMatchingCertificate
  | CertNotYetValid | CertExpired | CertMissingEKU | CertSANMismatch | CertTemplateOIDMismatch | CertTemplateNameMismatch
  | CertStoreUnavailable | CertBestInvalid cert_error | CertThumbprintFormat | CertParse | CertKey | CertFileRead | CertFilePEM
  | NoTemplateInfo | TemplateParse

section \<open>Template extensions\<close>

record TemplateInfo =
  ti_OID :: string
  ti_Name :: string
  ti_MajorVersion :: int
  ti_MinorVersion :: int

definition oidCertificateTemplate :: "nat list" where "oidCertificateTemplate = [1, 3, 6, 1, 4, 1, 311, 21, 7]"
definition oidEnrollCertTypeExtension :: "nat list" where "oidEnrollCertTypeExtension = [1, 3, 6, 1, 4, 1, 311, 20, 2]"

definition parseCertificateTemplateExtension :: "'k cert_env \<Rightarrow> bytes \<Rightarrow> (nat list \<times> int \<times> int) option" where
  "parseCertificateTemplateExtension env data =
     (case ce_unmarshalTemplate env data of
        None \<Rightarrow> None
      | Some (oid, major, minor, rest) \<Rightarrow> if length rest > 0 then None else Some (oid, major, minor))"

fun utf16_runes :: "bytes \<Rightarrow> nat list" where
  "utf16_runes (hi # lo # rest) = (256 * unat hi + unat lo) # utf16_runes rest"
| "utf16_runes _ = []"

definition client_decodeBMPString :: "bytes \<Rightarrow> string option" where
  "client_decodeBMPString data =
     (if length data mod 2 \<noteq> 0 then None else Some (concat (map utf8_rune (utf16_runes data))))"

definition parseEnrollCertTypeExtension :: "'k cert_env \<Rightarrow> bytes \<Rightarrow> string option" where
  "parseEnrollCertTypeExtension env data =
     (case ce_unmarshalRaw env data of
        None \<Rightarrow> None
      | Some (tag, content, rest) \<Rightarrow>
          if length rest > 0 then None
          else if tag = tagBMPString then client_decodeBMPString content
          else if tag = tagUTF8String \<or> tag = tagPrintableString then Some (string_of_bytes content)
          else None)"

fun template_loop :: "'k cert_env \<Rightarrow> (nat list \<times> bytes) list \<Rightarrow> TemplateInfo \<Rightarrow> TemplateInfo option" where
  "template_loop env [] info = Some info"
| "template_loop env ((ext_id, v) # exts) info =
     (case (if ext_id = oidCertificateTemplate
            then map_option (\<lambda>(oid, major, minor). info\<lparr>ti_OID := oid_str oid, ti_MajorVersion := major, ti_MinorVersion := minor\<rparr>)
                   (parseCertificateTemplateExtension env v)
            else Some info) of
        None \<Rightarrow> None
      | Some info \<Rightarrow>
          template_loop env exts
            (if ext_id = oidEnrollCertTypeExtension
             then (case parseEnrollCertTypeExtension env v of None \<Rightarrow> info | Some name \<Rightarrow> info\<lparr>ti_Name := name\<rparr>)
             else info))"

definition parseTemplateInfo :: "'k cert_env \<Rightarrow> machine_cert \<Rightarrow> cert_error + TemplateInfo" where
  "parseTemplateInfo env cert =
     (case template_loop env (cert_Extensions cert) \<lparr>ti_OID = '''', ti_Name = '''', ti_MajorVersion = 0, ti_MinorVersion = 0\<rparr> of
        None \<Rightarrow> Inl TemplateParse
      | Some info \<Rightarrow> if ti_OID info = '''' \<and> ti_Name info = '''' then Inl NoTemplateInfo else Inr info)"

section \<open>Names and key usage\<close>

definition splitFQDN :: "string \<Rightarrow> (string \<times> string) option" where
  "splitFQDN fqdn =
     (let i = length (takeWhile (\<lambda>c. c \<noteq> CHR ''.'') fqdn)
      in if i > 0 \<and> i + 1 < length fqdn then Some (take i fqdn, drop (i + 1) fqdn) else None)"

definition thumbprint_of :: "'k cert_env \<Rightarrow> machine_cert \<Rightarrow> string" where
  "thumbprint_of env cert = hex_bytes (ce_sha1 env (cert_Raw cert))"

definition ParseMachineIdentity :: "'k cert_env \<Rightarrow> machine_cert \<Rightarrow> MachineIdentity option" where
  "ParseMachineIdentity env cert =
     Option.bind (List.find (\<lambda>n. splitFQDN n \<noteq> None) (cert_DNSNames cert))
       (\<lambda>n. map_option (\<lambda>(hostname, domain). \<lparr>mi_Hostname = hostname, mi_Domain = domain, mi_FQDN = n,
                                               mi_CertThumbprint = thumbprint_of env cert,
                                               mi_IssuerFingerprint = '''', mi_TemplateOID = '''', mi_TemplateName = ''''\<rparr>) (splitFQDN n))"

definition DefaultClientAuthEKU :: string where "DefaultClientAuthEKU = ''1.3.6.1.5.5.7.3.2''"

text \<open>\<open>x509.ExtKeyUsageServerAuth\<close> is 1.\<close>

definition hasEKU :: "machine_cert \<Rightarrow> string \<Rightarrow> bool" where
  "hasEKU cert ekuOID =
     (if ekuOID = DefaultClientAuthEKU then ExtKeyUsageClientAuth \<in> set (cert_ExtKeyUsage cert)
      else if ekuOID = ''1.3.6.1.5.5.7.3.1'' then 1 \<in> set (cert_ExtKeyUsage cert)
      else list_ex (\<lambda>oid. oid_str oid = ekuOID) (cert_UnknownExtKeyUsage cert))"

definition sanContainsHostname :: "machine_cert \<Rightarrow> string \<Rightarrow> bool" where
  "sanContainsHostname cert hostname =
     list_ex (\<lambda>dnsName. dnsName = hostname
       \<or> (length dnsName > length hostname + 1 \<and> take (length hostname) dnsName = hostname
           \<and> dnsName ! length hostname = CHR ''.'')) (cert_DNSNames cert)"

section \<open>Validation and selection\<close>

definition validateCertificate :: "'k cert_env \<Rightarrow> 'k LoadedCertificate \<Rightarrow> CertDiscoveryConfig \<Rightarrow> cert_error + unit" where
  "validateCertificate env cert config =
     (let c = lc_Certificate cert; mc = cd_MachineCert config; now = ce_now env
      in if now < mc_NotBefore c then Inl CertNotYetValid
         else if now > mc_NotAfter c then Inl CertExpired
         else if mcc_RequiredEKU mc \<noteq> '''' \<and> \<not> hasEKU c (mcc_RequiredEKU mc) then Inl CertMissingEKU
         else if mcc_SANMustMatch mc \<and> cd_Hostname config \<noteq> '''' \<and> \<not> sanContainsHostname c (cd_Hostname config) then Inl CertSANMismatch
         else if mcc_TemplateOID mc \<noteq> '''' \<and> lc_TemplateOID cert \<noteq> mcc_TemplateOID mc then Inl CertTemplateOIDMismatch
         else if mcc_TemplateName mc \<noteq> '''' \<and> lc_TemplateName cert \<noteq> mcc_TemplateName mc then Inl CertTemplateNameMismatch
         else Inr ())"

text \<open>Integer division and remainder of Go truncate towards zero.\<close>

definition go_div :: "int \<Rightarrow> int \<Rightarrow> int" where "go_div a b = sgn a * sgn b * (\<bar>a\<bar> div \<bar>b\<bar>)"
definition go_mod :: "int \<Rightarrow> int \<Rightarrow> int" where "go_mod a b = a - go_div a b * b"

definition expiry_days :: "machine_cert \<Rightarrow> int" where
  "expiry_days cert = go_mod (go_div (mc_NotAfter cert) 86400) 1000"

definition scoreCertificate :: "'k cert_env \<Rightarrow> machine_cert \<Rightarrow> CertDiscoveryConfig \<Rightarrow> int" where
  "scoreCertificate env cert config =
     (let mc = cd_MachineCert config;
          oid = (if mcc_TemplateOID mc \<noteq> ''''
                 then (case parseTemplateInfo env cert of Inr info \<Rightarrow> if ti_OID info = mcc_TemplateOID mc then 100 else 0 | Inl _ \<Rightarrow> 0) else 0);
          name = (if mcc_TemplateName mc \<noteq> ''''
                  then (case parseTemplateInfo env cert of Inr info \<Rightarrow> if ti_Name info = mcc_TemplateName mc then 80 else 0 | Inl _ \<Rightarrow> 0) else 0);
          eku = (if hasEKU cert (if mcc_RequiredEKU mc \<noteq> '''' then mcc_RequiredEKU mc else DefaultClientAuthEKU) then 50 else 0);
          san = (if cd_Hostname config \<noteq> '''' \<and> sanContainsHostname cert (cd_Hostname config) then 30 else 0)
      in if mc_NotBefore cert > mc_NotAfter cert then 0
         else if mcc_RequiredEKU mc \<noteq> '''' \<and> \<not> hasEKU cert (mcc_RequiredEKU mc) then 0
         else if cd_Hostname config \<noteq> '''' \<and> \<not> sanContainsHostname cert (cd_Hostname config) \<and> mcc_SANMustMatch mc then 0
         else oid + name + eku + san + expiry_days cert)"

definition parseCertContext :: "'k cert_env \<Rightarrow> CERT_CONTEXT \<Rightarrow> machine_cert option" where
  "parseCertContext env ctx = Option.bind (cc_encoded ctx) (ce_ParseCertificate env)"

definition store_signer :: "'k cert_env \<Rightarrow> machine_cert \<Rightarrow> nat \<Rightarrow> WinCertSigner" where
  "store_signer env cert h =
     \<lparr>ws_cert = Some cert, ws_identity = ParseMachineIdentity env cert, ws_handle = h, ws_closed = False\<rparr>"

definition acquirePrivateKey :: "'k cert_env \<Rightarrow> CERT_CONTEXT \<Rightarrow> WinCertSigner option" where
  "acquirePrivateKey env ctx =
     (case cc_key ctx of
        None \<Rightarrow> None
      | Some h \<Rightarrow> (case parseCertContext env ctx of None \<Rightarrow> None | Some cert \<Rightarrow> Some (store_signer env cert h)))"

text \<open>The literal that both searches of the store and the file loader build.\<close>

definition load_cert :: "'k cert_env \<Rightarrow> machine_cert \<Rightarrow> 'k PrivateKey \<Rightarrow> CertSource \<Rightarrow> string \<Rightarrow> 'k LoadedCertificate" where
  "load_cert env cert key source thumbprint =
     (let (oid, name) = (case parseTemplateInfo env cert of Inr info \<Rightarrow> (ti_OID info, ti_Name info) | Inl _ \<Rightarrow> ('''', ''''))
      in \<lparr>lc_Certificate = cert, lc_PrivateKey = key, lc_Source = source, lc_Thumbprint = thumbprint,
          lc_TemplateOID = oid, lc_TemplateName = name, lc_Identity = ParseMachineIdentity env cert\<rparr>)"

fun best_entry ::
  "'k cert_env \<Rightarrow> CertDiscoveryConfig \<Rightarrow> CERT_CONTEXT list \<Rightarrow> ('k LoadedCertificate option \<times> int) \<Rightarrow> 'k LoadedCertificate option \<times> int" where
  "best_entry env config [] best = best"
| "best_entry env config (ctx # es) (bestCert, bestScore) =
     best_entry env config es
       (case parseCertContext env ctx of
          None \<Rightarrow> (bestCert, bestScore)
        | Some cert \<Rightarrow>
            (let score = scoreCertificate env cert config
             in if score > bestScore
                then (case acquirePrivateKey env ctx of
                        None \<Rightarrow> (bestCert, bestScore)
                      | Some k \<Rightarrow> (Some (load_cert env cert (StoreKey k) CertSourceWindowsStore (thumbprint_of env cert)), score))
                else (bestCert, bestScore)))"

definition discoverFromWindowsStore :: "'k cert_env \<Rightarrow> CertDiscoveryConfig \<Rightarrow> cert_error + 'k LoadedCertificate" where
  "discoverFromWindowsStore env config =
     (case ce_store env of
        None \<Rightarrow> Inl CertStoreUnavailable
      | Some entries \<Rightarrow>
          (case fst (best_entry env config entries (None, 0)) of
             None \<Rightarrow> Inl NoMatchingCertificate
           | Some bestCert \<Rightarrow>
               (case validateCertificate env bestCert config of Inl e \<Rightarrow> Inl (CertBestInvalid e) | Inr _ \<Rightarrow> Inr bestCert)))"

text \<open>\<open>hex.DecodeString\<close>.\<close>

definition hex_value :: "char \<Rightarrow> nat option" where
  "hex_value c =
     (if is_digit c then Some (code_of c - 48)
      else if 97 \<le> code_of c \<and> code_of c \<le> 102 then Some (code_of c - 87)
      else if 65 \<le> code_of c \<and> code_of c \<le> 70 then Some (code_of c - 55)
      else None)"

fun hex_decode :: "string \<Rightarrow> bytes option" where
  "hex_decode [] = Some []"
| "hex_decode [c] = None"
| "hex_decode (c # d # s) =
     (case (hex_value c, hex_value d, hex_decode s) of
        (Some h, Some l, Some bs) \<Rightarrow> Some (of_nat (16 * h + l) # bs)
      | _ \<Rightarrow> None)"

text \<open>The address of the first byte is taken before the search: an empty hash panics.\<close>

definition findCertByThumbprintFromStore :: "'k cert_env \<Rightarrow> string \<Rightarrow> (cert_error, 'k LoadedCertificate) outcome" where
  "findCertByThumbprintFromStore env thumbprint =
     (case ce_store env of
        None \<Rightarrow> Fails CertStoreUnavailable
      | Some _ \<Rightarrow>
          (case hex_decode (filter (\<lambda>c. c \<noteq> CHR '' '') thumbprint) of
             None \<Rightarrow> Fails CertThumbprintFormat
           | Some h \<Rightarrow>
               if h = [] then Panics
               else (case ce_findByHash env h of
                       None \<Rightarrow> Fails CertThumbprintNotFound
                     | Some ctx \<Rightarrow>
                         (case parseCertContext env ctx of
                            None \<Rightarrow> Fails CertParse
                          | Some cert \<Rightarrow>
                              (case acquirePrivateKey env ctx of
                                 None \<Rightarrow> Fails CertKey
                               | Some k \<Rightarrow> Returns (load_cert env cert (StoreKey k) CertSourceWindowsStore thumbprint))))))"

definition parse_key :: "'k cert_env \<Rightarrow> bytes \<Rightarrow> 'k option" where
  "parse_key env der =
     (case ce_ParsePKCS8PrivateKey env der of
        Some k \<Rightarrow> Some k
      | None \<Rightarrow> (case ce_ParsePKCS1PrivateKey env der of Some k \<Rightarrow> Some k | None \<Rightarrow> ce_ParseECPrivateKey env der))"

definition loadCertificateFromFile :: "'k cert_env \<Rightarrow> string \<Rightarrow> string \<Rightarrow> cert_error + 'k LoadedCertificate" where
  "loadCertificateFromFile env certPath keyPath =
     (case (ce_ReadFile env certPath, ce_ReadFile env keyPath) of
        (Some certPEM, Some keyPEM) \<Rightarrow>
          (case ce_pemDecode env certPEM of
             None \<Rightarrow> Inl CertFilePEM
           | Some certBlock \<Rightarrow>
               (case ce_ParseCertificate env certBlock of
                  None \<Rightarrow> Inl CertParse
                | Some cert \<Rightarrow>
                    (case ce_pemDecode env keyPEM of
                       None \<Rightarrow> Inl CertFilePEM
                     | Some keyBlock \<Rightarrow>
                         (case parse_key env keyBlock of
                            None \<Rightarrow> Inl CertKey
                          | Some k \<Rightarrow> Inr (load_cert env cert (FileKey k) CertSourceFile (thumbprint_of env cert))))))
      | _ \<Rightarrow> Inl CertFileRead)"

definition discoverByThumbprint :: "'k cert_env \<Rightarrow> CertDiscoveryConfig \<Rightarrow> (cert_error, 'k LoadedCertificate) outcome" where
  "discoverByThumbprint env config =
     (let thumbprint = mcc_ThumbprintOverride (cd_MachineCert config)
      in case findCertByThumbprintFromStore env thumbprint of
           Panics \<Rightarrow> Panics
         | Returns cert \<Rightarrow> Returns cert
         | Fails _ \<Rightarrow>
             if cd_FallbackCertPath config \<noteq> ''''
             then (case loadCertificateFromFile env (cd_FallbackCertPath config) (cd_FallbackKeyPath config) of
                     Inr cert \<Rightarrow> if lc_Thumbprint cert = thumbprint then Returns cert else Fails CertThumbprintNotFound
                   | Inl _ \<Rightarrow> Fails CertThumbprintNotFound)
             else Fails CertThumbprintNotFound)"

definition discoverFromFile :: "'k cert_env \<Rightarrow> CertDiscoveryConfig \<Rightarrow> cert_error + 'k LoadedCertificate" where
  "discoverFromFile env config =
     (case loadCertificateFromFile env (cd_FallbackCertPath config) (cd_FallbackKeyPath config) of
        Inl e \<Rightarrow> Inl e
      | Inr cert \<Rightarrow> (case validateCertificate env cert config of Inl e \<Rightarrow> Inl e | Inr _ \<Rightarrow> Inr cert))"

definition DiscoverCertificate :: "'k cert_env \<Rightarrow> CertDiscoveryConfig \<Rightarrow> (cert_error, 'k LoadedCertificate) outcome" where
  "DiscoverCertificate env config =
     (if \<not> mcc_Enabled (cd_MachineCert config) then Fails CertNotEnabled
      else if mcc_ThumbprintOverride (cd_MachineCert config) \<noteq> ''''
      then (case discoverByThumbprint env config of
              Panics \<Rightarrow> Panics
            | Fails _ \<Rightarrow> Fails CertThumbprintNotFound
            | Returns cert \<Rightarrow>
                (case validateCertificate env cert config of Inl e \<Rightarrow> Fails (CertThumbprintInvalid e) | Inr _ \<Rightarrow> Returns cert))
      else
        (let fallback = (if cd_FallbackCertPath config \<noteq> '''' \<and> cd_FallbackKeyPath config \<noteq> ''''
                         then (case discoverFromFile env config of Inr cert \<Rightarrow> Returns cert | Inl _ \<Rightarrow> Fails NoMatchingCertificate)
                         else Fails NoMatchingCertificate)
         in case discoverFromWindowsStore env config of
              Inr cert \<Rightarrow> (case validateCertificate env cert config of Inr _ \<Rightarrow> Returns cert | Inl _ \<Rightarrow> fallback)
            | Inl _ \<Rightarrow> fallback))"

section \<open>What discovery returns\<close>

lemma hex_value_digit: "d < 16 \<Longrightarrow> hex_value (hex_digit d) = Some d"
  by (auto simp: hex_value_def hex_digit_def is_digit_def)

lemma hex_decode_hex_bytes [simp]: "hex_decode (hex_bytes bs) = Some bs"
proof (induction bs)
  case Nil
  then show ?case by (simp add: hex_bytes_def)
next
  case (Cons b bs)
  have "unat b < 256"
    using unsigned_less [of b] by simp
  then have "unat b div 16 < 16" "of_nat (16 * (unat b div 16) + unat b mod 16) = b"
    by (simp_all add: less_mult_imp_div_less)
  with Cons show ?case
    by (simp add: hex_bytes_def hex_byte_def hex_value_digit)
qed

lemma hex_bytes_no_space: "filter (\<lambda>c. c \<noteq> CHR '' '') (hex_bytes bs) = hex_bytes bs"
proof -
  have "c \<noteq> CHR '' ''" if "c \<in> set (hex_byte b)" for c b
  proof -
    have "unat b < 256"
      using unsigned_less [of b] by simp
    then have "unat b div 16 < 16"
      by (simp add: less_mult_imp_div_less)
    then have "is_lower c \<or> is_digit c"
      using that hex_digit_class [of "unat b div 16"] hex_digit_class [of "unat b mod 16"] by (auto simp: hex_byte_def)
    then show ?thesis
      by (auto simp: is_lower_def is_digit_def)
  qed
  then show ?thesis
    by (auto simp: hex_bytes_def filter_id_conv)
qed

lemma san_suffix:
  assumes "Suc (length h) < length n" "take (length h) n = h" "n ! length h = CHR ''.''"
  shows "\<exists>d. d \<noteq> '''' \<and> n = h @ ''.'' @ d"
proof (intro exI conjI)
  have "drop (length h) n = CHR ''.'' # drop (Suc (length h)) n"
    using assms(1,3) Cons_nth_drop_Suc [of "length h" n] by simp
  then show "n = h @ ''.'' @ drop (Suc (length h)) n"
    using append_take_drop_id [of "length h" n] assms(2) by simp
  show "drop (Suc (length h)) n \<noteq> ''''"
    using assms(1) by simp
qed

lemma sanContainsHostname_names:
  assumes "sanContainsHostname c h"
  shows "\<exists>n \<in> set (cert_DNSNames c). n = h \<or> (\<exists>d. d \<noteq> '''' \<and> n = h @ ''.'' @ d)"
proof -
  obtain n where "n \<in> set (cert_DNSNames c)"
    "n = h \<or> Suc (length h) < length n \<and> take (length h) n = h \<and> n ! length h = CHR ''.''"
    using assms by (auto simp: sanContainsHostname_def list_ex_iff)
  then show ?thesis
    using san_suffix [of h n] by (intro bexI [of _ n]) auto
qed

lemma load_cert_fields:
  "lc_Certificate (load_cert env c k src t) = c" "lc_PrivateKey (load_cert env c k src t) = k" "lc_Source (load_cert env c k src t) = src"
  "lc_Thumbprint (load_cert env c k src t) = t"
  "lc_TemplateOID (load_cert env c k src t) = (case parseTemplateInfo env c of Inr info \<Rightarrow> ti_OID info | Inl _ \<Rightarrow> '''')"
  "lc_TemplateName (load_cert env c k src t) = (case parseTemplateInfo env c of Inr info \<Rightarrow> ti_Name info | Inl _ \<Rightarrow> '''')"
  by (simp_all add: load_cert_def split: sum.splits)

text \<open>The search of the certificate store by hash finds a certificate with that SHA-1 hash.\<close>

definition finds_by_hash :: "'k cert_env \<Rightarrow> bool" where
  "finds_by_hash env \<longleftrightarrow> (\<forall>h ctx c. ce_findByHash env h = Some ctx \<and> parseCertContext env ctx = Some c \<longrightarrow> ce_sha1 env (cert_Raw c) = h)"

text \<open>Every certificate the discovery handles comes out of \<open>load_cert\<close>.\<close>

definition loaded :: "'k cert_env \<Rightarrow> 'k LoadedCertificate \<Rightarrow> bool" where
  "loaded env lc \<longleftrightarrow> (\<exists>c k src t. lc = load_cert env c k src t
      \<and> (src = CertSourceWindowsStore \<longrightarrow> (\<exists>h. k = StoreKey (store_signer env c h))))"

lemma loaded_file [intro]: "loaded env (load_cert env c k CertSourceFile t)"
  by (auto simp: loaded_def)

lemma loaded_store [intro]: "loaded env (load_cert env c (StoreKey (store_signer env c h)) CertSourceWindowsStore t)"
  by (auto simp: loaded_def)

lemma acquirePrivateKey_Some:
  "acquirePrivateKey env ctx = Some k \<Longrightarrow> parseCertContext env ctx = Some c \<Longrightarrow> \<exists>h. k = store_signer env c h"
  by (auto simp: acquirePrivateKey_def split: option.splits)

lemma loaded_entry:
  "acquirePrivateKey env ctx = Some k \<Longrightarrow> parseCertContext env ctx = Some c \<Longrightarrow>
    loaded env (load_cert env c (StoreKey k) CertSourceWindowsStore t)"
  using acquirePrivateKey_Some by blast

lemma best_entry_loaded:
  assumes "best_entry env config es (b, n) = (Some lc, m)" "\<And>x. b = Some x \<Longrightarrow> loaded env x"
  shows "loaded env lc"
  using assms
proof (induction es arbitrary: b n)
  case (Cons e es)
  obtain b' n' where step: "best_entry env config es (b', n') = (Some lc, m)" "b' = b \<or> (\<exists>x. b' = Some x \<and> loaded env x)"
    using Cons.prems(1) by (cases "parseCertContext env e"; cases "acquirePrivateKey env e")
      (auto simp: Let_def loaded_entry split: if_splits)
  show ?case
    using step(1) by (rule Cons.IH) (use step(2) Cons.prems(2) in auto)
qed simp

lemma findCertByThumbprintFromStore_Returns:
  assumes "findCertByThumbprintFromStore env t = Returns lc"
  obtains h ctx c hk where "hex_decode (filter (\<lambda>c. c \<noteq> CHR '' '') t) = Some h" "ce_findByHash env h = Some ctx"
    "parseCertContext env ctx = Some c" "lc = load_cert env c (StoreKey (store_signer env c hk)) CertSourceWindowsStore t"
proof -
  obtain h ctx c k where r: "hex_decode (filter (\<lambda>c. c \<noteq> CHR '' '') t) = Some h" "ce_findByHash env h = Some ctx"
    "parseCertContext env ctx = Some c" "acquirePrivateKey env ctx = Some k" "lc = load_cert env c (StoreKey k) CertSourceWindowsStore t"
    using assms by (auto simp: findCertByThumbprintFromStore_def split: option.splits if_splits)
  then show thesis
    using acquirePrivateKey_Some [OF r(4,3)] that by blast
qed

lemma loadCertificateFromFile_Inr:
  assumes "loadCertificateFromFile env cp kp = Inr lc"
  obtains c k where "lc = load_cert env c (FileKey k) CertSourceFile (thumbprint_of env c)"
  using assms by (auto simp: loadCertificateFromFile_def split: option.splits)

lemma discoverByThumbprint_Returns:
  assumes disc: "discoverByThumbprint env config = Returns lc"
    and law: "finds_by_hash env"
  shows "loaded env lc" "hex_decode (filter (\<lambda>c. c \<noteq> CHR '' '') (mcc_ThumbprintOverride (cd_MachineCert config)))
    = Some (ce_sha1 env (cert_Raw (lc_Certificate lc)))"
proof -
  let ?t = "mcc_ThumbprintOverride (cd_MachineCert config)"
  consider (store) "findCertByThumbprintFromStore env ?t = Returns lc"
    | (pem) "loadCertificateFromFile env (cd_FallbackCertPath config) (cd_FallbackKeyPath config) = Inr lc" "lc_Thumbprint lc = ?t"
    using disc by (auto simp: discoverByThumbprint_def Let_def split: outcome.splits if_splits sum.splits)
  then have "loaded env lc \<and> hex_decode (filter (\<lambda>c. c \<noteq> CHR '' '') ?t) = Some (ce_sha1 env (cert_Raw (lc_Certificate lc)))"
  proof cases
    case store
    then show ?thesis
      by (rule findCertByThumbprintFromStore_Returns) (use law in \<open>auto simp: load_cert_fields finds_by_hash_def\<close>)
  next
    case pem
    from pem(1) show ?thesis
    proof (rule loadCertificateFromFile_Inr)
      fix c k
      assume lc: "lc = load_cert env c (FileKey k) CertSourceFile (thumbprint_of env c)"
      then have "?t = hex_bytes (ce_sha1 env (cert_Raw c))"
        using pem(2) by (simp add: load_cert_fields thumbprint_of_def)
      with lc show ?thesis
        by (auto simp: hex_bytes_no_space load_cert_fields)
    qed
  qed
  then show "loaded env lc" "hex_decode (filter (\<lambda>c. c \<noteq> CHR '' '') ?t) = Some (ce_sha1 env (cert_Raw (lc_Certificate lc)))"
    by simp_all
qed

lemma DiscoverCertificate_Returns:
  assumes disc: "DiscoverCertificate env config = Returns lc"
    and law: "finds_by_hash env"
  shows "loaded env lc" "validateCertificate env lc config = Inr ()"
    "mcc_ThumbprintOverride (cd_MachineCert config) \<noteq> '''' \<Longrightarrow>
       hex_decode (filter (\<lambda>c. c \<noteq> CHR '' '') (mcc_ThumbprintOverride (cd_MachineCert config)))
       = Some (ce_sha1 env (cert_Raw (lc_Certificate lc)))"
proof -
  let ?t = "mcc_ThumbprintOverride (cd_MachineCert config)"
  consider (thumb) "?t \<noteq> ''''" "discoverByThumbprint env config = Returns lc" "validateCertificate env lc config = Inr ()"
    | (store) "?t = ''''" "discoverFromWindowsStore env config = Inr lc" "validateCertificate env lc config = Inr ()"
    | (pem) "?t = ''''" "discoverFromFile env config = Inr lc"
    using disc by (auto simp: DiscoverCertificate_def Let_def split: outcome.splits if_splits sum.splits)
  then have "loaded env lc \<and> validateCertificate env lc config = Inr () \<and> (?t \<noteq> '''' \<longrightarrow>
      hex_decode (filter (\<lambda>c. c \<noteq> CHR '' '') ?t) = Some (ce_sha1 env (cert_Raw (lc_Certificate lc))))"
  proof cases
    case thumb
    then show ?thesis
      using discoverByThumbprint_Returns [OF thumb(2) law] by simp
  next
    case store
    obtain es where es: "ce_store env = Some es" "fst (best_entry env config es (None, 0)) = Some lc"
      using store(2) by (auto simp: discoverFromWindowsStore_def split: option.splits sum.splits)
    then have "best_entry env config es (None, 0) = (Some lc, snd (best_entry env config es (None, 0)))"
      by (simp add: prod_eq_iff)
    then show ?thesis
      using store best_entry_loaded [of env config es None 0] by simp
  next
    case pem
    then show ?thesis
      by (auto simp: discoverFromFile_def split: sum.splits elim: loadCertificateFromFile_Inr)
  qed
  then show "loaded env lc" "validateCertificate env lc config = Inr ()"
    "?t \<noteq> '''' \<Longrightarrow> hex_decode (filter (\<lambda>c. c \<noteq> CHR '' '') ?t) = Some (ce_sha1 env (cert_Raw (lc_Certificate lc)))"
    by simp_all
qed


text \<open>A concrete machine, its store and its configuration.\<close>

definition sample_cert :: machine_cert where
  "sample_cert = \<lparr>cert_DNSNames = [''pc.corp''], cert_Extensions = [(oidCertificateTemplate, [1])], cert_ExtKeyUsage = [ExtKeyUsageClientAuth],
     cert_UnknownExtKeyUsage = [], cert_EmailAddresses = [], cert_SerialNumber = 7, cert_Raw = [9],
     mc_NotBefore = 0, mc_NotAfter = 86400000, mc_PublicKey = ECDSAPublicKey\<rparr>"

definition sample_context :: "nat \<Rightarrow> CERT_CONTEXT" where
  "sample_context n = \<lparr>cc_encoded = Some [of_nat n], cc_key = Some n\<rparr>"

text \<open>The certificate of another template: no template extension, and 950 days on the calendar of the score.\<close>

definition sample_other :: machine_cert where
  "sample_other = sample_cert\<lparr>cert_Extensions := [], mc_NotAfter := 86400 * 1950\<rparr>"

definition sample_cert_env :: "CERT_CONTEXT list \<Rightarrow> unit cert_env" where
  "sample_cert_env store = \<lparr>ce_now = 1000, ce_sha1 = id, ce_unmarshalTemplate = (\<lambda>b. Some ([1, 2], 1, 0, [])),
     ce_unmarshalRaw = (\<lambda>b. None), ce_store = Some store,
     ce_findByHash = (\<lambda>h. if h = [9] then Some (sample_context 1) else None), ce_ReadFile = (\<lambda>p. None), ce_pemDecode = (\<lambda>b. None),
     ce_ParseCertificate = (\<lambda>b. if b = [1] then Some sample_cert else if b = [2] then Some sample_other else None),
     ce_ParsePKCS8PrivateKey = (\<lambda>b. None), ce_ParsePKCS1PrivateKey = (\<lambda>b. None), ce_ParseECPrivateKey = (\<lambda>b. None)\<rparr>"

definition sample_discovery :: "string \<Rightarrow> CertDiscoveryConfig" where
  "sample_discovery thumbprint = \<lparr>cd_MachineCert = \<lparr>mcc_Enabled = True, mcc_TemplateOID = ''1.2'', mcc_TemplateName = '''',
       mcc_RequiredEKU = DefaultClientAuthEKU, mcc_SANMustMatch = True, mcc_ThumbprintOverride = thumbprint\<rparr>,
     cd_FallbackCertPath = '''', cd_FallbackKeyPath = '''', cd_Hostname = ''pc''\<rparr>"

definition sample_loaded :: "string \<Rightarrow> unit LoadedCertificate" where
  "sample_loaded t = load_cert (sample_cert_env []) sample_cert (StoreKey (store_signer (sample_cert_env []) sample_cert 1)) CertSourceWindowsStore t"

lemma sample_finds: "finds_by_hash (sample_cert_env es)"
  by (auto simp: finds_by_hash_def sample_cert_env_def sample_context_def sample_cert_def parseCertContext_def split: if_splits)

lemma sample_thumbprint_discovery: "DiscoverCertificate (sample_cert_env []) (sample_discovery ''09'') = Returns (sample_loaded ''09'')"
  by code_simp


section \<open>The score that selects\<close>

definition template_points :: "'k cert_env \<Rightarrow> machine_cert \<Rightarrow> CertDiscoveryConfig \<Rightarrow> int" where
  "template_points env c config =
     (let mc = cd_MachineCert config
      in case parseTemplateInfo env c of
           Inl _ \<Rightarrow> 0
         | Inr info \<Rightarrow> (if mcc_TemplateOID mc \<noteq> '''' \<and> ti_OID info = mcc_TemplateOID mc then 100 else 0)
                     + (if mcc_TemplateName mc \<noteq> '''' \<and> ti_Name info = mcc_TemplateName mc then 80 else 0))"

definition usage_points :: "machine_cert \<Rightarrow> CertDiscoveryConfig \<Rightarrow> int" where
  "usage_points c config =
     (let mc = cd_MachineCert config
      in (if hasEKU c (if mcc_RequiredEKU mc \<noteq> '''' then mcc_RequiredEKU mc else DefaultClientAuthEKU) then 50 else 0)
         + (if cd_Hostname config \<noteq> '''' \<and> sanContainsHostname c (cd_Hostname config) then 30 else 0))"

definition selectable :: "machine_cert \<Rightarrow> CertDiscoveryConfig \<Rightarrow> bool" where
  "selectable c config \<longleftrightarrow>
     (let mc = cd_MachineCert config
      in mc_NotBefore c \<le> mc_NotAfter c \<and> (mcc_RequiredEKU mc \<noteq> '''' \<longrightarrow> hasEKU c (mcc_RequiredEKU mc))
         \<and> (mcc_SANMustMatch mc \<and> cd_Hostname config \<noteq> '''' \<longrightarrow> sanContainsHostname c (cd_Hostname config)))"

lemma score_selectable:
  "selectable c config \<Longrightarrow>
    scoreCertificate env c config = template_points env c config + usage_points c config + expiry_days c"
  by (auto simp: scoreCertificate_def selectable_def template_points_def usage_points_def Let_def split: sum.splits)

lemma valid_selectable: "validateCertificate env lc config = Inr () \<Longrightarrow> selectable (lc_Certificate lc) config"
  by (auto simp: validateCertificate_def selectable_def Let_def split: if_splits)

lemma hasEKU_update: "hasEKU (c\<lparr>cert_Extensions := x, mc_NotAfter := t\<rparr>) oid = hasEKU c oid"
  and san_update: "sanContainsHostname (c\<lparr>cert_Extensions := x, mc_NotAfter := t\<rparr>) h = sanContainsHostname c h"
  by (simp_all add: hasEKU_def sanContainsHostname_def)

lemma usage_points_update: "usage_points (c\<lparr>cert_Extensions := x, mc_NotAfter := t\<rparr>) config = usage_points c config"
  by (simp add: usage_points_def hasEKU_update san_update Let_def)

lemma usage_points_nonneg: "0 \<le> usage_points c config"
  by (simp add: usage_points_def Let_def)

lemma template_points_le: "template_points env c config \<le> 180"
  by (auto simp: template_points_def Let_def split: sum.splits)

lemma valid_template_points:
  assumes "validateCertificate env (load_cert env c k src t) config = Inr ()" "mcc_TemplateOID (cd_MachineCert config) \<noteq> ''''"
  shows "100 \<le> template_points env c config"
proof -
  have "lc_TemplateOID (load_cert env c k src t) = mcc_TemplateOID (cd_MachineCert config)"
    using assms by (auto simp: validateCertificate_def Let_def split: if_splits)
  then show ?thesis
    using assms(2) by (cases "parseTemplateInfo env c") (auto simp: load_cert_fields template_points_def Let_def)
qed

lemma no_extensions_no_template: "parseTemplateInfo env (c\<lparr>cert_Extensions := [], mc_NotAfter := t\<rparr>) = Inl NoTemplateInfo"
  by (simp add: parseTemplateInfo_def)

lemma template_loop_store [simp]: "template_loop (env\<lparr>ce_store := s\<rparr>) exts info = template_loop env exts info"
proof (induction exts arbitrary: info)
  case (Cons e exts)
  obtain i v where e: "e = (i, v)"
    by (cases e)
  have "parseCertificateTemplateExtension (env\<lparr>ce_store := s\<rparr>) v = parseCertificateTemplateExtension env v"
    "parseEnrollCertTypeExtension (env\<lparr>ce_store := s\<rparr>) v = parseEnrollCertTypeExtension env v"
    by (simp_all add: parseCertificateTemplateExtension_def parseEnrollCertTypeExtension_def)
  then show ?case
    by (simp only: e template_loop.simps Cons.IH)
qed simp

lemma store_env_update:
  "parseTemplateInfo (env\<lparr>ce_store := s\<rparr>) c = parseTemplateInfo env c"
  "thumbprint_of (env\<lparr>ce_store := s\<rparr>) c = thumbprint_of env c"
  "parseCertContext (env\<lparr>ce_store := s\<rparr>) ctx = parseCertContext env ctx"
  "validateCertificate (env\<lparr>ce_store := s\<rparr>) lc config = validateCertificate env lc config"
  by (simp_all add: parseTemplateInfo_def thumbprint_of_def parseCertContext_def validateCertificate_def)

lemma store_env_identity: "ParseMachineIdentity (env\<lparr>ce_store := s\<rparr>) c = ParseMachineIdentity env c"
  by (simp add: ParseMachineIdentity_def store_env_update)

lemma store_env_load:
  "scoreCertificate (env\<lparr>ce_store := s\<rparr>) c config = scoreCertificate env c config"
  "load_cert (env\<lparr>ce_store := s\<rparr>) c k src t = load_cert env c k src t"
  "acquirePrivateKey (env\<lparr>ce_store := s\<rparr>) ctx = acquirePrivateKey env ctx"
  by (cases "cc_key ctx"; cases "parseCertContext env ctx";
    simp add: Let_def scoreCertificate_def load_cert_def acquirePrivateKey_def store_signer_def store_env_update store_env_identity)+


lemma sample_valid:
  "validateCertificate (sample_cert_env []) (sample_loaded ''09'') (sample_discovery '''') = Inr ()"
  by code_simp

lemma sample_parse:
  "parseCertContext (sample_cert_env []) (sample_context 1) = Some sample_cert"
  "parseCertContext (sample_cert_env []) (sample_context 2) = Some (sample_cert\<lparr>cert_Extensions := [], mc_NotAfter := 86400 * 1950\<rparr>)"
  by code_simp+

lemma sample_days:
  "expiry_days sample_cert = 0" "expiry_days (sample_cert\<lparr>cert_Extensions := [], mc_NotAfter := 86400 * 1950\<rparr>) = 950"
  by code_simp+

lemma sample_hash: "thumbprint_of (sample_cert_env []) sample_cert = ''09''"
  by code_simp


end
