(* ===== verification/WinCert.thy ===== *)
theory WinCert
  imports CertDiscovery
begin

text \<open>
  Signing with a key of the Windows store: \<open>client/internal/auth/wincert_signer.go\<close> and \<open>wincert_pss.go\<close>. The two
  calls of \<open>NCryptSignHash\<close>, one for the size and one for the signature, are parameters.
\<close>

unbundle bit_operations_syntax

section \<open>Data\<close>

datatype crypto_Hash = SHA1 | SHA256 | SHA384 | SHA512 | OtherHash nat

text \<open>\<open>crypto.SignerOpts\<close> is an interface; the code asks whether it holds \<open>*rsa.PSSOptions\<close>.\<close>

record PSSOptions =
  pss_SaltLength :: int
  pss_Hash :: crypto_Hash

datatype SignerOpts = HashOpts crypto_Hash | PSSOpts PSSOptions

definition HashFunc :: "SignerOpts \<Rightarrow> crypto_Hash" where
  "HashFunc opts = (case opts of HashOpts h \<Rightarrow> h | PSSOpts p \<Rightarrow> pss_Hash p)"

text \<open>The algorithm identifier and, for PSS, the length of the salt.\<close>

datatype padding = NoPadding | PaddingPKCS1 string | PaddingPSS string "32 word"

record ncrypt_env =
  nc_size :: "nat \<Rightarrow> padding \<Rightarrow> bytes \<Rightarrow> nat \<times> nat"
  nc_sign :: "nat \<Rightarrow> padding \<Rightarrow> bytes \<Rightarrow> nat \<Rightarrow> nat \<times> bytes \<times> nat"

datatype sign_error =
    SignerClosed | NoKeyHandle | UnsupportedKeyType | UnsupportedHash | UnsupportedSalt
  | SignSizeFailed nat | SignFailed nat | BadSignatureLength

text \<open>
  \<open>nc_size\<close> gives the return code and the size, \<open>nc_sign\<close> the return code, the buffer of the given size after the
  call and the size the call reports.
\<close>

section \<open>RSA\<close>

definition getHashAlgorithm :: "crypto_Hash \<Rightarrow> string option" where
  "getHashAlgorithm hash =
     (case hash of SHA1 \<Rightarrow> Some ''SHA1'' | SHA256 \<Rightarrow> Some ''SHA256'' | SHA384 \<Rightarrow> Some ''SHA384'' | SHA512 \<Rightarrow> Some ''SHA512''
      | OtherHash _ \<Rightarrow> None)"

definition supportedHashSize :: "crypto_Hash \<Rightarrow> nat option" where
  "supportedHashSize hash =
     (case hash of SHA1 \<Rightarrow> Some 20 | SHA256 \<Rightarrow> Some 32 | SHA384 \<Rightarrow> Some 48 | SHA512 \<Rightarrow> Some 64 | OtherHash _ \<Rightarrow> None)"

definition PSSSaltLengthAuto :: int where "PSSSaltLengthAuto = 0"
definition PSSSaltLengthEqualsHash :: int where "PSSSaltLengthEqualsHash = -1"

definition ncryptPSSSaltLength :: "PSSOptions option \<Rightarrow> sign_error + 32 word" where
  "ncryptPSSSaltLength opts =
     (case opts of
        None \<Rightarrow> Inl UnsupportedSalt
      | Some p \<Rightarrow>
          if pss_SaltLength p = PSSSaltLengthAuto \<or> pss_SaltLength p = PSSSaltLengthEqualsHash
          then (case supportedHashSize (pss_Hash p) of None \<Rightarrow> Inl UnsupportedHash | Some n \<Rightarrow> Inr (of_nat n))
          else if pss_SaltLength p < 0 then Inl UnsupportedSalt
          else if pss_SaltLength p > 2 ^ 32 - 1 then Inl UnsupportedSalt
          else Inr (of_int (pss_SaltLength p)))"

text \<open>
  The two calls. The addresses of the first byte of the digest and of the buffer are taken, which panics when
  they are empty; the result is the buffer up to the size the second call reports.
\<close>

definition sign_hash :: "ncrypt_env \<Rightarrow> nat \<Rightarrow> padding \<Rightarrow> bytes \<Rightarrow> (sign_error, bytes) outcome" where
  "sign_hash env handle pad digest =
     (if digest = [] then Panics
      else (case nc_size env handle pad digest of (ret, sigLen) \<Rightarrow>
              if ret \<noteq> 0 then Fails (SignSizeFailed ret)
              else if sigLen = 0 then Panics
              else (case nc_sign env handle pad digest sigLen of (ret, sig, sigLen') \<Rightarrow>
                      if ret \<noteq> 0 then Fails (SignFailed ret)
                      else if sigLen' > sigLen then Panics
                      else Returns (take sigLen' sig))))"

definition signRSA :: "ncrypt_env \<Rightarrow> WinCertSigner \<Rightarrow> bytes \<Rightarrow> SignerOpts \<Rightarrow> (sign_error, bytes) outcome" where
  "signRSA env s digest opts =
     (case getHashAlgorithm (HashFunc opts) of
        None \<Rightarrow> Fails UnsupportedHash
      | Some hashAlg \<Rightarrow>
          (case opts of
             PSSOpts p \<Rightarrow>
               (case ncryptPSSSaltLength (Some p) of
                  Inl e \<Rightarrow> Fails e
                | Inr saltLength \<Rightarrow> sign_hash env (ws_handle s) (PaddingPSS hashAlg saltLength) digest)
           | HashOpts _ \<Rightarrow> sign_hash env (ws_handle s) (PaddingPKCS1 hashAlg) digest))"

section \<open>ECDSA\<close>

text \<open>\<open>SetBytes\<close> and \<open>Bytes\<close> of \<open>big.Int\<close>, most significant byte first and without leading zeros.\<close>

definition SetBytes :: "bytes \<Rightarrow> nat" where "SetBytes bs = foldl (\<lambda>n b. 256 * n + unat b) 0 bs"

fun Bytes :: "nat \<Rightarrow> bytes" where
  "Bytes n = (if n = 0 then [] else Bytes (n div 256) @ [of_nat (n mod 256)])"

declare Bytes.simps [simp del]

fun strip_zeros :: "bytes \<Rightarrow> bytes" where
  "strip_zeros (b # c # bs) = (if b = 0 then strip_zeros (c # bs) else b # c # bs)"
| "strip_zeros bs = bs"

definition encodeASN1Integer :: "bytes \<Rightarrow> bytes" where
  "encodeASN1Integer b =
     (let b = strip_zeros b;
          b = (if length b > 0 \<and> b ! 0 AND 0x80 \<noteq> 0 then 0 # b else b)
      in [0x02, of_nat (length b)] @ b)"

text \<open>
  A value of type \<open>interface{}\<close> carries its dynamic type. \<open>ecdsaSignature\<close> is the type declared in
  \<open>ecdsaRawToASN1\<close>, \<open>ecdsaSig\<close> the one declared in \<open>asn1Marshal\<close>: two defined types are different, also when their
  fields agree, and an assertion to the other one panics.
\<close>

datatype iface_value = ecdsaSignature nat nat | ecdsaSig nat nat

definition asn1Marshal :: "iface_value \<Rightarrow> (sign_error, bytes) outcome" where
  "asn1Marshal sig =
     (case sig of
        ecdsaSignature _ _ \<Rightarrow> Panics
      | ecdsaSig r s \<Rightarrow>
          (let content = encodeASN1Integer (Bytes r) @ encodeASN1Integer (Bytes s)
           in Returns ([0x30, of_nat (length content)] @ content)))"

definition ecdsaRawToASN1 :: "bytes \<Rightarrow> (sign_error, bytes) outcome" where
  "ecdsaRawToASN1 raw =
     (if length raw mod 2 \<noteq> 0 then Fails BadSignatureLength
      else (let halfLen = length raw div 2
            in asn1Marshal (ecdsaSignature (SetBytes (take halfLen raw)) (SetBytes (drop halfLen raw)))))"

definition signECDSA :: "ncrypt_env \<Rightarrow> WinCertSigner \<Rightarrow> bytes \<Rightarrow> SignerOpts \<Rightarrow> (sign_error, bytes) outcome" where
  "signECDSA env s digest opts =
     (case sign_hash env (ws_handle s) NoPadding digest of
        Fails e \<Rightarrow> Fails e
      | Panics \<Rightarrow> Panics
      | Returns sig \<Rightarrow> ecdsaRawToASN1 sig)"

definition Sign :: "ncrypt_env \<Rightarrow> WinCertSigner \<Rightarrow> bytes \<Rightarrow> SignerOpts \<Rightarrow> (sign_error, bytes) outcome" where
  "Sign env s digest opts =
     (if ws_closed s then Fails SignerClosed
      else if ws_handle s = 0 then Fails NoKeyHandle
      else (case ws_cert s of
              None \<Rightarrow> Panics
            | Some cert \<Rightarrow>
                (case mc_PublicKey cert of
                   RSAPublicKey \<Rightarrow> signRSA env s digest opts
                 | ECDSAPublicKey \<Rightarrow> signECDSA env s digest opts
                 | OtherPublicKey \<Rightarrow> Fails UnsupportedKeyType)))"

section \<open>Life of a signer\<close>

definition signer_Thumbprint :: "'k cert_env \<Rightarrow> WinCertSigner \<Rightarrow> string" where
  "signer_Thumbprint env s = (case ws_cert s of None \<Rightarrow> '''' | Some cert \<Rightarrow> thumbprint_of env cert)"

text \<open>The second component says which handle is freed; the return code of the call only reaches the log.\<close>

definition signer_Close :: "WinCertSigner \<Rightarrow> WinCertSigner \<times> nat option" where
  "signer_Close s =
     (if ws_closed s then (s, None)
      else if ws_handle s \<noteq> 0 then (s\<lparr>ws_closed := True, ws_handle := 0\<rparr>, Some (ws_handle s))
      else (s\<lparr>ws_closed := True\<rparr>, None))"

record CertSelectionCriteria =
  sc_TemplateOID :: string
  sc_TemplateName :: string
  sc_RequiredEKU :: string
  sc_SANMustContain :: string
  sc_ThumbprintExact :: string

definition FindMachineCertificate :: "'k cert_env \<Rightarrow> CertSelectionCriteria \<Rightarrow> (cert_error, WinCertSigner) outcome" where
  "FindMachineCertificate env criteria =
     (let config = \<lparr>cd_MachineCert = \<lparr>mcc_Enabled = True, mcc_TemplateOID = sc_TemplateOID criteria,
              mcc_TemplateName = sc_TemplateName criteria, mcc_RequiredEKU = sc_RequiredEKU criteria,
              mcc_SANMustMatch = sc_SANMustContain criteria \<noteq> '''', mcc_ThumbprintOverride = sc_ThumbprintExact criteria\<rparr>,
            cd_FallbackCertPath = '''', cd_FallbackKeyPath = '''', cd_Hostname = sc_SANMustContain criteria\<rparr>
      in case DiscoverCertificate env config of
           Panics \<Rightarrow> Panics
         | Fails e \<Rightarrow> Fails e
         | Returns loadedCert \<Rightarrow>
             (case lc_PrivateKey loadedCert of
                StoreKey signer \<Rightarrow> Returns signer
              | FileKey _ \<Rightarrow> Returns \<lparr>ws_cert = Some (lc_Certificate loadedCert), ws_identity = lc_Identity loadedCert,
                                      ws_handle = 0, ws_closed = False\<rparr>))"

section \<open>The encoding\<close>

lemma SetBytes_snoc: "SetBytes (bs @ [b]) = 256 * SetBytes bs + unat b"
  by (simp add: SetBytes_def)

lemma SetBytes_Bytes [simp]: "SetBytes (Bytes n) = n"
proof (induction n rule: Bytes.induct)
  case (1 n)
  then show ?case
    by (subst Bytes.simps) (auto simp: SetBytes_snoc unsigned_of_nat SetBytes_def [of "[]"] take_bit_nat_eq_self)
qed

lemma SetBytes_zero: "SetBytes (0 # bs) = SetBytes bs"
  by (simp add: SetBytes_def)

lemma Bytes_empty [simp]: "Bytes n = [] \<longleftrightarrow> n = 0"
  by (subst Bytes.simps) simp

lemma Bytes_hd: "0 < n \<Longrightarrow> hd (Bytes n) \<noteq> 0"
proof (induction n rule: Bytes.induct)
  case (1 n)
  show ?case
  proof (cases "n < 256")
    case True
    have "(of_nat n :: 8 word) \<noteq> 0"
    proof
      assume "(of_nat n :: 8 word) = 0"
      then have "unat (of_nat n :: 8 word) = 0"
        by simp
      with True 1(2) show False
        by (simp add: unsigned_of_nat take_bit_nat_eq_self)
    qed
    with True 1(2) show ?thesis
      by (subst Bytes.simps) (simp add: Bytes.simps [of 0])
  next
    case False
    then have "hd (Bytes (n div 256)) \<noteq> 0"
      using 1 by (simp add: div_greater_zero_iff)
    then show ?thesis
      using False by (subst Bytes.simps) (simp add: hd_append div_greater_zero_iff)
  qed
qed

lemma length_Bytes: "length (Bytes n) \<le> k \<longleftrightarrow> n < 256 ^ k"
proof (induction k arbitrary: n)
  case 0
  then show ?case by simp
next
  case (Suc k)
  show ?case
  proof (cases "n = 0")
    case False
    then have "length (Bytes n) = Suc (length (Bytes (n div 256)))"
      by (subst Bytes.simps) simp
    then show ?thesis
      using Suc [of "n div 256"] by (simp add: div_less_iff_less_mult mult.commute)
  qed (simp add: Bytes.simps)
qed

lemma strip_zeros_id: "bs \<noteq> [] \<Longrightarrow> hd bs \<noteq> 0 \<Longrightarrow> strip_zeros bs = bs"
  by (cases bs rule: strip_zeros.cases) auto

text \<open>What a strict DER parser reads: lengths in the short form, integers non-negative and minimal.\<close>

fun der_integer :: "bytes \<Rightarrow> (nat \<times> bytes) option" where
  "der_integer (tag # len # rest) =
     (if tag = 0x02 \<and> 0 < len \<and> len < 0x80 \<and> unat len \<le> length rest \<and> rest ! 0 < 0x80
         \<and> \<not> (1 < len \<and> rest ! 0 = 0 \<and> rest ! 1 < 0x80)
      then Some (SetBytes (take (unat len) rest), drop (unat len) rest) else None)"
| "der_integer _ = None"

fun der_signature :: "bytes \<Rightarrow> (nat \<times> nat) option" where
  "der_signature (tag # len # rest) =
     (if tag = 0x30 \<and> len < 0x80 \<and> unat len = length rest
      then (case der_integer rest of
              Some (r, tail) \<Rightarrow> (case der_integer tail of Some (s, []) \<Rightarrow> Some (r, s) | _ \<Rightarrow> None)
            | None \<Rightarrow> None)
      else None)"
| "der_signature _ = None"

lemma high_bit: "(b :: byte) AND 0x80 \<noteq> 0 \<longleftrightarrow> 0x80 \<le> b"
proof -
  have "b AND 0x80 \<noteq> 0 \<longleftrightarrow> bit b 7"
    using and_exp_eq_0_iff_not_bit [of b 7] by simp
  also have "\<dots> \<longleftrightarrow> odd (unat b div 128)"
    using bit_unsigned_iff [of b 7, where ?'a = nat] bit_iff_odd [of "unat b" 7] by simp
  also have "\<dots> \<longleftrightarrow> 128 \<le> unat b"
  proof (cases "unat b < 128")
    case False
    have "unat b < 256"
      using unsigned_less [of b] by simp
    with False have "unat b div 128 = 1"
      by linarith
    with False show ?thesis
      by simp
  qed simp
  finally show ?thesis
    by (simp add: word_le_nat_alt)
qed

definition der_body :: "nat \<Rightarrow> bytes" where
  "der_body n = (if 0x80 \<le> hd (Bytes n) then 0 # Bytes n else Bytes n)"

lemma encodeASN1Integer_Bytes:
  "0 < n \<Longrightarrow> encodeASN1Integer (Bytes n) = [0x02, of_nat (length (der_body n))] @ der_body n"
  using strip_zeros_id [OF _ Bytes_hd, of n] by (simp add: encodeASN1Integer_def high_bit der_body_def hd_conv_nth Let_def)

lemma der_integer_encode:
  assumes "0 < n" "n < 256 ^ 60"
  shows "der_integer (encodeASN1Integer (Bytes n) @ rest) = Some (n, rest)"
proof -
  have len: "0 < length (der_body n)" "length (der_body n) \<le> 61"
    using assms length_Bytes [of n 60] by (auto simp: der_body_def)
  then have unat_len: "unat (of_nat (length (der_body n)) :: byte) = length (der_body n)"
    by (simp add: unsigned_of_nat take_bit_nat_eq_self)
  have small: "(0 :: byte) < of_nat (length (der_body n))" "(of_nat (length (der_body n)) :: byte) < 0x80"
    using len by (simp_all add: word_less_nat_alt unat_len)
  have val: "SetBytes (der_body n) = n"
    by (simp add: der_body_def SetBytes_zero)
  have first: "der_body n ! 0 < 0x80" 
    by (auto simp: der_body_def hd_conv_nth assms(1))
  have minimal: "\<not> (1 < (of_nat (length (der_body n)) :: byte) \<and> der_body n ! 0 = 0 \<and> der_body n ! 1 < 0x80)"
    using Bytes_hd [OF assms(1)] assms(1) by (auto simp: der_body_def hd_conv_nth)
  have "1 < (of_nat (length (der_body n)) :: byte) \<longleftrightarrow> 1 < length (der_body n)"
    by (simp add: word_less_nat_alt unat_len)
  then show ?thesis
    using assms(1) len small first minimal by (simp add: encodeASN1Integer_Bytes unat_len val nth_append)
qed

lemma length_encodeASN1Integer: "0 < n \<Longrightarrow> length (encodeASN1Integer (Bytes n)) = 2 + length (der_body n)"
  by (simp add: encodeASN1Integer_Bytes)

lemma length_der_body: "length (der_body n) \<in> {length (Bytes n), Suc (length (Bytes n))}"
  by (simp add: der_body_def)

lemma der_signature_content:
  "length content < 128 \<Longrightarrow> der_signature ([0x30, of_nat (length content)] @ content) =
     (case der_integer content of
        Some (r, tail) \<Rightarrow> (case der_integer tail of Some (s, []) \<Rightarrow> Some (r, s) | _ \<Rightarrow> None)
      | None \<Rightarrow> None)"
  "128 \<le> length content \<Longrightarrow> length content < 256 \<Longrightarrow> der_signature ([0x30, of_nat (length content)] @ content) = None"
  by (simp_all add: word_less_nat_alt unsigned_of_nat take_bit_nat_eq_self)



text \<open>C9: A machine certificate with an ECDSA key can never sign, and so never complete the TLS handshake: whatever
  the system calls answer, \<open>Sign\<close> does not return a signature, and when they do produce one of even length it
  panics, because the signature is passed to \<open>asn1Marshal\<close> as a value of another type than the one asserted there.\<close>

theorem ecdsa_signing_panics:
  assumes "ws_cert s = Some c" "mc_PublicKey c = ECDSAPublicKey"
  shows "\<not> (\<exists>sig. Sign env s digest opts = Returns sig)
    \<and> (\<forall>sig n. \<not> ws_closed s \<and> ws_handle s \<noteq> 0 \<and> digest \<noteq> [] \<and> nc_size env (ws_handle s) NoPadding digest = (0, length sig)
         \<and> nc_sign env (ws_handle s) NoPadding digest (length sig) = (0, sig, length sig) \<and> length sig = 2 * Suc n
         \<longrightarrow> Sign env s digest opts = Panics)"
proof (intro conjI allI impI notI)
  have never: "signECDSA env s digest opts \<noteq> Returns sig" for sig
    by (auto simp: signECDSA_def ecdsaRawToASN1_def asn1Marshal_def split: outcome.splits if_splits)
  show False if "\<exists>sig. Sign env s digest opts = Returns sig"
    using that never assms by (auto simp: Sign_def split: if_splits)
  show "Sign env s digest opts = Panics" if "\<not> ws_closed s \<and> ws_handle s \<noteq> 0 \<and> digest \<noteq> [] \<and> nc_size env (ws_handle s) NoPadding digest = (0, length sig)
         \<and> nc_sign env (ws_handle s) NoPadding digest (length sig) = (0, sig, length sig) \<and> length sig = 2 * Suc n" for sig n
    using that assms by (auto simp: Sign_def signECDSA_def sign_hash_def ecdsaRawToASN1_def asn1Marshal_def)
qed

definition sample_ncrypt :: ncrypt_env where
  "sample_ncrypt = \<lparr>nc_size = (\<lambda>h p d. (0, 4)), nc_sign = (\<lambda>h p d n. (0, [1, 2, 3, 4], 4))\<rparr>"

definition sample_signer :: WinCertSigner where
  "sample_signer = store_signer (sample_cert_env []) sample_cert 1"

theorem ecdsa_signing_panics_witness:
  "ws_cert sample_signer = Some sample_cert \<and> mc_PublicKey sample_cert = ECDSAPublicKey
   \<and> Sign sample_ncrypt sample_signer [1] (HashOpts SHA256) = Panics"
proof -
  have s: "ws_cert sample_signer = Some sample_cert" "mc_PublicKey sample_cert = ECDSAPublicKey"
    "\<not> ws_closed sample_signer" "ws_handle sample_signer = 1"
    by (simp_all add: sample_signer_def store_signer_def sample_cert_def)
  have "Sign sample_ncrypt sample_signer [1] (HashOpts SHA256) = Panics"
    using ecdsa_signing_panics [OF s(1,2), of sample_ncrypt "[1]" "HashOpts SHA256", THEN conjunct2, rule_format, of "[1, 2, 3, 4]" 1] s(3,4)
    by (simp add: sample_ncrypt_def)
  with s(1,2) show ?thesis by simp
qed

section \<open>RSA and the life of a signer\<close>

text \<open>The salt of a PSS signature that Windows is asked for is the size of the hash for both sentinels of Go, and otherwise
  the number given.\<close>

lemma pss_salt_length:
  assumes "ncryptPSSSaltLength (Some p) = Inr n"
  shows "pss_SaltLength p \<in> {PSSSaltLengthAuto, PSSSaltLengthEqualsHash} \<Longrightarrow> supportedHashSize (pss_Hash p) = Some (unat n)"
    "pss_SaltLength p \<notin> {PSSSaltLengthAuto, PSSSaltLengthEqualsHash} \<Longrightarrow> uint n = pss_SaltLength p"
proof -
  show "supportedHashSize (pss_Hash p) = Some (unat n)" if "pss_SaltLength p \<in> {PSSSaltLengthAuto, PSSSaltLengthEqualsHash}"
    using assms that by (cases "pss_Hash p") (auto simp: ncryptPSSSaltLength_def supportedHashSize_def)
  show "uint n = pss_SaltLength p" if "pss_SaltLength p \<notin> {PSSSaltLengthAuto, PSSSaltLengthEqualsHash}"
  proof -
    have "0 \<le> pss_SaltLength p" "pss_SaltLength p < 2 ^ 32" "n = of_int (pss_SaltLength p)"
      using assms that by (auto simp: ncryptPSSSaltLength_def split: if_splits)
    then show ?thesis
      by (simp add: unsigned_of_int take_bit_int_eq_self)
  qed
qed

lemma closed_signer_refuses: "fst (signer_Close s) = s' \<Longrightarrow> Sign env s' digest opts = Fails SignerClosed"
  by (auto simp: signer_Close_def Sign_def)

lemma closed_twice_frees_once: "snd (signer_Close (fst (signer_Close s))) = None"
  by (simp add: signer_Close_def)

end
