(* ===== verification/Spec2Isabelle.thy ===== *)
theory Spec2Isabelle
  imports MtlsProps MtlsTemplates DnsLabel RelayProps ConntrackTcpProps ConntrackDatagram RouteSelector RefCounter
    ComponentsProps IpAlloc MachineProps WinCert
begin

text \<open>
  A verification library for the NetBird machine tunnel: a WireGuard overlay network whose machines
  authenticate to the management server with a certificate before any user logs in.

  \<^bold>\<open>Parts and how they meet.\<close> The management server authenticates a machine by its certificate
  (\<open>management/internals/server/mtls_auth.go\<close>), serves its requests
  (\<open>management/internals/shared/grpc/machine_tunnel.go\<close>) through the account manager
  (\<open>management/server/peer.go\<close>) over the store (\<open>management/server/store/sql_store.go\<close>), and computes for
  every peer which other peers it may reach and with which firewall rules (\<open>management/server/types\<close>).
  Peers that cannot reach each other directly meet at a relay (\<open>relay/server\<close>), which speaks the wire
  format of \<open>shared/relay/messages\<close>. A machine finds its certificate and signs with the key of the Windows
  store (\<open>client/internal/auth\<close>). On the client a user-space packet filter tracks connections
  (\<open>client/firewall/uspfilter/conntrack\<close>), the route selector and the reference counters keep the
  routes the user wants (\<open>client/internal/routeselector\<close>, \<open>client/internal/routemanager/refcounter\<close>).

  \<^bold>\<open>Conventions.\<close> A struct is a record, an enumeration a datatype, a byte an \<open>8 word\<close>, a fixed-width integer a
  word of its width, \<open>int\<close> an \<open>int\<close> where it cannot overflow. A Go map that is iterated is an association
  list, with the order of the iteration as an argument; one that is only read and written is a map. A
  function that can fail returns a sum, one that can also panic an \<open>outcome\<close>. Stateful code passes its state
  explicitly. Goroutines that share state are the steps of one inductive relation. Code outside the
  repository (hash functions, the identity provider, the protobuf conversions, the random source) is an
  argument; what is assumed of it is a hypothesis of the theorem that needs it.

  \<^bold>\<open>Theories.\<close>
  \<^item> \<open>Prelude\<close>: error and outcome types, strings, byte lists, reachability, the interfaces \<open>codec\<close> and
    \<open>invariant_system\<close>.
  \<^item> \<open>RelayMessages\<close>: every encoder and decoder of \<open>shared/relay/messages\<close>; round trips and batching.
  \<^item> \<open>RelayStore\<close>, \<open>RelaySystem\<close>, \<open>RelayProps\<close>: the peer store, the listeners and notifier, the handshake and the
    read loop of \<open>relay/server\<close>, then the relay as a system of interleaved goroutines. Shown: one open
    connection per peer, forwarding to the owner with the id of the sender, no lost online notification,
    and where batching gives a client a wrong view.
  \<^item> \<open>MtlsIdentity\<close>, \<open>MtlsAuth\<close>, \<open>MtlsTemplates\<close>, \<open>MtlsProps\<close>, \<open>DnsLabel\<close>: the identity of a verified certificate, the
    two interceptors, the parsers of AD CS template extensions, the DNS labels of machines. Shown: an
    identity belongs to one account, the machine methods need it, generated labels are valid.
  \<^item> \<open>NbPeer\<close>, \<open>Posture\<close>, \<open>Policy\<close>, \<open>Account\<close>, \<open>AccountAcl\<close>, \<open>AclProps\<close>, \<open>AccountDns\<close>: peers, posture checks, policies and
    the access control of an account. Shown: the rules of two peers mirror each other, the equality of
    policies is equality up to order, rule strings parse to valid ranges.
  \<^item> \<open>Components\<close>, \<open>ComponentsParts\<close>, \<open>ComponentsProps\<close>: the extraction of what one peer needs from an account
    (\<open>account_components.go\<close>, \<open>networkmap_components.go\<close>); it refines the computation from the whole account.
  \<^item> \<open>IpAlloc\<close>: allocation of peer addresses; it finds a free address whenever there is one.
  \<^item> \<open>PeerStore\<close>, \<open>PeerRegistry\<close>, \<open>MachineTunnel\<close>: setup keys and the tables of the store with their unique
    indexes and transactions, registration, login and synchronisation of peers, and the four handlers of
    machine peers with the lock of a peer and the update stream.
  \<^item> \<open>RegistryProps\<close>, \<open>MachineProps\<close>: every request keeps the registry consistent and stays in its account, a
    registered machine is found again, and three defects: a key of another account is accepted, a machine
    with a new key is refused, a failed connection deadlocks on the lock of the peer.
  \<^item> \<open>Conntrack\<close>, \<open>ConntrackTcp\<close>, \<open>ConntrackTcpProps\<close>, \<open>ConntrackDatagram\<close>: the connection trackers. Shown: the table is
    well-formed, every flow that starts ends once or is still tracked, inbound packets need a live
    connection, the reply windows of UDP and ICMP; UDP and ICMP are instances of one locale.
  \<^item> \<open>CertDiscovery\<close>, \<open>WinCert\<close>: how a machine selects and validates its certificate (\<open>cert_discovery.go\<close>,
    \<open>cert_discovery_windows.go\<close>, \<open>template_parser.go\<close>) and signs with it (\<open>wincert_signer.go\<close>, \<open>wincert_pss.go\<close>), with
    the certificate store and the system calls as parameters. Shown: what is returned is fit for use; the
    score can hide a valid certificate; ECDSA signing always panics, and what its encoder would encode.
  \<^item> \<open>RouteSelector\<close>, \<open>RefCounter\<close>: the selection of routes and the counter of system resources, with the
    system they act on as a part of the state.

  \<^bold>\<open>Bounds.\<close> All loops of the modelled code are structural recursions or have a termination proof, so no fuel
  is needed; the ten attempts of \<open>AddPeer\<close> and the hundred of \<open>AllocatePeerIP\<close> are the constants of the code.
  A request that waits for a lock has the result \<open>Blocked\<close>, an open stream the result \<open>Streaming\<close>.

  \<^bold>\<open>Not modelled.\<close> The HTTP API, identity providers, the reverse proxy, the user interface and the mobile bindings
  (plumbing around third-party services); the client engine, the service of the machine tunnel, ICE, the kernel packet filters, the DNS and
  SSH servers of the client and the signal server (sockets and system calls); the incremental network
  map builder and the account managers other than registration, login and synchronisation. Time is an
  argument of a request, so drift of the clock within one request is not modelled; logging and metrics
  are left out, except where a log line panics.
\<close>

end
